(* ===== verification/Prelude.thy ===== *)
theory Prelude
  imports Main "HOL-Library.Word" "HOL-Library.Char_ord" "HOL-Library.List_Lexorder"
    "HOL-Library.Sublist"
begin

text \<open>
  Shared vocabulary of the development: how C++ values are represented, and the generic facts
  the component theories use.

  \<^item> A \<open>std::string\<close> is a \<open>string\<close>, a list of bytes (\<open>char\<close>).
  \<^item> A \<open>std::vector\<close> is a list; \<open>push_back\<close> appends at the end, \<open>pop_back\<close> is
    \<open>butlast\<close>.
  \<^item> A \<open>std::map\<close> is a list of pairs with strictly increasing keys, because the code
    iterates maps in key order (\<open>omap_put\<close>, \<open>omap_erase\<close>, read with \<open>map_of\<close>).
  \<^item> A \<open>std::set\<close> is a strictly increasing list (\<open>insort_insert\<close>, \<open>remove1\<close>).
  \<^item> A \<open>std::runtime_error\<close> is the left side of a sum, carrying its message.
\<close>

named_theorems path_simps \<open>rewriting of separator-split paths\<close>
named_theorems omap_simps \<open>rewriting of ordered maps and sets\<close>

type_synonym byte = "8 word"
type_synonym 'a throwing = "string + 'a"

subsection \<open>Characters and bytes\<close>

definition byte_of_char :: "char \<Rightarrow> byte" where
  "byte_of_char c = word_of_nat (of_char c)"

definition char_of_byte :: "byte \<Rightarrow> char" where
  "char_of_byte b = char_of (unat b)"

lemma of_char_less_256: "(of_char c :: nat) < 256"
  by (metis mod_less_divisor of_char_mod_256 zero_less_numeral)

lemma unat_byte_of_char: "unat (byte_of_char c) = of_char c"
  using of_char_less_256 [of c]
  by (simp add: byte_of_char_def unat_of_nat)

lemma char_of_byte_of_char [simp]: "char_of_byte (byte_of_char c) = c"
  by (simp add: char_of_byte_def unat_byte_of_char)

lemma byte_of_char_of_byte [simp]: "byte_of_char (char_of_byte b) = b"
proof -
  have "unat b < 256"
    using unsigned_less [of b] by simp
  then show ?thesis
    by (simp add: byte_of_char_def char_of_byte_def)
qed

lemma map_char_of_byte_of_char [simp]: "map char_of_byte (map byte_of_char s) = s"
  by (simp add: comp_def)

lemma map_byte_of_char_of_byte [simp]: "map byte_of_char (map char_of_byte bs) = bs"
  by (simp add: comp_def)

subsection \<open>Decimal and hexadecimal printing\<close>

text \<open>
  \<open>std::to_string\<close> on a non-negative integer, and \<open>snprintf\<close>'s \<open>%02d\<close> and \<open>%x\<close>.
\<close>

definition digit_char :: "nat \<Rightarrow> char" where
  "digit_char n = char_of (if n < 10 then 48 + n else 87 + n)"

fun print_base :: "nat \<Rightarrow> nat \<Rightarrow> string" where
  "print_base b n =
     (if b < 2 \<or> n < b then [digit_char n] else print_base b (n div b) @ [digit_char (n mod b)])"

declare print_base.simps [simp del]

definition dec_string :: "nat \<Rightarrow> string" where
  "dec_string n = print_base 10 n"

definition hex_string :: "nat \<Rightarrow> string" where
  "hex_string n = print_base 16 n"

definition dec_string_2 :: "nat \<Rightarrow> string" where
  "dec_string_2 n = (if n < 10 then ''0'' @ dec_string n else dec_string n)"

definition dec_string_int :: "int \<Rightarrow> string" where
  "dec_string_int i = (if i < 0 then ''-'' @ dec_string (nat (- i)) else dec_string (nat i))"

text \<open>Reading a number back, digit by digit, the way a client's \<open>atoi\<close> or \<open>strtol\<close> does.\<close>

definition digit_val :: "char \<Rightarrow> nat" where
  "digit_val c = (let n = of_char c in if n < 58 then n - 48 else n - 87)"

definition read_base :: "nat \<Rightarrow> string \<Rightarrow> nat" where
  "read_base b s = foldl (\<lambda>acc c. acc * b + digit_val c) 0 s"

lemma digit_val_char: "n < 16 \<Longrightarrow> digit_val (digit_char n) = n"
  by (simp add: digit_val_def digit_char_def)

lemma read_base_snoc: "read_base b (s @ [c]) = read_base b s * b + digit_val c"
  by (simp add: read_base_def)

lemma read_print_base: "2 \<le> b \<Longrightarrow> b \<le> 16 \<Longrightarrow> read_base b (print_base b n) = n"
proof (induction b n rule: print_base.induct)
  case (1 b n)
  show ?case
  proof (cases "n < b")
    case True
    with "1.prems" show ?thesis
      by (subst print_base.simps) (simp add: read_base_def digit_val_char)
  next
    case False
    with "1.prems" have "print_base b n = print_base b (n div b) @ [digit_char (n mod b)]"
      by (subst print_base.simps) simp
    moreover have "n mod b < 16"
      using "1.prems" by (meson less_le_trans mod_less_divisor not_numeral_le_zero not_le order_trans)
    moreover have "read_base b (print_base b (n div b)) = n div b"
      using "1.IH" "1.prems" False by simp
    ultimately show ?thesis
      by (simp add: read_base_snoc digit_val_char)
  qed
qed

lemma read_dec_string [simp]: "read_base 10 (dec_string n) = n"
  by (simp add: dec_string_def read_print_base)

lemma read_hex_string [simp]: "read_base 16 (hex_string n) = n"
  by (simp add: hex_string_def read_print_base)

lemma dec_string_inject [simp]: "dec_string m = dec_string n \<longleftrightarrow> m = n"
  by (metis read_dec_string)

lemma hex_string_inject [simp]: "hex_string m = hex_string n \<longleftrightarrow> m = n"
  by (metis read_hex_string)

lemma print_base_nonempty [simp]: "print_base b n \<noteq> []"
  by (subst print_base.simps) simp

lemma length_print_base:
  "2 \<le> b \<Longrightarrow> 0 < k \<Longrightarrow> n < b ^ k \<Longrightarrow> length (print_base b n) \<le> k"
proof (induction k arbitrary: n)
  case 0
  then show ?case by simp
next
  case (Suc k)
  show ?case
  proof (cases "n < b")
    case True
    then show ?thesis by (subst print_base.simps) simp
  next
    case False
    with Suc.prems have "0 < k"
      by (cases k) auto
    moreover have "n div b < b ^ k"
      using Suc.prems by (simp add: less_mult_imp_div_less mult.commute)
    ultimately have "length (print_base b (n div b)) \<le> k"
      using Suc.IH Suc.prems(1) by blast
    with False Suc.prems(1) show ?thesis
      by (subst print_base.simps) simp
  qed
qed

subsection \<open>Splitting at a separator\<close>

text \<open>
  \<open>split_on d xs\<close> is the reference meaning of the character loops of the code: the pieces
  of \<open>xs\<close> between occurrences of \<open>d\<close>, empty ones included; there is always at least
  one. \<open>join_with\<close> is the loop that puts the separator before every part but the first.
\<close>

fun split_on :: "'a \<Rightarrow> 'a list \<Rightarrow> 'a list list" where
  "split_on d [] = [[]]"
| "split_on d (x # xs) =
     (if x = d then [] # split_on d xs
      else (x # hd (split_on d xs)) # tl (split_on d xs))"

fun join_with :: "'a \<Rightarrow> 'a list list \<Rightarrow> 'a list" where
  "join_with d [] = []"
| "join_with d [p] = p"
| "join_with d (p # q # ps) = p @ d # join_with d (q # ps)"

lemma split_on_nonempty [simp]: "split_on d xs \<noteq> []"
  by (cases xs) auto

lemma split_on_Cons_hd_tl [simp]: "hd (split_on d xs) # tl (split_on d xs) = split_on d xs"
  by simp

lemma join_with_Cons: "ps \<noteq> [] \<Longrightarrow> join_with d (p # ps) = p @ d # join_with d ps"
  by (cases ps) auto

lemma join_split_on [path_simps]: "join_with d (split_on d xs) = xs"
proof (induction xs)
  case Nil
  then show ?case by simp
next
  case (Cons x xs)
  show ?case
  proof (cases "tl (split_on d xs)")
    case Nil
    then have "split_on d xs = [hd (split_on d xs)]"
      by (metis split_on_Cons_hd_tl)
    with Cons Nil show ?thesis
      by (metis join_with.simps(2) join_with_Cons split_on.simps(2) append_Nil split_on_nonempty)
  next
    case (Cons p ps)
    then have "split_on d xs = hd (split_on d xs) # p # ps"
      by (metis split_on_Cons_hd_tl)
    with Cons.IH show ?thesis
      by (metis Cons join_with.simps(3) join_with_Cons split_on.simps(2) append_Nil append_Cons
          split_on_nonempty)
  qed
qed

lemma split_on_append_sep [path_simps]:
  "split_on d (xs @ d # ys) = split_on d xs @ split_on d ys"
  by (induction xs) auto

lemma split_on_single [path_simps]: "d \<notin> set xs \<Longrightarrow> split_on d xs = [xs]"
  by (induction xs) auto

lemma sep_append_eq_iff:
  "d \<notin> set a \<Longrightarrow> d \<notin> set b \<Longrightarrow> a @ d # x = b @ d # y \<longleftrightarrow> a = b \<and> x = y"
proof (induction a arbitrary: b)
  case Nil
  then show ?case by (cases b) auto
next
  case (Cons c a)
  then show ?case by (cases b) auto
qed

lemma split_on_prefix:
  "d \<notin> set c \<Longrightarrow> split_on d (c @ xs) = (c @ hd (split_on d xs)) # tl (split_on d xs)"
  by (induction c) auto

lemma split_on_join [path_simps]:
  "ps \<noteq> [] \<Longrightarrow> (\<forall>p\<in>set ps. d \<notin> set p) \<Longrightarrow> split_on d (join_with d ps) = ps"
proof (induction ps)
  case Nil
  then show ?case by simp
next
  case (Cons p ps)
  show ?case
  proof (cases "ps = []")
    case True
    with Cons.prems show ?thesis by (simp add: split_on_single)
  next
    case False
    with Cons show ?thesis
      by (simp add: join_with_Cons split_on_append_sep split_on_single)
  qed
qed

lemma split_on_no_sep: "p \<in> set (split_on d xs) \<Longrightarrow> d \<notin> set p"
proof (induction xs arbitrary: p)
  case Nil
  then show ?case by simp
next
  case (Cons x xs)
  show ?case
  proof (cases "x = d")
    case True
    with Cons show ?thesis by auto
  next
    case False
    with Cons.prems consider "p = x # hd (split_on d xs)" | "p \<in> set (tl (split_on d xs))"
      by auto
    then show ?thesis
    proof cases
      case 1
      with Cons.IH [of "hd (split_on d xs)"] False show ?thesis by simp
    next
      case 2
      then have "p \<in> set (split_on d xs)"
        by (rule list.set_sel(2) [OF split_on_nonempty])
      then show ?thesis by (rule Cons.IH)
    qed
  qed
qed

lemma split_on_subset: "p \<in> set (split_on d xs) \<Longrightarrow> set p \<subseteq> set xs"
proof (induction xs arbitrary: p)
  case (Cons x xs)
  show ?case
  proof (cases "x = d \<or> p \<noteq> x # hd (split_on d xs)")
    case True
    with Cons.prems have "p = [] \<or> p \<in> set (split_on d xs)"
      by (auto split: if_splits dest: list.set_sel(2) [OF split_on_nonempty])
    with Cons.IH show ?thesis by auto
  next
    case False
    with Cons.IH [of "hd (split_on d xs)"] show ?thesis by auto
  qed
qed simp

lemma set_join_with: "set (join_with d ps) \<subseteq> insert d (\<Union> (set ` set ps))"
proof (induction ps)
  case (Cons p ps)
  then show ?case by (cases "ps = []") (auto simp: join_with_Cons)
qed simp

lemma join_with_append:
  "xs \<noteq> [] \<Longrightarrow> ys \<noteq> [] \<Longrightarrow> join_with d (xs @ ys) = join_with d xs @ d # join_with d ys"
proof (induction xs)
  case (Cons x xs)
  then show ?case by (cases "xs = []") (auto simp: join_with_Cons)
qed simp

lemma join_with_eq_Nil_iff: "join_with d ps = [] \<longleftrightarrow> ps = [] \<or> ps = [[]]"
proof (cases ps)
  case (Cons p qs)
  then show ?thesis by (cases "qs = []") (auto simp: join_with_Cons)
qed simp

subsection \<open>Ordered maps and sets\<close>

fun omap_put :: "'k::linorder \<Rightarrow> 'v \<Rightarrow> ('k \<times> 'v) list \<Rightarrow> ('k \<times> 'v) list" where
  "omap_put k v [] = [(k, v)]"
| "omap_put k v ((k', v') # kvs) =
     (if k < k' then (k, v) # (k', v') # kvs
      else if k = k' then (k, v) # kvs
      else (k', v') # omap_put k v kvs)"

definition omap_erase :: "'k::linorder \<Rightarrow> ('k \<times> 'v) list \<Rightarrow> ('k \<times> 'v) list" where
  "omap_erase k kvs = filter (\<lambda>kv. fst kv \<noteq> k) kvs"

definition omap_ok :: "('k::linorder \<times> 'v) list \<Rightarrow> bool" where
  "omap_ok kvs \<longleftrightarrow> sorted_wrt (<) (map fst kvs)"

lemma omap_ok_Nil [simp]: "omap_ok []"
  by (simp add: omap_ok_def)

lemma keys_omap_put [omap_simps]: "fst ` set (omap_put k v kvs) = insert k (fst ` set kvs)"
  by (induction k v kvs rule: omap_put.induct) auto

lemma keys_omap_erase [omap_simps]: "fst ` set (omap_erase k kvs) = fst ` set kvs - {k}"
  by (auto simp: omap_erase_def)

lemma omap_ok_Cons:
  "omap_ok ((k, v) # kvs) \<longleftrightarrow> (\<forall>k' \<in> fst ` set kvs. k < k') \<and> omap_ok kvs"
  by (auto simp: omap_ok_def)

lemma omap_ok_put: "omap_ok kvs \<Longrightarrow> omap_ok (omap_put k v kvs)"
  by (induction k v kvs rule: omap_put.induct) (auto simp: omap_ok_Cons keys_omap_put)

lemma omap_ok_erase: "omap_ok kvs \<Longrightarrow> omap_ok (omap_erase k kvs)"
  by (induction kvs) (auto simp: omap_ok_Cons omap_erase_def)

lemma map_of_omap_put [omap_simps]:
  "omap_ok kvs \<Longrightarrow> map_of (omap_put k v kvs) = (map_of kvs)(k \<mapsto> v)"
proof (induction k v kvs rule: omap_put.induct)
  case (2 k v k' v' kvs)
  then show ?case by (auto simp: omap_ok_Cons fun_eq_iff)
qed simp

lemma map_of_omap_erase [omap_simps]: "map_of (omap_erase k kvs) = (map_of kvs)(k := None)"
  by (induction kvs) (auto simp: omap_erase_def)

lemma omap_ok_distinct: "omap_ok kvs \<Longrightarrow> distinct (map fst kvs)"
  by (simp add: omap_ok_def strict_sorted_iff)

lemma omap_mem_iff: "omap_ok kvs \<Longrightarrow> (k, v) \<in> set kvs \<longleftrightarrow> map_of kvs k = Some v"
  by (simp add: omap_ok_distinct)

definition oset_ok :: "'a::linorder list \<Rightarrow> bool" where
  "oset_ok xs \<longleftrightarrow> sorted xs \<and> distinct xs"

lemma oset_ok_Nil [simp]: "oset_ok []"
  by (simp add: oset_ok_def)

lemma oset_ok_put: "oset_ok xs \<Longrightarrow> oset_ok (insort_insert x xs)"
  by (simp add: oset_ok_def sorted_insort_insert distinct_insort_insert)

lemma oset_ok_erase: "oset_ok xs \<Longrightarrow> oset_ok (remove1 x xs)"
  by (simp add: oset_ok_def sorted_remove1)

lemma set_oset_put [omap_simps]: "set (insort_insert x xs) = insert x (set xs)"
  by (simp add: set_insort_insert)

lemma set_oset_erase [omap_simps]: "oset_ok xs \<Longrightarrow> set (remove1 x xs) = set xs - {x}"
  by (simp add: oset_ok_def)

subsection \<open>Blocks of a byte string\<close>

text \<open>\<open>blocks n s\<close>: \<open>s\<close> cut into blocks of \<open>n\<close> bytes, the last one shorter.\<close>

fun blocks :: "nat \<Rightarrow> 'a list \<Rightarrow> 'a list list" where
  "blocks n s = (if n = 0 \<or> s = [] then [] else take n s # blocks n (drop n s))"

declare blocks.simps [simp del]

lemma blocks_Nil [simp]: "blocks n [] = []"
  by (subst blocks.simps) simp

lemma concat_blocks: "0 < n \<Longrightarrow> concat (blocks n s) = s"
proof (induction n s rule: blocks.induct)
  case (1 n s)
  then show ?case by (cases "s = []") (simp_all add: blocks.simps [of n s])
qed

lemma blocks_nonempty: "b \<in> set (blocks n s) \<Longrightarrow> b \<noteq> [] \<and> length b \<le> n"
proof (induction n s rule: blocks.induct)
  case (1 n s)
  then show ?case by (cases "n = 0 \<or> s = []") (auto simp: blocks.simps [of n s])
qed

subsection \<open>Short runs of a step relation\<close>

lemma three_steps: "r a b \<Longrightarrow> r b c \<Longrightarrow> r c d \<Longrightarrow> r\<^sup>*\<^sup>* a d"
  by (meson r_into_rtranclp rtranclp_trans)

lemma four_steps: "r a b \<Longrightarrow> r b c \<Longrightarrow> r c d \<Longrightarrow> r d e \<Longrightarrow> r\<^sup>*\<^sup>* a e"
  by (rule rtranclp.rtrancl_into_rtrancl [OF three_steps])

end
