(* ===== verification/Platform.thy ===== *)
theory Platform
  imports Prelude
begin

text \<open>
  The operating system as the servers see it. The system calls are not code of the repository,
  so they are parameters: a record \<open>'w os\<close> of functions over an abstract world \<open>'w\<close>, one
  field per call, each returning what the C call returns and the next world. Nothing is assumed
  about them here; a property that relies on documented behaviour of a call says so by a named
  predicate of this theory. Also here: the socket constants and wrappers of
  \<open>detail/platform_socket.h\<close> (POSIX side) and the character functions of
  \<open>detail/path_utils.h\<close> (POSIX side).

  Encodings: \<open>recv\<close> returns the bytes received, the empty list standing for every count
  that is zero or negative; \<open>os_list\<close> is \<open>opendir\<close> followed by \<open>readdir\<close> to the
  end, \<open>None\<close> when \<open>opendir\<close> fails; \<open>os_read\<close> is opening a file for reading and
  reading it to the end, \<open>None\<close> when it cannot be opened; \<open>os_create\<close> is opening it for
  writing, with truncation; \<open>os_append\<close> is a write at its end.
\<close>

type_synonym raw_socket = int

definition kInvalidSock :: raw_socket where "kInvalidSock = - 1"
definition kSockErr :: int where "kSockErr = - 1"

record file_stat =
  st_dir :: bool
  st_size :: int
  st_mtime :: int

record broken_time =
  tm_mon :: nat
  tm_mday :: nat
  tm_hour :: nat
  tm_min :: nat

record 'w os =
  os_socket :: "'w \<Rightarrow> raw_socket \<times> 'w"
  os_reuseaddr :: "raw_socket \<Rightarrow> 'w \<Rightarrow> 'w"
  os_bind_loopback :: "raw_socket \<Rightarrow> 'w \<Rightarrow> int \<times> 'w"
  os_getsockname :: "raw_socket \<Rightarrow> 'w \<Rightarrow> int \<times> 16 word \<times> 'w"
  os_listen :: "raw_socket \<Rightarrow> nat \<Rightarrow> 'w \<Rightarrow> int \<times> 'w"
  os_accept :: "raw_socket \<Rightarrow> 'w \<Rightarrow> raw_socket \<times> 'w"
  os_recv :: "raw_socket \<Rightarrow> nat \<Rightarrow> 'w \<Rightarrow> string \<times> 'w"
  os_send :: "raw_socket \<Rightarrow> string \<Rightarrow> 'w \<Rightarrow> int \<times> 'w"
  os_shutdown :: "raw_socket \<Rightarrow> 'w \<Rightarrow> 'w"
  os_close :: "raw_socket \<Rightarrow> 'w \<Rightarrow> 'w"
  os_mkdir :: "string \<Rightarrow> nat \<Rightarrow> 'w \<Rightarrow> int \<times> 'w"
  os_rmdir :: "string \<Rightarrow> 'w \<Rightarrow> int \<times> 'w"
  os_unlink :: "string \<Rightarrow> 'w \<Rightarrow> int \<times> 'w"
  os_list :: "string \<Rightarrow> 'w \<Rightarrow> string list option \<times> 'w"
  os_stat :: "string \<Rightarrow> 'w \<Rightarrow> file_stat option"
  os_read :: "string \<Rightarrow> 'w \<Rightarrow> string option"
  os_create :: "string \<Rightarrow> 'w \<Rightarrow> bool \<times> 'w"
  os_append :: "string \<Rightarrow> string \<Rightarrow> 'w \<Rightarrow> 'w"
  os_localtime :: "int \<Rightarrow> broken_time"

definition sock_shutdown :: "'w os \<Rightarrow> raw_socket \<Rightarrow> 'w \<Rightarrow> 'w" where
  "sock_shutdown os s w = os_shutdown os s w"

definition sock_close :: "'w os \<Rightarrow> raw_socket \<Rightarrow> 'w \<Rightarrow> 'w" where
  "sock_close os s w = os_close os s w"

definition set_reuseaddr :: "'w os \<Rightarrow> raw_socket \<Rightarrow> 'w \<Rightarrow> 'w" where
  "set_reuseaddr os s w = os_reuseaddr os s w"

subsection \<open>Path characters\<close>

definition normalize_separators :: "string \<Rightarrow> string" where
  "normalize_separators path = map (\<lambda>ch. if ch = CHR 0x5C then CHR ''/'' else ch) path"

definition has_case_insensitive_prefix :: "string \<Rightarrow> string \<Rightarrow> bool" where
  "has_case_insensitive_prefix s pre =
     (if length s < length pre then False else take (length pre) s = pre)"

lemma normalize_separators_idem [path_simps]:
  "normalize_separators (normalize_separators p) = normalize_separators p"
  by (simp add: normalize_separators_def)

lemma normalize_separators_id [path_simps]:
  "CHR 0x5C \<notin> set p \<Longrightarrow> normalize_separators p = p"
  by (induction p) (auto simp: normalize_separators_def)

lemma normalize_separators_append [path_simps]:
  "normalize_separators (p @ q) = normalize_separators p @ normalize_separators q"
  by (simp add: normalize_separators_def)

lemma normalize_separators_no_backslash [simp]: "CHR 0x5C \<notin> set (normalize_separators p)"
  by (auto simp: normalize_separators_def)

lemma length_normalize_separators [simp]: "length (normalize_separators p) = length p"
  by (simp add: normalize_separators_def)

lemma has_prefix_iff: "has_case_insensitive_prefix s pre \<longleftrightarrow> prefix pre s"
  by (metis has_case_insensitive_prefix_def append_eq_conv_conj linorder_not_less prefix_def
      prefix_length_le)

subsection \<open>Documented behaviour of the calls\<close>

text \<open>
  \<open>recv_bounded\<close>, \<open>send_bounded\<close>: a call transfers at most the bytes asked for. \<open>file_store\<close>:
  a regular file reads back what was last created and appended, whatever happens to sockets
  and to other files in between.
\<close>

definition recv_bounded :: "'w os \<Rightarrow> bool" where
  "recv_bounded os \<longleftrightarrow> (\<forall>s n w. length (fst (os_recv os s n w)) \<le> n)"

definition send_bounded :: "'w os \<Rightarrow> bool" where
  "send_bounded os \<longleftrightarrow> (\<forall>s d w. fst (os_send os s d w) \<le> int (length d))"

definition file_store :: "'w os \<Rightarrow> bool" where
  "file_store os \<longleftrightarrow>
     (\<forall>p w w'. os_create os p w = (True, w') \<longrightarrow> os_read os p w' = Some []) \<and>
     (\<forall>p d c w. os_read os p w = Some c \<longrightarrow> os_read os p (os_append os p d w) = Some (c @ d)) \<and>
     (\<forall>p s n w. os_read os p (snd (os_recv os s n w)) = os_read os p w) \<and>
     (\<forall>p s d w. os_read os p (snd (os_send os s d w)) = os_read os p w) \<and>
     (\<forall>p s w. os_read os p (os_close os s w) = os_read os p w) \<and>
     (\<forall>p s w. os_read os p (snd (os_accept os s w)) = os_read os p w)"

end
