(* ===== verification/FtpPaths.thy ===== *)
theory FtpPaths
  imports Platform
begin

text \<open>
  The path logic of \<open>ftp_server.cpp\<close>: \<open>resolve\<close>, which maps a client's path to a path
  of the host below the user's physical root, the clean-up loop of \<open>cwd_cmd\<close>, and the
  formatting of listing times. The two character loops are translated as they are
  (\<open>resolve_scan\<close>, \<open>cwd_scan\<close>) and shown equal to reference functions on segment lists
  (\<open>walk_strict\<close>, \<open>walk_clamped\<close>), on which confinement is proved.
\<close>

subsection \<open>The code\<close>

definition slashes :: "string \<Rightarrow> string" where
  "slashes s = map (\<lambda>character. if character = CHR 0x5C then CHR ''/'' else character) s"

fun resolve_scan :: "string \<Rightarrow> string \<Rightarrow> string list \<Rightarrow> string list option" where
  "resolve_scan [] current_part parts = Some parts"
| "resolve_scan (character # rest) current_part parts =
     (if character = CHR ''/'' then
        (if current_part = ''..'' then
           (if parts \<noteq> [] then resolve_scan rest [] (butlast parts) else None)
         else if current_part \<noteq> [] \<and> current_part \<noteq> ''.'' then
           resolve_scan rest [] (parts @ [current_part])
         else resolve_scan rest [] parts)
      else resolve_scan rest (current_part @ [character]) parts)"

definition resolve_raw :: "string \<Rightarrow> string \<Rightarrow> string \<Rightarrow> string" where
  "resolve_raw base cwd target =
     (let raw = (if cwd \<noteq> [] then base @ ''/'' @ cwd else base)
      in if target \<noteq> [] then
           (if hd target = CHR ''/'' then base @ ''/'' @ tl target else raw @ ''/'' @ target)
         else raw)"

definition resolve :: "string \<Rightarrow> string \<Rightarrow> string \<Rightarrow> string" where
  "resolve base cwd target =
     (let raw = slashes (resolve_raw base cwd target)
      in case resolve_scan (raw @ ''/'') [] [] of
           None \<Rightarrow> []
         | Some parts \<Rightarrow>
             (let joined = join_with (CHR ''/'') parts;
                  result = (if raw \<noteq> [] \<and> hd raw = CHR ''/'' then CHR ''/'' # joined else joined)
              in if result = [] then base
                 else (let norm_base = slashes base
                       in if take (length norm_base) result \<noteq> norm_base then [] else result)))"

fun cwd_scan :: "string \<Rightarrow> string \<Rightarrow> string list \<Rightarrow> string list" where
  "cwd_scan [] current_part parts = parts"
| "cwd_scan (character # rest) current_part parts =
     (if character = CHR ''/'' then
        (if current_part = ''..'' then
           (if parts \<noteq> [] then cwd_scan rest [] (butlast parts) else cwd_scan rest [] parts)
         else if current_part \<noteq> [] \<and> current_part \<noteq> ''.'' then
           cwd_scan rest [] (parts @ [current_part])
         else cwd_scan rest [] parts)
      else cwd_scan rest (current_part @ [character]) parts)"

text \<open>
  The directory \<open>cwd_cmd\<close> computes from the current one and its argument, once the
  permission checks have passed.
\<close>

definition next_cwd :: "string \<Rightarrow> string \<Rightarrow> string" where
  "next_cwd cwd arg =
     (if arg = [] \<or> arg = ''/'' then []
      else (let new_cwd = (if hd arg = CHR ''/'' then tl arg
                           else (if cwd \<noteq> [] then cwd @ ''/'' @ arg else arg))
            in join_with (CHR ''/'') (cwd_scan (new_cwd @ ''/'') [] [])))"

definition month_names :: "string list" where
  "month_names = [''Jan'', ''Feb'', ''Mar'', ''Apr'', ''May'', ''Jun'',
                  ''Jul'', ''Aug'', ''Sep'', ''Oct'', ''Nov'', ''Dec'']"

definition fmt_month :: "nat \<Rightarrow> string" where
  "fmt_month month = (if 1 \<le> month \<and> month \<le> 12 then month_names ! (month - 1) else ''???'')"

definition fmt_unixtime :: "'w os \<Rightarrow> int \<Rightarrow> string" where
  "fmt_unixtime os timestamp =
     (let result = os_localtime os timestamp
      in fmt_month (tm_mon result + 1) @ '' '' @ dec_string_2 (tm_mday result) @ '' ''
         @ dec_string_2 (tm_hour result) @ '':'' @ dec_string_2 (tm_min result))"

subsection \<open>Reference functions on segments\<close>

fun walk_strict :: "string list \<Rightarrow> string list \<Rightarrow> string list option" where
  "walk_strict parts [] = Some parts"
| "walk_strict parts (s # ss) =
     (if s = ''..'' then (if parts = [] then None else walk_strict (butlast parts) ss)
      else if s = [] \<or> s = ''.'' then walk_strict parts ss
      else walk_strict (parts @ [s]) ss)"

fun walk_clamped :: "string list \<Rightarrow> string list \<Rightarrow> string list" where
  "walk_clamped parts [] = parts"
| "walk_clamped parts (s # ss) =
     (if s = ''..'' then walk_clamped (butlast parts) ss
      else if s = [] \<or> s = ''.'' then walk_clamped parts ss
      else walk_clamped (parts @ [s]) ss)"

definition clean_seg :: "string \<Rightarrow> bool" where
  "clean_seg s \<longleftrightarrow> s \<noteq> [] \<and> s \<noteq> ''.'' \<and> s \<noteq> ''..'' \<and> CHR ''/'' \<notin> set s"

definition wf_base :: "string \<Rightarrow> bool" where
  "wf_base base \<longleftrightarrow> base \<noteq> [] \<and> hd base = CHR ''/'' \<and> CHR 0x5C \<notin> set base
     \<and> list_all clean_seg (split_on (CHR ''/'') (tl base))"

definition base_segs :: "string \<Rightarrow> string list" where
  "base_segs base = split_on (CHR ''/'') (tl base)"

definition request_segs :: "string \<Rightarrow> string \<Rightarrow> string list" where
  "request_segs cwd target =
     (if target \<noteq> [] \<and> hd target = CHR ''/'' then split_on (CHR ''/'') (slashes (tl target))
      else split_on (CHR ''/'') (slashes cwd) @ split_on (CHR ''/'') (slashes target))"

definition abs_path :: "string list \<Rightarrow> string" where
  "abs_path segs = CHR ''/'' # join_with (CHR ''/'') segs"

definition inside :: "string \<Rightarrow> string \<Rightarrow> bool" where
  "inside base path \<longleftrightarrow> path = base \<or> prefix (base @ ''/'') path"

definition clean_cwd :: "string \<Rightarrow> bool" where
  "clean_cwd cwd \<longleftrightarrow> cwd = [] \<or> list_all clean_seg (split_on (CHR ''/'') cwd)"

subsection \<open>The loops compute the reference functions\<close>

lemma slashes_append [path_simps]: "slashes (a @ b) = slashes a @ slashes b"
  by (simp add: slashes_def)

lemma slashes_Cons [path_simps]:
  "slashes (c # b) = (if c = CHR 0x5C then CHR ''/'' else c) # slashes b"
  by (simp add: slashes_def)

lemma slashes_Nil [simp]: "slashes [] = []"
  by (simp add: slashes_def)

lemma slashes_id [path_simps]: "CHR 0x5C \<notin> set s \<Longrightarrow> slashes s = s"
  by (induction s) (auto simp: slashes_def)

lemma resolve_scan_walk:
  "resolve_scan (s @ ''/'') cur parts =
     walk_strict parts ((cur @ hd (split_on (CHR ''/'') s)) # tl (split_on (CHR ''/'') s))"
proof (induction s arbitrary: cur parts)
  case Nil
  then show ?case by simp
next
  case (Cons c s)
  have "resolve_scan (s @ ''/'') [] P = walk_strict P (split_on (CHR ''/'') s)" for P
    using Cons.IH [of "[]" P] by (simp del: walk_strict.simps)
  then show ?case
    using Cons.IH [of "cur @ [c]" parts] by (cases "c = CHR ''/''") (simp_all del: walk_strict.simps, simp)
qed

lemma cwd_scan_walk:
  "cwd_scan (s @ ''/'') cur parts =
     walk_clamped parts ((cur @ hd (split_on (CHR ''/'') s)) # tl (split_on (CHR ''/'') s))"
proof (induction s arbitrary: cur parts)
  case Nil
  then show ?case by simp
next
  case (Cons c s)
  have "cwd_scan (s @ ''/'') [] P = walk_clamped P (split_on (CHR ''/'') s)" for P
    using Cons.IH [of "[]" P] by (simp del: walk_clamped.simps)
  then show ?case
    using Cons.IH [of "cur @ [c]" parts] by (cases "c = CHR ''/''") (simp_all del: walk_clamped.simps, simp)
qed

lemma resolve_scan_eq: "resolve_scan (s @ ''/'') [] [] = walk_strict [] (split_on (CHR ''/'') s)"
  by (simp add: resolve_scan_walk del: walk_strict.simps)

lemma cwd_scan_eq: "cwd_scan (s @ ''/'') [] [] = walk_clamped [] (split_on (CHR ''/'') s)"
  by (simp add: cwd_scan_walk del: walk_clamped.simps)

subsection \<open>Walking over segments\<close>

lemma walk_strict_append:
  "walk_strict parts (xs @ ys) = Option.bind (walk_strict parts xs) (\<lambda>ps. walk_strict ps ys)"
  by (induction parts xs rule: walk_strict.induct) auto

lemma clean_seg_simps [simp]:
  "\<not> clean_seg []" "\<not> clean_seg ''.''" "\<not> clean_seg ''..''"
  by (simp_all add: clean_seg_def)

lemma walk_strict_clean: "list_all clean_seg xs \<Longrightarrow> walk_strict parts xs = Some (parts @ xs)"
  by (induction xs arbitrary: parts) (auto simp: clean_seg_def)

lemma list_all_butlast: "list_all P xs \<Longrightarrow> list_all P (butlast xs)"
  by (auto simp: list_all_iff dest: in_set_butlastD)

lemma walk_strict_result_clean:
  "walk_strict parts xs = Some ps \<Longrightarrow> list_all clean_seg parts
   \<Longrightarrow> list_all (\<lambda>s. CHR ''/'' \<notin> set s) xs \<Longrightarrow> list_all clean_seg ps"
proof (induction parts xs rule: walk_strict.induct)
  case (2 parts s ss)
  then show ?case
    by (auto simp: list_all_butlast clean_seg_def [of s] split: if_splits)
qed simp

lemma walk_clamped_result_clean:
  "list_all clean_seg parts \<Longrightarrow> list_all (\<lambda>s. CHR ''/'' \<notin> set s) xs
   \<Longrightarrow> list_all clean_seg (walk_clamped parts xs)"
proof (induction parts xs rule: walk_clamped.induct)
  case (2 parts s ss)
  then show ?case
    by (auto simp: list_all_butlast clean_seg_def [of s] split: if_splits)
qed simp

text \<open>
  Without a \<open>..\<close> the walk only extends the list it starts from, and the clamped and the
  strict walk agree.
\<close>

lemma walk_strict_no_dotdot:
  "''..'' \<notin> set xs \<Longrightarrow> \<exists>ext. walk_strict parts xs = Some (parts @ ext)"
proof (induction xs arbitrary: parts)
  case (Cons x xs)
  then show ?case
    by (cases "x = [] \<or> x = ''.''") (auto, metis append.assoc append_Cons append_Nil)
qed simp

lemma walk_strict_imp_clamped: "walk_strict parts xs = Some ps \<Longrightarrow> walk_clamped parts xs = ps"
  by (induction parts xs rule: walk_strict.induct) (auto split: if_splits)

lemma walk_clamped_append: "walk_clamped parts (xs @ ys) = walk_clamped (walk_clamped parts xs) ys"
  by (induction parts xs rule: walk_clamped.induct) auto

lemma walk_clamped_clean: "list_all clean_seg xs \<Longrightarrow> walk_clamped parts xs = parts @ xs"
  by (induction xs arbitrary: parts) (auto simp: clean_seg_def)

lemma split_no_slash: "list_all (\<lambda>s. CHR ''/'' \<notin> set s) (split_on (CHR ''/'') s)"
  by (auto simp: list_all_iff dest: split_on_no_sep)

lemma request_segs_no_slash: "list_all (\<lambda>s. CHR ''/'' \<notin> set s) (request_segs cwd target)"
  by (simp add: request_segs_def split_no_slash)

subsection \<open>resolve in terms of segments\<close>

lemma wf_base_props:
  assumes "wf_base base"
  shows "base = abs_path (base_segs base)" "slashes base = base"
    "list_all clean_seg (base_segs base)" "base_segs base \<noteq> []" "base \<noteq> []"
    "hd base = CHR ''/''" "split_on (CHR ''/'') base = [] # base_segs base"
proof -
  obtain b where b: "base = CHR ''/'' # b"
    using assms by (cases base) (auto simp: wf_base_def)
  show "base = abs_path (base_segs base)"
    by (simp add: b base_segs_def abs_path_def path_simps)
  show "slashes base = base"
    using assms by (simp add: wf_base_def path_simps)
  show "split_on (CHR ''/'') base = [] # base_segs base"
    by (simp add: b base_segs_def)
  show "list_all clean_seg (base_segs base)" "base_segs base \<noteq> []" "base \<noteq> []" "hd base = CHR ''/''"
    using assms by (simp_all add: wf_base_def base_segs_def)
qed

lemma raw_segs:
  assumes "wf_base base"
  shows "\<exists>X. split_on (CHR ''/'') (slashes (resolve_raw base cwd target)) = [] # base_segs base @ X
    \<and> (\<forall>P. walk_strict P X = walk_strict P (request_segs cwd target))
    \<and> slashes (resolve_raw base cwd target) \<noteq> []
    \<and> hd (slashes (resolve_raw base cwd target)) = CHR ''/''"
proof -
  let ?raw = "slashes (resolve_raw base cwd target)"
  note base = wf_base_props [OF assms]
  have sp: "split_on (CHR ''/'') (base @ CHR ''/'' # x) = [] # base_segs base @ split_on (CHR ''/'') x" for x
    by (simp add: split_on_append_sep base(7))
  have hd: "?raw \<noteq> [] \<and> hd ?raw = CHR ''/''"
    using base(2,5,6) by (auto simp: resolve_raw_def Let_def path_simps)
  consider (abs) "target \<noteq> []" "hd target = CHR ''/''"
    | (rel) "cwd \<noteq> []" "target \<noteq> []" "hd target \<noteq> CHR ''/''"
    | (top) "cwd = []" "target \<noteq> []" "hd target \<noteq> CHR ''/''"
    | (dir) "cwd \<noteq> []" "target = []" | (both) "cwd = []" "target = []"
    by blast
  then show ?thesis
  proof cases
    case abs
    show ?thesis
      by (rule exI [of _ "split_on (CHR ''/'') (slashes (tl target))"])
        (use abs hd base(2) in \<open>auto simp: resolve_raw_def request_segs_def slashes_append
            slashes_Cons sp\<close>)
  next
    case rel
    show ?thesis
      by (rule exI [of _ "split_on (CHR ''/'') (slashes cwd @ CHR ''/'' # slashes target)"])
        (use rel hd base(2,7) in \<open>auto simp: resolve_raw_def request_segs_def slashes_append
            slashes_Cons sp split_on_append_sep\<close>)
  next
    case top
    show ?thesis
      by (rule exI [of _ "split_on (CHR ''/'') (slashes target)"])
        (use top hd base(2) in \<open>auto simp: resolve_raw_def request_segs_def slashes_append
            slashes_Cons sp\<close>)
  next
    case dir
    show ?thesis
      by (rule exI [of _ "split_on (CHR ''/'') (slashes cwd)"])
        (use dir hd base(2) in \<open>auto simp: resolve_raw_def request_segs_def slashes_append
            slashes_Cons sp walk_strict_append split: Option.bind_splits\<close>)
  next
    case both
    show ?thesis
      by (rule exI [of _ "[]"])
        (use both hd base(2,7) in \<open>auto simp: resolve_raw_def request_segs_def\<close>)
  qed
qed

lemma resolve_segs:
  assumes "wf_base base"
  shows "resolve base cwd target =
    (case walk_strict (base_segs base) (request_segs cwd target) of
       None \<Rightarrow> []
     | Some ps \<Rightarrow> if prefix base (abs_path ps) then abs_path ps else [])"
proof -
  obtain X where X:
    "split_on (CHR ''/'') (slashes (resolve_raw base cwd target)) = [] # base_segs base @ X"
    "\<And>P. walk_strict P X = walk_strict P (request_segs cwd target)"
    "slashes (resolve_raw base cwd target) \<noteq> []"
    "hd (slashes (resolve_raw base cwd target)) = CHR ''/''"
    using raw_segs [OF assms, of cwd target] by blast
  note base = wf_base_props [OF assms]
  have "walk_strict [] ([] # base_segs base @ X) =
      walk_strict (base_segs base) (request_segs cwd target)"
    by (simp add: walk_strict_append walk_strict_clean base(3) X(2))
  moreover have "take (length base) (abs_path ps) = base \<longleftrightarrow> prefix base (abs_path ps)" for ps
    by (metis append_eq_conv_conj prefix_def take_is_prefix)
  ultimately show ?thesis
    using X(3,4) by (auto simp: resolve_def resolve_scan_eq X(1) Let_def base(2) abs_path_def
        split: option.splits)
qed

lemma resolve_segs_Some:
  assumes "wf_base base" "resolve base cwd target = r" "r \<noteq> []"
  obtains ps where "walk_strict (base_segs base) (request_segs cwd target) = Some ps"
    "r = abs_path ps" "prefix base r" "list_all clean_seg ps"
proof -
  obtain ps where ps: "walk_strict (base_segs base) (request_segs cwd target) = Some ps"
    "r = abs_path ps" "prefix base r"
    using assms(2,3) by (auto simp: resolve_segs [OF assms(1)] split: option.splits if_splits)
  from ps(1) have "list_all clean_seg ps"
    by (rule walk_strict_result_clean)
      (simp_all add: wf_base_props(3) [OF assms(1)] request_segs_no_slash)
  with ps show ?thesis by (rule that)
qed

subsection \<open>Confinement\<close>

lemma abs_path_append:
  "xs \<noteq> [] \<Longrightarrow> ys \<noteq> [] \<Longrightarrow> abs_path (xs @ ys) = abs_path xs @ CHR ''/'' # join_with (CHR ''/'') ys"
  by (simp add: abs_path_def join_with_append)

lemma split_abs_path:
  "list_all clean_seg ps \<Longrightarrow> ps \<noteq> [] \<Longrightarrow> split_on (CHR ''/'') (abs_path ps) = [] # ps"
  by (simp add: abs_path_def split_on_join clean_seg_def list_all_iff)

lemma abs_path_inside_segs: "bs \<noteq> [] \<Longrightarrow> inside (abs_path bs) (abs_path (bs @ ext))"
  by (cases "ext = []") (auto simp: inside_def abs_path_append)

text \<open>A request without a \<open>..\<close> always resolves, and to a path inside the root.\<close>

lemma resolve_no_dotdot:
  assumes "wf_base base" "''..'' \<notin> set (request_segs cwd target)"
  shows "\<exists>ext. resolve base cwd target = abs_path (base_segs base @ ext)
           \<and> list_all clean_seg ext \<and> inside base (resolve base cwd target)"
proof -
  note base = wf_base_props [OF assms(1)]
  obtain ext where ext:
    "walk_strict (base_segs base) (request_segs cwd target) = Some (base_segs base @ ext)"
    using walk_strict_no_dotdot [OF assms(2)] by blast
  have "list_all clean_seg (base_segs base @ ext)"
    by (rule walk_strict_result_clean [OF ext]) (simp_all add: base(3) request_segs_no_slash)
  moreover have "inside base (abs_path (base_segs base @ ext))"
    using abs_path_inside_segs base(1,4) by metis
  moreover from this have "prefix base (abs_path (base_segs base @ ext))"
    by (auto simp: inside_def prefix_def)
  ultimately show ?thesis
    using ext by (auto simp: resolve_segs [OF assms(1)])
qed

subsection \<open>What the prefix comparison accepts\<close>

text \<open>
  \<open>resolve\<close> compares strings, not segments. On clean segment lists the comparison accepts
  exactly the paths whose segments follow the root's, up to an extension of the root's own last
  segment.
\<close>

lemma prefix_no_sep:
  "d \<notin> set b \<Longrightarrow> prefix b (p @ d # x) \<longleftrightarrow> prefix b p"
proof
  assume nb: "d \<notin> set b" and "prefix b (p @ d # x)"
  then obtain z where z: "p @ d # x = b @ z"
    by (auto simp: prefix_def)
  show "prefix b p"
  proof (cases "length b \<le> length p")
    case True
    then show ?thesis
      by (metis z append_eq_append_conv_if append_take_drop_id prefixI take_is_prefix)
  next
    case False
    then have "(p @ d # x) ! length p = b ! length p"
      by (simp add: z nth_append)
    then have "d \<in> set b"
      using False by (metis nth_append_length not_le nth_mem)
    with nb show ?thesis by simp
  qed
qed auto

lemma prefix_join_segs:
  assumes "list_all clean_seg bs" "bs \<noteq> []" "list_all clean_seg ps"
  shows "prefix (join_with (CHR ''/'') bs) (join_with (CHR ''/'') ps) \<longleftrightarrow>
    (\<exists>e rest. ps = butlast bs @ (last bs @ e) # rest)"
  using assms
proof (induction bs arbitrary: ps)
  case (Cons b bs)
  have b: "CHR ''/'' \<notin> set b" "b \<noteq> []"
    using Cons.prems(1) by (auto simp: clean_seg_def)
  show ?case
  proof (cases ps)
    case Nil
    with b show ?thesis
      by (cases "bs = []") (auto simp: join_with_Cons)
  next
    case (Cons p qs)
    have p: "CHR ''/'' \<notin> set p" "list_all clean_seg qs"
      using Cons \<open>list_all clean_seg ps\<close> by (auto simp: clean_seg_def)
    have join_ps: "join_with (CHR ''/'') ps =
        (if qs = [] then p else p @ CHR ''/'' # join_with (CHR ''/'') qs)"
      by (simp add: Cons join_with_Cons)
    show ?thesis
    proof (cases "bs = []")
      case True
      have "prefix b (join_with (CHR ''/'') ps) \<longleftrightarrow> prefix b p"
        by (simp add: join_ps prefix_no_sep [OF b(1)])
      then show ?thesis
        by (auto simp: True Cons prefix_def)
    next
      case False
      have eq: "prefix (b @ CHR ''/'' # x) (p @ CHR ''/'' # y) \<longleftrightarrow> b = p \<and> prefix x y" for x y
        using sep_append_eq_iff [OF p(1) b(1)] by (fastforce simp: prefix_def)
      have "\<not> prefix (b @ CHR ''/'' # x) p" for x
        using p(1) by (auto simp: prefix_def)
      then have "prefix (join_with (CHR ''/'') (b # bs)) (join_with (CHR ''/'') ps) \<longleftrightarrow>
          qs \<noteq> [] \<and> b = p \<and> prefix (join_with (CHR ''/'') bs) (join_with (CHR ''/'') qs)"
        by (simp add: join_ps join_with_Cons [OF False] eq)
      moreover have "prefix (join_with (CHR ''/'') bs) (join_with (CHR ''/'') qs) \<longleftrightarrow>
          (\<exists>e rest. qs = butlast bs @ (last bs @ e) # rest)"
        using Cons.IH [of qs] Cons.prems(1) False p(2) by simp
      ultimately show ?thesis
        using False by (auto simp: Cons)
    qed
  qed
qed simp

lemma abs_path_extend_last:
  assumes "bs \<noteq> []"
  shows "abs_path (butlast bs @ (last bs @ e) # rest) =
    abs_path bs @ e @ (if rest = [] then [] else CHR ''/'' # join_with (CHR ''/'') rest)"
proof -
  have ext: "join_with (CHR ''/'') (butlast bs @ [last bs @ e]) = join_with (CHR ''/'') bs @ e"
    using assms
  proof (induction bs)
    case (Cons b bs)
    then show ?case by (cases "bs = []") (auto simp: join_with_Cons)
  qed simp
  show ?thesis
  proof (cases "rest = []")
    case True
    then show ?thesis by (simp add: abs_path_def ext)
  next
    case False
    then have "abs_path ((butlast bs @ [last bs @ e]) @ rest) =
        abs_path (butlast bs @ [last bs @ e]) @ CHR ''/'' # join_with (CHR ''/'') rest"
      by (intro abs_path_append) simp_all
    with False show ?thesis by (simp add: abs_path_def ext)
  qed
qed

subsection \<open>Properties of resolve\<close>

text \<open>C1. A path \<open>resolve\<close> hands to the file system is never empty by accident: for a
  well-formed root it is an absolute path without empty, \<open>.\<close> or \<open>..\<close> segments that
  extends the root as a string, and it is either inside the root directory or in a directory
  whose name is the root's own name with something appended.\<close>

theorem resolve_confined:
  assumes "wf_base base" and "resolve base cwd target \<noteq> []"
  shows "\<exists>ps. resolve base cwd target = abs_path ps \<and> list_all clean_seg ps
    \<and> prefix base (resolve base cwd target)
    \<and> (inside base (resolve base cwd target)
       \<or> (\<exists>e rest. e \<noteq> [] \<and> CHR ''/'' \<notin> set e
            \<and> ps = butlast (base_segs base) @ (last (base_segs base) @ e) # rest))"
proof -
  note base = wf_base_props [OF assms(1)]
  obtain ps where ps: "resolve base cwd target = abs_path ps" "list_all clean_seg ps"
    "prefix base (resolve base cwd target)"
    using resolve_segs_Some [OF assms(1) refl assms(2)] by metis
  then have "prefix (join_with (CHR ''/'') (base_segs base)) (join_with (CHR ''/'') ps)"
    using base(1) by (metis abs_path_def prefix_Cons list.distinct(1) Cons_prefix_Cons)
  then obtain e rest where e: "ps = butlast (base_segs base) @ (last (base_segs base) @ e) # rest"
    using prefix_join_segs [OF base(3,4) ps(2)] by blast
  have "inside base (resolve base cwd target)" if "e = []"
  proof -
    have "ps = base_segs base @ rest"
      using e that base(4) by simp
    then show ?thesis
      using ps(1) abs_path_inside_segs base(1,4) by metis
  qed
  moreover have "CHR ''/'' \<notin> set e"
    using ps(2) by (auto simp: e clean_seg_def)
  ultimately show ?thesis
    using ps e by (cases "e = []") blast+
qed

theorem resolve_confined_witness:
  "wf_base ''/tmp/ms'' \<and> resolve ''/tmp/ms'' ''docs'' ''./a//b'' = ''/tmp/ms/docs/a/b''
   \<and> prefix ''/tmp/ms'' (resolve ''/tmp/ms'' ''docs'' ''./a//b'')"
proof -
  have h: "wf_base ''/tmp/ms''" "resolve ''/tmp/ms'' ''docs'' ''./a//b'' = ''/tmp/ms/docs/a/b''"
    by (simp_all add: wf_base_def clean_seg_def resolve_def resolve_raw_def slashes_def)
  show ?thesis
    using h resolve_confined [of "''/tmp/ms''" "''docs''" "''./a//b''"] by auto
qed

text \<open>A request whose segments contain no \<open>..\<close> always resolves, to a path inside the
  root: the root itself or the root followed by the clean segments of the request.\<close>

theorem resolve_without_dotdot_inside:
  assumes "wf_base base" and "''..'' \<notin> set (request_segs cwd target)"
  shows "resolve base cwd target \<noteq> [] \<and> inside base (resolve base cwd target)"
  using resolve_no_dotdot [OF assms] by (auto simp: abs_path_def)

theorem resolve_without_dotdot_inside_witness:
  "wf_base ''/srv/x'' \<and> ''..'' \<notin> set (request_segs ''a'' ''b/c'')
   \<and> inside ''/srv/x'' (resolve ''/srv/x'' ''a'' ''b/c'')"
proof -
  have h: "wf_base ''/srv/x''" "''..'' \<notin> set (request_segs ''a'' ''b/c'')"
    by (simp_all add: wf_base_def clean_seg_def request_segs_def slashes_def)
  show ?thesis
    using h resolve_without_dotdot_inside [OF h] by simp
qed

text \<open>The string comparison lets a client out of its root: from any well-formed root
  \<open>base\<close>, the request \<open>../<last><e>/<name>\<close>, where \<open><last>\<close> is the last segment of the
  root and \<open>e\<close> any non-empty continuation of it, resolves to a file of the sibling directory
  \<open>base @ e\<close>, which is not inside the root.\<close>

theorem resolve_sibling_escape:
  assumes "wf_base base" and "e \<noteq> []" and "CHR ''/'' \<notin> set e" "CHR 0x5C \<notin> set e"
    and "clean_seg name" "CHR 0x5C \<notin> set name"
    and "clean_seg (last (base_segs base) @ e)"
  shows "resolve base [] (''../'' @ (last (base_segs base) @ e) @ ''/'' @ name) = base @ e @ ''/'' @ name
    \<and> \<not> inside base (base @ e @ ''/'' @ name)"
proof -
  note base = wf_base_props [OF assms(1)]
  define l where "l = last (base_segs base)"
  have l: "clean_seg l" "clean_seg (l @ e)"
    using base(3,4) assms(7) by (auto simp: l_def list_all_iff)
  have "l \<in> set (split_on (CHR ''/'') base)"
    using base(4,7) by (simp add: l_def)
  then have "CHR 0x5C \<notin> set l"
    using split_on_subset assms(1) by (fastforce simp: wf_base_def)
  then have segs: "request_segs [] (''../'' @ (l @ e) @ ''/'' @ name) = [[], ''..'', l @ e, name]"
    using l assms(3-6) by (simp add: request_segs_def slashes_append slashes_Cons slashes_id
        split_on_append_sep split_on_single clean_seg_def
        split_on_append_sep [of _ "l @ e", simplified])
  have walk: "walk_strict (base_segs base) (request_segs [] (''../'' @ (l @ e) @ ''/'' @ name))
      = Some (butlast (base_segs base) @ (l @ e) # [name])"
    unfolding segs using l assms(5) base(4) by (auto simp: clean_seg_def)
  have path: "abs_path (butlast (base_segs base) @ (l @ e) # [name]) = base @ e @ ''/'' @ name"
    using abs_path_extend_last [OF base(4), of e "[name]"] base(1) by (simp add: l_def)
  have "resolve base [] (''../'' @ (l @ e) @ ''/'' @ name) = base @ e @ ''/'' @ name"
    by (simp only: resolve_segs [OF assms(1)] walk path option.case) simp
  moreover have "\<not> inside base (base @ e @ ''/'' @ name)"
    using assms(2,3) by (cases e) (auto simp: inside_def)
  ultimately show ?thesis by (simp add: l_def)
qed

theorem resolve_sibling_escape_witness:
  "resolve ''/tmp/ms/bob'' [] ''../bob2/key'' = ''/tmp/ms/bob2/key''
   \<and> \<not> inside ''/tmp/ms/bob'' ''/tmp/ms/bob2/key''"
  using resolve_sibling_escape [of "''/tmp/ms/bob''" "''2''" "''key''"]
  by (simp add: wf_base_def clean_seg_def base_segs_def)

text \<open>A \<open>..\<close> request that leads above the root without coming back is refused: when
  the walk ends with fewer segments than the root has, \<open>resolve\<close> returns the empty string.\<close>

theorem resolve_above_root_refused:
  assumes "wf_base base"
    and "walk_strict (base_segs base) (request_segs cwd target) = Some ps"
    and "length ps < length (base_segs base)"
  shows "resolve base cwd target = []"
proof (rule ccontr)
  assume ne: "resolve base cwd target \<noteq> []"
  note base = wf_base_props [OF assms(1)]
  obtain qs where qs: "walk_strict (base_segs base) (request_segs cwd target) = Some qs"
    "prefix base (abs_path qs)" "list_all clean_seg qs"
    using resolve_segs_Some [OF assms(1) refl ne] by metis
  then have "prefix (join_with (CHR ''/'') (base_segs base)) (join_with (CHR ''/'') qs)"
    using base(1) by (metis abs_path_def Cons_prefix_Cons)
  then obtain e rest where "qs = butlast (base_segs base) @ (last (base_segs base) @ e) # rest"
    using prefix_join_segs [OF base(3,4) qs(3)] by blast
  with qs(1) assms(2,3) base(4) show False by simp
qed

theorem resolve_above_root_refused_witness:
  "resolve ''/tmp/ms'' [] ''../..'' = []"
  by (rule resolve_above_root_refused [where ps = "[]"])
    (simp_all add: wf_base_def clean_seg_def base_segs_def request_segs_def slashes_def)

subsection \<open>Properties of CWD\<close>

lemma next_cwd_keeps_clean: "clean_cwd (next_cwd cwd arg)"
proof -
  have "clean_cwd (join_with (CHR ''/'') ps)" if "list_all clean_seg ps" for ps
    using that by (cases "ps = []") (auto simp: clean_cwd_def split_on_join list_all_iff clean_seg_def)
  then show ?thesis
    by (auto simp: next_cwd_def Let_def cwd_scan_eq walk_clamped_result_clean split_no_slash
        clean_cwd_def [of "[]"])
qed

text \<open>Whatever directory a client was in and whatever argument it sends, the directory
  \<open>cwd_cmd\<close> stores is clean: empty, or segments without empty, \<open>.\<close> or \<open>..\<close> parts and
  without a leading slash; a \<open>..\<close> at the top stays at the top.\<close>

theorem next_cwd_clean:
 "clean_cwd (next_cwd cwd arg)"
  by (rule next_cwd_keeps_clean)

lemma clean_cwd_split:
  "clean_cwd cwd \<Longrightarrow> cwd \<noteq> [] \<Longrightarrow> list_all clean_seg (split_on (CHR ''/'') cwd)"
  by (simp add: clean_cwd_def)

text \<open>Entering a subdirectory and then issuing \<open>CDUP\<close> comes back to where the client
  was.\<close>

theorem next_cwd_down_up:
  assumes "clean_cwd cwd" and "clean_seg d"
  shows "next_cwd (next_cwd cwd d) ''..'' = cwd"
proof -
  define segs where "segs = (if cwd = [] then [] else split_on (CHR ''/'') cwd)"
  have segs: "list_all clean_seg segs" "join_with (CHR ''/'') segs = cwd"
    using assms(1) by (auto simp: segs_def clean_cwd_def join_split_on)
  have d: "d \<noteq> []" "d \<noteq> ''/''" "hd d \<noteq> CHR ''/''" "split_on (CHR ''/'') d = [d]"
    using assms(2) by (auto simp: clean_seg_def split_on_single dest: hd_in_set)
  have clean: "list_all clean_seg (segs @ [d])"
    using segs(1) assms(2) by simp
  have down: "next_cwd cwd d = join_with (CHR ''/'') (segs @ [d])"
  proof (cases "cwd = []")
    case True
    then show ?thesis
      using d assms(2) by (auto simp: next_cwd_def cwd_scan_eq segs_def clean_seg_def)
  next
    case False
    have "walk_clamped [] (segs @ [d]) = segs @ [d]"
      using walk_clamped_clean [OF clean, of "[]"] by simp
    then show ?thesis
      using False d by (simp add: next_cwd_def cwd_scan_eq split_on_append_sep segs_def)
  qed
  have ne: "next_cwd cwd d \<noteq> []"
    using d(1) by (auto simp: down join_with_eq_Nil_iff)
  have "split_on (CHR ''/'') (next_cwd cwd d) = segs @ [d]"
    using clean by (simp add: down split_on_join list_all_iff clean_seg_def)
  then have "next_cwd (next_cwd cwd d) ''..'' =
      join_with (CHR ''/'') (walk_clamped [] ((segs @ [d]) @ [''..'']))"
    using ne by (simp add: next_cwd_def cwd_scan_eq split_on_append_sep)
  also have "\<dots> = cwd"
    using walk_clamped_clean [OF clean, of "[]"] segs(2) by (simp only: walk_clamped_append) simp
  finally show ?thesis .
qed

theorem next_cwd_down_up_witness:
  "clean_cwd ''a/b'' \<and> clean_seg ''c'' \<and> next_cwd (next_cwd ''a/b'' ''c'') ''..'' = ''a/b''"
  using next_cwd_down_up [of "''a/b''" "''c''"] by (simp add: clean_cwd_def clean_seg_def)

text \<open>The current directory itself always resolves, to the root followed by it, when no
  backslash was used to build it: \<open>LIST\<close> without argument cannot fail on the path.\<close>

theorem resolve_cwd:
  assumes "wf_base base" and "clean_cwd cwd" and "CHR 0x5C \<notin> set cwd"
  shows "resolve base cwd [] = (if cwd = [] then base else base @ ''/'' @ cwd)"
proof -
  note base = wf_base_props [OF assms(1)]
  define segs where "segs = (if cwd = [] then [] else split_on (CHR ''/'') cwd)"
  have segs: "list_all clean_seg segs"
    using assms(2) by (auto simp: segs_def clean_cwd_def)
  have "walk_strict (base_segs base) (request_segs cwd []) = Some (base_segs base @ segs)"
    using walk_strict_clean [OF segs] assms(3)
    by (auto simp: request_segs_def walk_strict_append slashes_id segs_def split: if_splits)
  moreover have "abs_path (base_segs base @ segs) = (if cwd = [] then base else base @ ''/'' @ cwd)"
    using base(1,4) abs_path_append [OF base(4), of segs]
    by (auto simp: segs_def join_split_on)
  ultimately show ?thesis
    by (simp add: resolve_segs [OF assms(1)])
qed

theorem resolve_cwd_witness:
  "resolve ''/tmp/ms'' ''a/b'' [] = ''/tmp/ms/a/b''"
  using resolve_cwd [of "''/tmp/ms''" "''a/b''"]
  by (simp add: wf_base_def clean_cwd_def clean_seg_def)

end
