(* ===== verification/FtpServer.thy ===== *)
theory FtpServer
  imports FtpPaths
begin

unbundle bit_operations_syntax

text \<open>
  The command handlers of \<open>ftp_server.cpp\<close>, for one client thread. The state of a thread,
  \<open>'w ftp_thread\<close>, is its \<open>Client\<close> object, the data it shares with the other threads (the
  configured users, the connected user names, the temporary directory) and the world. One field
  is added for the proofs: \<open>ft_replies\<close> records the messages handed to \<open>send\<close> on the
  control connection, in order; the code keeps no such record and no definition reads it.

  A handler is a function from thread state to thread state. \<open>stor_cmd\<close> receives until the
  peer closes and may not return, so it, and all that calls it, returns an option, \<open>None\<close>
  meaning that the call does not return.
\<close>

subsection \<open>Data\<close>

type_synonym ftp_permission = "32 word"

definition ftp_perm_none :: ftp_permission where "ftp_perm_none = 0"
definition ftp_perm_read :: ftp_permission where "ftp_perm_read = 1"
definition ftp_perm_write :: ftp_permission where "ftp_perm_write = 2"
definition ftp_perm_all :: ftp_permission where "ftp_perm_all = ftp_perm_read OR ftp_perm_write"

record ftp_user =
  u_name :: string
  u_pass :: string
  u_root :: string
  u_perm :: ftp_permission
  u_anon :: bool

record ftp_client =
  cl_sock :: raw_socket
  cl_user :: string
  cl_cwd :: string
  cl_phy_root :: string
  cl_perm :: ftp_permission
  cl_auth :: bool
  cl_data_sock :: raw_socket
  cl_pasv :: bool

definition new_client :: "raw_socket \<Rightarrow> ftp_client" where
  "new_client s = \<lparr>cl_sock = s, cl_user = [], cl_cwd = [], cl_phy_root = [],
     cl_perm = ftp_perm_none, cl_auth = False, cl_data_sock = kInvalidSock, cl_pasv = False\<rparr>"

record ftp_shared =
  fs_users :: "ftp_user list"
  fs_conn_users :: "string list"
  fs_tmp :: string

record 'w ftp_thread =
  ft_client :: ftp_client
  ft_shared :: ftp_shared
  ft_world :: 'w
  ft_replies :: "string list"

definition crlf :: string where
  "crlf = [CHR 0x0D, CHR 0x0A]"

definition ftp_line :: "string \<Rightarrow> string" where
  "ftp_line text = text @ crlf"

definition msg_no_data :: string where
  "msg_no_data = ftp_line (''425 Can'' @ [CHR 0x27] @ ''t open data connection'')"

definition upd_client :: "(ftp_client \<Rightarrow> ftp_client) \<Rightarrow> 'w ftp_thread \<Rightarrow> 'w ftp_thread" where
  "upd_client f st = st\<lparr>ft_client := f (ft_client st)\<rparr>"

definition upd_world :: "('w \<Rightarrow> 'w) \<Rightarrow> 'w ftp_thread \<Rightarrow> 'w ftp_thread" where
  "upd_world f st = st\<lparr>ft_world := f (ft_world st)\<rparr>"

subsection \<open>Replies, checks, connections\<close>

definition ftp_send :: "'w os \<Rightarrow> string \<Rightarrow> 'w ftp_thread \<Rightarrow> 'w ftp_thread" where
  "ftp_send os msg st =
     (if cl_sock (ft_client st) = kInvalidSock then st
      else st\<lparr>ft_world := snd (os_send os (cl_sock (ft_client st)) msg (ft_world st)),
              ft_replies := ft_replies st @ [msg]\<rparr>)"

definition require_auth :: "'w os \<Rightarrow> 'w ftp_thread \<Rightarrow> bool \<times> 'w ftp_thread" where
  "require_auth os st =
     (if \<not> cl_auth (ft_client st)
      then (False, ftp_send os (ftp_line ''530 Please login with USER and PASS'') st)
      else (True, st))"

definition require_perm :: "'w os \<Rightarrow> ftp_permission \<Rightarrow> 'w ftp_thread \<Rightarrow> bool \<times> 'w ftp_thread" where
  "require_perm os need st =
     (if cl_perm (ft_client st) AND need \<noteq> need
      then (False, ftp_send os (ftp_line ''550 Permission denied'') st)
      else (True, st))"

definition close_pasv :: "'w os \<Rightarrow> 'w ftp_thread \<Rightarrow> 'w ftp_thread" where
  "close_pasv os st =
     (let c = ft_client st;
          st1 = (if cl_data_sock c \<noteq> kInvalidSock
                 then upd_client (\<lambda>c. c\<lparr>cl_data_sock := kInvalidSock\<rparr>)
                        (upd_world (sock_close os (cl_data_sock c)) st)
                 else st)
      in upd_client (\<lambda>c. c\<lparr>cl_pasv := False\<rparr>) st1)"

definition close_client :: "'w os \<Rightarrow> 'w ftp_thread \<Rightarrow> 'w ftp_thread" where
  "close_client os st =
     (let s = cl_sock (ft_client st);
          st1 = (if s \<noteq> kInvalidSock
                 then upd_client (\<lambda>c. c\<lparr>cl_sock := kInvalidSock\<rparr>)
                        (upd_world (sock_close os s) (upd_world (sock_shutdown os s) st))
                 else st)
      in close_pasv os st1)"

definition accept_data :: "'w os \<Rightarrow> 'w ftp_thread \<Rightarrow> raw_socket \<times> 'w ftp_thread" where
  "accept_data os st =
     (let c = ft_client st
      in if \<not> cl_pasv c \<or> cl_data_sock c = kInvalidSock then (kInvalidSock, st)
         else (let (data_sock, w1) = os_accept os (cl_data_sock c) (ft_world st);
                   w2 = sock_close os (cl_data_sock c) w1
               in (data_sock,
                   upd_client (\<lambda>c. c\<lparr>cl_data_sock := kInvalidSock, cl_pasv := False\<rparr>)
                     (st\<lparr>ft_world := w2\<rparr>))))"

subsection \<open>Login\<close>

definition user_cmd :: "'w os \<Rightarrow> string \<Rightarrow> 'w ftp_thread \<Rightarrow> 'w ftp_thread" where
  "user_cmd os arg st =
     (case find (\<lambda>u. u_name u = arg \<or> (u_anon u \<and> arg = ''anonymous'')) (fs_users (ft_shared st)) of
        None \<Rightarrow> ftp_send os (ftp_line ''530 Login incorrect'') st
      | Some u \<Rightarrow>
          (let st1 = upd_client (\<lambda>c. c\<lparr>cl_user := u_name u\<rparr>) st
           in if u_anon u then
                (let st2 = upd_client (\<lambda>c. c\<lparr>cl_auth := True, cl_perm := u_perm u,
                                              cl_phy_root := fs_tmp (ft_shared st1)\<rparr>) st1;
                     st3 = st2\<lparr>ft_shared := (ft_shared st2)\<lparr>fs_conn_users :=
                              insort_insert (u_name u) (fs_conn_users (ft_shared st2))\<rparr>\<rparr>
                 in ftp_send os (ftp_line ''230 Login successful'') st3)
              else ftp_send os (ftp_line ''331 Password required'') st1))"

text \<open>
  The physical root of a user: \<open>None\<close> in the second component when no directory is made.
\<close>

definition physical_root :: "string \<Rightarrow> string \<Rightarrow> string \<times> string option" where
  "physical_root tmp relative_root =
     (if relative_root \<noteq> [] \<and> relative_root \<noteq> ''/'' then
        (let rel = (if hd relative_root = CHR ''/'' then tl relative_root else relative_root)
         in if rel \<noteq> [] then (tmp @ ''/'' @ rel, Some (tmp @ ''/'' @ rel)) else (tmp, None))
      else (tmp, None))"

definition pass_cmd :: "'w os \<Rightarrow> string \<Rightarrow> 'w ftp_thread \<Rightarrow> 'w ftp_thread" where
  "pass_cmd os arg st =
     (if cl_auth (ft_client st) then ftp_send os (ftp_line ''230 Already logged in'') st
      else if cl_user (ft_client st) = [] then ftp_send os (ftp_line ''503 Login with USER first'') st
      else (case find (\<lambda>u. u_name u = cl_user (ft_client st) \<and> \<not> u_anon u) (fs_users (ft_shared st)) of
              None \<Rightarrow> ftp_send os (ftp_line ''530 Login incorrect'') st
            | Some u \<Rightarrow>
                if u_pass u = arg then
                  (let (root, made) = physical_root (fs_tmp (ft_shared st)) (u_root u);
                       st1 = upd_client (\<lambda>c. c\<lparr>cl_auth := True, cl_perm := u_perm u,
                                                cl_phy_root := root\<rparr>) st;
                       st2 = (case made of None \<Rightarrow> st1
                              | Some d \<Rightarrow> upd_world (\<lambda>w. snd (os_mkdir os d 448 w)) st1);
                       st3 = st2\<lparr>ft_shared := (ft_shared st2)\<lparr>fs_conn_users :=
                                insort_insert (u_name u) (fs_conn_users (ft_shared st2))\<rparr>\<rparr>
                   in ftp_send os (ftp_line ''230 Login successful'') st3)
                else ftp_send os (ftp_line ''530 Login incorrect'') st))"

subsection \<open>Passive mode and listing\<close>

definition pasv_cmd :: "'w os \<Rightarrow> 'w ftp_thread \<Rightarrow> 'w ftp_thread" where
  "pasv_cmd os st =
     (let (ok, st0) = require_auth os st
      in if \<not> ok then st0
      else (let st1 = close_pasv os st0;
                fail = (\<lambda>w. ftp_send os msg_no_data (st1\<lparr>ft_world := w\<rparr>));
                (data_sock, w1) = os_socket os (ft_world st1)
            in if data_sock = kInvalidSock then fail w1
            else (let w2 = set_reuseaddr os data_sock w1;
                      (bind_rc, w3) = os_bind_loopback os data_sock w2
                  in if bind_rc = kSockErr then fail (sock_close os data_sock w3)
                  else (let (listen_rc, w4) = os_listen os data_sock 1 w3
                        in if listen_rc = kSockErr then fail (sock_close os data_sock w4)
                        else (let (name_rc, data_port, w5) = os_getsockname os data_sock w4
                              in if name_rc = kSockErr then fail (sock_close os data_sock w5)
                              else ftp_send os
                                     (ftp_line (''227 Entering Passive Mode (127,0,0,1,''
                                        @ dec_string (unat data_port div 256) @ '',''
                                        @ dec_string (unat data_port mod 256) @ '')''))
                                     (upd_client (\<lambda>c. c\<lparr>cl_data_sock := data_sock, cl_pasv := True\<rparr>)
                                        (st1\<lparr>ft_world := w5\<rparr>)))))))"

definition listing_line :: "'w os \<Rightarrow> 'w \<Rightarrow> string \<Rightarrow> string \<Rightarrow> string" where
  "listing_line os w dir_path name =
     (let (is_dir, file_size, mtime) =
            (case os_stat os (dir_path @ ''/'' @ name) w of
               None \<Rightarrow> (False, 0, 0)
             | Some file_stat \<Rightarrow> (st_dir file_stat, st_size file_stat, st_mtime file_stat))
      in (if is_dir then ''drwx------'' else ''-rwx------'') @ '' 1 owner group ''
         @ dec_string_int file_size @ '' '' @ fmt_unixtime os mtime @ '' '' @ name @ crlf)"

definition dir_listing :: "'w os \<Rightarrow> string \<Rightarrow> 'w \<Rightarrow> string \<times> 'w" where
  "dir_listing os dir_path w =
     (case os_list os dir_path w of
        (None, w1) \<Rightarrow> ([], w1)
      | (Some names, w1) \<Rightarrow>
          (concat (map (listing_line os w1 dir_path)
                     (filter (\<lambda>name. name \<noteq> ''.'' \<and> name \<noteq> ''..'') names)), w1))"

subsection \<open>File commands\<close>

text \<open>The two checks every file command starts with, in the order of the code.\<close>

definition checked :: "'w os \<Rightarrow> ftp_permission \<Rightarrow> 'w ftp_thread \<Rightarrow> bool \<times> 'w ftp_thread" where
  "checked os need st =
     (let (ok, st1) = require_auth os st in if \<not> ok then (False, st1) else require_perm os need st1)"

definition resolved :: "string \<Rightarrow> 'w ftp_thread \<Rightarrow> string" where
  "resolved arg st = resolve (cl_phy_root (ft_client st)) (cl_cwd (ft_client st)) arg"

definition list_cmd :: "'w os \<Rightarrow> string \<Rightarrow> 'w ftp_thread \<Rightarrow> 'w ftp_thread" where
  "list_cmd os arg st =
     (let (ok, st1) = checked os ftp_perm_read st
      in if \<not> ok then st1
      else (let resolved_path = resolved arg st1
            in if resolved_path = [] then ftp_send os (ftp_line ''550 Invalid path'') st1
            else (let st2 = ftp_send os (ftp_line ''150 Opening data connection'') st1;
                      (data_sock, st3) = accept_data os st2
                  in if data_sock = kInvalidSock then ftp_send os msg_no_data st3
                  else (let (listing, w1) = dir_listing os resolved_path (ft_world st3);
                            w2 = snd (os_send os data_sock listing w1);
                            w3 = sock_close os data_sock w2
                        in ftp_send os (ftp_line ''226 Transfer complete'') (st3\<lparr>ft_world := w3\<rparr>)))))"

text \<open>The read loop of \<open>retr_cmd\<close>: the file in blocks of 8192 bytes, each sent once.\<close>

definition send_blocks :: "'w os \<Rightarrow> raw_socket \<Rightarrow> string list \<Rightarrow> 'w \<Rightarrow> 'w" where
  "send_blocks os data_sock bs w = foldl (\<lambda>w b. snd (os_send os data_sock b w)) w bs"

definition retr_cmd :: "'w os \<Rightarrow> string \<Rightarrow> 'w ftp_thread \<Rightarrow> 'w ftp_thread" where
  "retr_cmd os arg st =
     (let (ok, st1) = checked os ftp_perm_read st
      in if \<not> ok then st1
      else if arg = [] then ftp_send os (ftp_line ''501 Syntax error'') st1
      else (let resolved_path = resolved arg st1
            in if resolved_path = [] then ftp_send os (ftp_line ''550 File not found'') st1
            else (let st2 = ftp_send os (ftp_line ''150 Opening data connection'') st1;
                      (data_sock, st3) = accept_data os st2
                  in if data_sock = kInvalidSock then ftp_send os msg_no_data st3
                  else (case os_read os resolved_path (ft_world st3) of
                          None \<Rightarrow> ftp_send os (ftp_line ''550 File not found'')
                                    (upd_world (sock_close os data_sock) st3)
                        | Some input \<Rightarrow>
                            (let w1 = send_blocks os data_sock (blocks 8192 input) (ft_world st3);
                                 w2 = sock_close os data_sock w1
                             in ftp_send os (ftp_line ''226 Transfer complete'') (st3\<lparr>ft_world := w2\<rparr>))))))"

partial_function (option) stor_recv :: "'w os \<Rightarrow> raw_socket \<Rightarrow> string \<Rightarrow> 'w \<Rightarrow> 'w option" where
  "stor_recv os data_sock path w =
     (let r = os_recv os data_sock 8192 w
      in if fst r = [] then Some (snd r)
         else stor_recv os data_sock path (os_append os path (fst r) (snd r)))"

definition stor_cmd :: "'w os \<Rightarrow> string \<Rightarrow> 'w ftp_thread \<Rightarrow> 'w ftp_thread option" where
  "stor_cmd os arg st =
     (let (ok, st1) = checked os ftp_perm_write st
      in if \<not> ok then Some st1
      else if arg = [] then Some (ftp_send os (ftp_line ''501 Syntax error'') st1)
      else (let resolved_path = resolved arg st1
            in if resolved_path = [] then Some (ftp_send os (ftp_line ''550 Invalid path'') st1)
            else (let st2 = ftp_send os (ftp_line ''150 Opening data connection'') st1;
                      (data_sock, st3) = accept_data os st2
                  in if data_sock = kInvalidSock then Some (ftp_send os msg_no_data st3)
                  else (let (opened, w1) = os_create os resolved_path (ft_world st3)
                        in if \<not> opened then
                             Some (ftp_send os (ftp_line ''550 Cannot create file'')
                               (st3\<lparr>ft_world := sock_close os data_sock w1\<rparr>))
                           else map_option
                             (\<lambda>w2. ftp_send os (ftp_line ''226 Transfer complete'')
                                     (st3\<lparr>ft_world := sock_close os data_sock w2\<rparr>))
                             (stor_recv os data_sock resolved_path w1)))))"

definition dele_cmd :: "'w os \<Rightarrow> string \<Rightarrow> 'w ftp_thread \<Rightarrow> 'w ftp_thread" where
  "dele_cmd os arg st =
     (let (ok, st1) = checked os ftp_perm_write st
      in if \<not> ok then st1
      else if arg = [] then ftp_send os (ftp_line ''501 Syntax error'') st1
      else (let resolved_path = resolved arg st1
            in if resolved_path = [] then ftp_send os (ftp_line ''550 File not found'') st1
            else (let (rc, w1) = os_unlink os resolved_path (ft_world st1);
                      st2 = st1\<lparr>ft_world := w1\<rparr>
                  in if rc = 0 then ftp_send os (ftp_line ''250 File deleted'') st2
                     else ftp_send os (ftp_line ''550 File not found'') st2)))"

definition mkd_cmd :: "'w os \<Rightarrow> string \<Rightarrow> 'w ftp_thread \<Rightarrow> 'w ftp_thread" where
  "mkd_cmd os arg st =
     (let (ok, st1) = checked os ftp_perm_write st
      in if \<not> ok then st1
      else if arg = [] then ftp_send os (ftp_line ''501 Syntax error'') st1
      else (let resolved_path = resolved arg st1
            in if resolved_path = [] then ftp_send os (ftp_line ''550 Invalid path'') st1
            else (let (rc, w1) = os_mkdir os resolved_path 448 (ft_world st1);
                      st2 = st1\<lparr>ft_world := w1\<rparr>
                  in if rc = 0
                     then ftp_send os (ftp_line (''257 '' @ [CHR 0x22] @ arg @ [CHR 0x22] @ '' created'')) st2
                     else ftp_send os (ftp_line ''550 Cannot create directory'') st2)))"

definition rmd_cmd :: "'w os \<Rightarrow> string \<Rightarrow> 'w ftp_thread \<Rightarrow> 'w ftp_thread" where
  "rmd_cmd os arg st =
     (let (ok, st1) = checked os ftp_perm_write st
      in if \<not> ok then st1
      else if arg = [] then ftp_send os (ftp_line ''501 Syntax error'') st1
      else (let resolved_path = resolved arg st1
            in if resolved_path = [] then ftp_send os (ftp_line ''550 Invalid path'') st1
            else (let (rc, w1) = os_rmdir os resolved_path (ft_world st1);
                      st2 = st1\<lparr>ft_world := w1\<rparr>
                  in if rc = 0 then ftp_send os (ftp_line ''250 Directory removed'') st2
                     else ftp_send os (ftp_line ''550 Cannot remove directory'') st2)))"

definition cwd_cmd :: "'w os \<Rightarrow> string \<Rightarrow> 'w ftp_thread \<Rightarrow> 'w ftp_thread" where
  "cwd_cmd os arg st =
     (let (ok, st1) = checked os ftp_perm_read st
      in if \<not> ok then st1
         else ftp_send os (ftp_line ''250 Directory changed'')
                (upd_client (\<lambda>c. c\<lparr>cl_cwd := next_cwd (cl_cwd c) arg\<rparr>) st1))"

definition feat_cmd :: "'w os \<Rightarrow> 'w ftp_thread \<Rightarrow> 'w ftp_thread" where
  "feat_cmd os st =
     ftp_send os (ftp_line ''211 End'')
       (ftp_send os (ftp_line '' PASV'')
         (ftp_send os (ftp_line ''211-Extensions supported:'') st))"

definition ok_if :: "'w os \<Rightarrow> string \<Rightarrow> 'w ftp_thread \<Rightarrow> 'w ftp_thread" where
  "ok_if os msg st =
     (let (ok, st1) = require_auth os st in if \<not> ok then st1 else ftp_send os msg st1)"

subsection \<open>Lines and dispatch\<close>

definition to_upper :: "char \<Rightarrow> char" where
  "to_upper c = (let n = of_char c :: nat in if 97 \<le> n \<and> n \<le> 122 then char_of (n - 32) else c)"

definition split_command :: "string \<Rightarrow> string \<times> string" where
  "split_command line =
     (if CHR '' '' \<in> set line
      then (map to_upper (takeWhile (\<lambda>c. c \<noteq> CHR '' '') line), tl (dropWhile (\<lambda>c. c \<noteq> CHR '' '') line))
      else (map to_upper line, []))"

definition dispatch :: "'w os \<Rightarrow> string \<Rightarrow> 'w ftp_thread \<Rightarrow> 'w ftp_thread option" where
  "dispatch os line st =
     (let (cmd, arg) = split_command line
      in if cmd = ''USER'' then Some (user_cmd os arg st)
      else if cmd = ''PASS'' then Some (pass_cmd os arg st)
      else if cmd = ''SYST'' then Some (ok_if os (ftp_line ''215 UNIX Type: L8'') st)
      else if cmd = ''PWD'' then
        Some (ok_if os (ftp_line (''257 '' @ [CHR 0x22] @ ''/'' @ cl_cwd (ft_client st) @ [CHR 0x22]
                                   @ '' is current directory'')) st)
      else if cmd = ''TYPE'' then Some (ok_if os (ftp_line ''200 TYPE set OK'') st)
      else if cmd = ''PASV'' then Some (pasv_cmd os st)
      else if cmd = ''LIST'' then Some (list_cmd os arg st)
      else if cmd = ''RETR'' then Some (retr_cmd os arg st)
      else if cmd = ''STOR'' then stor_cmd os arg st
      else if cmd = ''DELE'' then Some (dele_cmd os arg st)
      else if cmd = ''RMD'' then Some (rmd_cmd os arg st)
      else if cmd = ''MKD'' then Some (mkd_cmd os arg st)
      else if cmd = ''CWD'' then Some (cwd_cmd os arg st)
      else if cmd = ''CDUP'' then Some (cwd_cmd os ''..'' st)
      else if cmd = ''QUIT'' then Some (close_client os (ftp_send os (ftp_line ''221 Goodbye'') st))
      else if cmd = ''NOOP'' then Some (ftp_send os (ftp_line ''200 OK'') st)
      else if cmd = ''FEAT'' then Some (feat_cmd os st)
      else Some (ftp_send os (ftp_line ''502 Command not implemented'') st))"

text \<open>One line cut off the front of the buffered input: the line without its \<open>LF\<close> and one
  \<open>CR\<close> before it, and the rest.\<close>

definition next_line :: "string \<Rightarrow> string \<times> string" where
  "next_line buf =
     (let line = takeWhile (\<lambda>c. c \<noteq> CHR 0x0A) buf
      in (if line \<noteq> [] \<and> last line = CHR 0x0D then butlast line else line,
          tl (dropWhile (\<lambda>c. c \<noteq> CHR 0x0A) buf)))"

lemma next_line_shorter: "CHR 0x0A \<in> set buf \<Longrightarrow> length (snd (next_line buf)) < length buf"
proof -
  assume "CHR 0x0A \<in> set buf"
  then have "dropWhile (\<lambda>c. c \<noteq> CHR 0x0A) buf \<noteq> []"
    by (simp add: dropWhile_eq_Nil_conv)
  moreover have "length (dropWhile (\<lambda>c. c \<noteq> CHR 0x0A) buf) \<le> length buf"
    by (rule length_dropWhile_le)
  ultimately show ?thesis
    by (cases "dropWhile (\<lambda>c. c \<noteq> CHR 0x0A) buf") (auto simp: next_line_def Let_def)
qed

function drain_lines :: "'w os \<Rightarrow> string \<Rightarrow> 'w ftp_thread \<Rightarrow> (string \<times> 'w ftp_thread) option" where
  "drain_lines os partial st =
     (if CHR 0x0A \<notin> set partial then Some (partial, st)
      else if fst (next_line partial) = [] then drain_lines os (snd (next_line partial)) st
      else (case dispatch os (fst (next_line partial)) st of
              None \<Rightarrow> None
            | Some st1 \<Rightarrow> drain_lines os (snd (next_line partial)) st1))"
  by pat_completeness auto
termination
  by (relation "measure (\<lambda>(os, partial, st). length partial)") (auto dest: next_line_shorter)

declare drain_lines.simps [simp del]

text \<open>
  \<open>client_loop\<close> up to its exit. Each receive delivers at most 4095 bytes, of which the code
  keeps those before the first NUL, because it appends the buffer as a C string. The stop flag
  the loop also tests is only set by this thread after the loop has returned.
\<close>

partial_function (option) client_loop ::
  "'w os \<Rightarrow> string \<Rightarrow> 'w ftp_thread \<Rightarrow> 'w ftp_thread option" where
  "client_loop os partial st =
     (if cl_sock (ft_client st) = kInvalidSock then Some st
      else (let r = os_recv os (cl_sock (ft_client st)) 4095 (ft_world st);
                st1 = st\<lparr>ft_world := snd r\<rparr>
            in if fst r = [] then Some st1
               else (case drain_lines os (partial @ takeWhile (\<lambda>c. c \<noteq> CHR 0x00) (fst r)) st1 of
                       None \<Rightarrow> None
                     | Some (partial1, st2) \<Rightarrow> client_loop os partial1 st2)))"

definition client_exit :: "'w ftp_thread \<Rightarrow> 'w ftp_thread" where
  "client_exit st =
     (if cl_auth (ft_client st)
      then st\<lparr>ft_shared := (ft_shared st)\<lparr>fs_conn_users :=
                remove1 (cl_user (ft_client st)) (fs_conn_users (ft_shared st))\<rparr>\<rparr>
      else st)"

end
