(* ===== verification/Effects.thy ===== *)
theory Effects
  imports Platform
begin

text \<open>
  The system calls that may change the world, as a relation. \<open>effect os ok\<close> is one call: any
  socket call, or a file call at a path that \<open>ok\<close> allows; \<open>effects\<close> is any number of them. To
  say that a function has only effects at certain paths is to say that it relates its worlds by
  \<open>effects\<close>.
\<close>

inductive effect :: "'w os \<Rightarrow> (string \<Rightarrow> bool) \<Rightarrow> 'w \<Rightarrow> 'w \<Rightarrow> bool" for os ok where
  eff_socket: "effect os ok w (snd (os_socket os w))"
| eff_reuse: "effect os ok w (os_reuseaddr os s w)"
| eff_bind: "effect os ok w (snd (os_bind_loopback os s w))"
| eff_name: "effect os ok w (snd (snd (os_getsockname os s w)))"
| eff_listen: "effect os ok w (snd (os_listen os s n w))"
| eff_accept: "effect os ok w (snd (os_accept os s w))"
| eff_recv: "effect os ok w (snd (os_recv os s n w))"
| eff_send: "effect os ok w (snd (os_send os s d w))"
| eff_shutdown: "effect os ok w (os_shutdown os s w)"
| eff_close: "effect os ok w (os_close os s w)"
| eff_mkdir: "ok p \<Longrightarrow> effect os ok w (snd (os_mkdir os p m w))"
| eff_rmdir: "ok p \<Longrightarrow> effect os ok w (snd (os_rmdir os p w))"
| eff_unlink: "ok p \<Longrightarrow> effect os ok w (snd (os_unlink os p w))"
| eff_list: "ok p \<Longrightarrow> effect os ok w (snd (os_list os p w))"
| eff_create: "ok p \<Longrightarrow> effect os ok w (snd (os_create os p w))"
| eff_append: "ok p \<Longrightarrow> effect os ok w (os_append os p d w)"

abbreviation effects :: "'w os \<Rightarrow> (string \<Rightarrow> bool) \<Rightarrow> 'w \<Rightarrow> 'w \<Rightarrow> bool" where
  "effects os ok \<equiv> (effect os ok)\<^sup>*\<^sup>*"

lemma effects_intros:
  "effects os ok w w"
  "effects os ok w w1 \<Longrightarrow> effects os ok w (snd (os_socket os w1))"
  "effects os ok w w1 \<Longrightarrow> effects os ok w (os_reuseaddr os s w1)"
  "effects os ok w w1 \<Longrightarrow> effects os ok w (snd (os_bind_loopback os s w1))"
  "effects os ok w w1 \<Longrightarrow> effects os ok w (snd (snd (os_getsockname os s w1)))"
  "effects os ok w w1 \<Longrightarrow> effects os ok w (snd (os_listen os s n w1))"
  "effects os ok w w1 \<Longrightarrow> effects os ok w (snd (os_accept os s w1))"
  "effects os ok w w1 \<Longrightarrow> effects os ok w (snd (os_recv os s n w1))"
  "effects os ok w w1 \<Longrightarrow> effects os ok w (snd (os_send os s d w1))"
  "effects os ok w w1 \<Longrightarrow> effects os ok w (os_shutdown os s w1)"
  "effects os ok w w1 \<Longrightarrow> effects os ok w (os_close os s w1)"
  "ok p \<Longrightarrow> effects os ok w w1 \<Longrightarrow> effects os ok w (snd (os_mkdir os p m w1))"
  "ok p \<Longrightarrow> effects os ok w w1 \<Longrightarrow> effects os ok w (snd (os_rmdir os p w1))"
  "ok p \<Longrightarrow> effects os ok w w1 \<Longrightarrow> effects os ok w (snd (os_unlink os p w1))"
  "ok p \<Longrightarrow> effects os ok w w1 \<Longrightarrow> effects os ok w (snd (os_list os p w1))"
  "ok p \<Longrightarrow> effects os ok w w1 \<Longrightarrow> effects os ok w (snd (os_create os p w1))"
  "ok p \<Longrightarrow> effects os ok w w1 \<Longrightarrow> effects os ok w (os_append os p d w1)"
  by (auto intro: rtranclp.rtrancl_into_rtrancl effect.intros)

lemma effects_invariant:
  assumes "effects os ok w w'" "P w" "\<And>u v. effect os ok u v \<Longrightarrow> P u \<Longrightarrow> P v"
  shows "P w'"
  using assms by (induction rule: rtranclp_induct) blast+

lemma effect_mono: "effect os ok w w' \<Longrightarrow> (\<And>p. ok p \<Longrightarrow> ok' p) \<Longrightarrow> effect os ok' w w'"
  by (induction rule: effect.induct) (auto intro: effect.intros)

lemma effects_mono: "effects os ok w w' \<Longrightarrow> (\<And>p. ok p \<Longrightarrow> ok' p) \<Longrightarrow> effects os ok' w w'"
  by (induction rule: rtranclp_induct) (auto intro: effect_mono rtranclp.rtrancl_into_rtrancl)

end
