(* ===== verification/FtpConduct.thy ===== *)
theory FtpConduct
  imports FtpServer Effects
begin

text \<open>
  What every FTP command handler has in common, as one contract. \<open>conducts\<close> says that a handler,
  apart from the two login commands, leaves the shared data and the login of its client alone, moves the current directory only as \<open>next_cwd\<close> does,
  reaches the new world by system calls at resolved paths of a logged-in client, and sends exactly
  one final reply. Each handler is shown to keep the contract; the properties of the commands are
  read off it.
\<close>

subsection \<open>Replies\<close>

text \<open>
  A message is a final reply when it starts with three characters and a space, the first being
  \<open>2\<close> to \<open>5\<close>; \<open>1yz\<close> replies announce another one, and lines such as \<open>211-\<close> are
  part of a longer reply.
\<close>

definition final_reply :: "string \<Rightarrow> bool" where
  "final_reply msg \<longleftrightarrow> 3 < length msg \<and> msg ! 3 = CHR '' ''
     \<and> msg ! 0 \<in> {CHR ''2'', CHR ''3'', CHR ''4'', CHR ''5''}"

definition one_final :: "string list \<Rightarrow> bool" where
  "one_final msgs \<longleftrightarrow> length (filter final_reply msgs) = 1 \<and> final_reply (last msgs)"

subsection \<open>The contract\<close>

definition same_login :: "ftp_client \<Rightarrow> ftp_client \<Rightarrow> bool" where
  "same_login c c' \<longleftrightarrow> cl_user c' = cl_user c \<and> cl_phy_root c' = cl_phy_root c
     \<and> cl_perm c' = cl_perm c \<and> cl_auth c' = cl_auth c"

definition allowed_path :: "'w ftp_thread \<Rightarrow> string \<Rightarrow> bool" where
  "allowed_path st p \<longleftrightarrow> cl_auth (ft_client st) \<and> p \<noteq> []
     \<and> (\<exists>arg. p = resolve (cl_phy_root (ft_client st)) (cl_cwd (ft_client st)) arg)"

definition conducts :: "'w os \<Rightarrow> 'w ftp_thread \<Rightarrow> 'w ftp_thread \<Rightarrow> bool" where
  "conducts os st st' \<longleftrightarrow>
     ft_shared st' = ft_shared st \<and> same_login (ft_client st) (ft_client st')
     \<and> cl_sock (ft_client st') \<in> {cl_sock (ft_client st), kInvalidSock}
     \<and> (cl_cwd (ft_client st') = cl_cwd (ft_client st)
        \<or> (\<exists>arg. cl_cwd (ft_client st') = next_cwd (cl_cwd (ft_client st)) arg))
     \<and> effects os (allowed_path st) (ft_world st) (ft_world st')
     \<and> (cl_sock (ft_client st) \<noteq> kInvalidSock \<longrightarrow>
          (\<exists>msgs. ft_replies st' = ft_replies st @ msgs \<and> one_final msgs))"

text \<open>The same without a final reply: the parts of a handler before its last message.\<close>

definition prepares :: "'w os \<Rightarrow> 'w ftp_thread \<Rightarrow> 'w ftp_thread \<Rightarrow> bool" where
  "prepares os st st' \<longleftrightarrow>
     ft_shared st' = ft_shared st \<and> same_login (ft_client st) (ft_client st')
     \<and> cl_sock (ft_client st') = cl_sock (ft_client st)
     \<and> (cl_cwd (ft_client st') = cl_cwd (ft_client st)
        \<or> (\<exists>arg. cl_cwd (ft_client st') = next_cwd (cl_cwd (ft_client st)) arg))
     \<and> effects os (allowed_path st) (ft_world st) (ft_world st')
     \<and> (\<exists>msgs. ft_replies st' = ft_replies st @ msgs \<and> filter final_reply msgs = [])"

lemma prepares_refl [simp]: "prepares os st st"
  by (simp add: prepares_def same_login_def)

lemma conducts_send:
  assumes "prepares os st st'" "final_reply msg"
  shows "conducts os st (ftp_send os msg st')"
  using assms
  by (auto simp: prepares_def conducts_def ftp_send_def one_final_def same_login_def
      intro: effects_intros)

lemma prepares_send:
  assumes "prepares os st st'" "\<not> final_reply msg"
  shows "prepares os st (ftp_send os msg st')"
  using assms
  by (auto simp: prepares_def ftp_send_def same_login_def intro: effects_intros)

lemma prepares_world:
  assumes "prepares os st st'" "effects os (allowed_path st) (ft_world st') w"
  shows "prepares os st (st'\<lparr>ft_world := w\<rparr>)"
  using assms by (auto simp: prepares_def)

lemma final_reply_simps [simp]:
  "final_reply (ftp_line (CHR ''2'' # a # b # CHR '' '' # r))"
  "final_reply (ftp_line (CHR ''3'' # a # b # CHR '' '' # r))"
  "final_reply (ftp_line (CHR ''4'' # a # b # CHR '' '' # r))"
  "final_reply (ftp_line (CHR ''5'' # a # b # CHR '' '' # r))"
  "\<not> final_reply (ftp_line (CHR ''1'' # r))" "\<not> final_reply (ftp_line (CHR '' '' # r))"
  "\<not> final_reply (ftp_line (a # b # c # CHR ''-'' # r))"
  by (auto simp: final_reply_def ftp_line_def)

lemma final_no_data [simp]: "final_reply msg_no_data"
  by (simp add: msg_no_data_def)

subsection \<open>Each handler keeps the contract\<close>

lemma allowed_path_prepares:
  assumes "prepares os st st'" "cl_cwd (ft_client st') = cl_cwd (ft_client st)"
  shows "allowed_path st' p \<longleftrightarrow> allowed_path st p"
  using assms by (simp add: prepares_def allowed_path_def same_login_def)

lemma ftp_send_client [simp]:
  "ft_client (ftp_send os msg st) = ft_client st" "ft_shared (ftp_send os msg st) = ft_shared st"
  by (simp_all add: ftp_send_def)

lemma prepares_close_pasv: "prepares os st st' \<Longrightarrow> prepares os st (close_pasv os st')"
  by (auto simp: prepares_def close_pasv_def Let_def upd_client_def upd_world_def same_login_def
      sock_close_def intro: effects_intros)

lemma close_pasv_fields [simp]:
  "cl_auth (ft_client (close_pasv os st)) = cl_auth (ft_client st)"
  "cl_perm (ft_client (close_pasv os st)) = cl_perm (ft_client st)"
  "cl_cwd (ft_client (close_pasv os st)) = cl_cwd (ft_client st)"
  "cl_sock (ft_client (close_pasv os st)) = cl_sock (ft_client st)"
  "cl_phy_root (ft_client (close_pasv os st)) = cl_phy_root (ft_client st)"
  "ft_replies (close_pasv os st) = ft_replies st"
  by (simp_all add: close_pasv_def Let_def upd_client_def upd_world_def)

lemma accept_data_fields [simp]:
  "cl_auth (ft_client (snd (accept_data os st))) = cl_auth (ft_client st)"
  "cl_perm (ft_client (snd (accept_data os st))) = cl_perm (ft_client st)"
  "cl_cwd (ft_client (snd (accept_data os st))) = cl_cwd (ft_client st)"
  "cl_phy_root (ft_client (snd (accept_data os st))) = cl_phy_root (ft_client st)"
  "cl_sock (ft_client (snd (accept_data os st))) = cl_sock (ft_client st)"
  "ft_replies (snd (accept_data os st)) = ft_replies st"
  by (simp_all add: accept_data_def Let_def upd_client_def split_beta)

lemma prepares_accept_data: "prepares os st st' \<Longrightarrow> prepares os st (snd (accept_data os st'))"
  by (auto simp: prepares_def accept_data_def Let_def upd_client_def same_login_def split_beta
      sock_close_def intro: effects_intros)

lemma checked_cases:
  "checked os need st =
     (if \<not> cl_auth (ft_client st)
      then (False, ftp_send os (ftp_line ''530 Please login with USER and PASS'') st)
      else if cl_perm (ft_client st) AND need \<noteq> need
      then (False, ftp_send os (ftp_line ''550 Permission denied'') st)
      else (True, st))"
  by (simp add: checked_def require_auth_def require_perm_def)

lemma effects_send_blocks:
  "effects os ok w w1 \<Longrightarrow> effects os ok w (send_blocks os s bs w1)"
  unfolding send_blocks_def
  by (induction bs arbitrary: w1) (auto intro: effects_intros)

lemma effects_dir_listing:
  "ok p \<Longrightarrow> effects os ok w w1 \<Longrightarrow> effects os ok w (snd (dir_listing os p w1))"
  by (auto simp: dir_listing_def split_beta split: option.split intro: effects_intros)

lemma stor_recv_effects:
  assumes "stor_recv os s p w = Some w'"
  shows "effects os (\<lambda>q. q = p) w w'"
proof (rule stor_recv.raw_induct [where P = "\<lambda>os s p w w'. effects os (\<lambda>q. q = p) w w'", OF _ assms])
  fix f os s p w w'
  assume IH: "\<And>os s p w w'. f os s p w = Some w' \<Longrightarrow> effects os (\<lambda>q. q = p) w w'"
    and eq: "(let r = os_recv os s 8192 w in if fst r = [] then Some (snd r)
        else f os s p (os_append os p (fst r) (snd r))) = Some w'"
  have step: "effects os (\<lambda>q. q = p) w (os_append os p d (snd (os_recv os s 8192 w)))" for d
    by (intro effects_intros) simp
  show "effects os (\<lambda>q. q = p) w w'"
    using eq by (auto simp: Let_def split: if_splits
        intro: effects_intros dest!: IH intro: rtranclp_trans [OF step])
qed

lemma effects_stor_recv:
  assumes "stor_recv os s p w1 = Some w2" "ok p" "effects os ok w w1"
  shows "effects os ok w w2"
  using effects_mono [OF stor_recv_effects [OF assms(1)], of ok] assms(2,3)
  by (auto intro: rtranclp_trans)

lemma resolved_allowed:
  "cl_auth (ft_client st) \<Longrightarrow> resolved arg st \<noteq> [] \<Longrightarrow> allowed_path st (resolved arg st)"
  by (auto simp: allowed_path_def resolved_def)

text \<open>Data transfers: after the \<open>150\<close> reply and the accept.\<close>

lemma prepares_transfer:
  "prepares os st (snd (accept_data os (ftp_send os (ftp_line ''150 Opening data connection'') st)))"
  by (intro prepares_accept_data prepares_send) simp_all

lemma list_cmd_conducts: "conducts os st (list_cmd os arg st)"
proof -
  let ?st3 = "snd (accept_data os (ftp_send os (ftp_line ''150 Opening data connection'') st))"
  have "prepares os st (?st3\<lparr>ft_world := sock_close os d (snd (os_send os d
      (fst (dir_listing os p (ft_world ?st3))) (snd (dir_listing os p (ft_world ?st3)))))\<rparr>)"
    if "allowed_path st p" for d p
    using that prepares_transfer [of os st]
    by (auto simp: sock_close_def intro!: prepares_world effects_intros effects_dir_listing)
  then show ?thesis
    using prepares_transfer [of os st]
    by (auto simp: list_cmd_def checked_cases Let_def split_beta
        intro!: conducts_send intro: resolved_allowed)
qed

lemma retr_cmd_conducts: "conducts os st (retr_cmd os arg st)"
proof -
  let ?st3 = "snd (accept_data os (ftp_send os (ftp_line ''150 Opening data connection'') st))"
  have "prepares os st (?st3\<lparr>ft_world := sock_close os d (send_blocks os d bs (ft_world ?st3))\<rparr>)"
    "prepares os st (upd_world (sock_close os d) ?st3)" for d bs
    using prepares_transfer [of os st]
    by (auto simp: sock_close_def upd_world_def
        intro!: prepares_world effects_intros effects_send_blocks)
  then show ?thesis
    using prepares_transfer [of os st]
    by (auto simp: retr_cmd_def checked_cases Let_def split_beta
        intro!: conducts_send split: option.split)
qed

lemma stor_cmd_conducts:
  assumes "stor_cmd os arg st = Some st'"
  shows "conducts os st st'"
proof -
  let ?st3 = "snd (accept_data os (ftp_send os (ftp_line ''150 Opening data connection'') st))"
  have made: "effects os (allowed_path st) (ft_world ?st3) (snd (os_create os p (ft_world ?st3)))"
    if "allowed_path st p" for p
    using that by (intro effects_intros)
  have a: "prepares os st (?st3\<lparr>ft_world := sock_close os d (snd (os_create os p (ft_world ?st3)))\<rparr>)"
    if "allowed_path st p" for d p
    using that prepares_transfer [of os st] made
    by (auto simp: sock_close_def intro!: prepares_world effects_intros)
  have b: "prepares os st (?st3\<lparr>ft_world := sock_close os d w2\<rparr>)"
    if "allowed_path st p" "stor_recv os d p (snd (os_create os p (ft_world ?st3))) = Some w2" for d p w2
    using prepares_transfer [of os st] effects_stor_recv [OF that(2,1) made [OF that(1)]]
    by (auto simp: sock_close_def intro!: prepares_world effects_intros)
  show ?thesis
    using assms prepares_transfer [of os st]
    by (auto simp: stor_cmd_def checked_cases Let_def split_beta
        intro!: conducts_send intro: a b resolved_allowed split: if_splits)
qed

text \<open>The three commands that make one file call.\<close>

lemma prepares_file_call:
  "effects os (allowed_path st) (ft_world st) w \<Longrightarrow> prepares os st (st\<lparr>ft_world := w\<rparr>)"
  by (rule prepares_world) simp_all

lemma dele_cmd_conducts: "conducts os st (dele_cmd os arg st)"
  by (auto simp: dele_cmd_def checked_cases Let_def split_beta
      intro!: conducts_send prepares_file_call effects_intros intro: resolved_allowed)

lemma mkd_cmd_conducts: "conducts os st (mkd_cmd os arg st)"
  by (auto simp: mkd_cmd_def checked_cases Let_def split_beta
      intro!: conducts_send prepares_file_call effects_intros intro: resolved_allowed)

lemma rmd_cmd_conducts: "conducts os st (rmd_cmd os arg st)"
  by (auto simp: rmd_cmd_def checked_cases Let_def split_beta
      intro!: conducts_send prepares_file_call effects_intros intro: resolved_allowed)

lemma cwd_cmd_conducts: "conducts os st (cwd_cmd os arg st)"
proof -
  have "prepares os st (upd_client (\<lambda>c. c\<lparr>cl_cwd := next_cwd (cl_cwd c) arg\<rparr>) st)"
    by (auto simp: prepares_def upd_client_def same_login_def intro: effects_intros)
  then show ?thesis
    by (auto simp: cwd_cmd_def checked_cases Let_def split_beta intro!: conducts_send)
qed

lemma ok_if_conducts: "final_reply msg \<Longrightarrow> conducts os st (ok_if os msg st)"
  by (auto simp: ok_if_def require_auth_def intro!: conducts_send)

lemma feat_cmd_conducts: "conducts os st (feat_cmd os st)"
  unfolding feat_cmd_def by (intro conducts_send prepares_send) simp_all

lemma pasv_cmd_conducts: "conducts os st (pasv_cmd os st)"
proof -
  let ?st1 = "close_pasv os st"
  have base: "prepares os st ?st1"
    by (rule prepares_close_pasv) simp
  have world: "prepares os st (?st1\<lparr>ft_world := w\<rparr>)"
    if "effects os (allowed_path st) (ft_world ?st1) w" for w
    using base that by (rule prepares_world)
  have client: "prepares os st (upd_client (\<lambda>c. c\<lparr>cl_data_sock := d, cl_pasv := b\<rparr>) st')"
    if "prepares os st st'" for d b st'
    using that by (auto simp: prepares_def upd_client_def same_login_def)
  show ?thesis
    by (auto simp: pasv_cmd_def require_auth_def Let_def split_beta set_reuseaddr_def sock_close_def
        intro!: conducts_send client world effects_intros)
qed

lemma close_client_prepares:
  "conducts os st st' \<Longrightarrow> conducts os st (close_client os st')"
  by (auto simp: conducts_def close_client_def close_pasv_def Let_def upd_client_def upd_world_def
      same_login_def sock_close_def sock_shutdown_def intro: effects_intros)

text \<open>Every command but the two that log in.\<close>

lemma dispatch_conducts:
  assumes "dispatch os line st = Some st'" "fst (split_command line) \<notin> {''USER'', ''PASS''}"
  shows "conducts os st st'"
proof -
  have simple: "conducts os st (ftp_send os msg st)" if "final_reply msg" for msg
    using that by (simp add: conducts_send)
  have quit: "conducts os st (close_client os (ftp_send os (ftp_line ''221 Goodbye'') st))"
    by (intro close_client_prepares simple) simp
  show ?thesis
    using assms quit
    by (auto simp: dispatch_def split_beta split: if_splits
        intro: simple list_cmd_conducts retr_cmd_conducts stor_cmd_conducts dele_cmd_conducts
          mkd_cmd_conducts rmd_cmd_conducts cwd_cmd_conducts ok_if_conducts feat_cmd_conducts
          pasv_cmd_conducts)
qed

subsection \<open>The login commands\<close>

lemma user_cmd_answers:
  "cl_sock (ft_client st) \<noteq> kInvalidSock \<Longrightarrow>
     \<exists>msg. ft_replies (user_cmd os arg st) = ft_replies st @ [msg] \<and> final_reply msg"
  by (auto simp: user_cmd_def Let_def ftp_send_def upd_client_def split: option.split)

lemma pass_cmd_answers:
  "cl_sock (ft_client st) \<noteq> kInvalidSock \<Longrightarrow>
     \<exists>msg. ft_replies (pass_cmd os arg st) = ft_replies st @ [msg] \<and> final_reply msg"
  by (auto simp: pass_cmd_def Let_def ftp_send_def upd_client_def upd_world_def split_beta
      split: option.split)

lemma one_final_single: "final_reply msg \<Longrightarrow> one_final [msg]"
  by (simp add: one_final_def)

lemma dispatch_cases:
  assumes "dispatch os line st = Some st'"
  obtains "fst (split_command line) = ''USER''" "st' = user_cmd os (snd (split_command line)) st"
  | "fst (split_command line) = ''PASS''" "st' = pass_cmd os (snd (split_command line)) st"
  | "fst (split_command line) \<notin> {''USER'', ''PASS''}" "conducts os st st'"
  using assms dispatch_conducts [OF assms] by (fastforce simp: dispatch_def split_beta split: if_splits)

end
