(* ===== verification/MemoryOs.thy ===== *)
theory MemoryOs
  imports Platform
begin

text \<open>
  A concrete operating system, to evaluate the model on: one queue of incoming chunks shared by
  all sockets, a set of regular files with their contents, a set of directories, and a record of
  what was sent and closed. It is not part of the model of the program; it instantiates the
  \<open>os\<close> parameter in the witnesses and shows that the documented behaviours of \<open>Platform\<close>
  can hold together.
\<close>

record mem_world =
  mw_chunks :: "string list"
  mw_files :: "(string \<times> string) list"
  mw_dirs :: "string list"
  mw_sent :: "(raw_socket \<times> string) list"
  mw_closed :: "raw_socket list"
  mw_next :: raw_socket

definition mem_world0 :: mem_world where
  "mem_world0 = \<lparr>mw_chunks = [], mw_files = [], mw_dirs = [], mw_sent = [], mw_closed = [], mw_next = 7\<rparr>"

definition mem_recv :: "raw_socket \<Rightarrow> nat \<Rightarrow> mem_world \<Rightarrow> string \<times> mem_world" where
  "mem_recv s n w =
     (case mw_chunks w of
        [] \<Rightarrow> ([], w)
      | c # cs \<Rightarrow> (take n c, w\<lparr>mw_chunks := (if length c \<le> n then cs else drop n c # cs)\<rparr>))"

definition mem_fresh :: "mem_world \<Rightarrow> raw_socket \<times> mem_world" where
  "mem_fresh w = (mw_next w, w\<lparr>mw_next := mw_next w + 1\<rparr>)"

definition mem_create :: "string \<Rightarrow> mem_world \<Rightarrow> bool \<times> mem_world" where
  "mem_create p w =
     (if p \<in> set (mw_dirs w) then (False, w)
      else (True, w\<lparr>mw_files := (p, []) # filter (\<lambda>f. fst f \<noteq> p) (mw_files w)\<rparr>))"

definition mem_append :: "string \<Rightarrow> string \<Rightarrow> mem_world \<Rightarrow> mem_world" where
  "mem_append p d w = w\<lparr>mw_files := map (\<lambda>f. if fst f = p then (p, snd f @ d) else f) (mw_files w)\<rparr>"

definition mem_unlink :: "string \<Rightarrow> mem_world \<Rightarrow> int \<times> mem_world" where
  "mem_unlink p w =
     (if p \<in> fst ` set (mw_files w) then (0, w\<lparr>mw_files := filter (\<lambda>f. fst f \<noteq> p) (mw_files w)\<rparr>)
      else (- 1, w))"

definition mem_mkdir :: "string \<Rightarrow> nat \<Rightarrow> mem_world \<Rightarrow> int \<times> mem_world" where
  "mem_mkdir p m w =
     (if p \<in> set (mw_dirs w) \<or> p \<in> fst ` set (mw_files w) then (- 1, w)
      else (0, w\<lparr>mw_dirs := p # mw_dirs w\<rparr>))"

definition mem_rmdir :: "string \<Rightarrow> mem_world \<Rightarrow> int \<times> mem_world" where
  "mem_rmdir p w =
     (if p \<in> set (mw_dirs w) then (0, w\<lparr>mw_dirs := filter (\<lambda>d. d \<noteq> p) (mw_dirs w)\<rparr>) else (- 1, w))"

definition mem_os :: "mem_world os" where
  "mem_os = \<lparr>
     os_socket = mem_fresh,
     os_reuseaddr = (\<lambda>s w. w),
     os_bind_loopback = (\<lambda>s w. (0, w)),
     os_getsockname = (\<lambda>s w. (0, 40021, w)),
     os_listen = (\<lambda>s n w. (0, w)),
     os_accept = (\<lambda>s w. mem_fresh w),
     os_recv = mem_recv,
     os_send = (\<lambda>s d w. (int (length d), w\<lparr>mw_sent := mw_sent w @ [(s, d)]\<rparr>)),
     os_shutdown = (\<lambda>s w. w),
     os_close = (\<lambda>s w. w\<lparr>mw_closed := mw_closed w @ [s]\<rparr>),
     os_mkdir = mem_mkdir,
     os_rmdir = mem_rmdir,
     os_unlink = mem_unlink,
     os_list = (\<lambda>p w. (Some [], w)),
     os_stat = (\<lambda>p w. map_option (\<lambda>c. \<lparr>st_dir = False, st_size = int (length c), st_mtime = 0\<rparr>)
                               (map_of (mw_files w) p)),
     os_read = (\<lambda>p w. map_of (mw_files w) p),
     os_create = mem_create,
     os_append = mem_append,
     os_localtime = (\<lambda>t. \<lparr>tm_mon = 0, tm_mday = 1, tm_hour = 0, tm_min = 0\<rparr>)\<rparr>"

lemmas mem_defs = mem_os_def mem_recv_def mem_fresh_def mem_create_def mem_append_def
  mem_unlink_def mem_mkdir_def mem_rmdir_def mem_world0_def

lemma mem_recv_bounded: "recv_bounded mem_os"
  by (auto simp: recv_bounded_def mem_defs split: list.split)

lemma mem_send_bounded: "send_bounded mem_os"
  by (auto simp: send_bounded_def mem_defs)

lemma mem_append_read:
  "map_of fs p = Some c \<Longrightarrow>
     map_of (map (\<lambda>f. if fst f = p then (p, snd f @ d) else f) fs) p = Some (c @ d)"
  by (induction fs) (auto split: if_splits)

lemma mem_file_store: "file_store mem_os"
  by (auto simp: file_store_def mem_defs mem_append_read split: list.split if_splits)

text \<open>
  A second, smaller one for the byte streams of MQTT: the world is the bytes one peer has still to
  deliver and the bytes it has been sent. A receive delivers at most three bytes at a time and a
  send accepts at most five, so short transfers happen.
\<close>

definition tape_os :: "(string \<times> string) os" where
  "tape_os = \<lparr>
     os_socket = (\<lambda>w. (3, w)),
     os_reuseaddr = (\<lambda>s w. w),
     os_bind_loopback = (\<lambda>s w. (0, w)),
     os_getsockname = (\<lambda>s w. (0, 1883, w)),
     os_listen = (\<lambda>s n w. (0, w)),
     os_accept = (\<lambda>s w. (4, w)),
     os_recv = (\<lambda>s n w. (take (min 3 n) (fst w), (drop (min 3 n) (fst w), snd w))),
     os_send = (\<lambda>s d w. (int (min 5 (length d)), (fst w, snd w @ take 5 d))),
     os_shutdown = (\<lambda>s w. w),
     os_close = (\<lambda>s w. w),
     os_mkdir = (\<lambda>p m w. (- 1, w)),
     os_rmdir = (\<lambda>p w. (- 1, w)),
     os_unlink = (\<lambda>p w. (- 1, w)),
     os_list = (\<lambda>p w. (None, w)),
     os_stat = (\<lambda>p w. None),
     os_read = (\<lambda>p w. None),
     os_create = (\<lambda>p w. (False, w)),
     os_append = (\<lambda>p d w. w),
     os_localtime = (\<lambda>t. \<lparr>tm_mon = 0, tm_mday = 1, tm_hour = 0, tm_min = 0\<rparr>)\<rparr>"

end
