(* ===== verification/FtpSession.thy ===== *)
theory FtpSession
  imports FtpConduct MemoryOs
begin

unbundle bit_operations_syntax

text \<open>
  Properties of one FTP session: access control, confinement of the file calls, replies, login,
  the session invariant, line assembly, and uploads.
\<close>

subsection \<open>Concrete sessions for evaluation\<close>

definition demo_user :: ftp_user where
  "demo_user = \<lparr>u_name = ''bob'', u_pass = ''pw'', u_root = ''/'', u_perm = ftp_perm_all, u_anon = False\<rparr>"

definition demo_shared :: ftp_shared where
  "demo_shared = \<lparr>fs_users = [demo_user], fs_conn_users = [], fs_tmp = ''/t''\<rparr>"

definition demo_thread :: "mem_world ftp_thread" where
  "demo_thread = \<lparr>ft_client = new_client 5, ft_shared = demo_shared, ft_world = mem_world0, ft_replies = []\<rparr>"

definition demo_logged_in :: "ftp_permission \<Rightarrow> mem_world ftp_thread" where
  "demo_logged_in perm = demo_thread\<lparr>
     ft_client := (new_client 5)\<lparr>cl_user := ''bob'', cl_auth := True, cl_perm := perm, cl_phy_root := ''/t''\<rparr>,
     ft_shared := demo_shared\<lparr>fs_conn_users := [''bob'']\<rparr>\<rparr>"

lemmas demo_defs = demo_user_def demo_shared_def demo_thread_def demo_logged_in_def new_client_def
  kInvalidSock_def ftp_perm_none_def ftp_perm_read_def ftp_perm_write_def ftp_perm_all_def

lemmas line_defs = split_command_def to_upper_def char_of_def bit_0

subsection \<open>Access control\<close>

text \<open>The permission a command asks for, where it asks for one.\<close>

definition needed_permission :: "string \<Rightarrow> ftp_permission option" where
  "needed_permission cmd =
     (if cmd \<in> {''LIST'', ''RETR'', ''CWD'', ''CDUP''} then Some ftp_perm_read
      else if cmd \<in> {''STOR'', ''DELE'', ''RMD'', ''MKD''} then Some ftp_perm_write
      else None)"

text \<open>C5. Before login every command except \<open>USER\<close>, \<open>PASS\<close>, \<open>QUIT\<close>, \<open>NOOP\<close>,
  \<open>FEAT\<close> and the unknown ones is answered by \<open>530\<close> and does nothing else.\<close>

theorem unauthenticated_refused:
  assumes "\<not> cl_auth (ft_client st)"
    and "fst (split_command line) \<in> {''SYST'', ''PWD'', ''TYPE'', ''PASV'', ''LIST'', ''RETR'',
           ''STOR'', ''DELE'', ''RMD'', ''MKD'', ''CWD'', ''CDUP''}"
  shows "dispatch os line st =
    Some (ftp_send os (ftp_line ''530 Please login with USER and PASS'') st)"
proof -
  from assms(2,1) show ?thesis
    by (elim insertE emptyE) (simp_all add: dispatch_def split_beta ok_if_def require_auth_def pasv_cmd_def list_cmd_def retr_cmd_def
        stor_cmd_def dele_cmd_def rmd_cmd_def mkd_cmd_def cwd_cmd_def checked_cases)
qed

theorem unauthenticated_refused_witness:
  "dispatch mem_os ''dele f'' demo_thread =
     Some (ftp_send mem_os (ftp_line ''530 Please login with USER and PASS'') demo_thread)"
  by (rule unauthenticated_refused) (simp_all add: demo_defs line_defs)

lemma read_refused:
  assumes "checked os ftp_perm_read st = (False, r)"
    and "fst (split_command line) \<in> {''LIST'', ''RETR'', ''CWD'', ''CDUP''}"
  shows "dispatch os line st = Some r"
proof -
  have "list_cmd os arg st = r" "retr_cmd os arg st = r" "cwd_cmd os arg st = r" for arg
    using assms(1) by (simp_all add: list_cmd_def retr_cmd_def cwd_cmd_def)
  then show ?thesis
    using assms(2) by (elim insertE emptyE) (simp_all add: dispatch_def split_beta)
qed

lemma write_refused:
  assumes "checked os ftp_perm_write st = (False, r)"
    and "fst (split_command line) \<in> {''STOR'', ''DELE'', ''RMD'', ''MKD''}"
  shows "dispatch os line st = Some r"
proof -
  have "stor_cmd os arg st = Some r" "dele_cmd os arg st = r" "rmd_cmd os arg st = r"
    "mkd_cmd os arg st = r" for arg
    using assms(1) by (simp_all add: stor_cmd_def dele_cmd_def rmd_cmd_def mkd_cmd_def)
  then show ?thesis
    using assms(2) by (elim insertE emptyE) (simp_all add: dispatch_def split_beta)
qed

text \<open>C8. A logged-in client whose permissions do not include the one the command needs gets
  \<open>550 Permission denied\<close>, and nothing else happens.\<close>

theorem permission_refused:
  assumes "cl_auth (ft_client st)"
    and "needed_permission (fst (split_command line)) = Some need"
    and "cl_perm (ft_client st) AND need \<noteq> need"
  shows "dispatch os line st = Some (ftp_send os (ftp_line ''550 Permission denied'') st)"
proof -
  have r: "checked os need st = (False, ftp_send os (ftp_line ''550 Permission denied'') st)"
    using assms(1,3) by (simp add: checked_cases)
  consider "fst (split_command line) \<in> {''LIST'', ''RETR'', ''CWD'', ''CDUP''}" "need = ftp_perm_read"
    | "fst (split_command line) \<in> {''STOR'', ''DELE'', ''RMD'', ''MKD''}" "need = ftp_perm_write"
    using assms(2) unfolding needed_permission_def
    by (cases "fst (split_command line) \<in> {''LIST'', ''RETR'', ''CWD'', ''CDUP''}";
        cases "fst (split_command line) \<in> {''STOR'', ''DELE'', ''RMD'', ''MKD''}") simp_all
  then show ?thesis
  proof cases
    case 1
    with r show ?thesis by (intro read_refused) simp_all
  next
    case 2
    with r show ?thesis by (intro write_refused) simp_all
  qed
qed

theorem permission_refused_witness:
  "dispatch mem_os ''STOR x'' (demo_logged_in ftp_perm_read) =
     Some (ftp_send mem_os (ftp_line ''550 Permission denied'') (demo_logged_in ftp_perm_read))"
  by (rule permission_refused [where need = ftp_perm_write])
    (simp_all add: demo_defs line_defs needed_permission_def)

subsection \<open>Confinement of file calls\<close>

text \<open>Whatever line a client sends (the login commands apart), the world changes only by
  socket calls and by file calls at absolute paths without empty, \<open>.\<close> or \<open>..\<close> segments
  that extend the client's root as strings; and there is no file call before login.\<close>

theorem file_calls_confined:
  assumes "dispatch os line st = Some st'"
    and "fst (split_command line) \<notin> {''USER'', ''PASS''}"
    and "wf_base (cl_phy_root (ft_client st))"
  shows "effects os
    (\<lambda>p. cl_auth (ft_client st) \<and> prefix (cl_phy_root (ft_client st)) p
       \<and> (\<exists>ps. p = abs_path ps \<and> list_all clean_seg ps)) (ft_world st) (ft_world st')"
proof (rule effects_mono)
  show "effects os (allowed_path st) (ft_world st) (ft_world st')"
    using dispatch_conducts [OF assms(1,2)] by (simp add: conducts_def)
next
  fix p
  assume "allowed_path st p"
  then obtain arg where p: "cl_auth (ft_client st)" "p \<noteq> []"
    "p = resolve (cl_phy_root (ft_client st)) (cl_cwd (ft_client st)) arg"
    by (auto simp: allowed_path_def)
  obtain ps where "p = abs_path ps" "prefix (cl_phy_root (ft_client st)) p" "list_all clean_seg ps"
    using resolve_segs_Some [OF assms(3) p(3) [symmetric] p(2)] by metis
  with p(1) show "cl_auth (ft_client st) \<and> prefix (cl_phy_root (ft_client st)) p
       \<and> (\<exists>ps. p = abs_path ps \<and> list_all clean_seg ps)"
    by blast
qed

theorem file_calls_confined_witness:
  "\<exists>st'. dispatch mem_os ''MKD a/./b'' (demo_logged_in ftp_perm_all) = Some st'
     \<and> mw_dirs (ft_world st') = [''/t/a/b'']
     \<and> effects mem_os (\<lambda>p. prefix ''/t'' p) mem_world0 (ft_world st')"
proof -
  let ?st = "demo_logged_in ftp_perm_all"
  have d: "\<exists>st'. dispatch mem_os ''MKD a/./b'' ?st = Some st' \<and> mw_dirs (ft_world st') = [''/t/a/b'']"
    by (simp add: dispatch_def line_defs mkd_cmd_def checked_cases demo_defs resolved_def resolve_def
        resolve_raw_def slashes_def mem_defs ftp_send_def)
  then obtain st' where st': "dispatch mem_os ''MKD a/./b'' ?st = Some st'"
    "mw_dirs (ft_world st') = [''/t/a/b'']"
    by blast
  have "effects mem_os (\<lambda>p. cl_auth (ft_client ?st) \<and> prefix (cl_phy_root (ft_client ?st)) p
       \<and> (\<exists>ps. p = abs_path ps \<and> list_all clean_seg ps)) (ft_world ?st) (ft_world st')"
    by (rule file_calls_confined [OF st'(1)]) (simp_all add: demo_defs line_defs wf_base_def clean_seg_def)
  then have "effects mem_os (\<lambda>p. prefix ''/t'' p) mem_world0 (ft_world st')"
    by (auto simp: demo_defs elim: effects_mono)
  with st' show ?thesis by blast
qed

subsection \<open>Replies\<close>

text \<open>C26. Every command line that the handler returns from is answered on an open control
  connection by exactly one final reply, and that reply is the last message sent.\<close>

theorem one_final_reply:
  assumes "dispatch os line st = Some st'" and "cl_sock (ft_client st) \<noteq> kInvalidSock"
  shows "\<exists>msgs. ft_replies st' = ft_replies st @ msgs \<and> one_final msgs"
  using assms(1)
proof (cases rule: dispatch_cases)
  case 1
  with user_cmd_answers [OF assms(2)] show ?thesis by (metis one_final_single)
next
  case 2
  with pass_cmd_answers [OF assms(2)] show ?thesis by (metis one_final_single)
next
  case 3
  with assms(2) show ?thesis by (simp add: conducts_def)
qed

theorem one_final_reply_witness:
  "\<exists>st'. dispatch mem_os ''feat'' demo_thread = Some st' \<and> (\<exists>msgs. ft_replies st' = msgs \<and> one_final msgs)"
proof -
  obtain st' where d: "dispatch mem_os ''feat'' demo_thread = Some st'"
    by (simp add: dispatch_def line_defs)
  then show ?thesis
    using one_final_reply [OF d] by (auto simp: demo_defs)
qed

end
