(* ===== verification/FtpLogin.thy ===== *)
theory FtpLogin
  imports FtpSession
begin

text \<open>
  Login and session state: what logging in requires, the invariant every session keeps from the
  moment it is accepted, and how the table of connected users follows logins and exits.
\<close>

lemma conducts_auth: "conducts os st st' \<Longrightarrow> cl_auth (ft_client st') = cl_auth (ft_client st)"
  by (simp add: conducts_def same_login_def)

subsection \<open>Logging in\<close>

text \<open>The client was given exactly what one entry of the user table grants.\<close>

definition granted_by :: "ftp_user \<Rightarrow> 'w ftp_thread \<Rightarrow> bool" where
  "granted_by u st \<longleftrightarrow> u \<in> set (fs_users (ft_shared st))
     \<and> cl_user (ft_client st) = u_name u \<and> cl_perm (ft_client st) = u_perm u
     \<and> cl_phy_root (ft_client st) =
         (if u_anon u then fs_tmp (ft_shared st) else fst (physical_root (fs_tmp (ft_shared st)) (u_root u)))
     \<and> u_name u \<in> set (fs_conn_users (ft_shared st))"

lemma find_Some_mem: "find P xs = Some x \<Longrightarrow> x \<in> set xs \<and> P x"
  by (auto simp: find_Some_iff)

lemma user_cmd_grants:
  assumes "cl_auth (ft_client (user_cmd os arg st))" "\<not> cl_auth (ft_client st)"
  shows "\<exists>u. granted_by u (user_cmd os arg st) \<and> u_anon u \<and> (u_name u = arg \<or> arg = ''anonymous'')"
  using assms
  by (auto simp: user_cmd_def Let_def upd_client_def granted_by_def set_oset_put
      split: option.splits if_splits dest!: find_Some_mem)

lemma pass_cmd_grants:
  assumes "cl_auth (ft_client (pass_cmd os arg st))" "\<not> cl_auth (ft_client st)"
  shows "\<exists>u. granted_by u (pass_cmd os arg st) \<and> \<not> u_anon u \<and> u_pass u = arg
    \<and> u_name u = cl_user (ft_client st)"
  using assms
  by (auto simp: pass_cmd_def Let_def upd_client_def upd_world_def granted_by_def set_oset_put
      split_beta split: option.splits if_splits dest!: find_Some_mem)

text \<open>C12. A client becomes logged in only by \<open>USER\<close> naming an anonymous account or by
  \<open>PASS\<close> with the password of the configured account it named before, and it is then listed
  as connected, with exactly the permissions and root of that account.\<close>

theorem login_sound:
  assumes "dispatch os line st = Some st'"
    and "\<not> cl_auth (ft_client st)" and "cl_auth (ft_client st')"
  shows "\<exists>u. granted_by u st' \<and>
    (if u_anon u then fst (split_command line) = ''USER''
     else fst (split_command line) = ''PASS'' \<and> snd (split_command line) = u_pass u
          \<and> u_name u = cl_user (ft_client st))"
  using assms(1)
proof (cases rule: dispatch_cases)
  case 1
  with user_cmd_grants [of os _ st] assms(2,3) show ?thesis by metis
next
  case 2
  with pass_cmd_grants [of os _ st] assms(2,3) show ?thesis by metis
next
  case 3
  with assms(2,3) conducts_auth show ?thesis by blast
qed

definition demo_named :: "mem_world ftp_thread" where
  "demo_named = demo_thread\<lparr>ft_client := (new_client 5)\<lparr>cl_user := ''bob''\<rparr>\<rparr>"

theorem login_sound_witness:
  "\<exists>st'. dispatch mem_os ''PASS pw'' demo_named = Some st' \<and> cl_auth (ft_client st')
     \<and> (\<exists>u. granted_by u st' \<and> u_pass u = ''pw'')"
proof -
  obtain st' where d: "dispatch mem_os ''PASS pw'' demo_named = Some st'" "cl_auth (ft_client st')"
    by (simp add: dispatch_def line_defs pass_cmd_def demo_named_def demo_defs physical_root_def
        upd_client_def)
  have n: "\<not> cl_auth (ft_client demo_named)"
    by (simp add: demo_named_def demo_defs)
  have sc: "split_command ''PASS pw'' = (''PASS'', ''pw'')"
    by (simp add: line_defs)
  from login_sound [OF d(1) n d(2)] d show ?thesis
    by (auto simp: sc split: if_splits)
qed

subsection \<open>The session invariant\<close>

definition session_ok :: "'w ftp_thread \<Rightarrow> bool" where
  "session_ok st \<longleftrightarrow>
     clean_cwd (cl_cwd (ft_client st))
     \<and> oset_ok (fs_conn_users (ft_shared st))
     \<and> (if cl_auth (ft_client st) then prefix (fs_tmp (ft_shared st)) (cl_phy_root (ft_client st))
        else cl_phy_root (ft_client st) = [] \<and> cl_perm (ft_client st) = ftp_perm_none
             \<and> cl_cwd (ft_client st) = [])"

lemma session_ok_new:
  "oset_ok (fs_conn_users shared) \<Longrightarrow>
     session_ok \<lparr>ft_client = new_client s, ft_shared = shared, ft_world = w, ft_replies = []\<rparr>"
  by (simp add: session_ok_def new_client_def clean_cwd_def)

lemma physical_root_prefix: "prefix tmp (fst (physical_root tmp r))"
  by (simp add: physical_root_def Let_def)

lemma session_ok_user_cmd: "session_ok st \<Longrightarrow> session_ok (user_cmd os arg st)"
  by (auto simp: session_ok_def user_cmd_def Let_def upd_client_def oset_ok_put split: option.split)

lemma session_ok_pass_cmd: "session_ok st \<Longrightarrow> session_ok (pass_cmd os arg st)"
  by (auto simp: session_ok_def pass_cmd_def Let_def upd_client_def upd_world_def oset_ok_put
      physical_root_prefix split_beta split: option.split)

lemma next_cwd_needs_login:
  assumes "conducts os st st'" "\<not> cl_auth (ft_client st)" "dispatch os line st = Some st'"
  shows "cl_cwd (ft_client st') = cl_cwd (ft_client st)"
  using assms(3,2)
  by (auto simp: dispatch_def split_beta list_cmd_def retr_cmd_def stor_cmd_def dele_cmd_def
      mkd_cmd_def rmd_cmd_def cwd_cmd_def pasv_cmd_def ok_if_def require_auth_def checked_cases
      user_cmd_def pass_cmd_def Let_def upd_client_def upd_world_def close_client_def
      close_pasv_def feat_cmd_def split: if_splits option.splits)

lemma session_ok_dispatch:
  assumes "session_ok st" "dispatch os line st = Some st'"
  shows "session_ok st'"
  using assms(2)
proof (cases rule: dispatch_cases)
  case 1
  with assms(1) session_ok_user_cmd show ?thesis by blast
next
  case 2
  with assms(1) session_ok_pass_cmd show ?thesis by blast
next
  case 3
  then have "cl_cwd (ft_client st') = cl_cwd (ft_client st)" if "\<not> cl_auth (ft_client st)"
    using next_cwd_needs_login [OF _ that assms(2)] by blast
  with 3 assms(1) show ?thesis
    using next_cwd_keeps_clean by (auto simp: session_ok_def conducts_def same_login_def)
qed

lemma session_ok_drain_lines:
  "drain_lines os buf st = Some (buf', st') \<Longrightarrow> session_ok st \<Longrightarrow> session_ok st'"
proof (induction os buf st rule: drain_lines.induct)
  case (1 os buf st)
  show ?case
  proof (cases "CHR 0x0A \<in> set buf")
    case False
    with "1.prems" show ?thesis by (simp add: drain_lines.simps [of os buf])
  next
    case True
    show ?thesis
    proof (cases "fst (next_line buf) = []")
      case empty: True
      with True "1.prems" "1.IH"(1) show ?thesis by (simp add: drain_lines.simps [of os buf])
    next
      case False
      with True "1.prems" obtain st1 where st1: "dispatch os (fst (next_line buf)) st = Some st1"
        "drain_lines os (snd (next_line buf)) st1 = Some (buf', st')"
        by (auto simp: drain_lines.simps [of os buf] split: option.splits)
      with True False "1.IH"(2) "1.prems"(2) session_ok_dispatch show ?thesis by blast
    qed
  qed
qed

lemma session_ok_world [simp]: "session_ok (st\<lparr>ft_world := w\<rparr>) = session_ok st"
  by (simp add: session_ok_def)

text \<open>The session invariant: from the moment a client is accepted until its loop returns,
  whatever it sends and however it is cut into packets, its current directory is clean, the set of
  connected users is kept ordered and duplicate-free, a client that is not logged in has no root,
  no permission and no directory, and the root of one that is logged in is in the server's
  temporary directory.\<close>

theorem session_invariant:
  assumes "client_loop os buf st = Some st'" and "session_ok st"
  shows "session_ok st'"
proof -
  have "session_ok st \<longrightarrow> session_ok st'"
  proof (rule client_loop.raw_induct [where P = "\<lambda>os buf st st'. session_ok st \<longrightarrow> session_ok st'",
        OF _ assms(1)])
    fix f os buf and st st' :: "'a ftp_thread"
    assume IH: "\<And>os buf st (st' :: 'a ftp_thread). f os buf st = Some st' \<Longrightarrow> session_ok st \<longrightarrow> session_ok st'"
      and eq: "(if cl_sock (ft_client st) = kInvalidSock then Some st
        else let r = os_recv os (cl_sock (ft_client st)) 4095 (ft_world st); st1 = st\<lparr>ft_world := snd r\<rparr>
             in if fst r = [] then Some st1
                else case drain_lines os (buf @ takeWhile (\<lambda>c. c \<noteq> CHR 0x00) (fst r)) st1 of
                       None \<Rightarrow> None | Some (partial1, x) \<Rightarrow> f os partial1 x) = Some st'"
    show "session_ok st \<longrightarrow> session_ok st'"
      using eq by (auto simp: Let_def split: if_splits option.splits
          dest!: IH dest: session_ok_drain_lines)
  qed
  with assms(2) show ?thesis by blast
qed

theorem session_invariant_witness:
  "client_loop mem_os [] demo_thread = Some demo_thread \<and> session_ok demo_thread"
proof -
  have loop: "client_loop mem_os [] demo_thread = Some demo_thread"
    by (simp add: client_loop.simps demo_defs mem_defs)
  have "session_ok demo_thread"
    by (simp add: session_ok_def demo_defs clean_cwd_def)
  with session_invariant [OF loop] loop show ?thesis by blast
qed

subsection \<open>Logging in twice\<close>

text \<open>A client that is logged in and then sends \<open>USER\<close> for another password-protected
  account is renamed without being logged out: the following \<open>PASS\<close> is answered
  \<open>230 Already logged in\<close> whatever the password, permissions and root stay those of the first
  account, and when the client leaves, the second account is taken off the list of connected
  users while the first one stays on it.\<close>

theorem relogin_keeps_first_user_listed:
  assumes "cl_auth (ft_client st)"
    and "find (\<lambda>u. u_name u = name2 \<or> (u_anon u \<and> name2 = ''anonymous'')) (fs_users (ft_shared st)) = Some u2"
    and "\<not> u_anon u2" and "cl_user (ft_client st) \<noteq> name2"
    and "cl_user (ft_client st) \<in> set (fs_conn_users (ft_shared st))"
    and "cl_sock (ft_client st) \<noteq> kInvalidSock"
  shows "let st1 = pass_cmd os anything (user_cmd os name2 st) in
    cl_user (ft_client st1) = name2
    \<and> cl_perm (ft_client st1) = cl_perm (ft_client st)
    \<and> cl_phy_root (ft_client st1) = cl_phy_root (ft_client st)
    \<and> last (ft_replies st1) = ftp_line ''230 Already logged in''
    \<and> cl_user (ft_client st) \<in> set (fs_conn_users (ft_shared (client_exit st1)))"
proof -
  have "u_name u2 = name2"
    using find_Some_mem [OF assms(2)] assms(3) by simp
  then have st1: "pass_cmd os anything (user_cmd os name2 st) = ftp_send os (ftp_line ''230 Already logged in'')
      (ftp_send os (ftp_line ''331 Password required'')
        (upd_client (\<lambda>c. c\<lparr>cl_user := name2\<rparr>) st))"
    using assms(1-3) by (simp add: user_cmd_def pass_cmd_def upd_client_def)
  show ?thesis
    unfolding st1 Let_def using assms(1,4-6)
    by (auto simp: client_exit_def upd_client_def ftp_send_def)
qed

definition demo_user2 :: ftp_user where
  "demo_user2 = \<lparr>u_name = ''eve'', u_pass = ''x'', u_root = ''/'', u_perm = ftp_perm_none, u_anon = False\<rparr>"

definition demo_two :: "mem_world ftp_thread" where
  "demo_two = (demo_logged_in ftp_perm_all)\<lparr>ft_shared :=
     demo_shared\<lparr>fs_users := [demo_user, demo_user2], fs_conn_users := [''bob'']\<rparr>\<rparr>"

theorem relogin_keeps_first_user_listed_witness:
  "''bob'' \<in> set (fs_conn_users (ft_shared
     (client_exit (pass_cmd mem_os ''wrong'' (user_cmd mem_os ''eve'' demo_two)))))"
  using relogin_keeps_first_user_listed [of demo_two "''eve''" demo_user2 mem_os "''wrong''"]
  by (simp add: demo_two_def demo_user2_def demo_defs Let_def)

end
