(* ===== verification/FtpStream.thy ===== *)
theory FtpStream
  imports FtpLogin
begin

unbundle bit_operations_syntax

text \<open>
  The byte streams of an FTP session: assembling command lines out of packets, what happens to
  lines behind a \<open>QUIT\<close>, data transfers, the passive-mode reply, and the return of the loops.
\<close>

subsection \<open>Command lines\<close>

lemma next_line_append:
  assumes "CHR 0x0A \<in> set a"
  shows "next_line (a @ b) = (fst (next_line a), snd (next_line a) @ b)"
proof -
  have "dropWhile (\<lambda>c. c \<noteq> CHR 0x0A) a \<noteq> []"
    using assms by (simp add: dropWhile_eq_Nil_conv)
  with assms show ?thesis
    by (auto simp: next_line_def Let_def takeWhile_append1 dropWhile_append1)
qed


lemma next_line_exact:
  assumes "CHR 0x0A \<notin> set l" "l \<noteq> []" "last l \<noteq> CHR 0x0D"
  shows "next_line (l @ CHR 0x0A # rest) = (l, rest)"
proof -
  have "takeWhile (\<lambda>c. c \<noteq> CHR 0x0A) (l @ CHR 0x0A # rest) = l"
    "dropWhile (\<lambda>c. c \<noteq> CHR 0x0A) (l @ CHR 0x0A # rest) = CHR 0x0A # rest"
    using assms(1) by (induction l) auto
  with assms(2,3) show ?thesis by (simp add: next_line_def)
qed

lemma drain_lines_line:
  assumes "CHR 0x0A \<notin> set l" "l \<noteq> []" "last l \<noteq> CHR 0x0D"
  shows "drain_lines os (l @ CHR 0x0A # rest) st =
    (case dispatch os l st of None \<Rightarrow> None | Some st1 \<Rightarrow> drain_lines os rest st1)"
  using assms by (subst drain_lines.simps) (simp add: next_line_exact split: option.split)

lemma drain_lines_Nil [simp]: "drain_lines os [] st = Some ([], st)"
  by (simp add: drain_lines.simps)

text \<open>Lines that arrive in the same packet behind a \<open>QUIT\<close> are still carried out: a
  \<open>DELE\<close> there removes the file although the control connection has been closed, and no
  reply tells the client.\<close>

theorem delete_behind_quit:
  assumes "cl_auth (ft_client st)" and "cl_perm (ft_client st) AND ftp_perm_write = ftp_perm_write"
    and "f \<noteq> []" "CHR 0x0A \<notin> set f" "last f \<noteq> CHR 0x0D" and "resolved f st \<noteq> []"
    and "cl_sock (ft_client st) \<noteq> kInvalidSock"
  shows "\<exists>st' w. drain_lines os (''QUIT'' @ CHR 0x0A # (''DELE '' @ f) @ [CHR 0x0A]) st = Some ([], st')
    \<and> ft_world st' = snd (os_unlink os (resolved f st) w)
    \<and> ft_replies st' = ft_replies st @ [ftp_line ''221 Goodbye'']"
proof -
  define st1 where "st1 = close_client os (ftp_send os (ftp_line ''221 Goodbye'') st)"
  have quit: "dispatch os ''QUIT'' st = Some st1"
    by (simp add: dispatch_def line_defs st1_def)
  have st1: "cl_auth (ft_client st1) = cl_auth (ft_client st)"
    "cl_perm (ft_client st1) = cl_perm (ft_client st)" "resolved f st1 = resolved f st"
    "cl_sock (ft_client st1) = kInvalidSock" "ft_replies st1 = ft_replies st @ [ftp_line ''221 Goodbye'']"
    using assms(7)
    by (simp_all add: st1_def close_client_def close_pasv_def Let_def upd_client_def upd_world_def
        ftp_send_def resolved_def)
  have dele: "dispatch os (''DELE '' @ f) st1 = Some (dele_cmd os f st1)"
    by (simp add: dispatch_def line_defs)
  have "dele_cmd os f st1 = st1\<lparr>ft_world := snd (os_unlink os (resolved f st) (ft_world st1))\<rparr>"
    using assms(1-3,6) st1
    by (simp add: dele_cmd_def checked_cases Let_def split_beta ftp_send_def)
  then have "drain_lines os (''QUIT'' @ CHR 0x0A # (''DELE '' @ f) @ [CHR 0x0A]) st =
      Some ([], st1\<lparr>ft_world := snd (os_unlink os (resolved f st) (ft_world st1))\<rparr>)"
    using assms(3-5) drain_lines_line [of "''QUIT''" os "(''DELE '' @ f) @ [CHR 0x0A]" st]
      drain_lines_line [of "''DELE '' @ f" os "[]" st1] quit dele
    by simp
  with st1(5) show ?thesis by auto
qed

theorem delete_behind_quit_witness:
  "\<exists>st' w. drain_lines mem_os (''QUIT'' @ CHR 0x0A # (''DELE '' @ ''f'') @ [CHR 0x0A])
       (demo_logged_in ftp_perm_all) = Some ([], st')
    \<and> ft_world st' = snd (os_unlink mem_os ''/t/f'' w)
    \<and> ft_replies st' = [ftp_line ''221 Goodbye'']"
proof -
  have r: "resolved ''f'' (demo_logged_in ftp_perm_all) = ''/t/f''"
    by (simp add: resolved_def demo_defs resolve_def resolve_raw_def slashes_def)
  show ?thesis
    using delete_behind_quit [of "demo_logged_in ftp_perm_all" "''f''" mem_os]
    by (simp add: r) (simp add: demo_defs)
qed

lemma ftp_line_inject [simp]: "ftp_line a = ftp_line b \<longleftrightarrow> a = b"
  by (simp add: ftp_line_def)

lemma msg_no_data_neq [simp]:
  "msg_no_data \<noteq> ftp_line (CHR ''2'' # r)" "ftp_line (CHR ''2'' # r) \<noteq> msg_no_data"
  by (simp_all add: msg_no_data_def)

lemma last_reply_send:
  "cl_sock (ft_client st) \<noteq> kInvalidSock \<Longrightarrow> last (ft_replies (ftp_send os msg st)) = msg"
  by (simp add: ftp_send_def)

subsection \<open>Passive mode\<close>

text \<open>Unless it is answered \<open>425\<close>, \<open>PASV\<close> keeps a valid listening socket for the
  next transfer, and its reply encodes the port the system gave that socket: two decimal numbers
  below 256 from which a client computes it.\<close>

theorem pasv_reply_port:
  assumes "cl_auth (ft_client st)" and "cl_sock (ft_client st) \<noteq> kInvalidSock"
    and "last (ft_replies (pasv_cmd os st)) \<noteq> msg_no_data"
  shows "\<exists>p1 p2 w port. cl_pasv (ft_client (pasv_cmd os st))
    \<and> cl_data_sock (ft_client (pasv_cmd os st)) \<noteq> kInvalidSock
    \<and> port = fst (snd (os_getsockname os (cl_data_sock (ft_client (pasv_cmd os st))) w))
    \<and> last (ft_replies (pasv_cmd os st)) =
          ftp_line (''227 Entering Passive Mode (127,0,0,1,'' @ p1 @ '','' @ p2 @ '')'')
    \<and> read_base 10 p1 < 256 \<and> read_base 10 p2 < 256
    \<and> read_base 10 p1 * 256 + read_base 10 p2 = unat port"
proof -
  have num: "read_base 10 (dec_string (unat port div 256)) < 256
      \<and> read_base 10 (dec_string (unat port mod 256)) < 256
      \<and> read_base 10 (dec_string (unat port div 256)) * 256
          + read_base 10 (dec_string (unat port mod 256)) = unat port" for port :: "16 word"
  proof -
    have "unat port < 65536"
      using unsigned_less [of port] by simp
    then have "unat port div 256 < 256"
      by (simp add: div_less_iff_less_mult)
    then show ?thesis by simp
  qed
  obtain data_sock w where sock: "data_sock \<noteq> kInvalidSock"
    "pasv_cmd os st = ftp_send os (ftp_line (''227 Entering Passive Mode (127,0,0,1,''
        @ dec_string (unat (fst (snd (os_getsockname os data_sock w))) div 256) @ '',''
        @ dec_string (unat (fst (snd (os_getsockname os data_sock w))) mod 256) @ '')''))
      (upd_client (\<lambda>c. c\<lparr>cl_data_sock := data_sock, cl_pasv := True\<rparr>)
         ((close_pasv os st)\<lparr>ft_world := snd (snd (os_getsockname os data_sock w))\<rparr>))"
    using assms
    by (simp add: pasv_cmd_def require_auth_def Let_def split_beta last_reply_send split: if_splits)
  show ?thesis
    unfolding sock(2)
    by (rule exI [of _ "dec_string (unat (fst (snd (os_getsockname os data_sock w))) div 256)"],
        rule exI [of _ "dec_string (unat (fst (snd (os_getsockname os data_sock w))) mod 256)"],
        rule exI [of _ w], rule exI [of _ "fst (snd (os_getsockname os data_sock w))"])
      (use num assms(2) sock(1) in \<open>simp add: upd_client_def last_reply_send\<close>)
qed

theorem pasv_reply_port_witness:
  "cl_pasv (ft_client (pasv_cmd mem_os (demo_logged_in ftp_perm_all)))"
proof -
  have "last (ft_replies (pasv_cmd mem_os (demo_logged_in ftp_perm_all))) \<noteq> msg_no_data"
    by (simp add: pasv_cmd_def require_auth_def Let_def close_pasv_def upd_client_def upd_world_def
        ftp_send_def demo_defs mem_defs kSockErr_def set_reuseaddr_def)
  then show ?thesis
    using pasv_reply_port [of "demo_logged_in ftp_perm_all" mem_os] by (auto simp: demo_defs)
qed

subsection \<open>Uploads and downloads\<close>

text \<open>The chunks a data connection delivers, as \<open>stor_recv\<close> appends them to the file.\<close>

inductive received :: "'w os \<Rightarrow> raw_socket \<Rightarrow> string \<Rightarrow> 'w \<Rightarrow> string list \<Rightarrow> 'w \<Rightarrow> bool" for os s p where
  received_end: "fst (os_recv os s 8192 w) = [] \<Longrightarrow> received os s p w [] (snd (os_recv os s 8192 w))"
| received_more: "fst (os_recv os s 8192 w) \<noteq> [] \<Longrightarrow>
     received os s p (os_append os p (fst (os_recv os s 8192 w)) (snd (os_recv os s 8192 w))) ds w'
     \<Longrightarrow> received os s p w (fst (os_recv os s 8192 w) # ds) w'"

inductive_cases received_NilE: "received os s p w [] w'"

lemma stor_recv_received:
  assumes "stor_recv os s p w = Some w'"
  shows "\<exists>ds. received os s p w ds w'"
proof (rule stor_recv.raw_induct [where P = "\<lambda>os s p w w'. \<exists>ds. received os s p w ds w'", OF _ assms])
  fix f os s p w w'
  assume IH: "\<And>os s p w w'. f os s p w = Some w' \<Longrightarrow> \<exists>ds. received os s p w ds w'"
    and eq: "(let r = os_recv os s 8192 w in if fst r = [] then Some (snd r)
        else f os s p (os_append os p (fst r) (snd r))) = Some w'"
  show "\<exists>ds. received os s p w ds w'"
  proof (cases "fst (os_recv os s 8192 w) = []")
    case True
    with eq show ?thesis using received_end [OF True, of p] by (auto simp: Let_def)
  next
    case False
    with eq IH obtain ds where
      "received os s p (os_append os p (fst (os_recv os s 8192 w)) (snd (os_recv os s 8192 w))) ds w'"
      by (fastforce simp: Let_def)
    with False show ?thesis by (blast intro: received_more)
  qed
qed

lemma received_content:
  "received os s p w ds w' \<Longrightarrow> file_store os \<Longrightarrow> os_read os p w = Some c
     \<Longrightarrow> os_read os p w' = Some (c @ concat ds)"
proof (induction arbitrary: c rule: received.induct)
  case (received_end w)
  then show ?case by (simp add: file_store_def)
next
  case (received_more w ds w')
  then have "os_read os p (os_append os p (fst (os_recv os s 8192 w)) (snd (os_recv os s 8192 w)))
      = Some (c @ fst (os_recv os s 8192 w))"
    by (simp add: file_store_def)
  with received_more.IH received_more.prems(1) show ?case by simp
qed


text \<open>A session whose next data connection delivers two chunks.\<close>

definition demo_upload :: "mem_world ftp_thread" where
  "demo_upload = (demo_logged_in ftp_perm_all)\<lparr>
     ft_client := (ft_client (demo_logged_in ftp_perm_all))\<lparr>cl_data_sock := 6, cl_pasv := True\<rparr>,
     ft_world := mem_world0\<lparr>mw_chunks := [''ab'', ''c'']\<rparr>\<rparr>"

lemma demo_stor:
  "\<exists>st'. stor_cmd mem_os ''f'' demo_upload = Some st'
     \<and> last (ft_replies st') = ftp_line ''226 Transfer complete''"
  by (simp add: stor_cmd_def checked_cases demo_upload_def demo_defs accept_data_def Let_def
      upd_client_def ftp_send_def resolved_def resolve_def resolve_raw_def slashes_def mem_defs
      sock_close_def stor_recv.simps)


text \<open>A download that is not refused sends the file, whole and in order, in non-empty
  blocks of at most 8192 bytes on the accepted data connection, closes that connection, and only
  then confirms with \<open>226\<close>.\<close>

theorem retr_sends_file:
  assumes "cl_auth (ft_client st)" and "cl_perm (ft_client st) AND ftp_perm_read = ftp_perm_read"
    and "arg \<noteq> []" and "resolved arg st \<noteq> []"
    and "accept_data os (ftp_send os (ftp_line ''150 Opening data connection'') st) = (d, st3)"
    and "d \<noteq> kInvalidSock" and "os_read os (resolved arg st) (ft_world st3) = Some content"
  shows "\<exists>bs. concat bs = content \<and> (\<forall>b\<in>set bs. b \<noteq> [] \<and> length b \<le> 8192)
    \<and> retr_cmd os arg st = ftp_send os (ftp_line ''226 Transfer complete'')
        (st3\<lparr>ft_world := sock_close os d (send_blocks os d bs (ft_world st3))\<rparr>)"
  using assms concat_blocks [of 8192 content] blocks_nonempty [of _ 8192 content]
  by (intro exI [of _ "blocks 8192 content"])
    (auto simp: retr_cmd_def checked_cases Let_def)

definition demo_download :: "mem_world ftp_thread" where
  "demo_download = demo_upload\<lparr>ft_world := mem_world0\<lparr>mw_files := [(''/t/f'', ''data'')]\<rparr>\<rparr>"

theorem retr_sends_file_witness:
  "\<exists>bs st3. concat bs = ''data'' \<and> retr_cmd mem_os ''f'' demo_download
     = ftp_send mem_os (ftp_line ''226 Transfer complete'')
         (st3\<lparr>ft_world := sock_close mem_os 7 (send_blocks mem_os 7 bs (ft_world st3))\<rparr>)"
proof -
  let ?st3 = "snd (accept_data mem_os (ftp_send mem_os (ftp_line ''150 Opening data connection'') demo_download))"
  have a: "accept_data mem_os (ftp_send mem_os (ftp_line ''150 Opening data connection'') demo_download)
      = (7, ?st3)" "os_read mem_os (resolved ''f'' demo_download) (ft_world ?st3) = Some ''data''"
    by (simp_all add: demo_download_def demo_upload_def demo_defs accept_data_def Let_def ftp_send_def
        upd_client_def mem_defs resolved_def resolve_def resolve_raw_def slashes_def sock_close_def)
  have "\<exists>bs. concat bs = ''data'' \<and> (\<forall>b\<in>set bs. b \<noteq> [] \<and> length b \<le> 8192)
    \<and> retr_cmd mem_os ''f'' demo_download = ftp_send mem_os (ftp_line ''226 Transfer complete'')
        (?st3\<lparr>ft_world := sock_close mem_os 7 (send_blocks mem_os 7 bs (ft_world ?st3))\<rparr>)"
    by (rule retr_sends_file [OF _ _ _ _ a(1) _ a(2)])
      (simp_all add: demo_download_def demo_upload_def demo_defs resolved_def resolve_def
          resolve_raw_def slashes_def)
  then show ?thesis by blast
qed

subsection \<open>The loops return\<close>

text \<open>
  \<open>finite_input os m\<close>: the peers send a finite amount. \<open>m\<close> bounds what is still to come:
  a receive that delivers bytes lowers it and no call raises it.
\<close>

definition finite_input :: "'w os \<Rightarrow> ('w \<Rightarrow> nat) \<Rightarrow> bool" where
  "finite_input os m \<longleftrightarrow> (\<forall>w w'. effect os (\<lambda>_. True) w w' \<longrightarrow> m w' \<le> m w)
     \<and> (\<forall>s n w. fst (os_recv os s n w) \<noteq> [] \<longrightarrow> m (snd (os_recv os s n w)) < m w)"

lemma finite_input_effects:
  "finite_input os m \<Longrightarrow> effects os ok w w' \<Longrightarrow> m w' \<le> m w"
proof -
  assume fin: "finite_input os m" and "effects os ok w w'"
  then have "effects os (\<lambda>_. True) w w'"
    by (auto elim: effects_mono)
  then show ?thesis
    using fin by (induction rule: rtranclp_induct) (auto simp: finite_input_def intro: order_trans)
qed

lemma stor_recv_returns: "finite_input os m \<Longrightarrow> \<exists>w'. stor_recv os s p w = Some w'"
proof (induction "m w" arbitrary: w rule: less_induct)
  case less
  let ?r = "os_recv os s 8192 w"
  show ?case
  proof (cases "fst ?r = []")
    case True
    then show ?thesis by (simp add: stor_recv.simps Let_def)
  next
    case False
    have "m (os_append os p (fst ?r) (snd ?r)) \<le> m (snd ?r)"
      by (rule finite_input_effects [OF less.prems, of "\<lambda>_. True"]) (auto intro: effects_intros)
    also have "\<dots> < m w"
      using less.prems False by (simp add: finite_input_def)
    finally show ?thesis
      using less.hyps less.prems False by (subst stor_recv.simps) (simp add: Let_def)
  qed
qed

lemma dispatch_returns:
  assumes "finite_input os m"
  shows "\<exists>st'. dispatch os line st = Some st'"
proof -
  have "\<exists>st'. stor_cmd os arg st = Some st'" for arg
    using stor_recv_returns [OF assms]
    by (simp add: stor_cmd_def Let_def split_beta)
  then show ?thesis
    by (auto simp: dispatch_def split_beta)
qed

lemma login_effects:
  "effects os (\<lambda>_. True) (ft_world st) (ft_world (user_cmd os arg st))"
  "effects os (\<lambda>_. True) (ft_world st) (ft_world (pass_cmd os arg st))"
  by (auto simp: user_cmd_def pass_cmd_def Let_def upd_client_def upd_world_def ftp_send_def split_beta
      split: option.split intro: effects_intros)

lemma dispatch_effects:
  assumes "dispatch os line st = Some st'"
  shows "effects os (\<lambda>_. True) (ft_world st) (ft_world st')"
  using assms
proof (cases rule: dispatch_cases)
  case 3
  then show ?thesis using effects_mono [of os "allowed_path st" _ _ "\<lambda>_. True"] by (simp add: conducts_def)
qed (simp_all add: login_effects)

lemma drain_lines_returns:
  assumes "finite_input os m"
  shows "\<exists>buf' st'. drain_lines os buf st = Some (buf', st') \<and> m (ft_world st') \<le> m (ft_world st)"
proof (induction "length buf" arbitrary: buf st rule: less_induct)
  case less
  show ?case
  proof (cases "CHR 0x0A \<in> set buf")
    case False
    then show ?thesis by (simp add: drain_lines.simps)
  next
    case True
    note shorter = next_line_shorter [OF True]
    show ?thesis
    proof (cases "fst (next_line buf) = []")
      case empty: True
      with True less.hyps [OF shorter, of st] show ?thesis by (subst drain_lines.simps) simp
    next
      case False
      obtain st1 where st1: "dispatch os (fst (next_line buf)) st = Some st1"
        using dispatch_returns [OF assms] by blast
      have "m (ft_world st1) \<le> m (ft_world st)"
        using finite_input_effects [OF assms dispatch_effects [OF st1]] .
      with True False st1 less.hyps [OF shorter, of st1] show ?thesis
        by (subst drain_lines.simps) (auto intro: order_trans)
    qed
  qed
qed


lemma mem_finite_input: "finite_input mem_os (\<lambda>w. length (concat (mw_chunks w)))"
proof -
  have "length (concat (mw_chunks w')) \<le> length (concat (mw_chunks w))"
    if "effect mem_os (\<lambda>_. True) w w'" for w w'
    using that by cases (auto simp: mem_defs split: list.split)
  then show ?thesis
    by (auto simp: finite_input_def mem_defs split: list.splits)
qed


end
