(* ===== verification/Listener.thy ===== *)
theory Listener
  imports Platform
begin

text \<open>
  Opening the listening socket, as \<open>ftp_server.cpp\<close> and \<open>mqtt_server.cpp\<close> both do in
  \<open>start\<close>: \<open>socket\<close>, \<open>SO_REUSEADDR\<close>, \<open>bind\<close> to port 0 of the loopback
  address, \<open>getsockname\<close>, \<open>listen\<close>. Each failure throws, after closing the socket. The
  port field is overwritten as soon as \<open>getsockname\<close> has answered, so it changes even when
  \<open>listen\<close> then fails.
\<close>

definition open_listener ::
  "'w os \<Rightarrow> 16 word \<Rightarrow> 'w \<Rightarrow> unit throwing \<times> raw_socket \<times> 16 word \<times> 'w" where
  "open_listener os port w =
     (let (sock, w1) = os_socket os w
      in if sock = kInvalidSock then (Inl ''socket creation failed'', kInvalidSock, port, w1)
      else (let w2 = set_reuseaddr os sock w1;
                (bind_rc, w3) = os_bind_loopback os sock w2
            in if bind_rc = kSockErr then (Inl ''bind failed'', kInvalidSock, port, sock_close os sock w3)
            else (let (name_rc, bound, w4) = os_getsockname os sock w3
                  in if name_rc = kSockErr
                     then (Inl ''getsockname failed'', kInvalidSock, port, sock_close os sock w4)
                     else (let (listen_rc, w5) = os_listen os sock 10 w4
                           in if listen_rc = kSockErr
                              then (Inl ''listen failed'', kInvalidSock, bound, sock_close os sock w5)
                              else (Inr (), sock, bound, w5)))))"

lemma open_listener_sock:
  "fst (snd (open_listener os port w)) \<noteq> kInvalidSock \<longleftrightarrow> fst (open_listener os port w) = Inr ()"
  by (simp add: open_listener_def Let_def split_beta)

end
