(* ===== verification/Contracts.thy ===== *)
theory Contracts
  imports Prelude
begin

text \<open>
  The interfaces the servers share. Every server of the repository can be started and stopped and
  reports an address while it runs (\<open>lifecycle\<close>); some keep a history a test can read back and
  clear (\<open>journal\<close>); the file servers keep user accounts (\<open>accounts\<close>). The classes have no common base class in the code, so
  the contracts are stated here once, with what follows from them, and interpreted for each server
  in the theory that models it.
\<close>

subsection \<open>Starting and stopping\<close>

datatype life_call = Start | Stop

locale lifecycle =
  fixes running :: "'s \<Rightarrow> bool"
    and start :: "'s \<Rightarrow> unit throwing \<times> 's"
    and stop :: "'s \<Rightarrow> 's"
    and url :: "'s \<Rightarrow> string throwing"
    and already :: string
    and down :: string
  assumes start_running: "running s \<Longrightarrow> start s = (Inl already, s)"
    and start_idle: "\<not> running s \<Longrightarrow> running (snd (start s)) \<longleftrightarrow> fst (start s) = Inr ()"
    and stop_running: "\<not> running (stop s)"
    and stop_idle: "\<not> running s \<Longrightarrow> stop s = s"
    and url_running: "running s \<Longrightarrow> \<exists>u. url s = Inr u"
    and url_idle: "\<not> running s \<Longrightarrow> url s = Inl down"
begin

lemma stop_twice: "stop (stop s) = stop s"
  using stop_running stop_idle by blast

lemma start_twice: "fst (start s) = Inr () \<Longrightarrow> start (snd (start s)) = (Inl already, snd (start s))"
  by (cases "running s") (auto simp: start_running start_idle)

lemma running_after_start: "running (snd (start s)) \<longleftrightarrow> running s \<or> fst (start s) = Inr ()"
  by (cases "running s") (auto simp: start_running start_idle)

lemma url_iff: "(\<exists>u. url s = Inr u) \<longleftrightarrow> running s"
  using url_running url_idle by (cases "running s") auto

definition call :: "'s \<Rightarrow> life_call \<Rightarrow> 's" where
  "call s c = (case c of Start \<Rightarrow> snd (start s) | Stop \<Rightarrow> stop s)"

lemma stopped_after_calls: "\<not> running (foldl call s (cs @ [Stop]))"
  by (simp add: call_def stop_running)

lemma running_after_calls:
  assumes "running (foldl call s cs)"
  shows "(running s \<and> Stop \<notin> set cs)
    \<or> (\<exists>before after. cs = before @ [Start] @ after \<and> Stop \<notin> set after
        \<and> fst (start (foldl call s before)) = Inr ())"
  using assms
proof (induction cs rule: rev_induct)
  case (snoc c cs)
  show ?case
  proof (cases c)
    case Stop
    with snoc.prems show ?thesis by (simp add: call_def stop_running)
  next
    case Start
    show ?thesis
    proof (cases "running (foldl call s cs)")
      case True
      from snoc.IH [OF this] show ?thesis
      proof (elim disjE exE conjE)
        fix before after
        assume "cs = before @ [life_call.Start] @ after" "Stop \<notin> set after"
          "fst (start (foldl call s before)) = Inr ()"
        with Start have "cs @ [c] = before @ [life_call.Start] @ (after @ [c]) \<and> Stop \<notin> set (after @ [c])
            \<and> fst (start (foldl call s before)) = Inr ()"
          by simp
        then show ?thesis by blast
      qed (simp add: Start)
    next
      case False
      moreover have "running (snd (start (foldl call s cs)))"
        using snoc.prems Start by (simp add: call_def [of _ life_call.Start])
      ultimately have "fst (start (foldl call s cs)) = Inr ()"
        by (simp add: start_idle)
      with Start have "cs @ [c] = cs @ [life_call.Start] @ [] \<and> Stop \<notin> set []
          \<and> fst (start (foldl call s cs)) = Inr ()"
        by simp
      then show ?thesis by blast
    qed
  qed
qed simp

end

subsection \<open>Histories\<close>

locale journal =
  fixes push :: "'e \<Rightarrow> 's \<Rightarrow> 's"
    and entries :: "'s \<Rightarrow> 'e list"
    and wipe :: "'s \<Rightarrow> 's"
  assumes entries_push: "entries (push e s) = entries s @ [e]"
    and entries_wipe: "entries (wipe s) = []"
begin

lemma entries_fold: "entries (fold push es s) = entries s @ es"
  by (induction es arbitrary: s) (simp_all add: entries_push)

lemma entries_since_wipe: "entries (fold push es (wipe s)) = es"
  by (simp add: entries_fold entries_wipe)

lemma prefix_fold: "prefix (entries s) (entries (fold push es s))"
  by (simp add: entries_fold)

end

subsection \<open>Accounts\<close>

locale accounts =
  fixes add :: "string \<Rightarrow> 'c \<Rightarrow> 's \<Rightarrow> 's"
    and account :: "'s \<Rightarrow> string \<rightharpoonup> 'c"
    and clear :: "'s \<Rightarrow> 's"
  assumes account_add: "account (add name cred s) = (account s)(name \<mapsto> cred)"
    and account_clear: "account (clear s) = Map.empty"
begin

lemma account_fold:
  "account (fold (\<lambda>(name, cred). add name cred) ncs s) = account s ++ map_of (rev ncs)"
proof (induction ncs rule: rev_induct)
  case (snoc nc ncs)
  then show ?case by (cases nc) (auto simp: account_add map_add_def fun_eq_iff)
qed simp

lemma account_after_clear:
  "account (fold (\<lambda>(name, cred). add name cred) ncs (clear s)) = map_of (rev ncs)"
  by (simp add: account_fold account_clear)

lemma last_add_wins:
  "account (add name c2 (add name c1 s)) = account (add name c2 s)"
  by (simp add: account_add)

lemma adds_commute:
  "name1 \<noteq> name2 \<Longrightarrow> account (add name1 c1 (add name2 c2 s)) = account (add name2 c2 (add name1 c1 s))"
  by (simp add: account_add fun_upd_twist)

end

end
