(* ===== verification/FtpSystem.thy ===== *)
theory FtpSystem
  imports FtpLogin Listener Contracts
begin

text \<open>
  The whole FTP server: the \<open>implementation\<close> object of \<open>ftp_server.cpp\<close>, its public
  operations, its accepting thread and its client threads, as a step relation. The
  \<open>Client\<close> objects are shared between the client list and the threads (\<open>shared_ptr\<close> in
  the code), so they live in a store \<open>sv_objects\<close>, an object being named by its index; the
  list of clients holds indexes, and so does the list of live client threads, each with the input
  it has received and not yet cut into lines.

  Granularity: one step is one public call, one accepted connection, one receive, or one command
  of one thread; \<open>stop\<close> is split in two, since it waits for the threads to end: the request,
  which is a step, and its return, which is possible when no thread is left. Interleavings inside
  a command are not modelled. The waiting of \<open>select\<close> is not either: the accepting thread may
  accept or end at any time, which covers every result of \<open>select\<close>.
\<close>

subsection \<open>State\<close>

record 'w ftp_server =
  sv_ctrl :: raw_socket
  sv_port :: "16 word"
  sv_running :: bool
  sv_accepting :: bool
  sv_shared :: ftp_shared
  sv_objects :: "ftp_client list"
  sv_clients :: "nat list"
  sv_threads :: "(nat \<times> string) list"
  sv_replies :: "nat \<Rightarrow> string list"
  sv_world :: 'w

definition new_server :: "string \<Rightarrow> 'w \<Rightarrow> 'w ftp_server" where
  "new_server tmp w = \<lparr>sv_ctrl = kInvalidSock, sv_port = 0, sv_running = False, sv_accepting = False,
     sv_shared = \<lparr>fs_users = [], fs_conn_users = [], fs_tmp = tmp\<rparr>, sv_objects = [], sv_clients = [],
     sv_threads = [], sv_replies = (\<lambda>_. []), sv_world = w\<rparr>"

text \<open>The state as thread \<open>i\<close> sees it, and what it writes back.\<close>

definition view :: "nat \<Rightarrow> 'w ftp_server \<Rightarrow> 'w ftp_thread" where
  "view i s = \<lparr>ft_client = sv_objects s ! i, ft_shared = sv_shared s, ft_world = sv_world s,
                ft_replies = sv_replies s i\<rparr>"

definition put :: "nat \<Rightarrow> 'w ftp_thread \<Rightarrow> 'w ftp_server \<Rightarrow> 'w ftp_server" where
  "put i st s = s\<lparr>sv_objects := (sv_objects s)[i := ft_client st], sv_shared := ft_shared st,
                  sv_world := ft_world st, sv_replies := (sv_replies s)(i := ft_replies st)\<rparr>"

definition set_input :: "nat \<Rightarrow> string \<Rightarrow> 'w ftp_server \<Rightarrow> 'w ftp_server" where
  "set_input i buf s =
     s\<lparr>sv_threads := map (\<lambda>t. if fst t = i then (i, buf) else t) (sv_threads s)\<rparr>"

subsection \<open>Public operations\<close>

definition ftp_start :: "'w os \<Rightarrow> 'w ftp_server \<Rightarrow> unit throwing \<times> 'w ftp_server" where
  "ftp_start os s =
     (if sv_running s then (Inl ''ftp_server is already running'', s)
      else (let (result, sock, port, w) = open_listener os (sv_port s) (sv_world s);
                s1 = s\<lparr>sv_ctrl := sock, sv_port := port, sv_world := w\<rparr>
            in case result of
                 Inl e \<Rightarrow> (Inl e, s1)
               | Inr _ \<Rightarrow> (Inr (), s1\<lparr>sv_running := True, sv_accepting := True\<rparr>)))"

definition close_all :: "'w os \<Rightarrow> 'w ftp_server \<Rightarrow> 'w ftp_server" where
  "close_all os s =
     (foldl (\<lambda>s i. put i (close_client os (view i s)) s) s (sv_clients s))\<lparr>sv_clients := []\<rparr>"

text \<open>The part of \<open>stop\<close> before it waits for the threads.\<close>

definition ftp_stop :: "'w os \<Rightarrow> 'w ftp_server \<Rightarrow> 'w ftp_server" where
  "ftp_stop os s = (if \<not> sv_running s then s else close_all os (s\<lparr>sv_running := False\<rparr>))"

definition ftp_base_url :: "'w ftp_server \<Rightarrow> string throwing" where
  "ftp_base_url s =
     (if \<not> sv_running s then Inl ''ftp_server is not running''
      else Inr (''ftp://127.0.0.1:'' @ dec_string (unat (sv_port s))))"

fun put_user :: "ftp_user \<Rightarrow> ftp_user list \<Rightarrow> ftp_user list" where
  "put_user new [] = [new]"
| "put_user new (u # us) =
     (if u_name u = u_name new \<and> \<not> u_anon u
      then u\<lparr>u_pass := u_pass new, u_root := u_root new, u_perm := u_perm new\<rparr> # us
      else u # put_user new us)"

definition ftp_add_user ::
  "string \<Rightarrow> string \<Rightarrow> string \<Rightarrow> ftp_permission \<Rightarrow> 'w ftp_server \<Rightarrow> 'w ftp_server" where
  "ftp_add_user name pass root perm s =
     s\<lparr>sv_shared := (sv_shared s)\<lparr>fs_users :=
         put_user \<lparr>u_name = name, u_pass = pass, u_root = root, u_perm = perm, u_anon = False\<rparr>
           (fs_users (sv_shared s))\<rparr>\<rparr>"

definition ftp_add_anonymous_user :: "string \<Rightarrow> ftp_permission \<Rightarrow> 'w ftp_server \<Rightarrow> 'w ftp_server" where
  "ftp_add_anonymous_user root perm s =
     s\<lparr>sv_shared := (sv_shared s)\<lparr>fs_users := fs_users (sv_shared s) @
         [\<lparr>u_name = ''anonymous'', u_pass = [], u_root = root, u_perm = perm, u_anon = True\<rparr>]\<rparr>\<rparr>"

definition ftp_clear_users :: "'w ftp_server \<Rightarrow> 'w ftp_server" where
  "ftp_clear_users s = s\<lparr>sv_shared := (sv_shared s)\<lparr>fs_users := []\<rparr>\<rparr>"

definition ftp_connected_users :: "'w ftp_server \<Rightarrow> string list" where
  "ftp_connected_users s = fs_conn_users (sv_shared s)"

definition ftp_temp_root :: "'w ftp_server \<Rightarrow> string" where
  "ftp_temp_root s = fs_tmp (sv_shared s)"

subsection \<open>Threads\<close>

text \<open>One round of \<open>accept_loop\<close> after \<open>select\<close> reported the socket ready, and its end.\<close>

definition accept_one :: "'w os \<Rightarrow> 'w ftp_server \<Rightarrow> 'w ftp_server" where
  "accept_one os s =
     (let (sock, w1) = os_accept os (sv_ctrl s) (sv_world s)
      in if sock = kInvalidSock then s\<lparr>sv_world := w1\<rparr>
         else (let i = length (sv_objects s);
                   s1 = s\<lparr>sv_world := w1, sv_objects := sv_objects s @ [new_client sock],
                          sv_clients := sv_clients s @ [i],
                          sv_replies := (sv_replies s)(i := [])\<rparr>;
                   s2 = put i (ftp_send os (ftp_line ''220 FTP Mock Server ready'') (view i s1)) s1
               in s2\<lparr>sv_threads := sv_threads s2 @ [(i, [])]\<rparr>))"

definition accept_end :: "'w os \<Rightarrow> 'w ftp_server \<Rightarrow> 'w ftp_server" where
  "accept_end os s =
     (let s1 = (if sv_ctrl s \<noteq> kInvalidSock
                then s\<lparr>sv_world := sock_close os (sv_ctrl s) (sv_world s), sv_ctrl := kInvalidSock\<rparr>
                else s)
      in (close_all os s1)\<lparr>sv_accepting := False\<rparr>)"

definition remove_client :: "'w os \<Rightarrow> nat \<Rightarrow> 'w ftp_server \<Rightarrow> 'w ftp_server" where
  "remove_client os i s =
     (if i \<in> set (sv_clients s)
      then (put i (close_client os (view i s)) s)\<lparr>sv_clients := remove1 i (sv_clients s)\<rparr>
      else s)"

definition thread_end :: "'w os \<Rightarrow> nat \<Rightarrow> 'w ftp_server \<Rightarrow> 'w ftp_server" where
  "thread_end os i s =
     (let s1 = put i (client_exit (view i s)) s;
          s2 = remove_client os i s1
      in s2\<lparr>sv_threads := filter (\<lambda>t. fst t \<noteq> i) (sv_threads s2)\<rparr>)"

definition receive :: "'w os \<Rightarrow> nat \<Rightarrow> 'w ftp_server \<Rightarrow> string \<times> 'w ftp_server" where
  "receive os i s =
     (let r = os_recv os (cl_sock (sv_objects s ! i)) 4095 (sv_world s)
      in (fst r, s\<lparr>sv_world := snd r\<rparr>))"

subsection \<open>Steps\<close>

inductive ftp_step :: "'w os \<Rightarrow> 'w ftp_server \<Rightarrow> 'w ftp_server \<Rightarrow> bool" for os where
  step_start: "sv_running s \<or> \<not> sv_accepting s \<and> sv_threads s = [] \<Longrightarrow>
     ftp_step os s (snd (ftp_start os s))"
| step_stop: "ftp_step os s (ftp_stop os s)"
| step_add_user: "ftp_step os s (ftp_add_user name pass root perm s)"
| step_add_anonymous: "ftp_step os s (ftp_add_anonymous_user root perm s)"
| step_clear_users: "ftp_step os s (ftp_clear_users s)"
| step_accept: "sv_accepting s \<Longrightarrow> ftp_step os s (accept_one os s)"
| step_accept_end: "sv_accepting s \<Longrightarrow> ftp_step os s (accept_end os s)"
| step_receive: "(i, buf) \<in> set (sv_threads s) \<Longrightarrow> CHR 0x0A \<notin> set buf \<Longrightarrow>
     cl_sock (sv_objects s ! i) \<noteq> kInvalidSock \<Longrightarrow> fst (receive os i s) \<noteq> [] \<Longrightarrow>
     ftp_step os s (set_input i (buf @ takeWhile (\<lambda>c. c \<noteq> CHR 0x00) (fst (receive os i s)))
                      (snd (receive os i s)))"
| step_skip: "(i, buf) \<in> set (sv_threads s) \<Longrightarrow> CHR 0x0A \<in> set buf \<Longrightarrow>
     fst (next_line buf) = [] \<Longrightarrow> ftp_step os s (set_input i (snd (next_line buf)) s)"
| step_command: "(i, buf) \<in> set (sv_threads s) \<Longrightarrow> CHR 0x0A \<in> set buf \<Longrightarrow>
     fst (next_line buf) \<noteq> [] \<Longrightarrow> dispatch os (fst (next_line buf)) (view i s) = Some st \<Longrightarrow>
     ftp_step os s (set_input i (snd (next_line buf)) (put i st s))"
| step_closed: "(i, buf) \<in> set (sv_threads s) \<Longrightarrow> CHR 0x0A \<notin> set buf \<Longrightarrow>
     cl_sock (sv_objects s ! i) = kInvalidSock \<Longrightarrow> ftp_step os s (thread_end os i s)"
| step_hangup: "(i, buf) \<in> set (sv_threads s) \<Longrightarrow> CHR 0x0A \<notin> set buf \<Longrightarrow>
     cl_sock (sv_objects s ! i) \<noteq> kInvalidSock \<Longrightarrow> fst (receive os i s) = [] \<Longrightarrow>
     ftp_step os s (thread_end os i (snd (receive os i s)))"

abbreviation ftp_steps :: "'w os \<Rightarrow> 'w ftp_server \<Rightarrow> 'w ftp_server \<Rightarrow> bool" where
  "ftp_steps os \<equiv> (ftp_step os)\<^sup>*\<^sup>*"

definition reachable :: "'w os \<Rightarrow> 'w ftp_server \<Rightarrow> bool" where
  "reachable os s \<longleftrightarrow> (\<exists>tmp w. ftp_steps os (new_server tmp w) s)"

end
