(* ===== verification/FtpInvariant.thy ===== *)
theory FtpInvariant
  imports FtpSystem
begin

text \<open>
  The invariant of the FTP server over every interleaving of its threads: which object is owned
  by whom, which sockets are closed, and the session invariant of each connection. From it: once
  the server has stopped and its threads have ended, no control connection is open.
\<close>

subsection \<open>Views\<close>

lemma view_put_same [simp]: "i < length (sv_objects s) \<Longrightarrow> view i (put i st s) = st"
  by (simp add: view_def put_def)

lemma view_put_other:
  "i \<noteq> j \<Longrightarrow> view j (put i st s) = (view j s)\<lparr>ft_shared := ft_shared st, ft_world := ft_world st\<rparr>"
  by (simp add: view_def put_def)

lemma put_fields [simp]:
  "sv_objects (put i st s) = (sv_objects s)[i := ft_client st]"
  "sv_shared (put i st s) = ft_shared st" "sv_world (put i st s) = ft_world st"
  "sv_threads (put i st s) = sv_threads s" "sv_clients (put i st s) = sv_clients s"
  "sv_accepting (put i st s) = sv_accepting s" "sv_ctrl (put i st s) = sv_ctrl s"
  "sv_running (put i st s) = sv_running s" "sv_port (put i st s) = sv_port s"
  by (simp_all add: put_def)

lemma view_fields [simp]:
  "ft_client (view i s) = sv_objects s ! i" "ft_shared (view i s) = sv_shared s"
  "ft_world (view i s) = sv_world s"
  by (simp_all add: view_def)

lemma set_input_fields [simp]:
  "sv_objects (set_input i b s) = sv_objects s" "sv_shared (set_input i b s) = sv_shared s"
  "sv_clients (set_input i b s) = sv_clients s" "sv_accepting (set_input i b s) = sv_accepting s"
  "sv_ctrl (set_input i b s) = sv_ctrl s" "sv_world (set_input i b s) = sv_world s"
  "sv_running (set_input i b s) = sv_running s" "view j (set_input i b s) = view j s"
  "map fst (sv_threads (set_input i b s)) = map fst (sv_threads s)"
  by (auto simp: set_input_def view_def)

subsection \<open>What a thread may change\<close>

text \<open>The session invariant without the list of connected users: what one object satisfies.\<close>

definition client_ok :: "string \<Rightarrow> ftp_client \<Rightarrow> bool" where
  "client_ok tmp c \<longleftrightarrow> clean_cwd (cl_cwd c)
     \<and> (if cl_auth c then prefix tmp (cl_phy_root c)
        else cl_phy_root c = [] \<and> cl_perm c = ftp_perm_none \<and> cl_cwd c = [])"

lemma session_ok_iff:
  "session_ok st \<longleftrightarrow> client_ok (fs_tmp (ft_shared st)) (ft_client st) \<and> oset_ok (fs_conn_users (ft_shared st))"
  by (auto simp: session_ok_def client_ok_def)

lemma client_ok_sockets [simp]:
  "client_ok tmp (c\<lparr>cl_sock := x\<rparr>) = client_ok tmp c"
  "client_ok tmp (c\<lparr>cl_data_sock := x\<rparr>) = client_ok tmp c"
  "client_ok tmp (c\<lparr>cl_pasv := b\<rparr>) = client_ok tmp c"
  by (simp_all add: client_ok_def)

definition thread_ok :: "'w ftp_thread \<Rightarrow> 'w ftp_thread \<Rightarrow> bool" where
  "thread_ok st st' \<longleftrightarrow> session_ok st'
     \<and> fs_tmp (ft_shared st') = fs_tmp (ft_shared st)
     \<and> cl_sock (ft_client st') \<in> {cl_sock (ft_client st), kInvalidSock}"

lemma thread_ok_dispatch:
  assumes "session_ok st" "dispatch os line st = Some st'"
  shows "thread_ok st st'"
proof -
  have "fs_tmp (ft_shared st') = fs_tmp (ft_shared st)
      \<and> cl_sock (ft_client st') \<in> {cl_sock (ft_client st), kInvalidSock}"
    using assms(2)
  proof (cases rule: dispatch_cases)
    case 1
    then show ?thesis by (simp add: user_cmd_def Let_def upd_client_def split: option.split)
  next
    case 2
    then show ?thesis
      by (simp add: pass_cmd_def Let_def upd_client_def upd_world_def split_beta split: option.split)
  next
    case 3
    then show ?thesis by (auto simp: conducts_def)
  qed
  with session_ok_dispatch [OF assms] show ?thesis by (simp add: thread_ok_def)
qed

lemma close_client_fields [simp]:
  "cl_sock (ft_client (close_client os st)) = kInvalidSock"
  "cl_data_sock (ft_client (close_client os st)) = kInvalidSock"
  "ft_shared (close_client os st) = ft_shared st"
  by (simp_all add: close_client_def close_pasv_def Let_def upd_client_def upd_world_def)

lemma thread_ok_close_client: "session_ok st \<Longrightarrow> thread_ok st (close_client os st)"
  by (simp add: thread_ok_def session_ok_iff close_client_def close_pasv_def Let_def upd_client_def
      upd_world_def)

lemma thread_ok_send: "session_ok st \<Longrightarrow> thread_ok st (ftp_send os msg st)"
  by (simp add: thread_ok_def session_ok_iff)

lemma thread_ok_exit: "session_ok st \<Longrightarrow> thread_ok st (client_exit st)"
  by (auto simp: thread_ok_def session_ok_iff client_exit_def intro: oset_ok_erase)

subsection \<open>The invariant\<close>

definition server_ok :: "'w ftp_server \<Rightarrow> bool" where
  "server_ok s \<longleftrightarrow>
     distinct (map fst (sv_threads s)) \<and> distinct (sv_clients s)
     \<and> (\<forall>i\<in>fst ` set (sv_threads s). i < length (sv_objects s))
     \<and> set (sv_clients s) \<subseteq> fst ` set (sv_threads s)
     \<and> (\<not> sv_accepting s \<longrightarrow> sv_clients s = [] \<and> sv_ctrl s = kInvalidSock)
     \<and> oset_ok (fs_conn_users (sv_shared s))
     \<and> (\<forall>i<length (sv_objects s). client_ok (fs_tmp (sv_shared s)) (sv_objects s ! i)
          \<and> (i \<notin> set (sv_clients s) \<longrightarrow> cl_sock (sv_objects s ! i) = kInvalidSock))"

lemma server_ok_thread: "server_ok s \<Longrightarrow> (i, buf) \<in> set (sv_threads s) \<Longrightarrow> i < length (sv_objects s)"
  by (force simp: server_ok_def)

lemma server_ok_not_client:
  "server_ok s \<Longrightarrow> i < length (sv_objects s) \<Longrightarrow> i \<notin> set (sv_clients s) \<Longrightarrow>
     cl_sock (sv_objects s ! i) = kInvalidSock"
  by (simp add: server_ok_def)

lemma server_ok_session: "server_ok s \<Longrightarrow> i < length (sv_objects s) \<Longrightarrow> session_ok (view i s)"
  by (simp add: server_ok_def session_ok_iff)

lemma server_ok_put:
  assumes "server_ok s" "i < length (sv_objects s)" "thread_ok (view i s) st"
  shows "server_ok (put i st s)"
  using assms by (auto simp: server_ok_def thread_ok_def session_ok_iff nth_list_update)

lemma fst_set_input [simp]: "fst ` set (sv_threads (set_input i buf s)) = fst ` set (sv_threads s)"
  by (metis image_set set_input_fields(9))

lemma server_ok_set_input [simp]: "server_ok (set_input i buf s) = server_ok s"
  by (simp add: server_ok_def)

lemma server_ok_world [simp]: "server_ok (s\<lparr>sv_world := w\<rparr>) = server_ok s"
  by (simp add: server_ok_def)

lemma server_ok_users [simp]:
  "server_ok (s\<lparr>sv_shared := (sv_shared s)\<lparr>fs_users := us\<rparr>\<rparr>) = server_ok s"
  by (simp add: server_ok_def)

subsection \<open>Closing\<close>

definition close_each :: "'w os \<Rightarrow> nat list \<Rightarrow> 'w ftp_server \<Rightarrow> 'w ftp_server" where
  "close_each os is s = foldl (\<lambda>s i. put i (close_client os (view i s)) s) s is"

lemma close_each_simps [simp]:
  "close_each os [] s = s"
  "close_each os (i # is) s = close_each os is (put i (close_client os (view i s)) s)"
  by (simp_all add: close_each_def)

lemma close_each_fields [simp]:
  "sv_clients (close_each os is s) = sv_clients s" "sv_threads (close_each os is s) = sv_threads s"
  "sv_accepting (close_each os is s) = sv_accepting s" "sv_ctrl (close_each os is s) = sv_ctrl s"
  "sv_running (close_each os is s) = sv_running s" "sv_shared (close_each os is s) = sv_shared s"
  "sv_port (close_each os is s) = sv_port s" "length (sv_objects (close_each os is s)) = length (sv_objects s)"
  by (induction "is" arbitrary: s) simp_all

lemma server_ok_close_one:
  "server_ok s \<Longrightarrow> i < length (sv_objects s) \<Longrightarrow> server_ok (put i (close_client os (view i s)) s)"
  by (intro server_ok_put thread_ok_close_client server_ok_session)

lemma close_each_ok:
  "server_ok s \<Longrightarrow> \<forall>i\<in>set is. i < length (sv_objects s) \<Longrightarrow> server_ok (close_each os is s)"
  by (induction "is" arbitrary: s) (simp_all add: server_ok_close_one)

lemma close_each_closed:
  "j < length (sv_objects s) \<Longrightarrow> j \<in> set is \<or> cl_sock (sv_objects s ! j) = kInvalidSock \<Longrightarrow>
     cl_sock (sv_objects (close_each os is s) ! j) = kInvalidSock"
proof (induction "is" arbitrary: s)
  case (Cons i "is")
  show ?case
    unfolding close_each_simps
    by (rule Cons.IH) (use Cons.prems in \<open>cases "j = i"; auto\<close>)+
qed simp

lemma close_all_alt: "close_all os s = (close_each os (sv_clients s) s)\<lparr>sv_clients := []\<rparr>"
  by (simp add: close_all_def close_each_def)

lemma server_ok_close_all:
  assumes "server_ok s"
  shows "server_ok (close_all os s)"
    "\<forall>j<length (sv_objects s). cl_sock (sv_objects (close_all os s) ! j) = kInvalidSock"
proof -
  have range: "\<forall>i\<in>set (sv_clients s). i < length (sv_objects s)"
    using assms by (auto simp: server_ok_def)
  then have ok: "server_ok (close_each os (sv_clients s) s)"
    using assms by (rule close_each_ok [rotated])
  show closed: "\<forall>j<length (sv_objects s). cl_sock (sv_objects (close_all os s) ! j) = kInvalidSock"
    using assms by (auto simp: server_ok_def close_all_alt intro!: close_each_closed)
  show "server_ok (close_all os s)"
    using ok closed by (simp add: server_ok_def close_all_alt)
qed

subsection \<open>Every step keeps the invariant\<close>

lemma open_listener_failed:
  "fst (open_listener os port w) \<noteq> Inr () \<Longrightarrow> fst (snd (open_listener os port w)) = kInvalidSock"
  by (metis open_listener_sock)

lemma server_ok_idle:
  assumes "server_ok s" "sv_threads s = []"
  shows "server_ok (s\<lparr>sv_ctrl := kInvalidSock, sv_port := p\<rparr>)"
    "server_ok (s\<lparr>sv_ctrl := c, sv_port := p, sv_world := w, sv_running := True, sv_accepting := True\<rparr>)"
  using assms by (simp_all add: server_ok_def)

lemma server_ok_start:
  assumes "server_ok s" "sv_running s \<or> \<not> sv_accepting s \<and> sv_threads s = []"
  shows "server_ok (snd (ftp_start os s))"
proof (cases "sv_running s")
  case False
  obtain r c p w where open_: "open_listener os (sv_port s) (sv_world s) = (r, c, p, w)"
    by (metis prod.exhaust)
  then have "r \<noteq> Inr () \<Longrightarrow> c = kInvalidSock"
    using open_listener_failed [of os "sv_port s" "sv_world s"] by simp
  then show ?thesis
    using False assms open_ by (cases r) (simp_all add: ftp_start_def server_ok_idle)
qed (use assms in \<open>simp add: ftp_start_def\<close>)

lemma server_ok_stop: "server_ok s \<Longrightarrow> server_ok (ftp_stop os s)"
  using server_ok_close_all(1) [of "s\<lparr>sv_running := False\<rparr>" os] by (simp add: ftp_stop_def server_ok_def)

lemma server_ok_accept_end:
  assumes "server_ok s"
  shows "server_ok (accept_end os s)"
proof -
  define s1 where "s1 = (if sv_ctrl s \<noteq> kInvalidSock
    then s\<lparr>sv_world := sock_close os (sv_ctrl s) (sv_world s), sv_ctrl := kInvalidSock\<rparr> else s)"
  have "server_ok s1" "sv_ctrl s1 = kInvalidSock"
    using assms by (auto simp: server_ok_def s1_def)
  then have "server_ok (close_all os s1)" "sv_ctrl (close_all os s1) = kInvalidSock"
      "sv_clients (close_all os s1) = []"
    by (simp_all add: server_ok_close_all(1)) (simp_all add: close_all_alt)
  then have "server_ok ((close_all os s1)\<lparr>sv_accepting := False\<rparr>)"
    by (simp add: server_ok_def)
  then show ?thesis
    by (simp add: accept_end_def s1_def)
qed

lemma server_ok_accept_one:
  assumes "server_ok s" "sv_accepting s"
  shows "server_ok (accept_one os s)"
proof (cases "fst (os_accept os (sv_ctrl s) (sv_world s)) = kInvalidSock")
  case False
  let ?i = "length (sv_objects s)" let ?r = "os_accept os (sv_ctrl s) (sv_world s)"
  let ?s1 = "s\<lparr>sv_world := snd ?r, sv_objects := sv_objects s @ [new_client (fst ?r)],
    sv_clients := sv_clients s @ [?i], sv_replies := (sv_replies s)(?i := []),
    sv_threads := sv_threads s @ [(?i, [])]\<rparr>"
  have fresh: "?i \<notin> fst ` set (sv_threads s)"
    using assms(1) by (auto simp: server_ok_def)
  then have "?i \<notin> set (sv_clients s)"
    using assms(1) by (auto simp: server_ok_def)
  have "client_ok tmp (new_client x)" for tmp x
    by (simp add: client_ok_def new_client_def clean_cwd_def)
  with assms fresh \<open>?i \<notin> set (sv_clients s)\<close> have ok: "server_ok ?s1"
    by (auto simp: server_ok_def nth_append less_Suc_eq)
  then have "server_ok (put ?i (ftp_send os (ftp_line ''220 FTP Mock Server ready'') (view ?i ?s1)) ?s1)"
    by (intro server_ok_put thread_ok_send server_ok_session) simp_all
  moreover have "accept_one os s = put ?i (ftp_send os (ftp_line ''220 FTP Mock Server ready'') (view ?i ?s1)) ?s1"
    using False by (simp add: accept_one_def split_beta Let_def put_def view_def)
  ultimately show ?thesis by simp
qed (use assms in \<open>simp add: accept_one_def split_beta\<close>)

lemma server_ok_thread_end:
  assumes "server_ok s" "i \<in> fst ` set (sv_threads s)"
  shows "server_ok (thread_end os i s)"
proof -
  let ?s1 = "put i (client_exit (view i s)) s" and ?s2 = "remove_client os i (put i (client_exit (view i s)) s)"
  have len: "i < length (sv_objects s)"
    using assms by (auto simp: server_ok_def)
  then have ok1: "server_ok ?s1"
    using assms(1) by (intro server_ok_put thread_ok_exit server_ok_session)
  then have "server_ok (put i (close_client os (view i ?s1)) ?s1)"
    using len by (intro server_ok_close_one) simp_all
  then have ok2: "server_ok ?s2 \<and> i \<notin> set (sv_clients ?s2)"
    using ok1 len by (auto simp: remove_client_def server_ok_def nth_list_update)
  then have "distinct (map fst (filter (\<lambda>t. fst t \<noteq> i) (sv_threads ?s2)))"
    by (simp add: server_ok_def distinct_map_filter)
  moreover have "set (sv_clients ?s2) \<subseteq> fst ` set (filter (\<lambda>t. fst t \<noteq> i) (sv_threads ?s2))"
    using ok2 by (force simp: server_ok_def)
  moreover have "fst ` set (filter (\<lambda>t. fst t \<noteq> i) (sv_threads ?s2)) \<subseteq> fst ` set (sv_threads ?s2)"
    by auto
  ultimately show ?thesis
    using ok2 unfolding thread_end_def Let_def by (auto simp: server_ok_def)
qed

lemma ftp_step_ok: "ftp_step os s s' \<Longrightarrow> server_ok s \<Longrightarrow> server_ok s'"
proof (induction rule: ftp_step.induct)
  case (step_command i buf s st)
  then show ?case
    using server_ok_put [of s i st] thread_ok_dispatch [of "view i s"] server_ok_session server_ok_thread
    by (metis server_ok_set_input)
next
  case (step_hangup i buf s)
  then show ?case
    by (intro server_ok_thread_end) (simp_all add: receive_def Let_def rev_image_eqI)
qed (auto simp: server_ok_start server_ok_stop server_ok_accept_one server_ok_accept_end
    ftp_add_user_def ftp_add_anonymous_user_def ftp_clear_users_def receive_def Let_def
    intro!: server_ok_thread_end intro: rev_image_eqI)

lemma server_ok_new: "server_ok (new_server tmp w)"
  by (simp add: server_ok_def new_server_def)

lemma ftp_steps_ok: "ftp_steps os s s' \<Longrightarrow> server_ok s \<Longrightarrow> server_ok s'"
  by (induction rule: rtranclp_induct) (auto intro: ftp_step_ok)

lemma reachable_ok: "reachable os s \<Longrightarrow> server_ok s"
  using ftp_steps_ok [OF _ server_ok_new] by (auto simp: reachable_def)

end
