(* ===== verification/FtpLifetime.thy ===== *)
theory FtpLifetime
  imports FtpInvariant MemoryOs
begin

text \<open>
  What holds of the FTP server as a whole: the contracts of its public operations, its state once
  it has stopped, how the sequential loop of one thread is a run of the step relation, and the
  two defects that appear only with several threads.
\<close>

subsection \<open>Contracts of the public operations\<close>

interpretation ftp_life: lifecycle sv_running "ftp_start os" "ftp_stop os" ftp_base_url
  "''ftp_server is already running''" "''ftp_server is not running''" for os :: "'w os"
  by unfold_locales
    (auto simp: ftp_start_def ftp_stop_def ftp_base_url_def close_all_alt split_beta Let_def
      split: sum.split)

text \<open>The password-protected accounts, as \<open>pass_cmd\<close> looks them up.\<close>

definition ftp_account :: "'w ftp_server \<Rightarrow> string \<rightharpoonup> string \<times> string \<times> ftp_permission" where
  "ftp_account s name = map_option (\<lambda>u. (u_pass u, u_root u, u_perm u))
     (find (\<lambda>u. u_name u = name \<and> \<not> u_anon u) (fs_users (sv_shared s)))"

lemma find_put_user:
  "find (\<lambda>u. u_name u = name \<and> \<not> u_anon u) (put_user new us) =
     (if name = u_name new \<and> \<not> u_anon new
      then Some (case find (\<lambda>u. u_name u = name \<and> \<not> u_anon u) us of None \<Rightarrow> new
                 | Some u \<Rightarrow> u\<lparr>u_pass := u_pass new, u_root := u_root new, u_perm := u_perm new\<rparr>)
      else find (\<lambda>u. u_name u = name \<and> \<not> u_anon u) us)" if "\<not> u_anon new"
  using that by (induction new us rule: put_user.induct) auto

interpretation ftp_accounts: accounts "\<lambda>name (pass, root, perm). ftp_add_user name pass root perm"
  ftp_account ftp_clear_users
  by unfold_locales
    (auto simp: ftp_account_def ftp_add_user_def ftp_clear_users_def find_put_user split_beta
      split: option.split)

definition add_accounts ::
  "(string \<times> string \<times> string \<times> ftp_permission) list \<Rightarrow> 'w ftp_server \<Rightarrow> 'w ftp_server" where
  "add_accounts = fold (\<lambda>(name, cred). case cred of (pass, root, perm) \<Rightarrow> ftp_add_user name pass root perm)"

lemma pass_cmd_account:
  assumes "\<not> cl_auth (ft_client st)" "ft_shared st = sv_shared s" "cl_user (ft_client st) \<noteq> []"
  shows "cl_auth (ft_client (pass_cmd os pw st)) \<longleftrightarrow>
    (\<exists>root perm. ftp_account s (cl_user (ft_client st)) = Some (pw, root, perm))"
    "ftp_account s (cl_user (ft_client st)) = Some (pw, root, perm) \<Longrightarrow>
       cl_perm (ft_client (pass_cmd os pw st)) = perm"
  using assms
  by (auto simp: pass_cmd_def ftp_account_def Let_def split_beta upd_client_def upd_world_def
      split: option.split)

text \<open>C10. Login against the configured accounts. After \<open>clear_users\<close> and any calls of
  \<open>add_user\<close>, a client that has named a user is logged in by \<open>PASS\<close> exactly when the last
  call for that name gave this password, and then it has the permissions of that call.\<close>

theorem configured_login:
  assumes "\<not> cl_auth (ft_client st)" and "cl_user (ft_client st) \<noteq> []"
    and "ft_shared st = sv_shared (add_accounts accs (ftp_clear_users s))"
  shows "(cl_auth (ft_client (pass_cmd os pw st)) \<longleftrightarrow>
      (\<exists>root perm. map_of (rev accs) (cl_user (ft_client st)) = Some (pw, root, perm)))
    \<and> (\<forall>root perm. map_of (rev accs) (cl_user (ft_client st)) = Some (pw, root, perm) \<longrightarrow>
         cl_perm (ft_client (pass_cmd os pw st)) = perm)"
proof -
  have "ftp_account (add_accounts accs (ftp_clear_users s)) = map_of (rev accs)"
    using ftp_accounts.account_after_clear [of accs s] by (simp add: add_accounts_def split_def)
  with pass_cmd_account [OF assms(1,3,2)] show ?thesis by metis
qed

definition demo_server :: "mem_world ftp_server" where
  "demo_server = new_server ''/t'' mem_world0"

theorem configured_login_witness:
  "cl_auth (ft_client (pass_cmd mem_os ''b'' (demo_thread\<lparr>
     ft_client := (new_client 5)\<lparr>cl_user := ''bob''\<rparr>,
     ft_shared := sv_shared (add_accounts [(''bob'', ''a'', ''/'', 1), (''bob'', ''b'', ''/'', 3)]
       (ftp_clear_users demo_server))\<rparr>)))"
  using configured_login [of "demo_thread\<lparr>ft_client := (new_client 5)\<lparr>cl_user := ''bob''\<rparr>,
      ft_shared := sv_shared (add_accounts [(''bob'', ''a'', ''/'', 1), (''bob'', ''b'', ''/'', 3)]
       (ftp_clear_users demo_server))\<rparr>"
      "[(''bob'', ''a'', ''/'', 1), (''bob'', ''b'', ''/'', 3)]" demo_server mem_os "''b''"]
  by (simp add: new_client_def)

subsection \<open>After stopping\<close>


definition demo_stopped :: "mem_world ftp_server" where
  "demo_stopped = accept_end mem_os (ftp_stop mem_os (accept_one mem_os (snd (ftp_start mem_os demo_server))))"

lemma demo_started: "sv_running (snd (ftp_start mem_os demo_server))"
    "sv_accepting (snd (ftp_start mem_os demo_server))"
  by (simp_all add: ftp_start_def demo_server_def new_server_def open_listener_def mem_defs
      kInvalidSock_def kSockErr_def Let_def set_reuseaddr_def)

lemma demo_stopped_steps: "ftp_steps mem_os demo_server demo_stopped"
proof -
  let ?s1 = "snd (ftp_start mem_os demo_server)"
  have 1: "ftp_step mem_os demo_server ?s1"
    by (rule step_start) (simp add: demo_server_def new_server_def)
  have 2: "ftp_step mem_os ?s1 (accept_one mem_os ?s1)"
    by (rule step_accept) (rule demo_started)
  have 3: "ftp_step mem_os (accept_one mem_os ?s1) (ftp_stop mem_os (accept_one mem_os ?s1))"
    by (rule step_stop)
  have "sv_accepting (ftp_stop mem_os (accept_one mem_os ?s1))"
    using demo_started by (simp add: ftp_stop_def accept_one_def close_all_alt split_beta Let_def)
  then have 4: "ftp_step mem_os (ftp_stop mem_os (accept_one mem_os ?s1)) demo_stopped"
    unfolding demo_stopped_def by (rule step_accept_end)
  show ?thesis
    by (rule four_steps [of "ftp_step mem_os", OF 1 2 3 4])
qed


subsection \<open>Two sessions of one user\<close>

text \<open>The connected users are a set of names. When two connections are logged in as the same
  user and one of them ends, the user is no longer reported as connected although the other
  connection is still there and logged in.\<close>

theorem second_session_unlisted:
  assumes "server_ok s" and "i < length (sv_objects s)" and "j < length (sv_objects s)" and "i \<noteq> j"
    and "cl_auth (sv_objects s ! i)" and "cl_auth (sv_objects s ! j)"
    and "cl_user (sv_objects s ! i) = cl_user (sv_objects s ! j)"
  shows "cl_user (sv_objects s ! j) \<notin> set (ftp_connected_users (thread_end os i s))
    \<and> sv_objects (thread_end os i s) ! j = sv_objects s ! j"
proof -
  have "oset_ok (fs_conn_users (sv_shared s))"
    using assms(1) by (simp add: server_ok_def)
  with assms(2-) show ?thesis
    by (simp add: thread_end_def Let_def remove_client_def ftp_connected_users_def client_exit_def
        set_oset_erase)
qed

definition demo_twice :: "mem_world ftp_server" where
  "demo_twice = demo_server\<lparr>sv_running := True, sv_accepting := True, sv_ctrl := 4,
     sv_shared := demo_shared\<lparr>fs_conn_users := [''bob'']\<rparr>,
     sv_objects := [ft_client (demo_logged_in 3), (ft_client (demo_logged_in 3))\<lparr>cl_sock := 6\<rparr>],
     sv_clients := [0, 1], sv_threads := [(0, []), (1, ''PASV'' @ [CHR 0x0A])]\<rparr>"

lemma demo_twice_ok: "server_ok demo_twice"
  by (simp add: demo_twice_def server_ok_def demo_server_def new_server_def demo_defs client_ok_def
      clean_cwd_def less_Suc_eq oset_ok_def)

theorem second_session_unlisted_witness:
  "''bob'' \<notin> set (ftp_connected_users (thread_end mem_os 0 demo_twice))"
  using second_session_unlisted [OF demo_twice_ok, of 0 1 mem_os]
  by (simp add: demo_twice_def demo_defs)

subsection \<open>Passive sockets behind a stop\<close>

lemma close_all_input: "sv_threads (close_all os s) = sv_threads s"
  by (simp add: close_all_alt)

lemma view_close_all_auth:
  assumes "server_ok s" "i < length (sv_objects s)"
  shows "cl_auth (sv_objects (close_all os s) ! i) = cl_auth (sv_objects s ! i)"
proof -
  have close: "cl_auth (ft_client (close_client os st)) = cl_auth (ft_client st)" for st :: "'a ftp_thread"
    by (simp add: close_client_def Let_def upd_client_def upd_world_def)
  have "cl_auth (sv_objects (close_each os is s) ! i) = cl_auth (sv_objects s ! i)" for "is"
    using assms(2)
  proof (induction "is" arbitrary: s)
    case (Cons k "is")
    then show ?case by (cases "k = i") (simp_all add: close)
  qed simp
  then show ?thesis by (simp add: close_all_alt)
qed

text \<open>If the server is stopped while a \<open>PASV\<close> command of a logged-in client is waiting
  in its thread's input, the thread opens a listening data socket after \<open>stop\<close> has closed and
  forgotten the client, and then ends without closing it: the socket stays open with no thread
  and no list entry left that could close it.\<close>

theorem pasv_behind_stop_leaks:
  assumes "server_ok s" and "sv_running s" and "(i, buf) \<in> set (sv_threads s)"
    and "next_line buf = (line, [])" and "CHR 0x0A \<in> set buf" and "split_command line = (''PASV'', arg)"
    and "line \<noteq> []"
    and "cl_data_sock (ft_client (pasv_cmd os (view i (ftp_stop os s)))) \<noteq> kInvalidSock"
  shows "\<exists>s'. ftp_steps os s s' \<and> \<not> sv_running s' \<and> i \<notin> fst ` set (sv_threads s')
    \<and> i \<notin> set (sv_clients s') \<and> cl_data_sock (sv_objects s' ! i) \<noteq> kInvalidSock"
proof -
  let ?s1 = "ftp_stop os s" and ?st = "pasv_cmd os (view i (ftp_stop os s))"
  let ?s2 = "set_input i [] (put i ?st ?s1)"
  have len: "i < length (sv_objects ?s1)" and threads: "sv_threads ?s1 = sv_threads s"
    and clients: "sv_clients ?s1 = []"
    using assms(1-3) by (auto simp: ftp_stop_def close_all_alt server_ok_thread)
  have ok1: "server_ok ?s1"
    using assms(1) by (rule server_ok_stop)
  have 1: "ftp_step os s ?s1"
    by (rule step_stop)
  have "dispatch os line (view i ?s1) = Some ?st"
    using assms(6) by (simp add: dispatch_def)
  with assms(3-5,7) have 2: "ftp_step os ?s1 ?s2"
    using step_command [of i buf ?s1 os ?st] threads by simp
  have ok2: "server_ok ?s2"
    using ftp_step_ok [OF 2 ok1] .
  have "(i, []) \<in> set (sv_threads ?s2)"
    using assms(3) threads by (force simp: set_input_def)
  moreover have "cl_sock (sv_objects ?s2 ! i) = kInvalidSock"
    by (rule server_ok_not_client [OF ok2]) (use clients len in simp_all)
  ultimately have 3: "ftp_step os ?s2 (thread_end os i ?s2)"
    by (intro step_closed [of i "[]"]) simp_all
  have "\<not> sv_running ?s1"
    by (simp add: ftp_stop_def close_all_alt)
  then have "\<not> sv_running (thread_end os i ?s2) \<and> i \<notin> fst ` set (sv_threads (thread_end os i ?s2))
      \<and> i \<notin> set (sv_clients (thread_end os i ?s2))
      \<and> cl_data_sock (sv_objects (thread_end os i ?s2) ! i) \<noteq> kInvalidSock"
    using clients len assms(8) by (auto simp: thread_end_def remove_client_def client_exit_def Let_def)
  then show ?thesis
    using three_steps [of "ftp_step os", OF 1 2 3] by blast
qed

theorem pasv_behind_stop_leaks_witness:
  "\<exists>s'. ftp_steps mem_os demo_twice s' \<and> \<not> sv_running s' \<and> 1 \<notin> fst ` set (sv_threads s')
    \<and> 1 \<notin> set (sv_clients s') \<and> cl_data_sock (sv_objects s' ! 1) \<noteq> kInvalidSock"
proof (rule pasv_behind_stop_leaks [OF demo_twice_ok, where line = "''PASV''" and arg = "[]"
      and buf = "''PASV'' @ [CHR 0x0A]"])
  show "cl_data_sock (ft_client (pasv_cmd mem_os (view 1 (ftp_stop mem_os demo_twice)))) \<noteq> kInvalidSock"
    by (simp add: pasv_cmd_def require_auth_def ftp_stop_def close_all_def demo_twice_def demo_server_def
        new_server_def view_def put_def demo_defs mem_defs close_client_def close_pasv_def
        upd_client_def upd_world_def Let_def kSockErr_def set_reuseaddr_def sock_close_def
        sock_shutdown_def ftp_send_def)
qed (simp_all add: demo_twice_def next_line_def line_defs)

subsection \<open>One thread alone\<close>

text \<open>
  The sequential loop of \<open>FtpServer\<close> is what the steps of one thread do when no other thread
  moves: whatever \<open>client_loop\<close> computes is reached by steps.
\<close>

lemma set_input_put: "set_input i b (put i st s) = put i st (set_input i b s)"
  by (simp add: set_input_def put_def)

lemma set_input_twice [simp]: "set_input i b (set_input i c s) = set_input i b s"
  by (simp add: set_input_def comp_def)

lemma put_twice [simp]: "put i st (put i st' s) = put i st s"
  by (simp add: put_def)

lemma put_view [simp]: "put i (view i s) s = s"
  by (simp add: put_def view_def)

lemma set_input_mem:
  "(i, b) \<in> set (sv_threads s) \<Longrightarrow> (i, c) \<in> set (sv_threads (set_input i c s))"
  by (force simp: set_input_def)

lemma set_input_id:
  "distinct (map fst (sv_threads s)) \<Longrightarrow> (i, b) \<in> set (sv_threads s) \<Longrightarrow> set_input i b s = s"
proof -
  assume "distinct (map fst (sv_threads s))" "(i, b) \<in> set (sv_threads s)"
  then have "map (\<lambda>t. if fst t = i then (i, b) else t) (sv_threads s) = sv_threads s"
    by (intro map_idI) (auto simp: distinct_map inj_on_def)
  then show ?thesis by (simp add: set_input_def)
qed

lemma drain_lines_steps:
  "drain_lines os buf (view i s) = Some (rest, st') \<Longrightarrow> distinct (map fst (sv_threads s)) \<Longrightarrow>
   i < length (sv_objects s) \<Longrightarrow> (i, buf) \<in> set (sv_threads s) \<Longrightarrow>
     ftp_steps os s (set_input i rest (put i st' s)) \<and> CHR 0x0A \<notin> set rest"
proof (induction os buf "view i s" arbitrary: s rule: drain_lines.induct)
  case (1 os buf)
  show ?case
  proof (cases "CHR 0x0A \<in> set buf")
    case False
    with "1.prems" show ?thesis by (auto simp: drain_lines.simps [of os buf] set_input_id)
  next
    case nl: True
    let ?rest = "snd (next_line buf)"
    show ?thesis
    proof (cases "fst (next_line buf) = []")
      case True
      have step: "ftp_step os s (set_input i ?rest s)"
        using "1.prems"(4) nl True by (rule step_skip)
      have "ftp_steps os (set_input i ?rest s) (set_input i rest (put i st' (set_input i ?rest s)))
          \<and> CHR 0x0A \<notin> set rest"
        by (rule "1.hyps"(1) [OF _ True])
          (use nl True "1.prems" set_input_mem in \<open>simp_all add: drain_lines.simps [of os buf]\<close>)
      then show ?thesis
        using step by (simp add: set_input_put [symmetric] converse_rtranclp_into_rtranclp)
    next
      case False
      with nl "1.prems"(1) obtain st1 where st1: "dispatch os (fst (next_line buf)) (view i s) = Some st1"
        "drain_lines os ?rest st1 = Some (rest, st')"
        by (auto simp: drain_lines.simps [of os buf] split: option.splits)
      let ?s1 = "set_input i ?rest (put i st1 s)"
      have step: "ftp_step os s ?s1"
        using "1.prems"(4) nl False st1(1) by (rule step_command)
      have "ftp_steps os ?s1 (set_input i rest (put i st' ?s1)) \<and> CHR 0x0A \<notin> set rest"
        by (rule "1.hyps"(2) [OF _ False])
          (use nl "1.prems" st1 set_input_mem [of i buf "put i st1 s"] in \<open>simp_all\<close>)
      then show ?thesis
        using step by (simp add: set_input_put [symmetric] converse_rtranclp_into_rtranclp)
    qed
  qed
qed

lemma thread_end_set_input [simp]: "thread_end os i (set_input i b s) = thread_end os i s"
proof -
  have "filter (\<lambda>t. fst t \<noteq> i) (map (\<lambda>t. if fst t = i then (i, b) else t) ts)
      = filter (\<lambda>t. fst t \<noteq> i) ts" for ts
    by (induction ts) auto
  then show ?thesis
    by (simp add: thread_end_def remove_client_def set_input_def Let_def put_def view_def)
qed

lemma receive_put: "i < length (sv_objects s) \<Longrightarrow>
    snd (receive os i s) = put i ((view i s)\<lparr>ft_world := snd (os_recv os (cl_sock (sv_objects s ! i)) 4095 (sv_world s))\<rparr>) s"
  by (simp add: receive_def Let_def put_def view_def)

definition simulated :: "'w os \<Rightarrow> string \<Rightarrow> 'w ftp_thread \<Rightarrow> 'w ftp_thread \<Rightarrow> bool" where
  "simulated os buf st st' \<longleftrightarrow>
     (\<forall>s i. view i s = st \<longrightarrow> distinct (map fst (sv_threads s)) \<longrightarrow> i < length (sv_objects s) \<longrightarrow>
        (i, buf) \<in> set (sv_threads s) \<longrightarrow> CHR 0x0A \<notin> set buf \<longrightarrow>
        ftp_steps os s (thread_end os i (put i st' s)))"

lemma client_loop_simulated: "client_loop os buf st = Some st' \<Longrightarrow> simulated os buf st st'"
proof (rule client_loop.raw_induct [where P = simulated])
  fix f os buf and st st' :: "'a ftp_thread"
  assume IH: "\<And>os buf st (st' :: 'a ftp_thread). f os buf st = Some st' \<Longrightarrow> simulated os buf st st'"
    and eq: "(if cl_sock (ft_client st) = kInvalidSock then Some st
      else let r = os_recv os (cl_sock (ft_client st)) 4095 (ft_world st); st1 = st\<lparr>ft_world := snd r\<rparr>
           in if fst r = [] then Some st1
              else case drain_lines os (buf @ takeWhile (\<lambda>c. c \<noteq> CHR 0x00) (fst r)) st1 of
                     None \<Rightarrow> None | Some (partial1, x) \<Rightarrow> f os partial1 x) = Some st'"
  show "simulated os buf st st'"
    unfolding simulated_def
  proof (intro allI impI)
    fix s :: "'a ftp_server" and i
    assume st: "view i s = st" and d: "distinct (map fst (sv_threads s))"
      and len: "i < length (sv_objects s)" and mem: "(i, buf) \<in> set (sv_threads s)"
      and nl: "CHR 0x0A \<notin> set buf"
    let ?r = "os_recv os (cl_sock (sv_objects s ! i)) 4095 (sv_world s)"
    let ?st1 = "(view i s)\<lparr>ft_world := snd ?r\<rparr>"
    show "ftp_steps os s (thread_end os i (put i st' s))"
    proof (cases "cl_sock (sv_objects s ! i) = kInvalidSock \<or> fst ?r = []")
      case True
      then show ?thesis
        using eq st len step_closed [OF mem nl, of os] step_hangup [OF mem nl, of os] receive_put [OF len, of os]
        by (cases "cl_sock (sv_objects s ! i) = kInvalidSock")
          (auto simp: Let_def receive_def intro: r_into_rtranclp)
    next
      case False
      let ?buf1 = "buf @ takeWhile (\<lambda>c. c \<noteq> CHR 0x00) (fst ?r)"
      let ?s1 = "set_input i ?buf1 (put i ?st1 s)"
      from False eq st obtain rest x where
        drain: "drain_lines os ?buf1 ?st1 = Some (rest, x)" and rec: "f os rest x = Some st'"
        by (auto simp: Let_def split: option.splits)
      have 1: "ftp_step os s ?s1"
        using step_receive [OF mem nl, of os] False receive_put [OF len, of os]
        by (simp add: receive_def Let_def)
      have view1: "view i ?s1 = ?st1" and mem1: "(i, ?buf1) \<in> set (sv_threads ?s1)"
        using len mem set_input_mem [of i buf "put i ?st1 s"] by simp_all
      have 2: "ftp_steps os ?s1 (set_input i rest (put i x ?s1)) \<and> CHR 0x0A \<notin> set rest"
        by (rule drain_lines_steps) (use drain view1 mem1 d len in simp_all)
      have mem2: "(i, rest) \<in> set (sv_threads (set_input i rest (put i x ?s1)))"
        using mem1 set_input_mem [of i ?buf1 "put i x ?s1"] by simp
      have "ftp_steps os (set_input i rest (put i x ?s1))
          (thread_end os i (put i st' (set_input i rest (put i x ?s1))))"
        using IH [OF rec] 2 mem2 d len unfolding simulated_def by simp
      then have "ftp_steps os (set_input i rest (put i x ?s1)) (thread_end os i (put i st' s))"
        by (simp add: set_input_put [symmetric])
      with 1 2 show ?thesis
        by (meson converse_rtranclp_into_rtranclp rtranclp_trans)
    qed
  qed
qed



end
