(* ===== verification/FtpAuthority.thy ===== *)
theory FtpAuthority
  imports FtpLifetime
begin

text \<open>
  From the accounts of the whole FTP server to its file calls. Whatever the clients send, over
  however many connections and in whatever interleaving, a file call is made only for the root and
  with the permissions of an account that a test has configured.
\<close>

subsection \<open>Runs in which only certain accounts are configured\<close>

type_synonym ftp_grant = "string \<Rightarrow> ftp_permission \<Rightarrow> bool"

text \<open>The root that a login as this user gives.\<close>

definition account_root :: "string \<Rightarrow> ftp_user \<Rightarrow> string" where
  "account_root tmp u = (if u_anon u then tmp else fst (physical_root tmp (u_root u)))"

definition shared_grants :: "ftp_grant \<Rightarrow> ftp_shared \<Rightarrow> bool" where
  "shared_grants G sh \<longleftrightarrow> (\<forall>u\<in>set (fs_users sh). G (account_root (fs_tmp sh) u) (u_perm u))"

definition ftp_granted_step :: "'w os \<Rightarrow> ftp_grant \<Rightarrow> 'w ftp_server \<Rightarrow> 'w ftp_server \<Rightarrow> bool" where
  "ftp_granted_step os G s s' \<longleftrightarrow> ftp_step os s s' \<and> shared_grants G (sv_shared s')"

definition client_granted :: "ftp_grant \<Rightarrow> ftp_client \<Rightarrow> bool" where
  "client_granted G c \<longleftrightarrow> (cl_auth c \<longrightarrow> G (cl_phy_root c) (cl_perm c))"

definition clients_granted :: "ftp_grant \<Rightarrow> 'w ftp_server \<Rightarrow> bool" where
  "clients_granted G s \<longleftrightarrow> list_all (client_granted G) (sv_objects s)"

text \<open>A path that is used: the root of an account, or what \<open>resolve\<close> makes of a request for it.\<close>

definition granted_path :: "ftp_grant \<Rightarrow> string \<Rightarrow> bool" where
  "granted_path G p \<longleftrightarrow>
     (\<exists>root perm. G root perm \<and> (p = root \<or> p \<noteq> [] \<and> (\<exists>cwd arg. p = resolve root cwd arg)))"

subsection \<open>One command\<close>

lemma physical_root_made: "snd (physical_root tmp r) = Some d \<Longrightarrow> fst (physical_root tmp r) = d"
  by (auto simp: physical_root_def Let_def split: if_splits)

lemma user_cmd_granted:
  assumes "client_granted G (ft_client st)" "shared_grants G (ft_shared st)"
  shows "client_granted G (ft_client (user_cmd os arg st))"
    "effects os ok (ft_world st) (ft_world (user_cmd os arg st))"
  using assms
  by (auto simp: user_cmd_def Let_def upd_client_def client_granted_def shared_grants_def account_root_def
      ftp_send_def split: option.split dest!: find_Some_mem intro!: effects_intros)

lemma pass_cmd_granted:
  assumes "client_granted G (ft_client st)" "shared_grants G (ft_shared st)"
  shows "client_granted G (ft_client (pass_cmd os arg st))"
    "effects os (granted_path G) (ft_world st) (ft_world (pass_cmd os arg st))"
proof -
  let ?P = "\<lambda>u. u_name u = cl_user (ft_client st) \<and> \<not> u_anon u"
  have root: "G (fst (physical_root (fs_tmp (ft_shared st)) (u_root u))) (u_perm u)"
    if "find ?P (fs_users (ft_shared st)) = Some u" for u
    using find_Some_mem [OF that] assms(2) by (auto simp: shared_grants_def account_root_def)
  then have made: "granted_path G d"
    if "find ?P (fs_users (ft_shared st)) = Some u" "snd (physical_root (fs_tmp (ft_shared st)) (u_root u)) = Some d"
    for u d
    using physical_root_made [OF that(2)] root [OF that(1)] by (auto simp: granted_path_def)
  show "client_granted G (ft_client (pass_cmd os arg st))"
    using assms(1) root
    by (auto simp: pass_cmd_def Let_def split_beta upd_client_def upd_world_def client_granted_def ftp_send_def
        split: option.split)
  show "effects os (granted_path G) (ft_world st) (ft_world (pass_cmd os arg st))"
    using made
    by (auto simp: pass_cmd_def Let_def split_beta upd_client_def upd_world_def ftp_send_def
        split: option.split intro!: effects_intros)
qed

lemma dispatch_granted:
  assumes "dispatch os line st = Some st'" "client_granted G (ft_client st)" "shared_grants G (ft_shared st)"
  shows "client_granted G (ft_client st') \<and> effects os (granted_path G) (ft_world st) (ft_world st')"
  using assms(1)
proof (cases rule: dispatch_cases)
  case 1
  with user_cmd_granted [OF assms(2,3)] show ?thesis by blast
next
  case 2
  with pass_cmd_granted [OF assms(2,3)] show ?thesis by blast
next
  case 3
  have "allowed_path st p \<Longrightarrow> granted_path G p" for p
    using assms(2) unfolding allowed_path_def granted_path_def client_granted_def by blast
  moreover have "effects os (allowed_path st) (ft_world st) (ft_world st')" "same_login (ft_client st) (ft_client st')"
    using 3(2) unfolding conducts_def by blast+
  ultimately have "effects os (granted_path G) (ft_world st) (ft_world st')"
    by (metis effects_mono)
  with \<open>same_login _ _\<close> assms(2) show ?thesis
    by (simp add: same_login_def client_granted_def)
qed

subsection \<open>The server\<close>

text \<open>What a step may do: keep the clients within their grants, and make permitted calls.\<close>

definition guarded :: "'w os \<Rightarrow> ftp_grant \<Rightarrow> 'w ftp_server \<Rightarrow> 'w ftp_server \<Rightarrow> bool" where
  "guarded os G s s' \<longleftrightarrow>
     (clients_granted G s \<longrightarrow> clients_granted G s') \<and> effects os (granted_path G) (sv_world s) (sv_world s')"

lemma guarded_trans: "guarded os G a b \<Longrightarrow> guarded os G b c \<Longrightarrow> guarded os G a c"
  by (auto simp: guarded_def)

lemma guarded_world:
  "sv_objects s' = sv_objects s \<Longrightarrow> effects os (granted_path G) (sv_world s) (sv_world s') \<Longrightarrow> guarded os G s s'"
  by (simp add: guarded_def clients_granted_def)

lemma guarded_put:
  assumes "client_granted G (sv_objects s ! i) \<longrightarrow> client_granted G (ft_client st)" "i < length (sv_objects s)"
    and "effects os (granted_path G) (sv_world s) (ft_world st)"
  shows "guarded os G s (put i st s)"
  using assms by (auto simp: guarded_def clients_granted_def list_all_length nth_list_update)

lemma close_client_granted:
  "client_granted G (ft_client (close_client os st)) = client_granted G (ft_client st)"
  "effects os ok (ft_world st) (ft_world (close_client os st))"
  by (auto simp: close_client_def close_pasv_def Let_def upd_client_def upd_world_def client_granted_def
      sock_close_def sock_shutdown_def intro!: effects_intros)

lemma guarded_close_client: "i < length (sv_objects s) \<Longrightarrow> guarded os G s (put i (close_client os (view i s)) s)"
  using close_client_granted [where os = os and st = "view i s"] by (intro guarded_put) simp_all

lemma guarded_close_each:
  "\<forall>i\<in>set is. i < length (sv_objects s) \<Longrightarrow> guarded os G s (close_each os is s)"
proof (induction "is" arbitrary: s)
  case (Cons i "is")
  from Cons.prems have "guarded os G s (put i (close_client os (view i s)) s)"
    by (intro guarded_close_client) simp
  moreover have "guarded os G (put i (close_client os (view i s)) s)
      (close_each os is (put i (close_client os (view i s)) s))"
    by (intro Cons.IH) (use Cons.prems in simp)
  ultimately show ?case
    unfolding close_each_simps by (rule guarded_trans)
qed (simp add: guarded_def)

lemma guarded_close_all:
  assumes "set (sv_clients s) \<subseteq> {..<length (sv_objects s)}"
  shows "guarded os G s (close_all os s)"
proof -
  have "guarded os G s (close_each os (sv_clients s) s)"
    using assms by (intro guarded_close_each) auto
  then show ?thesis
    by (simp add: close_all_alt guarded_def clients_granted_def)
qed

lemma server_ok_clients: "server_ok s \<Longrightarrow> set (sv_clients s) \<subseteq> {..<length (sv_objects s)}"
  by (auto simp: server_ok_def)

lemma open_listener_effects: "effects os ok w (snd (snd (snd (open_listener os port w))))"
  by (simp add: open_listener_def Let_def split_beta set_reuseaddr_def sock_close_def effects_intros)

lemma guarded_start: "guarded os G s (snd (ftp_start os s))"
  using open_listener_effects [of os "granted_path G" "sv_world s" "sv_port s"]
  by (auto simp: ftp_start_def Let_def split_beta guarded_def clients_granted_def split: sum.split)

lemma guarded_stop:
  assumes "server_ok s"
  shows "guarded os G s (ftp_stop os s)"
  using guarded_close_all [of "s\<lparr>sv_running := False\<rparr>" os G] server_ok_clients [OF assms]
  by (simp add: ftp_stop_def guarded_def clients_granted_def)

lemma guarded_accept_end:
  assumes "server_ok s"
  shows "guarded os G s (accept_end os s)"
proof -
  define s1 where "s1 = (if sv_ctrl s \<noteq> kInvalidSock
    then s\<lparr>sv_world := sock_close os (sv_ctrl s) (sv_world s), sv_ctrl := kInvalidSock\<rparr> else s)"
  have "guarded os G s s1"
    by (intro guarded_world) (simp_all add: s1_def sock_close_def effects_intros)
  moreover have "guarded os G s1 (close_all os s1)"
    using server_ok_clients [OF assms] by (intro guarded_close_all) (simp add: s1_def)
  ultimately have "guarded os G s (close_all os s1)"
    by (rule guarded_trans)
  then show ?thesis
    by (simp add: accept_end_def s1_def guarded_def clients_granted_def)
qed

lemma guarded_accept_one: "guarded os G s (accept_one os s)"
proof -
  have new: "client_granted G (new_client x)" for x
    by (simp add: client_granted_def new_client_def)
  show ?thesis
    by (auto simp: accept_one_def Let_def split_beta guarded_def clients_granted_def new ftp_send_def
        list_update_append intro!: effects_intros)
qed

lemma guarded_thread_end:
  assumes "i < length (sv_objects s)"
  shows "guarded os G s (thread_end os i s)"
proof -
  let ?s1 = "put i (client_exit (view i s)) s"
  have "guarded os G s ?s1"
    using assms by (intro guarded_put) (simp_all add: client_exit_def)
  moreover have "guarded os G ?s1 (remove_client os i ?s1)"
    using guarded_close_client [of i ?s1 os G] assms
    by (auto simp: remove_client_def guarded_def clients_granted_def)
  ultimately have "guarded os G s (remove_client os i ?s1)"
    by (rule guarded_trans)
  then show ?thesis
    by (simp add: thread_end_def Let_def guarded_def clients_granted_def)
qed

lemma guarded_receive: "guarded os G s (snd (receive os i s))"
  by (intro guarded_world) (simp_all add: receive_def Let_def effects_intros)

lemma guarded_input: "guarded os G s s' \<Longrightarrow> guarded os G s (set_input i b s')"
  by (simp add: guarded_def clients_granted_def)

lemma guarded_command:
  assumes "server_ok s" "shared_grants G (sv_shared s)" "clients_granted G s" "(i, buf) \<in> set (sv_threads s)"
    and "dispatch os line (view i s) = Some st"
  shows "guarded os G s (put i st s)"
proof -
  have i: "i < length (sv_objects s)"
    by (rule server_ok_thread [OF assms(1,4)])
  with assms(3) have "client_granted G (sv_objects s ! i)"
    by (simp add: clients_granted_def list_all_length)
  with dispatch_granted [OF assms(5), of G] assms(2) have
    "client_granted G (ft_client st)" "effects os (granted_path G) (sv_world s) (ft_world st)"
    by simp_all
  with i show ?thesis by (intro guarded_put) simp_all
qed

lemma guarded_step:
  assumes "ftp_step os s s'" "server_ok s" "shared_grants G (sv_shared s)" "clients_granted G s"
  shows "guarded os G s s'"
  using assms(1)
proof cases
  case (step_receive i buf)
  then show ?thesis by (simp add: guarded_input guarded_receive)
next
  case (step_skip i buf)
  then show ?thesis by (simp add: guarded_def clients_granted_def)
next
  case (step_command i buf st)
  then show ?thesis using assms by (auto intro: guarded_input guarded_command)
next
  case (step_closed i buf)
  then show ?thesis using server_ok_thread [OF assms(2)] by (auto intro: guarded_thread_end)
next
  case (step_hangup i buf)
  then have "guarded os G (snd (receive os i s)) s'"
    using server_ok_thread [OF assms(2)] by (auto simp: receive_def Let_def intro!: guarded_thread_end)
  with guarded_receive show ?thesis by (rule guarded_trans)
qed (use assms(2) in \<open>simp_all add: guarded_start guarded_stop guarded_accept_one guarded_accept_end
  guarded_world ftp_add_user_def ftp_add_anonymous_user_def ftp_clear_users_def\<close>)

lemma granted_run:
  assumes "(ftp_granted_step os G)\<^sup>*\<^sup>* (new_server tmp w) s"
  shows "server_ok s \<and> shared_grants G (sv_shared s) \<and> clients_granted G s
    \<and> effects os (granted_path G) w (sv_world s)"
  using assms
proof (induction rule: rtranclp_induct)
  case base
  show ?case by (simp add: server_ok_new) (simp add: new_server_def shared_grants_def clients_granted_def)
next
  case (step s s')
  then have "ftp_step os s s'" "shared_grants G (sv_shared s')"
    by (simp_all add: ftp_granted_step_def)
  moreover from step.IH this(1) have "guarded os G s s'"
    by (blast intro: guarded_step)
  ultimately show ?case
    using step.IH ftp_step_ok by (auto simp: guarded_def)
qed

subsection \<open>Confinement of the whole server\<close>



text \<open>An anonymous client connects, logs in and deletes a file.\<close>

definition delete_input :: string where
  "delete_input = ''DELE f'' @ [CHR 0x0A]"

definition anonymous_input :: string where
  "anonymous_input = ''USER anonymous'' @ [CHR 0x0A] @ delete_input"

definition demo_listed :: "ftp_permission \<Rightarrow> ftp_shared" where
  "demo_listed p = \<lparr>fs_users = [\<lparr>u_name = ''anonymous'', u_pass = [], u_root = [], u_perm = p, u_anon = True\<rparr>],
     fs_conn_users = [], fs_tmp = ''/t''\<rparr>"

definition demo_empty :: "mem_world ftp_server" where
  "demo_empty = new_server ''/t'' (mem_world0\<lparr>mw_files := [(''/t/f'', ''x'')], mw_chunks := [anonymous_input]\<rparr>)"

definition demo_open :: "ftp_permission \<Rightarrow> mem_world ftp_server" where
  "demo_open p = snd (ftp_start mem_os (ftp_add_anonymous_user [] p demo_empty))"

definition demo_received :: "ftp_permission \<Rightarrow> mem_world ftp_server" where
  "demo_received p = set_input 0 anonymous_input (snd (receive mem_os 0 (accept_one mem_os (demo_open p))))"

definition demo_anonymous :: "ftp_permission \<Rightarrow> mem_world ftp_server" where
  "demo_anonymous p = set_input 0 delete_input
     (put 0 (user_cmd mem_os ''anonymous'' (view 0 (demo_received p))) (demo_received p))"

definition demo_asked :: "ftp_permission \<Rightarrow> mem_world ftp_server" where
  "demo_asked p = set_input 0 [] (put 0 (dele_cmd mem_os ''f'' (view 0 (demo_anonymous p))) (demo_anonymous p))"

lemma demo_next_line:
  "next_line anonymous_input = (''USER anonymous'', delete_input)" "CHR 0x0A \<in> set anonymous_input"
  "next_line delete_input = (''DELE f'', [])"
  "CHR 0x0A \<in> set delete_input" "takeWhile (\<lambda>c. c \<noteq> CHR 0x00) anonymous_input = anonymous_input" "anonymous_input \<noteq> []"
  "length anonymous_input = 22"
  by (simp_all add: anonymous_input_def delete_input_def next_line_def)

lemma demo_open_parts:
  "sv_objects (demo_open p) = []" "sv_threads (demo_open p) = []" "sv_accepting (demo_open p)"
  "sv_shared (demo_open p) = demo_listed p" "sv_world (demo_open p) = mem_world0\<lparr>mw_files := [(''/t/f'', ''x'')], mw_chunks := [anonymous_input], mw_next := 8\<rparr>"
  by (simp_all add: demo_open_def ftp_start_def open_listener_def mem_defs demo_empty_def new_server_def
      ftp_add_anonymous_user_def demo_listed_def kInvalidSock_def kSockErr_def set_reuseaddr_def Let_def)

lemma mem_os_calls: "os_recv mem_os = mem_recv" "os_unlink mem_os = mem_unlink" "os_send mem_os s d w = (int (length d), w\<lparr>mw_sent := mw_sent w @ [(s, d)]\<rparr>)"
  by (simp_all add: mem_os_def)

lemma demo_accepted_parts:
  "sv_objects (accept_one mem_os (demo_open p)) = [new_client 8]"
  "sv_threads (accept_one mem_os (demo_open p)) = [(0, [])]"
  "sv_shared (accept_one mem_os (demo_open p)) = demo_listed p"
  "mw_chunks (sv_world (accept_one mem_os (demo_open p))) = [anonymous_input]"
  "mw_files (sv_world (accept_one mem_os (demo_open p))) = [(''/t/f'', ''x'')]"
  by (simp_all add: accept_one_def demo_open_parts mem_defs kInvalidSock_def Let_def ftp_send_def view_def put_def
      new_client_def)

lemma demo_received_parts:
  "sv_objects (demo_received p) = [new_client 8]" "sv_threads (demo_received p) = [(0, anonymous_input)]"
  "sv_shared (demo_received p) = demo_listed p"
  "mw_files (sv_world (demo_received p)) = [(''/t/f'', ''x'')]"
  by (simp_all add: demo_received_def set_input_def receive_def Let_def mem_os_calls mem_recv_def demo_accepted_parts
      demo_next_line)

definition anonymous_client :: "ftp_permission \<Rightarrow> ftp_client" where
  "anonymous_client p = (new_client 8)\<lparr>cl_user := ''anonymous'', cl_auth := True, cl_perm := p, cl_phy_root := ''/t''\<rparr>"

lemma demo_anonymous_parts:
  "sv_objects (demo_anonymous p) = [anonymous_client p]" "sv_threads (demo_anonymous p) = [(0, delete_input)]"
  "fs_users (sv_shared (demo_anonymous p)) = fs_users (demo_listed p)"
  "fs_tmp (sv_shared (demo_anonymous p)) = ''/t''"
  "mw_files (sv_world (demo_anonymous p)) = [(''/t/f'', ''x'')]"
  by (simp_all add: demo_anonymous_def user_cmd_def demo_received_parts demo_listed_def upd_client_def ftp_send_def
      anonymous_client_def mem_os_calls new_client_def Let_def set_input_def)

lemma demo_anonymous_run:
  assumes "G ''/t'' p"
  shows "(ftp_granted_step mem_os G)\<^sup>*\<^sup>* demo_empty (demo_asked p)"
proof -
  let ?add = "ftp_add_anonymous_user [] p demo_empty" let ?accepted = "accept_one mem_os (demo_open p)"
  have grants: "shared_grants G sh" if "fs_users sh = fs_users (demo_listed p)" "fs_tmp sh = ''/t''" for sh
    using assms that by (simp add: shared_grants_def demo_listed_def account_root_def)
  have "ftp_granted_step mem_os G demo_empty ?add"
    unfolding ftp_granted_step_def
    by (intro conjI step_add_anonymous grants)
      (simp_all add: ftp_add_anonymous_user_def demo_empty_def new_server_def demo_listed_def)
  moreover have "ftp_granted_step mem_os G ?add (demo_open p)"
    unfolding ftp_granted_step_def using demo_open_parts(4) [of p] unfolding demo_open_def
    by (intro conjI step_start grants)
      (simp_all add: ftp_add_anonymous_user_def demo_empty_def new_server_def demo_listed_def)
  moreover have "ftp_granted_step mem_os G (demo_open p) ?accepted"
    unfolding ftp_granted_step_def
    by (intro conjI step_accept grants) (simp_all add: demo_open_parts demo_accepted_parts demo_listed_def)
  moreover have "ftp_step mem_os ?accepted (demo_received p)"
  proof -
    have "fst (receive mem_os 0 ?accepted) = anonymous_input"
      by (simp add: receive_def Let_def mem_os_calls mem_recv_def demo_accepted_parts demo_next_line)
    then show ?thesis
      using step_receive [of 0 "[]" ?accepted mem_os] unfolding demo_received_def
      by (simp add: demo_accepted_parts demo_next_line new_client_def kInvalidSock_def)
  qed
  then have "ftp_granted_step mem_os G ?accepted (demo_received p)"
    unfolding ftp_granted_step_def by (intro conjI grants) (simp_all add: demo_received_parts demo_listed_def)
  moreover have "ftp_step mem_os (demo_received p) (demo_anonymous p)"
    using step_command [of 0 anonymous_input "demo_received p" mem_os] unfolding demo_anonymous_def
    by (simp add: demo_received_parts demo_next_line dispatch_def line_defs)
  then have "ftp_granted_step mem_os G (demo_received p) (demo_anonymous p)"
    unfolding ftp_granted_step_def by (intro conjI grants) (simp_all add: demo_anonymous_parts)
  moreover have "ftp_step mem_os (demo_anonymous p) (demo_asked p)"
    using step_command [of 0 delete_input "demo_anonymous p" mem_os] unfolding demo_asked_def
    by (simp add: demo_anonymous_parts demo_next_line dispatch_def line_defs)
  then have "ftp_granted_step mem_os G (demo_anonymous p) (demo_asked p)"
    unfolding ftp_granted_step_def
    by (intro conjI grants) (simp_all add: demo_asked_def dele_cmd_conducts [unfolded conducts_def] demo_anonymous_parts)
  ultimately show ?thesis
    by (meson rtranclp.rtrancl_into_rtrancl rtranclp.rtrancl_refl)
qed




subsection \<open>Read-only servers\<close>

text \<open>The same system, where the four calls that change files have no effect.\<close>

definition frozen :: "'w os \<Rightarrow> 'w os" where
  "frozen os = os\<lparr>os_rmdir := \<lambda>p w. (- 1, w), os_unlink := \<lambda>p w. (- 1, w), os_create := \<lambda>p w. (False, w),
                  os_append := \<lambda>p d w. w\<rparr>"

lemma frozen_fields [simp]:
  "os_socket (frozen os) = os_socket os" "os_reuseaddr (frozen os) = os_reuseaddr os"
  "os_bind_loopback (frozen os) = os_bind_loopback os" "os_getsockname (frozen os) = os_getsockname os"
  "os_listen (frozen os) = os_listen os" "os_accept (frozen os) = os_accept os"
  "os_recv (frozen os) = os_recv os" "os_send (frozen os) = os_send os"
  "os_shutdown (frozen os) = os_shutdown os" "os_close (frozen os) = os_close os"
  "os_mkdir (frozen os) = os_mkdir os" "os_list (frozen os) = os_list os" "os_stat (frozen os) = os_stat os"
  "os_read (frozen os) = os_read os" "os_localtime (frozen os) = os_localtime os"
  by (simp_all add: frozen_def)

lemma frozen_send [simp]: "ftp_send (frozen os) = ftp_send os"
  by (simp add: fun_eq_iff ftp_send_def)

lemma frozen_socket [simp]:
  "sock_close (frozen os) = sock_close os" "sock_shutdown (frozen os) = sock_shutdown os"
  "set_reuseaddr (frozen os) = set_reuseaddr os" "open_listener (frozen os) = open_listener os"
  by (auto simp: fun_eq_iff sock_close_def sock_shutdown_def set_reuseaddr_def open_listener_def Let_def split_beta)

lemma frozen_close [simp]: "close_client (frozen os) = close_client os" "close_pasv (frozen os) = close_pasv os"
  by (auto simp: fun_eq_iff close_pasv_def close_client_def Let_def)

lemma frozen_checks [simp]: "checked (frozen os) = checked os" "require_auth (frozen os) = require_auth os"
  by (simp_all add: fun_eq_iff checked_cases require_auth_def)

lemma frozen_listing [simp]: "listing_line (frozen os) = listing_line os"
  by (simp add: fun_eq_iff listing_line_def fmt_unixtime_def)

lemma frozen_transfer [simp]:
  "accept_data (frozen os) st = accept_data os st" "send_blocks (frozen os) sock bs w = send_blocks os sock bs w"
  "dir_listing (frozen os) path w = dir_listing os path w"
  unfolding accept_data_def send_blocks_def dir_listing_def frozen_fields frozen_socket frozen_listing
  by (rule refl)+

text \<open>The commands that do not call the frozen operations are the same functions.\<close>

lemmas frozen_parts = frozen_fields frozen_send frozen_socket frozen_close frozen_checks frozen_transfer

lemma frozen_commands [simp]:
  "user_cmd (frozen os) arg st = user_cmd os arg st" "pass_cmd (frozen os) arg st = pass_cmd os arg st"
  "pasv_cmd (frozen os) st = pasv_cmd os st" "list_cmd (frozen os) arg st = list_cmd os arg st"
  "retr_cmd (frozen os) arg st = retr_cmd os arg st" "mkd_cmd (frozen os) arg st = mkd_cmd os arg st"
  "cwd_cmd (frozen os) arg st = cwd_cmd os arg st" "ok_if (frozen os) msg st = ok_if os msg st"
  "feat_cmd (frozen os) st = feat_cmd os st"
  unfolding user_cmd_def pass_cmd_def pasv_cmd_def list_cmd_def retr_cmd_def mkd_cmd_def cwd_cmd_def ok_if_def
    feat_cmd_def frozen_parts
  by (rule refl)+

definition no_write :: ftp_grant where
  "no_write root perm \<longleftrightarrow> perm AND ftp_perm_write \<noteq> ftp_perm_write"

lemma frozen_dispatch:
  assumes "client_granted no_write (ft_client st)"
  shows "dispatch (frozen os) line st = dispatch os line st"
proof (cases "fst (split_command line) \<in> {''STOR'', ''DELE'', ''RMD'', ''MKD''}")
  case True
  from assms have "\<exists>r. checked os ftp_perm_write st = (False, r)"
    by (auto simp: checked_cases client_granted_def no_write_def)
  then obtain r where r: "checked os ftp_perm_write st = (False, r)" by blast
  then have "checked (frozen os) ftp_perm_write st = (False, r)" by simp
  with r True write_refused show ?thesis by metis
next
  case False
  then show ?thesis by (simp add: dispatch_def split_beta)
qed

lemma frozen_server [simp]:
  "ftp_start (frozen os) s = ftp_start os s" "ftp_stop (frozen os) s = ftp_stop os s"
  "accept_one (frozen os) s = accept_one os s" "accept_end (frozen os) s = accept_end os s"
  "receive (frozen os) i s = receive os i s" "thread_end (frozen os) i s = thread_end os i s"
  unfolding ftp_start_def ftp_stop_def close_all_def accept_one_def accept_end_def receive_def thread_end_def
    remove_client_def frozen_parts
  by (rule refl)+

lemma frozen_step:
  assumes "ftp_step os s s'" "server_ok s" "clients_granted no_write s"
  shows "ftp_step (frozen os) s s'"
  using assms(1)
proof cases
  case (step_command i buf st)
  have "i < length (sv_objects s)"
    by (rule server_ok_thread [OF assms(2) step_command(2)])
  with assms(3) have "client_granted no_write (ft_client (view i s))"
    by (simp add: clients_granted_def list_all_length)
  with step_command show ?thesis
    by (auto simp: frozen_dispatch intro: ftp_step.step_command)
qed (auto intro: ftp_step.intros [where os = "frozen os", unfolded frozen_server])

lemma frozen_run:
  assumes "(ftp_granted_step os no_write)\<^sup>*\<^sup>* (new_server tmp w) s"
  shows "(ftp_granted_step (frozen os) no_write)\<^sup>*\<^sup>* (new_server tmp w) s"
  using assms
proof (induction rule: rtranclp_induct)
  case (step s s')
  from granted_run [OF step.hyps(1)] step.hyps(2) have "ftp_granted_step (frozen os) no_write s s'"
    by (auto simp: ftp_granted_step_def intro: frozen_step)
  with step.IH show ?case by (rule rtranclp.rtrancl_into_rtrancl)
qed simp

text \<open>An aspect of the world that sockets, listing and making directories leave alone.\<close>

definition untouched_by_sockets :: "'w os \<Rightarrow> ('w \<Rightarrow> 'c) \<Rightarrow> bool" where
  "untouched_by_sockets os content \<longleftrightarrow> (\<forall>w s n m d p.
     content (snd (os_socket os w)) = content w \<and> content (os_reuseaddr os s w) = content w
   \<and> content (snd (os_bind_loopback os s w)) = content w \<and> content (snd (snd (os_getsockname os s w))) = content w
   \<and> content (snd (os_listen os s n w)) = content w \<and> content (snd (os_accept os s w)) = content w
   \<and> content (snd (os_recv os s m w)) = content w \<and> content (snd (os_send os s d w)) = content w
   \<and> content (os_shutdown os s w) = content w \<and> content (os_close os s w) = content w
   \<and> content (snd (os_mkdir os p n w)) = content w \<and> content (snd (os_list os p w)) = content w)"

lemma frozen_effect:
  assumes "effect (frozen os) ok u v" "untouched_by_sockets os content"
  shows "content v = content u"
  using assms by cases (simp_all add: untouched_by_sockets_def, simp_all add: frozen_def)

text \<open>C7. Take any run of the whole server in which no account with the write permission is ever
  configured, and any aspect of the world that sockets, listing and making directories leave alone,
  such as the files and their contents. The run does not change it, whatever clients send on however
  many connections: nothing is stored, removed or overwritten.\<close>

theorem ftp_read_only_server:
  assumes "untouched_by_sockets os content"
    and "(ftp_granted_step os no_write)\<^sup>*\<^sup>* (new_server tmp w) s"
  shows "content (sv_world s) = content w"
proof -
  have "effects (frozen os) (granted_path no_write) w (sv_world s)"
    using granted_run [OF frozen_run [OF assms(2)]] by blast
  then show ?thesis
    by (rule effects_invariant [where P = "\<lambda>v. content v = content w"])
      (use frozen_effect [OF _ assms(1)] in auto)
qed

theorem ftp_read_only_server_witness:
  "mw_files (sv_world (demo_asked ftp_perm_read)) = [(''/t/f'', ''x'')]"
proof -
  have "untouched_by_sockets mem_os mw_files"
    by (simp add: untouched_by_sockets_def mem_defs split: list.split)
  moreover have "(ftp_granted_step mem_os no_write)\<^sup>*\<^sup>* demo_empty (demo_asked ftp_perm_read)"
    by (rule demo_anonymous_run) (simp add: no_write_def ftp_perm_read_def ftp_perm_write_def)
  ultimately show ?thesis
    using ftp_read_only_server [of mem_os mw_files] unfolding demo_empty_def by fastforce
qed

end
