(* ===== verification/MqttCodec.thy ===== *)
theory MqttCodec
  imports Platform
begin

unbundle bit_operations_syntax

text \<open>
  The packet encoding of \<open>mqtt_server.cpp\<close>: the variable-length size field, the frames the
  server sends and the packet bodies it decodes. A body is a list of bytes; the code walks it with
  an offset, here the list that remains. A decoder returns \<open>None\<close> where the code returns
  \<open>false\<close>.
\<close>

subsection \<open>Packet types\<close>

definition MQTT_CONNECT :: byte where "MQTT_CONNECT = 1"
definition MQTT_CONNACK :: byte where "MQTT_CONNACK = 2"
definition MQTT_PUBLISH :: byte where "MQTT_PUBLISH = 3"
definition MQTT_SUBSCRIBE :: byte where "MQTT_SUBSCRIBE = 8"
definition MQTT_SUBACK :: byte where "MQTT_SUBACK = 9"
definition MQTT_PINGREQ :: byte where "MQTT_PINGREQ = 12"
definition MQTT_DISCONNECT :: byte where "MQTT_DISCONNECT = 14"

lemmas packet_type_defs = MQTT_CONNECT_def MQTT_CONNACK_def MQTT_PUBLISH_def MQTT_SUBSCRIBE_def
  MQTT_SUBACK_def MQTT_PINGREQ_def MQTT_DISCONNECT_def

subsection \<open>The size field\<close>

text \<open>
  The loop of \<open>decode_remaining_length\<close>: rounds left, bytes left, multiplier, length so far,
  bytes consumed. The result is the return value and the two output parameters.
\<close>

fun decode_length_loop :: "nat \<Rightarrow> byte list \<Rightarrow> nat \<Rightarrow> nat \<Rightarrow> nat \<Rightarrow> bool \<times> nat \<times> nat" where
  "decode_length_loop 0 data multiplier decoded used = (False, decoded, used)"
| "decode_length_loop (Suc n) [] multiplier decoded used = (False, decoded, used)"
| "decode_length_loop (Suc n) (byte # data) multiplier decoded used =
     (let decoded' = decoded + unat (byte AND 0x7F) * multiplier
      in if byte AND 0x80 = 0 then (True, decoded', Suc used)
         else decode_length_loop n data (multiplier * 128) decoded' (Suc used))"

definition decode_remaining_length :: "byte list \<Rightarrow> bool \<times> nat \<times> nat" where
  "decode_remaining_length data = decode_length_loop 4 data 1 0 0"

fun encode_remaining_length :: "nat \<Rightarrow> byte list" where
  "encode_remaining_length len =
     (let byte = word_of_nat (len mod 128); rest = len div 128
      in if rest > 0 then (byte OR 0x80) # encode_remaining_length rest else [byte])"

declare encode_remaining_length.simps [simp del]

definition frame_packet :: "byte \<Rightarrow> byte list \<Rightarrow> byte list" where
  "frame_packet type_and_flags payload =
     type_and_flags # encode_remaining_length (length payload) @ payload"

subsection \<open>Two-byte numbers and counted strings\<close>

definition be16 :: "byte \<Rightarrow> byte \<Rightarrow> 16 word" where
  "be16 hi lo = push_bit 8 (ucast hi) OR ucast lo"

definition be16_bytes :: "16 word \<Rightarrow> byte list" where
  "be16_bytes n = [ucast (drop_bit 8 n), ucast (n AND 0xFF)]"

definition text_of :: "byte list \<Rightarrow> string" where
  "text_of = map char_of_byte"

definition bytes_of :: "string \<Rightarrow> byte list" where
  "bytes_of = map byte_of_char"

subsection \<open>Decoders\<close>

record connect_packet =
  cp_client_id :: string
  cp_keepalive :: "16 word"
  cp_flags :: byte

definition decode_connect :: "byte list \<Rightarrow> connect_packet option" where
  "decode_connect data =
     (if length data < 10 then None
      else if be16 (data ! 0) (data ! 1) \<noteq> 4 \<or> text_of (take 4 (drop 2 data)) \<noteq> ''MQTT'' then None
      else if data ! 6 \<noteq> 4 then None
      else if 10 + 2 > length data then None
      else (let client_len = unat (be16 (data ! 10) (data ! 11))
            in if 12 + client_len > length data then None
               else Some \<lparr>cp_client_id = text_of (take client_len (drop 12 data)),
                          cp_keepalive = be16 (data ! 8) (data ! 9), cp_flags = data ! 7\<rparr>))"

definition decode_publish :: "byte list \<Rightarrow> (string \<times> string) option" where
  "decode_publish data =
     (if length data < 2 then None
      else (let topic_len = unat (be16 (data ! 0) (data ! 1))
            in if topic_len = 0 then None
               else if 2 + topic_len > length data then None
               else Some (text_of (take topic_len (drop 2 data)), text_of (drop (2 + topic_len) data))))"

function decode_filters :: "byte list \<Rightarrow> (string \<times> byte) list option" where
  "decode_filters rest =
     (if rest = [] then Some []
      else if length rest < 2 then None
      else (let filter_len = unat (be16 (rest ! 0) (rest ! 1))
            in if 2 + filter_len + 1 > length rest then None
               else map_option (Cons (text_of (take filter_len (drop 2 rest)), rest ! (2 + filter_len)))
                      (decode_filters (drop (2 + filter_len + 1) rest))))"
  by pat_completeness auto
termination
  by (relation "measure length") auto

declare decode_filters.simps [simp del]

definition decode_subscribe :: "byte list \<Rightarrow> (16 word \<times> (string \<times> byte) list) option" where
  "decode_subscribe data =
     (if length data < 2 then None
      else map_option (Pair (be16 (data ! 0) (data ! 1))) (decode_filters (drop 2 data)))"

subsection \<open>Encoders\<close>

definition encode_connack :: "byte list" where
  "encode_connack = frame_packet (push_bit 4 MQTT_CONNACK) [0, 0]"

definition encode_suback :: "16 word \<Rightarrow> byte list \<Rightarrow> byte list" where
  "encode_suback packet_id codes = frame_packet (push_bit 4 MQTT_SUBACK) (be16_bytes packet_id @ codes)"

definition encode_publish :: "string \<Rightarrow> string \<Rightarrow> byte list" where
  "encode_publish topic payload =
     frame_packet (push_bit 4 MQTT_PUBLISH)
       (be16_bytes (word_of_nat (length topic)) @ bytes_of topic @ bytes_of payload)"

definition encode_pingresp :: "byte list" where
  "encode_pingresp = [0xD0, 0x00]"

subsection \<open>Sockets\<close>

text \<open>
  \<open>recv_exact\<close> repeats the receive until the count is reached; the bytes received so far are
  what the code leaves in the buffer. \<open>send_all\<close> sends what is left after a short send.
\<close>

function recv_exact :: "'w os \<Rightarrow> raw_socket \<Rightarrow> nat \<Rightarrow> 'w \<Rightarrow> bool \<times> byte list \<times> 'w" where
  "recv_exact os socket n w =
     (if n = 0 then (True, [], w)
      else (let r = os_recv os socket n w
            in if fst r = [] then (False, [], snd r)
               else (let (ok, rest, w') = recv_exact os socket (n - length (fst r)) (snd r)
                     in (ok, bytes_of (fst r) @ rest, w'))))"
  by pat_completeness auto
termination
  by (relation "measure (\<lambda>(os, socket, n, w). n)") auto

declare recv_exact.simps [simp del]

function send_all :: "'w os \<Rightarrow> raw_socket \<Rightarrow> byte list \<Rightarrow> 'w \<Rightarrow> bool \<times> 'w" where
  "send_all os socket data w =
     (if data = [] then (True, w)
      else (let (sent, w') = os_send os socket (text_of data) w
            in if sent \<le> 0 then (False, w') else send_all os socket (drop (nat sent) data) w'))"
  by pat_completeness auto
termination
  by (relation "measure (\<lambda>(os, socket, data, w). length data)") auto

declare send_all.simps [simp del]

text \<open>The loop of \<open>read_remaining_length\<close>: rounds left, multiplier, length so far.\<close>

fun read_length_loop :: "'w os \<Rightarrow> raw_socket \<Rightarrow> nat \<Rightarrow> nat \<Rightarrow> nat \<Rightarrow> 'w \<Rightarrow> bool \<times> nat \<times> 'w" where
  "read_length_loop os socket 0 multiplier len w = (False, len, w)"
| "read_length_loop os socket (Suc n) multiplier len w =
     (let (ok, bs, w1) = recv_exact os socket 1 w
      in if \<not> ok then (False, len, w1)
         else (let byte = hd bs; len' = len + unat (byte AND 0x7F) * multiplier
               in if byte AND 0x80 = 0 then (True, len', w1)
                  else read_length_loop os socket n (multiplier * 128) len' w1))"

definition read_remaining_length :: "'w os \<Rightarrow> raw_socket \<Rightarrow> 'w \<Rightarrow> bool \<times> nat \<times> 'w" where
  "read_remaining_length os socket w = read_length_loop os socket 4 1 0 w"

text \<open>One packet as the loop of \<open>client_handler\<close> reads it: header byte and body.\<close>

definition read_packet :: "'w os \<Rightarrow> raw_socket \<Rightarrow> 'w \<Rightarrow> (byte \<times> byte list) option \<times> 'w" where
  "read_packet os socket w =
     (let (ok1, header, w1) = recv_exact os socket 1 w
      in if \<not> ok1 then (None, w1)
      else (let (ok2, remaining_length, w2) = read_remaining_length os socket w1
            in if \<not> ok2 then (None, w2)
            else if remaining_length > 0 then
              (let (ok3, body, w3) = recv_exact os socket remaining_length w2
               in if \<not> ok3 then (None, w3) else (Some (hd header, body), w3))
            else (Some (hd header, []), w2)))"

subsection \<open>Numbers\<close>

lemma byte_masks: "(0xFF :: 16 word) = mask 8" "(0x7F :: byte) = mask 7" "(0x80 :: byte) = push_bit 7 1"
  by (simp_all add: mask_eq_exp_minus_1 push_bit_eq_mult)

lemma byte_mask_bits [simp]:
  "bit (0xFF :: 16 word) n \<longleftrightarrow> n < 8" "bit (0x7F :: byte) n \<longleftrightarrow> n < 7" "bit (0x80 :: byte) n \<longleftrightarrow> n = 7"
  unfolding byte_masks by (simp_all only: bit_mask_iff bit_push_bit_iff bit_1_iff possible_bit_word) auto

lemma be16_bytes_be16 [simp]: "be16 (ucast (drop_bit 8 n)) (ucast (n AND 0xFF)) = n" for n :: "16 word"
  unfolding be16_def by (rule bit_word_eqI)
    (auto simp: bit_simps simp del: bit_numeral_word_iff)

lemma unat_be16: "unat (be16 hi lo) = 256 * unat hi + unat lo"
proof -
  have hi: "unat hi < 256" and lo: "unat lo < 256"
    using unsigned_less [of hi] unsigned_less [of lo] by simp_all
  have "be16 hi lo = push_bit 8 (ucast hi) + ucast lo"
    unfolding be16_def by (rule disjunctive_add [symmetric]) (auto simp: bit_simps dest: bit_imp_le_length)
  also have "\<dots> = word_of_nat (256 * unat hi + unat lo)"
    by (simp add: push_bit_eq_mult mult.commute)
  finally have "unat (be16 hi lo) = (256 * unat hi + unat lo) mod 2 ^ 16"
    by (simp only: unat_of_nat) simp
  with hi lo show ?thesis by simp
qed

lemma length_be16_bytes [simp]: "length (be16_bytes n) = 2"
  by (simp add: be16_bytes_def)

lemma length_text_of [simp]: "length (text_of bs) = length bs"
  by (simp add: text_of_def)

lemma length_bytes_of [simp]: "length (bytes_of s) = length s"
  by (simp add: bytes_of_def)

lemma text_of_bytes_of [simp]: "text_of (bytes_of s) = s"
  by (simp add: text_of_def bytes_of_def comp_def)

lemma bytes_of_text_of [simp]: "bytes_of (text_of bs) = bs"
  by (simp add: text_of_def bytes_of_def comp_def)

lemma text_of_append [simp]: "text_of (a @ b) = text_of a @ text_of b"
  by (simp add: text_of_def)

lemma bytes_of_append [simp]: "bytes_of (a @ b) = bytes_of a @ bytes_of b"
  by (simp add: bytes_of_def)

text \<open>One byte of the size field.\<close>

lemma low_byte:
  fixes w :: byte
  assumes "take_bit 7 w = w"
  shows "w AND 0x7F = w" "w AND 0x80 = 0" "(w OR 0x80) AND 0x7F = w" "(w OR 0x80) AND 0x80 \<noteq> 0"
proof -
  have low: "\<not> bit w 7"
    by (subst assms [symmetric]) (simp add: bit_take_bit_iff)
  show 1: "w AND 0x7F = w"
    using assms unfolding byte_masks take_bit_eq_mask .
  show "w AND 0x80 = 0"
    using low by (intro bit_word_eqI) (auto simp: bit_simps simp del: bit_numeral_word_iff)
  have "(w OR 0x80) AND 0x7F = w AND 0x7F"
    by (rule bit_word_eqI) (auto simp: bit_simps simp del: bit_numeral_word_iff)
  with 1 show "(w OR 0x80) AND 0x7F = w" by simp
  have "bit ((w OR 0x80) AND 0x80) 7"
    by (simp add: bit_simps del: bit_numeral_word_iff)
  then show "(w OR 0x80) AND 0x80 \<noteq> 0" by fastforce
qed

lemma size_byte:
  assumes "m < 128"
  shows "unat ((word_of_nat m :: byte) AND 0x7F) = m" "(word_of_nat m :: byte) AND 0x80 = 0"
    "unat (((word_of_nat m :: byte) OR 0x80) AND 0x7F) = m" "((word_of_nat m :: byte) OR 0x80) AND 0x80 \<noteq> 0"
proof -
  have "take_bit 7 (word_of_nat m :: byte) = word_of_nat m"
    using assms by (simp add: take_bit_of_nat take_bit_nat_eq_self)
  note low = low_byte [OF this]
  have "unat (word_of_nat m :: byte) = m"
    using assms by (simp add: unat_of_nat)
  with low show "unat ((word_of_nat m :: byte) AND 0x7F) = m" "(word_of_nat m :: byte) AND 0x80 = 0"
    "unat (((word_of_nat m :: byte) OR 0x80) AND 0x7F) = m" "((word_of_nat m :: byte) OR 0x80) AND 0x80 \<noteq> 0"
    by (simp_all only:) simp_all
qed

subsection \<open>The size field is decoded as encoded\<close>

lemma decode_encode_loop:
  "len < 128 ^ n \<Longrightarrow> 0 < n \<Longrightarrow>
     decode_length_loop n (encode_remaining_length len @ rest) mult decoded used
       = (True, decoded + len * mult, used + length (encode_remaining_length len))"
proof (induction len arbitrary: n mult decoded used rule: encode_remaining_length.induct)
  case (1 len)
  then obtain k where n: "n = Suc k" by (cases n) auto
  have m: "len mod 128 < 128" by simp
  show ?case
  proof (cases "len div 128 > 0")
    case True
    have "len div 128 < 128 ^ k"
      using "1.prems" n by (simp add: less_mult_imp_div_less mult.commute)
    moreover from this True have "0 < k" by (cases k) auto
    ultimately have "decode_length_loop k (encode_remaining_length (len div 128) @ rest) (mult * 128)
        (decoded + len mod 128 * mult) (Suc used) = (True, decoded + len mod 128 * mult + len div 128 * (mult * 128),
          Suc used + length (encode_remaining_length (len div 128)))"
      using "1.IH" [OF refl refl True] by blast
    moreover have "len mod 128 * mult + len div 128 * (mult * 128) = len * mult"
      by (metis (no_types, lifting) add.commute distrib_right div_mult_mod_eq mult.assoc mult.commute)
    ultimately show ?thesis
      using True n size_byte [OF m] by (subst (1 2) encode_remaining_length.simps) (simp add: Let_def add.assoc)
  next
    case False
    then have "len mod 128 = len" by simp
    with False n size_byte [OF m] show ?thesis
      by (subst (1 2) encode_remaining_length.simps) (simp add: Let_def)
  qed
qed

lemma length_encode_remaining_length:
  "len < 128 ^ n \<Longrightarrow> 0 < n \<Longrightarrow> length (encode_remaining_length len) \<le> n"
proof (induction len arbitrary: n rule: encode_remaining_length.induct)
  case (1 len)
  then obtain k where n: "n = Suc k" by (cases n) auto
  show ?case
  proof (cases "len div 128 > 0")
    case True
    have "len div 128 < 128 ^ k"
      using "1.prems" n by (simp add: less_mult_imp_div_less mult.commute)
    moreover from this True have "0 < k" by (cases k) auto
    ultimately show ?thesis
      using "1.IH" [OF refl refl True] n True by (subst encode_remaining_length.simps) (simp add: Let_def)
  next
    case False
    with n show ?thesis by (subst encode_remaining_length.simps) (simp add: Let_def)
  qed
qed

end
