(* ===== verification/MqttWire.thy ===== *)
theory MqttWire
  imports MqttCodec MemoryOs
begin

unbundle bit_operations_syntax

text \<open>
  The packet encoding over TCP. \<open>stream_socket\<close> and \<open>sink_socket\<close> state what TCP promises
  of \<open>recv\<close> and \<open>send\<close>: bytes arrive and leave in order, in chunks of any size. The lemmas
  show that \<open>recv_exact\<close>, \<open>read_remaining_length\<close> and \<open>send_all\<close> do not depend on the
  chunks, that the size field and the packet bodies are decoded as they are encoded, and which
  inputs the decoders refuse.
\<close>

subsection \<open>Byte streams\<close>

text \<open>\<open>pend w\<close> is what the peer has still to deliver on socket \<open>s\<close>.\<close>

definition stream_socket :: "'w os \<Rightarrow> raw_socket \<Rightarrow> ('w \<Rightarrow> string) \<Rightarrow> bool" where
  "stream_socket os s pend \<longleftrightarrow>
     (\<forall>n w. 0 < n \<longrightarrow> (\<exists>k. fst (os_recv os s n w) = take k (pend w) \<and> k \<le> n
        \<and> pend (snd (os_recv os s n w)) = drop k (pend w) \<and> (pend w \<noteq> [] \<longrightarrow> 0 < k)))"

text \<open>\<open>out w\<close> is what has been accepted for sending on socket \<open>s\<close>.\<close>

definition sink_socket :: "'w os \<Rightarrow> raw_socket \<Rightarrow> ('w \<Rightarrow> string) \<Rightarrow> bool" where
  "sink_socket os s out \<longleftrightarrow>
     (\<forall>d w. fst (os_send os s d w) \<le> int (length d)
        \<and> out (snd (os_send os s d w)) = out w @ take (nat (fst (os_send os s d w))) d)"

lemma stream_recv:
  assumes "stream_socket os s pend" "0 < n"
  obtains k where "fst (os_recv os s n w) = take k (pend w)" "k \<le> n" "k \<le> length (pend w)"
    "pend (snd (os_recv os s n w)) = drop k (pend w)" "pend w \<noteq> [] \<Longrightarrow> 0 < k"
proof -
  obtain k where k: "fst (os_recv os s n w) = take k (pend w)" "k \<le> n"
    "pend (snd (os_recv os s n w)) = drop k (pend w)" "pend w \<noteq> [] \<Longrightarrow> 0 < k"
    using assms unfolding stream_socket_def by blast
  show thesis
    by (rule that [of "min k (length (pend w))"]) (use k in \<open>auto simp: min_def\<close>)
qed

lemma bytes_of_take [simp]: "bytes_of (take n s) = take n (bytes_of s)"
  by (simp add: bytes_of_def take_map)

lemma bytes_of_drop [simp]: "bytes_of (drop n s) = drop n (bytes_of s)"
  by (simp add: bytes_of_def drop_map)

lemma bytes_of_Nil [simp]: "bytes_of [] = []"
  by (simp add: bytes_of_def)

lemma bytes_of_eq_Nil [simp]: "bytes_of s = [] \<longleftrightarrow> s = []"
  by (simp add: bytes_of_def)

lemma recv_exact_stream:
  assumes "stream_socket os s pend"
  shows "(fst (recv_exact os s n w) \<longleftrightarrow> n \<le> length (pend w))
    \<and> fst (snd (recv_exact os s n w)) = take n (bytes_of (pend w))
    \<and> pend (snd (snd (recv_exact os s n w))) = drop n (pend w)"
proof (induction n arbitrary: w rule: less_induct)
  case (less n)
  show ?case
  proof (cases "n = 0")
    case False
    then have "0 < n" by simp
    then obtain k where k: "fst (os_recv os s n w) = take k (pend w)" "k \<le> n" "k \<le> length (pend w)"
      "pend (snd (os_recv os s n w)) = drop k (pend w)" "pend w \<noteq> [] \<Longrightarrow> 0 < k"
      using stream_recv [OF assms] by blast
    show ?thesis
    proof (cases "k = 0")
      case True
      with k(5) have "pend w = []" by blast
      with k False True show ?thesis by (subst (1 2 3) recv_exact.simps) auto
    next
      case False
      with \<open>0 < n\<close> have "n - k < n" by simp
      note IH = less.IH [OF this, of "snd (os_recv os s n w)"]
      have "take n (bytes_of (pend w)) = take k (bytes_of (pend w)) @ take (n - k) (drop k (bytes_of (pend w)))"
        using k(2) by (metis take_add le_add_diff_inverse)
      with IH k False \<open>0 < n\<close> show ?thesis
        by (subst (1 2 3) recv_exact.simps) (auto simp: Let_def split_beta)
    qed
  qed (simp add: recv_exact.simps)
qed

lemma bytes_of_Cons: "bytes_of (c # s) = byte_of_char c # bytes_of s"
  by (simp add: bytes_of_def)

lemma read_length_loop_stream:
  assumes "stream_socket os s pend"
  shows "let (ok, n, used') = decode_length_loop k (bytes_of (pend w)) mult len used;
      (ok', n', w') = read_length_loop os s k mult len w
    in ok' = ok \<and> n' = n \<and> used \<le> used' \<and> pend w' = drop (used' - used) (pend w)"
proof (induction k arbitrary: mult len used w)
  case (Suc k)
  let ?r = "recv_exact os s 1 w"
  note r = recv_exact_stream [OF assms, of 1 w]
  show ?case
  proof (cases "pend w")
    case Nil
    with r show ?thesis by (simp add: split_beta Let_def)
  next
    case (Cons c rest)
    with r have ok: "fst ?r" "hd (fst (snd ?r)) = byte_of_char c" "pend (snd (snd ?r)) = rest"
      by (simp_all add: bytes_of_Cons)
    let ?len = "len + unat (byte_of_char c AND 0x7F) * mult"
    have "used' - used = Suc (used' - Suc used)" if "Suc used \<le> used'" for used'
      using that by simp
    with ok Cons Suc.IH [where w = "snd (snd ?r)" and mult = "mult * 128" and len = ?len and used = "Suc used"]
    show ?thesis by (auto simp: split_beta Let_def bytes_of_Cons)
  qed
qed simp

lemma decode_remaining_length_alt:
  "decode_remaining_length data = decode_length_loop (Suc (Suc (Suc (Suc 0)))) data 1 0 0"
  by (simp add: decode_remaining_length_def numeral_eq_Suc)

text \<open>Reading the size field from a socket, byte by byte and in whatever chunks it arrives,
  gives what \<open>decode_remaining_length\<close> gives on the bytes still to come, and takes from the
  stream exactly the bytes it consumed.\<close>

theorem read_remaining_length_stream:
  assumes "stream_socket os s pend"
  shows "let (ok, n, used) = decode_remaining_length (bytes_of (pend w));
      (ok', n', w') = read_remaining_length os s w
    in ok' = ok \<and> n' = n \<and> pend w' = drop used (pend w)"
  using read_length_loop_stream [OF assms, where k = 4 and w = w and mult = 1 and len = 0 and used = 0]
  by (auto simp: decode_remaining_length_def read_remaining_length_def Let_def)

lemma tape_stream: "stream_socket tape_os s fst"
  unfolding stream_socket_def by (auto simp: tape_os_def intro!: exI [of _ "min 3 n" for n])

lemma tape_sink: "sink_socket tape_os s snd"
  by (simp add: sink_socket_def tape_os_def min_def)

theorem read_remaining_length_stream_witness:
  "let (ok', n', w') = read_remaining_length tape_os 4 (text_of [0xC1, 0x02, 0x55], [])
   in ok' \<and> n' = 321 \<and> fst w' = text_of [0x55]"
proof -
  have "decode_remaining_length (bytes_of (text_of [0xC1, 0x02, 0x55])) = (True, 321, 2)"
    by (simp add: decode_remaining_length_alt)
  then show ?thesis
    using read_remaining_length_stream [OF tape_stream, of "(text_of [0xC1, 0x02, 0x55], [])" 4]
    by (auto simp: text_of_def)
qed

subsection \<open>The size field\<close>

lemma decode_encode_loop_overflow:
  "128 ^ n \<le> len \<Longrightarrow>
     decode_length_loop n (encode_remaining_length len @ rest) mult decoded used
       = (False, decoded + len mod 128 ^ n * mult, used + n)"
proof (induction len arbitrary: n mult decoded used rule: encode_remaining_length.induct)
  case (1 len)
  show ?case
  proof (cases n)
    case (Suc k)
    have m: "len mod 128 < 128" by simp
    have big: "128 ^ k \<le> len div 128"
      using "1.prems" Suc by (simp add: less_eq_div_iff_mult_less_eq mult.commute)
    then have pos: "len div 128 > 0"
      by (metis gr0I le_zero_eq power_eq_0_iff zero_neq_numeral)
    have "len mod 128 ^ n = len mod 128 + 128 * (len div 128 mod 128 ^ k)"
      using Suc by (simp add: mod_mult2_eq)
    then have sum: "len mod 128 * mult + len div 128 mod 128 ^ k * (mult * 128) = len mod 128 ^ n * mult"
      by (simp add: algebra_simps)
    show ?thesis
      using "1.IH" [OF refl refl pos big, of "mult * 128" "decoded + len mod 128 * mult" "Suc used"]
        pos size_byte [OF m] sum Suc
      by (subst encode_remaining_length.simps) (simp add: Let_def add.assoc)
  qed simp
qed

lemma decode_encoded_length:
  "decode_remaining_length (encode_remaining_length len @ rest) =
     (if len < 128 ^ 4 then (True, len, length (encode_remaining_length len))
      else (False, len mod 128 ^ 4, 4))"
  using decode_encode_loop [of len 4 rest 1 0 0] decode_encode_loop_overflow [of 4 len rest 1 0 0]
  by (simp add: decode_remaining_length_def)

text \<open>C35. The size field. What \<open>encode_remaining_length\<close> writes is read back by
  \<open>decode_remaining_length\<close> for every length below \<open>128 ^ 4\<close>, the bytes behind it left
  alone; for a larger length, which no packet can have, the decoder gives up after four bytes.\<close>

theorem remaining_length_roundtrip:
  "decode_remaining_length (encode_remaining_length len @ rest) =
     (if len < 128 ^ 4 then (True, len, length (encode_remaining_length len))
      else (False, len mod 128 ^ 4, 4))"
  by (rule decode_encoded_length)

subsection \<open>Counted strings\<close>

definition counted :: "string \<Rightarrow> byte list" where
  "counted s = be16_bytes (word_of_nat (length s)) @ bytes_of s"

lemma unat_length16: "n < 65536 \<Longrightarrow> unat (word_of_nat n :: 16 word) = n"
  by (simp add: unat_of_nat)

lemma counted_Cons:
  "counted s = ucast (drop_bit 8 (word_of_nat (length s) :: 16 word))
     # ucast ((word_of_nat (length s) :: 16 word) AND 0xFF) # bytes_of s"
  by (simp add: counted_def be16_bytes_def)

text \<open>Every list of bytes that is long enough begins with a counted string.\<close>

lemma be16_inject: "be16_bytes (be16 a b) = [a, b]"
proof -
  have "ucast (drop_bit 8 (be16 a b)) = a" "ucast (be16 a b AND 0xFF) = b"
    unfolding be16_def
    by (rule bit_word_eqI; auto simp: bit_simps simp del: bit_numeral_word_iff dest: bit_imp_le_length)+
  then show ?thesis by (simp add: be16_bytes_def)
qed

lemma counted_take:
  assumes "unat (be16 a b) \<le> length rest"
  shows "a # b # rest = counted (text_of (take (unat (be16 a b)) rest)) @ drop (unat (be16 a b)) rest"
proof -
  have "length (text_of (take (unat (be16 a b)) rest)) = unat (be16 a b)"
    using assms by simp
  then show ?thesis
    using be16_inject [of a b] by (simp add: counted_def)
qed

lemma unat_be16_less: "unat (be16 a b) < 65536"
  using unsigned_less [of "be16 a b"] by simp

subsection \<open>Packet bodies\<close>

text \<open>The bodies as the protocol lays them out.\<close>

definition publish_body :: "string \<Rightarrow> string \<Rightarrow> byte list" where
  "publish_body topic payload = counted topic @ bytes_of payload"

definition filters_body :: "(string \<times> byte) list \<Rightarrow> byte list" where
  "filters_body fs = concat (map (\<lambda>(f, qos). counted f @ [qos]) fs)"

definition subscribe_body :: "16 word \<Rightarrow> (string \<times> byte) list \<Rightarrow> byte list" where
  "subscribe_body packet_id fs = be16_bytes packet_id @ filters_body fs"

definition connect_body :: "byte \<Rightarrow> 16 word \<Rightarrow> string \<Rightarrow> byte list \<Rightarrow> byte list" where
  "connect_body flags keepalive client_id rest =
     counted ''MQTT'' @ [4, flags] @ be16_bytes keepalive @ counted client_id @ rest"

lemma decode_publish_format:
  "decode_publish data = Some (topic, payload) \<longleftrightarrow>
     data = publish_body topic payload \<and> 0 < length topic \<and> length topic < 65536"
proof
  assume dec: "decode_publish data = Some (topic, payload)"
  then obtain a b rest where data: "data = a # b # rest"
    by (cases data; cases "tl data") (auto simp: decode_publish_def split: if_splits)
  let ?n = "unat (be16 a b)"
  from dec data have n: "?n \<noteq> 0" "?n \<le> length rest" "topic = text_of (take ?n rest)"
    "payload = text_of (drop ?n rest)"
    by (auto simp: decode_publish_def Let_def split: if_splits)
  with counted_take [OF n(2)] unat_be16_less [of a b] data
  show "data = publish_body topic payload \<and> 0 < length topic \<and> length topic < 65536"
    by (simp add: publish_body_def)
next
  assume "data = publish_body topic payload \<and> 0 < length topic \<and> length topic < 65536"
  then show "decode_publish data = Some (topic, payload)"
    by (simp add: decode_publish_def publish_body_def counted_Cons unat_length16 Let_def)
qed

text \<open>\<open>decode_publish\<close> accepts exactly the bodies of the format, a counted topic of 1 to
  65535 bytes followed by the payload, and returns the two parts.\<close>

theorem decode_publish_iff:
  "decode_publish data = Some (topic, payload) \<longleftrightarrow>
     data = publish_body topic payload \<and> 0 < length topic \<and> length topic < 65536"
  by (rule decode_publish_format)

lemma decode_filters_Nil [simp]: "decode_filters [] = Some []"
  by (simp add: decode_filters.simps)

lemma decode_filters_encoded:
  "list_all (\<lambda>(f, qos). length f < 65536) fs \<Longrightarrow> decode_filters (filters_body fs) = Some fs"
proof (induction fs)
  case (Cons fq fs)
  obtain f qos where fq: "fq = (f, qos)" by (cases fq)
  with Cons show ?case
    by (subst decode_filters.simps)
      (simp add: filters_body_def counted_Cons unat_length16 nth_append Let_def)
qed (simp add: filters_body_def decode_filters.simps)

lemma decode_filters_only:
  "decode_filters data = Some fs \<Longrightarrow> data = filters_body fs \<and> list_all (\<lambda>(f, qos). length f < 65536) fs"
proof (induction data arbitrary: fs rule: decode_filters.induct)
  case (1 data)
  show ?case
  proof (cases "length data < 2")
    case True
    with "1.prems" show ?thesis
      by (cases "data = []") (auto simp: decode_filters.simps [of data] filters_body_def)
  next
    case False
    then obtain a b rest where data: "data = a # b # rest"
      by (cases data; cases "tl data") auto
    let ?n = "unat (be16 a b)"
    from "1.prems" data obtain fs' where n: "?n < length rest"
      and fs: "fs = (text_of (take ?n rest), rest ! ?n) # fs'" and rec: "decode_filters (drop (Suc ?n) rest) = Some fs'"
      by (auto simp: decode_filters.simps [of "a # b # rest"] Let_def split: if_splits)
    have "drop (Suc ?n) rest = filters_body fs' \<and> list_all (\<lambda>(f, qos). length f < 65536) fs'"
      using "1.IH" [of "?n" fs'] data n rec by simp
    moreover have "drop ?n rest = rest ! ?n # drop (Suc ?n) rest"
      using n by (simp add: Cons_nth_drop_Suc)
    ultimately show ?thesis
      using counted_take [of a b rest] n fs data unat_be16_less [of a b]
      by (simp add: filters_body_def)
  qed
qed

text \<open>\<open>decode_subscribe\<close> accepts exactly the bodies of the format, a packet identifier and
  a sequence of counted filters each followed by one byte, and returns the identifier and the
  filters in order.\<close>

theorem decode_subscribe_iff:
  "decode_subscribe data = Some (packet_id, fs) \<longleftrightarrow>
     data = subscribe_body packet_id fs \<and> list_all (\<lambda>(f, qos). length f < 65536) fs"
proof
  assume dec: "decode_subscribe data = Some (packet_id, fs)"
  then obtain a b rest where data: "data = a # b # rest"
    by (cases data; cases "tl data") (auto simp: decode_subscribe_def split: if_splits)
  with dec have "be16 a b = packet_id" "decode_filters rest = Some fs"
    by (auto simp: decode_subscribe_def)
  with decode_filters_only [of rest fs] be16_inject [of a b] data
  show "data = subscribe_body packet_id fs \<and> list_all (\<lambda>(f, qos). length f < 65536) fs"
    by (auto simp: subscribe_body_def)
next
  assume "data = subscribe_body packet_id fs \<and> list_all (\<lambda>(f, qos). length f < 65536) fs"
  then show "decode_subscribe data = Some (packet_id, fs)"
    by (simp add: decode_subscribe_def subscribe_body_def be16_bytes_def decode_filters_encoded)
qed

text \<open>A well-formed \<open>CONNECT\<close> of protocol level 4 is decoded to its client identifier,
  keep-alive and flags; whatever follows the identifier (will, user name, password) is ignored.\<close>

theorem decode_connect_body:
  assumes "length client_id < 65536"
  shows "decode_connect (connect_body flags keepalive client_id rest) =
    Some \<lparr>cp_client_id = client_id, cp_keepalive = keepalive, cp_flags = flags\<rparr>"
proof -
  have "be16 0 4 = 4"
    by (simp add: be16_def)
  moreover have "counted ''MQTT'' = 0 # 4 # bytes_of ''MQTT''"
    by (simp add: counted_Cons)
  ultimately show ?thesis
    using assms
    by (simp add: decode_connect_def connect_body_def counted_Cons [of client_id] be16_bytes_def
        unat_length16 nth_append numeral_2_eq_2 Let_def)
qed

theorem decode_connect_body_witness:
  "decode_connect (connect_body 2 60 ''dev'' []) = Some \<lparr>cp_client_id = ''dev'', cp_keepalive = 60, cp_flags = 2\<rparr>"
  by (rule decode_connect_body) simp

subsection \<open>Frames\<close>

lemma encode_decoded_publish:
  assumes "decode_publish data = Some (topic, payload)"
  shows "encode_publish topic payload = frame_packet 0x30 data"
proof -
  have "data = publish_body topic payload"
    using assms by (simp add: decode_publish_format)
  then show ?thesis
    by (simp add: encode_publish_def publish_body_def counted_def MQTT_PUBLISH_def)
qed

text \<open>What a subscriber is sent is the body the publisher sent, byte for byte: encoding a
  decoded publication gives the frame with type byte \<open>0x30\<close> around the received body.\<close>

theorem publish_forwarded:
  assumes "decode_publish data = Some (topic, payload)"
  shows "encode_publish topic payload = frame_packet 0x30 data"
  using assms by (rule encode_decoded_publish)

theorem publish_forwarded_witness:
  "encode_publish ''a'' ''hi'' = frame_packet 0x30 (publish_body ''a'' ''hi'')"
  by (rule publish_forwarded) (simp add: decode_publish_format)

text \<open>With quality of service 1 or 2 a publication carries a packet identifier between topic
  and payload. The decoder does not know of it: the two identifier bytes come out as the first two
  bytes of the payload.\<close>

theorem packet_id_in_payload:
  assumes "0 < length topic" and "length topic < 65536"
  shows "decode_publish (counted topic @ be16_bytes packet_id @ bytes_of payload) =
    Some (topic, text_of (be16_bytes packet_id) @ payload)"
  using assms by (simp add: decode_publish_format publish_body_def)

theorem packet_id_in_payload_witness:
  "decode_publish (counted ''a'' @ be16_bytes 7 @ bytes_of ''hi'') = Some (''a'', text_of (be16_bytes 7) @ ''hi'')"
  by (rule packet_id_in_payload) simp_all

lemma frame_parts:
  assumes "stream_socket os s pend" "length body < 128 ^ 4"
    and "bytes_of (pend w) = frame_packet h body @ rest"
  obtains w1 w2 w3 where "recv_exact os s 1 w = (True, [h], w1)"
    "read_remaining_length os s w1 = (True, length body, w2)"
    "recv_exact os s (length body) w2 = (True, body, w3)"
    "bytes_of (pend w2) = body @ rest" "bytes_of (pend w3) = rest"
proof -
  let ?r1 = "recv_exact os s 1 w" and ?len = "encode_remaining_length (length body)"
  have pend: "bytes_of (pend w) = h # ?len @ body @ rest"
    using assms(3) by (simp add: frame_packet_def)
  then have long: "1 \<le> length (pend w)"
    by (metis One_nat_def Suc_leI length_bytes_of length_greater_0_conv list.discI)
  with recv_exact_stream [OF assms(1), of 1 w] pend
  have r1: "fst ?r1" "fst (snd ?r1) = [h]" "bytes_of (pend (snd (snd ?r1))) = ?len @ body @ rest"
    by simp_all
  let ?r2 = "read_remaining_length os s (snd (snd ?r1))"
  have "decode_remaining_length (?len @ body @ rest) = (True, length body, length ?len)"
    using decode_encoded_length [of "length body" "body @ rest"] assms(2) by simp
  with read_remaining_length_stream [OF assms(1), of "snd (snd ?r1)"] r1(3)
  have r2: "fst ?r2" "fst (snd ?r2) = length body" "bytes_of (pend (snd (snd ?r2))) = body @ rest"
    by (auto simp: Let_def split_beta)
  let ?r3 = "recv_exact os s (length body) (snd (snd ?r2))"
  have "length body \<le> length (pend (snd (snd ?r2)))"
    by (metis r2(3) le_add1 length_append length_bytes_of)
  with recv_exact_stream [OF assms(1), of "length body" "snd (snd ?r2)"] r2(3)
  have r3: "fst ?r3" "fst (snd ?r3) = body" "bytes_of (pend (snd (snd ?r3))) = rest"
    by simp_all
  show thesis
    by (rule that [of "snd (snd ?r1)" "snd (snd ?r2)" "snd (snd ?r3)"])
      (use r1 r2 r3 in \<open>simp_all add: prod_eq_iff\<close>)
qed

lemma frame_packet_pending:
  assumes "bytes_of (pend w) = frame_packet h body @ rest" "stream_socket os s pend" "length body < 128 ^ 4"
  shows "fst (read_packet os s w) = Some (h, body) \<and> bytes_of (pend (snd (read_packet os s w))) = rest"
proof -
  obtain w1 w2 w3 where "recv_exact os s 1 w = (True, [h], w1)"
    "read_remaining_length os s w1 = (True, length body, w2)"
    "recv_exact os s (length body) w2 = (True, body, w3)"
    "bytes_of (pend w2) = body @ rest" "bytes_of (pend w3) = rest"
    using frame_parts [OF assms(2,3,1)] by blast
  then show ?thesis by (auto simp: read_packet_def)
qed

text \<open>A packet that is read takes at least one byte off the stream.\<close>

lemma read_packet_shorter:
  assumes "stream_socket os s pend" "fst (read_packet os s w) = Some p"
  shows "length (pend (snd (read_packet os s w))) < length (pend w)"
proof -
  let ?r1 = "recv_exact os s 1 w"
  have ok: "fst ?r1"
    using assms(2) by (auto simp: read_packet_def split_beta Let_def split: if_splits)
  have w1: "length (pend (snd (snd ?r1))) < length (pend w)"
    using recv_exact_stream [OF assms(1), of 1 w] ok by auto
  have w2: "length (pend (snd (snd (read_remaining_length os s w')))) \<le> length (pend w')" for w'
    using read_remaining_length_stream [OF assms(1), of w'] by (auto simp: Let_def split_beta)
  have w3: "length (pend (snd (snd (recv_exact os s n w')))) \<le> length (pend w')" for n w'
    using recv_exact_stream [OF assms(1), of n w'] by simp
  let ?w2 = "snd (snd (read_remaining_length os s (snd (snd ?r1))))"
  have "snd (read_packet os s w) \<in> {snd (snd ?r1), ?w2,
      snd (snd (recv_exact os s (fst (snd (read_remaining_length os s (snd (snd ?r1))))) ?w2))}"
    by (simp add: read_packet_def split_beta Let_def)
  then show ?thesis
    using w1 w2 [of "snd (snd ?r1)"] w3 [of _ ?w2] by (elim insertE emptyE) (auto intro: le_less_trans le_trans)
qed

lemma read_packet_framed:
  assumes "stream_socket os s pend" and "length body < 128 ^ 4"
    and "pend w = text_of (frame_packet h body) @ rest"
  shows "fst (read_packet os s w) = Some (h, body) \<and> pend (snd (read_packet os s w)) = rest"
proof -
  have "bytes_of (pend w) = frame_packet h body @ bytes_of rest"
    using assms(3) by simp
  with frame_packet_pending [OF _ assms(1,2)]
  have "fst (read_packet os s w) = Some (h, body) \<and> bytes_of (pend (snd (read_packet os s w))) = bytes_of rest"
    by blast
  then show ?thesis
    by (metis text_of_bytes_of)
qed

text \<open>C37. Reading a framed packet from a socket gives back its first byte and its body, however
  the bytes are cut into segments, and leaves the stream at the first byte behind the frame.\<close>

theorem read_packet_frame:
  assumes "stream_socket os s pend" and "length body < 128 ^ 4"
    and "pend w = text_of (frame_packet h body) @ rest"
  shows "fst (read_packet os s w) = Some (h, body) \<and> pend (snd (read_packet os s w)) = rest"
  using assms by (rule read_packet_framed)

theorem read_packet_frame_witness:
  "fst (read_packet tape_os 4 (text_of (frame_packet 0x30 (publish_body ''a/b'' ''hi'')) @ ''xyz'', []))
     = Some (0x30, publish_body ''a/b'' ''hi'')"
proof -
  have "length (publish_body ''a/b'' ''hi'') < 128 ^ 4"
    by (simp add: publish_body_def counted_def)
  from read_packet_frame [OF tape_stream this, of "(text_of (frame_packet 0x30 (publish_body ''a/b'' ''hi'')) @ ''xyz'', [])"]
  show ?thesis by simp
qed

lemma text_of_Nil [simp]: "text_of [] = []"
  by (simp add: text_of_def)

lemma text_of_drop [simp]: "text_of (drop n bs) = drop n (text_of bs)"
  by (simp add: text_of_def drop_map)

lemma send_all_step:
  "send_all os s (b # bs) w =
     (let r = os_send os s (text_of (b # bs)) w
      in if fst r \<le> 0 then (False, snd r) else send_all os s (drop (nat (fst r)) (b # bs)) (snd r))"
  by (subst send_all.simps) (simp add: Let_def split_beta)

text \<open>\<open>send_all\<close> over a stream: when it returns true the whole data has been sent, in order
  and once; when it returns false, a part from the beginning has.\<close>

theorem send_all_sends:
  assumes "sink_socket os s out"
  shows "\<exists>k. out (snd (send_all os s data w)) = out w @ take k (text_of data)
    \<and> (fst (send_all os s data w) \<longrightarrow> k = length data)"
proof (induction "length data" arbitrary: data w rule: less_induct)
  case less
  show ?case
  proof (cases data)
    case (Cons b bs)
    let ?r = "os_send os s (text_of data) w"
    have sink: "fst ?r \<le> int (length data)" "out (snd ?r) = out w @ take (nat (fst ?r)) (text_of data)"
      using assms unfolding sink_socket_def by (metis length_text_of) (use assms in \<open>simp add: sink_socket_def\<close>)
    show ?thesis
    proof (cases "fst ?r \<le> 0")
      case True
      with sink(2) Cons show ?thesis
        by (intro exI [of _ 0]) (simp add: send_all_step Let_def)
    next
      case False
      let ?k = "nat (fst ?r)"
      have all: "send_all os s data w = send_all os s (drop ?k data) (snd ?r)"
        using False Cons by (simp add: send_all_step Let_def)
      have "length (drop ?k data) < length data"
        using False Cons by simp
      from less.hyps [OF this, of "snd ?r"] obtain j where
        j: "out (snd (send_all os s (drop ?k data) (snd ?r))) = out (snd ?r) @ take j (text_of (drop ?k data))"
        "fst (send_all os s (drop ?k data) (snd ?r)) \<longrightarrow> j = length (drop ?k data)" by blast
      have "take ?k (text_of data) @ take j (drop ?k (text_of data)) = take (?k + j) (text_of data)"
        by (simp add: take_add)
      moreover have "j = length (drop ?k data) \<longrightarrow> ?k + j = length data"
        using sink(1) False by auto
      ultimately show ?thesis
        using j sink(2) unfolding all by (intro exI [of _ "?k + j"]) auto
    qed
  qed (simp add: send_all.simps)
qed

lemma tape_send_all: "fst (send_all tape_os s data w)"
proof (induction "length data" arbitrary: data w rule: less_induct)
  case less
  then show ?case
    by (cases data) (simp_all add: send_all.simps [of _ _ "[]"] send_all_step Let_def tape_os_def)
qed

theorem send_all_sends_witness:
  "\<exists>k. snd (snd (send_all tape_os 4 (bytes_of ''hello world'') ([], []))) = [] @ take k ''hello world''
    \<and> (fst (send_all tape_os 4 (bytes_of ''hello world'') ([], [])) \<longrightarrow> k = length (bytes_of ''hello world''))"
  using send_all_sends [OF tape_sink, of 4 "bytes_of ''hello world''" "([], [])"] by simp

end
