(* ===== verification/MqttTopics.thy ===== *)
theory MqttTopics
  imports Prelude
begin

text \<open>
  Topic filters of \<open>mqtt_server.cpp\<close>: splitting at \<open>/\<close> and matching with the wildcards
  \<open>+\<close> (one level) and \<open>#\<close> (all remaining levels), with the meaning the MQTT 3.1.1
  specification gives them.
\<close>

subsection \<open>The code\<close>

text \<open>The loop of \<open>split_topic\<close>: what is left of the topic, and the current segment. The code
  runs once past the end with a virtual \<open>/\<close>.\<close>

fun split_scan :: "string \<Rightarrow> string \<Rightarrow> string list" where
  "split_scan [] current_segment = [current_segment]"
| "split_scan (character # rest) current_segment =
     (if character = CHR ''/'' then current_segment # split_scan rest []
      else split_scan rest (current_segment @ [character]))"

definition split_topic :: "string \<Rightarrow> string list" where
  "split_topic topic = split_scan topic []"

text \<open>The matching loop: the segments of filter and topic from the two indexes on.\<close>

fun match_segments :: "string list \<Rightarrow> string list \<Rightarrow> bool" where
  "match_segments (segment # fs) (t # ts) =
     (if segment = ''#'' then True
      else if segment = ''+'' then match_segments fs ts
      else if segment \<noteq> t then False
      else match_segments fs ts)"
| "match_segments [] ts = (ts = [])"
| "match_segments (segment # fs) [] = (segment = ''#'')"

definition topic_matches :: "string \<Rightarrow> string \<Rightarrow> bool" where
  "topic_matches pat topic =
     (let filter_segments = split_topic pat; topic_segments = split_topic topic
      in if ''#'' \<in> set (butlast filter_segments) then False
         else match_segments filter_segments topic_segments)"

subsection \<open>Splitting\<close>

lemma split_scan_split_on:
  "split_scan s cur = (cur @ hd (split_on (CHR ''/'') s)) # tl (split_on (CHR ''/'') s)"
  by (induction s cur rule: split_scan.induct) auto

lemma split_topic_split_on: "split_topic topic = split_on (CHR ''/'') topic"
  by (simp add: split_topic_def split_scan_split_on)

lemma split_topic_inject: "split_topic a = split_topic b \<longleftrightarrow> a = b"
  unfolding split_topic_split_on by (metis join_split_on)

text \<open>Splitting loses nothing: joining the levels with \<open>/\<close> gives the topic back, and no
  level contains a \<open>/\<close>.\<close>

theorem split_topic_join:
  "join_with (CHR ''/'') (split_topic topic) = topic \<and> list_all (\<lambda>level. CHR ''/'' \<notin> set level) (split_topic topic)"
  unfolding split_topic_split_on list_all_iff by (auto simp: join_split_on dest: split_on_no_sep)

subsection \<open>Matching\<close>

text \<open>The meaning of a filter: one level of the filter against one level of the topic, and a whole
  filter, whose last level may be \<open>#\<close>.\<close>

definition level_fits :: "string \<Rightarrow> string \<Rightarrow> bool" where
  "level_fits f t \<longleftrightarrow> f = ''+'' \<or> f = t"

definition filter_covers :: "string list \<Rightarrow> string list \<Rightarrow> bool" where
  "filter_covers fs ts \<longleftrightarrow>
     (if fs \<noteq> [] \<and> last fs = ''#''
      then length fs - 1 \<le> length ts \<and> list_all2 level_fits (butlast fs) (take (length fs - 1) ts)
      else list_all2 level_fits fs ts)"

lemma filter_covers_Cons:
  "fs \<noteq> [] \<Longrightarrow> filter_covers (f # fs) (t # ts) \<longleftrightarrow> level_fits f t \<and> filter_covers fs ts"
  by (cases fs) (auto simp: filter_covers_def)

lemma match_segments_covers:
  "''#'' \<notin> set (butlast fs) \<Longrightarrow> match_segments fs ts \<longleftrightarrow> filter_covers fs ts"
proof (induction fs ts rule: match_segments.induct)
  case (1 segment fs t ts)
  then show ?case
    by (cases "fs = []")
      (auto simp: filter_covers_Cons, auto simp: filter_covers_def level_fits_def)
next
  case (3 segment fs)
  then show ?case
    by (cases "fs = []") (auto simp: filter_covers_def level_fits_def)
qed (auto simp: filter_covers_def)

lemma topic_matches_covers:
  "topic_matches pat topic \<longleftrightarrow>
     ''#'' \<notin> set (butlast (split_topic pat)) \<and> filter_covers (split_topic pat) (split_topic topic)"
  by (simp add: topic_matches_def match_segments_covers Let_def)

text \<open>C18. Wildcard matching. A filter with \<open>#\<close> anywhere but as its last level matches
  nothing. Otherwise the filter matches a topic exactly when they have the same number of levels
  and each level of the filter is \<open>+\<close> or the level of the topic, or, for a filter that ends in
  \<open>#\<close>, when this holds of the levels before the \<open>#\<close> and the topic has at least those: so
  \<open>a/#\<close> also matches \<open>a\<close>.\<close>

theorem topic_matches_iff:
  "topic_matches pat topic \<longleftrightarrow>
     ''#'' \<notin> set (butlast (split_topic pat)) \<and> filter_covers (split_topic pat) (split_topic topic)"
  by (rule topic_matches_covers)

text \<open>A filter without wildcard levels matches itself and no other topic.\<close>

theorem plain_filter_matches:
  assumes "''#'' \<notin> set (split_topic pat)" and "''+'' \<notin> set (split_topic pat)"
  shows "topic_matches pat topic \<longleftrightarrow> topic = pat"
proof -
  have "list_all2 level_fits fs ts \<longleftrightarrow> fs = ts" if "''+'' \<notin> set fs" for fs ts
    using that by (induction fs arbitrary: ts) (auto simp: level_fits_def list_all2_Cons1)
  moreover have "last (split_topic pat) \<noteq> ''#''"
    using assms(1) by (metis last_in_set split_on_nonempty split_topic_split_on)
  moreover have "''#'' \<notin> set (butlast (split_topic pat))"
    using assms(1) by (meson in_set_butlastD)
  ultimately show ?thesis
    using assms(2) by (auto simp: topic_matches_covers filter_covers_def split_topic_inject)
qed

theorem plain_filter_matches_witness:
  "topic_matches ''a/b'' ''a/b'' \<and> \<not> topic_matches ''a/b'' ''a''"
  using plain_filter_matches [of "''a/b''" "''a/b''"] plain_filter_matches [of "''a/b''" "''a''"]
  by (simp add: split_topic_def)

end
