(* ===== verification/MqttServer.thy ===== *)
theory MqttServer
  imports MqttWire MqttTopics Listener Contracts
begin

unbundle bit_operations_syntax

text \<open>
  The MQTT broker of \<open>mqtt_server.cpp\<close>: its sessions, ordered by client identifier, its
  message history, its public operations, and the handler of a connection. The handler reads a
  \<open>CONNECT\<close>, installs a session and then serves packets until one of them, or the end of the
  input, makes it leave. \<open>handle_connect\<close> is the part before the loop, \<open>serve\<close> one round of
  the loop; between two such parts other threads may run, which the step relation shows. A thread
  is named by its socket and phase. For an empty client identifier the code makes one from the
  address of a stack variable, here the argument \<open>addr\<close>.
\<close>

subsection \<open>State\<close>

record mqtt_message =
  mm_topic :: string
  mm_payload :: string

record session =
  ss_client_id :: string
  ss_sock :: raw_socket
  ss_filters :: "string list"

datatype phase = Connecting | Serving string

record 'w mqtt_server =
  mq_listen :: raw_socket
  mq_port :: "16 word"
  mq_running :: bool
  mq_accepting :: bool
  mq_sessions :: "(string \<times> session) list"
  mq_history :: "mqtt_message list"
  mq_threads :: "(raw_socket \<times> phase) list"
  mq_world :: 'w

definition new_mqtt :: "'w \<Rightarrow> 'w mqtt_server" where
  "new_mqtt w = \<lparr>mq_listen = kInvalidSock, mq_port = 0, mq_running = False, mq_accepting = False,
     mq_sessions = [], mq_history = [], mq_threads = [], mq_world = w\<rparr>"

subsection \<open>Public operations\<close>

definition mqtt_start :: "'w os \<Rightarrow> 'w mqtt_server \<Rightarrow> unit throwing \<times> 'w mqtt_server" where
  "mqtt_start os s =
     (if mq_running s then (Inl ''mqtt_server is already running'', s)
      else (let (result, sock, port, w) = open_listener os (mq_port s) (mq_world s);
                s1 = s\<lparr>mq_listen := sock, mq_port := port, mq_world := w\<rparr>
            in case result of
                 Inl e \<Rightarrow> (Inl e, s1)
               | Inr _ \<Rightarrow> (Inr (), s1\<lparr>mq_running := True, mq_accepting := True\<rparr>)))"

definition shut_session :: "'w os \<Rightarrow> session \<Rightarrow> 'w \<Rightarrow> 'w" where
  "shut_session os ss w =
     (if ss_sock ss \<noteq> kInvalidSock then sock_close os (ss_sock ss) (sock_shutdown os (ss_sock ss) w) else w)"

text \<open>\<open>stop\<close> before it waits for the client threads. It waits for the accepting thread first.\<close>

definition mqtt_stop :: "'w os \<Rightarrow> 'w mqtt_server \<Rightarrow> 'w mqtt_server" where
  "mqtt_stop os s =
     (if \<not> mq_running s then s
      else (let w1 = (if mq_listen s \<noteq> kInvalidSock then sock_close os (mq_listen s) (mq_world s) else mq_world s);
                w2 = foldl (\<lambda>w entry. shut_session os (snd entry) w) w1 (mq_sessions s)
            in s\<lparr>mq_running := False, mq_listen := kInvalidSock, mq_accepting := False,
                 mq_sessions := [], mq_world := w2\<rparr>))"

definition mqtt_base_url :: "'w mqtt_server \<Rightarrow> string throwing" where
  "mqtt_base_url s =
     (if \<not> mq_running s then Inl ''mqtt_server is not running''
      else Inr (''mqtt://127.0.0.1:'' @ dec_string (unat (mq_port s))))"

definition mqtt_messages :: "'w mqtt_server \<Rightarrow> mqtt_message list" where
  "mqtt_messages s = mq_history s"

definition clear_messages :: "'w mqtt_server \<Rightarrow> 'w mqtt_server" where
  "clear_messages s = s\<lparr>mq_history := []\<rparr>"

subsection \<open>Sessions\<close>

definition remove_session :: "'w os \<Rightarrow> string \<Rightarrow> 'w mqtt_server \<Rightarrow> 'w mqtt_server" where
  "remove_session os client_id s =
     (case map_of (mq_sessions s) client_id of
        None \<Rightarrow> s
      | Some ss \<Rightarrow> s\<lparr>mq_sessions := omap_erase client_id (mq_sessions s),
                     mq_world := shut_session os ss (mq_world s)\<rparr>)"

definition close_socket :: "'w os \<Rightarrow> raw_socket \<Rightarrow> 'w mqtt_server \<Rightarrow> 'w mqtt_server" where
  "close_socket os socket s = s\<lparr>mq_world := sock_close os socket (mq_world s)\<rparr>"

definition leave :: "'w os \<Rightarrow> raw_socket \<Rightarrow> string \<Rightarrow> 'w mqtt_server \<Rightarrow> 'w mqtt_server" where
  "leave os socket client_id s = close_socket os socket (remove_session os client_id s)"

subsection \<open>Publishing\<close>

definition targets :: "string \<Rightarrow> (string \<times> session) list \<Rightarrow> raw_socket list" where
  "targets topic sessions =
     map (\<lambda>entry. ss_sock (snd entry))
       (filter (\<lambda>entry. \<exists>pat\<in>set (ss_filters (snd entry)). topic_matches pat topic) sessions)"

definition send_each :: "'w os \<Rightarrow> byte list \<Rightarrow> raw_socket list \<Rightarrow> 'w \<Rightarrow> 'w" where
  "send_each os frame socks w = foldl (\<lambda>w t. snd (send_all os t frame w)) w socks"

definition route_publish :: "'w os \<Rightarrow> string \<Rightarrow> string \<Rightarrow> 'w mqtt_server \<Rightarrow> 'w mqtt_server" where
  "route_publish os topic payload s =
     s\<lparr>mq_world := send_each os (encode_publish topic payload) (targets topic (mq_sessions s)) (mq_world s)\<rparr>"

definition push_message :: "mqtt_message \<Rightarrow> 'w mqtt_server \<Rightarrow> 'w mqtt_server" where
  "push_message m s = s\<lparr>mq_history := mq_history s @ [m]\<rparr>"

definition handle_publish :: "'w os \<Rightarrow> byte list \<Rightarrow> 'w mqtt_server \<Rightarrow> 'w mqtt_server" where
  "handle_publish os data s =
     (case decode_publish data of
        None \<Rightarrow> s
      | Some (topic, payload) \<Rightarrow>
          route_publish os topic payload (push_message \<lparr>mm_topic = topic, mm_payload = payload\<rparr> s))"

subsection \<open>Subscribing\<close>

text \<open>The filters are appended to the session if it is still there; one return code 0 for each.\<close>

definition add_filters ::
  "string \<Rightarrow> (string \<times> byte) list \<Rightarrow> (string \<times> session) list \<Rightarrow> byte list \<times> (string \<times> session) list" where
  "add_filters client_id fs sessions =
     (case map_of sessions client_id of
        None \<Rightarrow> ([], sessions)
      | Some ss \<Rightarrow> (map (\<lambda>_. 0) fs,
                    omap_put client_id (ss\<lparr>ss_filters := ss_filters ss @ map fst fs\<rparr>) sessions))"

definition handle_subscribe ::
  "'w os \<Rightarrow> raw_socket \<Rightarrow> string \<Rightarrow> byte list \<Rightarrow> 'w mqtt_server \<Rightarrow> 'w mqtt_server" where
  "handle_subscribe os socket client_id data s =
     (case decode_subscribe data of
        None \<Rightarrow> leave os socket client_id s
      | Some (packet_id, fs) \<Rightarrow>
          (let (return_codes, sessions) = add_filters client_id fs (mq_sessions s)
           in s\<lparr>mq_sessions := sessions,
                mq_world := snd (send_all os socket (encode_suback packet_id return_codes) (mq_world s))\<rparr>))"

subsection \<open>A connection\<close>

text \<open>Up to the acknowledgement: the client identifier, when the handler goes on to its loop.\<close>

definition handle_connect ::
  "'w os \<Rightarrow> nat \<Rightarrow> raw_socket \<Rightarrow> 'w mqtt_server \<Rightarrow> string option \<times> 'w mqtt_server" where
  "handle_connect os addr socket s =
     (let refuse = (\<lambda>w. (None, close_socket os socket (s\<lparr>mq_world := w\<rparr>)));
          (ok1, header, w1) = recv_exact os socket 1 (mq_world s)
      in if \<not> ok1 then refuse w1
      else (let packet_type = drop_bit 4 (hd header);
                (ok2, remaining_length, w2) = read_remaining_length os socket w1
            in if \<not> ok2 then refuse w2
            else if packet_type \<noteq> MQTT_CONNECT then refuse w2
            else (let (ok3, payload, w3) = recv_exact os socket remaining_length w2
                  in if \<not> ok3 then refuse w3
                  else (case decode_connect payload of
                          None \<Rightarrow> refuse w3
                        | Some connect_data \<Rightarrow>
                            (let client_id = (if cp_client_id connect_data = []
                                              then ''anon-'' @ dec_string addr
                                              else cp_client_id connect_data);
                                 s1 = s\<lparr>mq_world := w3,
                                   mq_sessions := omap_put client_id
                                     \<lparr>ss_client_id = client_id, ss_sock = socket, ss_filters = []\<rparr>
                                     (mq_sessions s)\<rparr>;
                                 (sent, w4) = send_all os socket encode_connack w3;
                                 s2 = s1\<lparr>mq_world := w4\<rparr>
                             in if \<not> sent then (None, leave os socket client_id s2)
                                else (Some client_id, s2))))))"

text \<open>One round of the loop; the result says whether the handler goes on.\<close>

definition serve ::
  "'w os \<Rightarrow> raw_socket \<Rightarrow> string \<Rightarrow> 'w mqtt_server \<Rightarrow> bool \<times> 'w mqtt_server" where
  "serve os socket client_id s =
     (if \<not> mq_running s then (False, leave os socket client_id s)
      else (case read_packet os socket (mq_world s) of
              (None, w) \<Rightarrow> (False, leave os socket client_id (s\<lparr>mq_world := w\<rparr>))
            | (Some (header, body), w) \<Rightarrow>
                (let s1 = s\<lparr>mq_world := w\<rparr>; packet_type = drop_bit 4 header
                 in if packet_type = MQTT_PUBLISH then (True, handle_publish os body s1)
                    else if packet_type = MQTT_SUBSCRIBE then (True, handle_subscribe os socket client_id body s1)
                    else if packet_type = MQTT_PINGREQ
                    then (True, s1\<lparr>mq_world := snd (send_all os socket encode_pingresp w)\<rparr>)
                    else if packet_type = MQTT_DISCONNECT then (False, leave os socket client_id s1)
                    else (False, leave os socket client_id s1))))"

partial_function (option) serve_loop ::
  "'w os \<Rightarrow> raw_socket \<Rightarrow> string \<Rightarrow> 'w mqtt_server \<Rightarrow> 'w mqtt_server option" where
  "serve_loop os socket client_id s =
     (let r = serve os socket client_id s
      in if fst r then serve_loop os socket client_id (snd r) else Some (snd r))"

definition client_handler :: "'w os \<Rightarrow> nat \<Rightarrow> raw_socket \<Rightarrow> 'w mqtt_server \<Rightarrow> 'w mqtt_server option" where
  "client_handler os addr socket s =
     (case handle_connect os addr socket s of
        (None, s1) \<Rightarrow> Some s1
      | (Some client_id, s1) \<Rightarrow> serve_loop os socket client_id s1)"

text \<open>One connection taken by \<open>accept_loop\<close>.\<close>

definition mqtt_accept :: "'w os \<Rightarrow> 'w mqtt_server \<Rightarrow> 'w mqtt_server" where
  "mqtt_accept os s =
     (let (sock, w) = os_accept os (mq_listen s) (mq_world s)
      in if sock = kInvalidSock then s\<lparr>mq_world := w\<rparr>
         else s\<lparr>mq_world := w, mq_threads := mq_threads s @ [(sock, Connecting)]\<rparr>)"

definition set_phase :: "raw_socket \<times> phase \<Rightarrow> phase option \<Rightarrow> 'w mqtt_server \<Rightarrow> 'w mqtt_server" where
  "set_phase t next s =
     s\<lparr>mq_threads := (case next of
         None \<Rightarrow> remove1 t (mq_threads s)
       | Some p \<Rightarrow> remove1 t (mq_threads s) @ [(fst t, p)])\<rparr>"

inductive mqtt_step :: "'w os \<Rightarrow> 'w mqtt_server \<Rightarrow> 'w mqtt_server \<Rightarrow> bool" for os where
  ms_start: "mq_running s \<or> mq_threads s = [] \<Longrightarrow> mqtt_step os s (snd (mqtt_start os s))"
| ms_stop: "mqtt_step os s (mqtt_stop os s)"
| ms_clear: "mqtt_step os s (clear_messages s)"
| ms_accept: "mq_accepting s \<Longrightarrow> mqtt_step os s (mqtt_accept os s)"
| ms_accept_end: "mq_accepting s \<Longrightarrow> mqtt_step os s (s\<lparr>mq_accepting := False\<rparr>)"
| ms_connect: "(sock, Connecting) \<in> set (mq_threads s) \<Longrightarrow>
     handle_connect os addr sock s = (result, s1) \<Longrightarrow>
     mqtt_step os s (set_phase (sock, Connecting) (map_option Serving result) s1)"
| ms_serve: "(sock, Serving cid) \<in> set (mq_threads s) \<Longrightarrow> serve os sock cid s = (go_on, s1) \<Longrightarrow>
     mqtt_step os s (set_phase (sock, Serving cid) (if go_on then Some (Serving cid) else None) s1)"

abbreviation mqtt_steps :: "'w os \<Rightarrow> 'w mqtt_server \<Rightarrow> 'w mqtt_server \<Rightarrow> bool" where
  "mqtt_steps os \<equiv> (mqtt_step os)\<^sup>*\<^sup>*"

subsection \<open>Contracts\<close>

interpretation mqtt_life: lifecycle mq_running "mqtt_start os" "mqtt_stop os" mqtt_base_url
  "''mqtt_server is already running''" "''mqtt_server is not running''" for os :: "'w os"
  by unfold_locales
    (auto simp: mqtt_start_def mqtt_stop_def mqtt_base_url_def split_beta Let_def split: sum.split)

interpretation mqtt_journal: journal push_message mqtt_messages clear_messages
  by unfold_locales (simp_all add: push_message_def mqtt_messages_def clear_messages_def)

end
