(* ===== verification/MqttBroker.thy ===== *)
theory MqttBroker
  imports MqttServer
begin

unbundle bit_operations_syntax

text \<open>
  Properties of the MQTT broker: the invariant of its sessions and threads, what each kind of
  packet does, who receives a publication, that handlers return, and the defects of session
  removal.
\<close>

subsection \<open>The invariant\<close>

definition broker_ok :: "'w mqtt_server \<Rightarrow> bool" where
  "broker_ok s \<longleftrightarrow> omap_ok (mq_sessions s)
     \<and> (\<forall>(cid, ss)\<in>set (mq_sessions s). ss_client_id ss = cid \<and> (ss_sock ss, Serving cid) \<in> set (mq_threads s))"

lemma omap_put_mem: "omap_ok kvs \<Longrightarrow> kv \<in> set (omap_put k v kvs) \<longleftrightarrow> kv = (k, v) \<or> kv \<in> set kvs \<and> fst kv \<noteq> k"
  by (cases kv) (auto simp: omap_mem_iff omap_ok_put omap_simps split: if_splits)

lemma omap_erase_mem: "kv \<in> set (omap_erase k kvs) \<longleftrightarrow> kv \<in> set kvs \<and> fst kv \<noteq> k"
  by (simp add: omap_erase_def)

lemma broker_ok_world [simp]: "broker_ok (s\<lparr>mq_world := w\<rparr>) = broker_ok s"
  by (simp add: broker_ok_def)

lemma remove_session_sessions [simp]:
  "mq_sessions (remove_session os cid s) = omap_erase cid (mq_sessions s)"
  "mq_threads (remove_session os cid s) = mq_threads s"
  "mq_history (remove_session os cid s) = mq_history s"
  "mq_running (remove_session os cid s) = mq_running s"
proof -
  have "omap_erase cid kvs = kvs" if "map_of kvs cid = None" for kvs :: "(string \<times> session) list"
    using that by (force simp: omap_erase_def map_of_eq_None_iff intro: filter_True)
  then show "mq_sessions (remove_session os cid s) = omap_erase cid (mq_sessions s)"
    by (simp add: remove_session_def split: option.split)
qed (simp_all add: remove_session_def split: option.split)

lemma leave_fields [simp]:
  "mq_sessions (leave os sock cid s) = omap_erase cid (mq_sessions s)"
  "mq_threads (leave os sock cid s) = mq_threads s"
  "mq_history (leave os sock cid s) = mq_history s"
  by (simp_all add: leave_def close_socket_def)

text \<open>The sessions without one client, and the threads without one of that client.\<close>

lemma broker_ok_leave:
  assumes "broker_ok s"
  shows "broker_ok (set_phase (sock, Serving cid) None (leave os sock cid s))"
    "broker_ok (set_phase (sock, Connecting) None s)"
    "broker_ok (leave os sock cid s)"
  using assms by (auto simp: broker_ok_def set_phase_def omap_ok_erase omap_erase_mem in_set_remove1)

lemma set_remove1_snoc: "x \<in> set xs \<Longrightarrow> set (remove1 x xs @ [x]) = set xs"
proof (rule set_eqI)
  fix y
  assume "x \<in> set xs"
  then show "y \<in> set (remove1 x xs @ [x]) \<longleftrightarrow> y \<in> set xs"
    by (cases "y = x") (simp_all add: in_set_remove1)
qed

lemma broker_ok_same_phase:
  assumes "broker_ok s" "(sock, p) \<in> set (mq_threads s)"
  shows "broker_ok (set_phase (sock, p) (Some p) s)"
proof -
  have "set (mq_threads (set_phase (sock, p) (Some p) s)) = set (mq_threads s)"
    using set_remove1_snoc [OF assms(2)] by (simp add: set_phase_def)
  then show ?thesis
    using assms(1) by (simp add: broker_ok_def) (simp add: set_phase_def)
qed

lemma handle_publish_fields [simp]:
  "mq_sessions (handle_publish os data s) = mq_sessions s" "mq_threads (handle_publish os data s) = mq_threads s"
  by (auto simp: handle_publish_def route_publish_def push_message_def split: option.split)

lemma add_filters_sessions:
  "snd (add_filters cid fs sessions) = (case map_of sessions cid of None \<Rightarrow> sessions
     | Some ss \<Rightarrow> omap_put cid (ss\<lparr>ss_filters := ss_filters ss @ map fst fs\<rparr>) sessions)"
  by (simp add: add_filters_def split: option.split)

lemma broker_ok_subscribe:
  assumes "broker_ok s"
  shows "broker_ok (handle_subscribe os sock cid data s)"
proof (cases "decode_subscribe data")
  case None
  with assms show ?thesis by (simp add: handle_subscribe_def broker_ok_leave)
next
  case (Some pf)
  have "broker_ok (s\<lparr>mq_sessions := snd (add_filters cid fs (mq_sessions s))\<rparr>)" for fs
  proof (cases "map_of (mq_sessions s) cid")
    case None
    with assms show ?thesis by (simp add: add_filters_sessions)
  next
    case (Some ss)
    then have "(cid, ss) \<in> set (mq_sessions s)" by (rule map_of_SomeD)
    with assms Some show ?thesis
      by (fastforce simp: add_filters_sessions broker_ok_def omap_ok_put omap_put_mem)
  qed
  with Some show ?thesis
    by (cases pf) (simp add: handle_subscribe_def split_beta Let_def broker_ok_def)
qed

lemma handle_subscribe_threads [simp]:
  "mq_threads (handle_subscribe os sock cid data s) = mq_threads s"
  "mq_history (handle_subscribe os sock cid data s) = mq_history s"
  by (auto simp: handle_subscribe_def split_beta Let_def split: option.split)

text \<open>What one round of a handler leaves: the invariant, and, when it goes on, its thread.\<close>

lemma serve_ok:
  assumes "broker_ok s" "(sock, Serving cid) \<in> set (mq_threads s)" "serve os sock cid s = (go_on, s1)"
  shows "broker_ok (set_phase (sock, Serving cid) (if go_on then Some (Serving cid) else None) s1)"
proof (cases go_on)
  case True
  then have "broker_ok s1 \<and> mq_threads s1 = mq_threads s"
    using assms(1,3)
    by (auto simp: serve_def split_beta Let_def broker_ok_subscribe broker_ok_def [of "handle_publish _ _ _"]
        split: if_splits option.splits prod.splits) (auto simp: broker_ok_def)
  with assms(2) True show ?thesis by (simp add: broker_ok_same_phase)
next
  case False
  then obtain w where "s1 = leave os sock cid (s\<lparr>mq_world := w\<rparr>) \<or> s1 = leave os sock cid s"
    using assms(3) by (auto simp: serve_def split_beta Let_def split: if_splits option.splits prod.splits)
  with False assms(1) broker_ok_leave(1) [of "s\<lparr>mq_world := w\<rparr>"] broker_ok_leave(1) [of s] show ?thesis by auto
qed

text \<open>The connecting part: the handler ends before it installs a session, or after, when the
  acknowledgement cannot be sent, or it goes on with its session installed.\<close>

definition installed :: "raw_socket \<Rightarrow> string \<Rightarrow> 'w \<Rightarrow> 'w mqtt_server \<Rightarrow> 'w mqtt_server" where
  "installed sock cid w s = s\<lparr>mq_sessions := omap_put cid
     \<lparr>ss_client_id = cid, ss_sock = sock, ss_filters = []\<rparr> (mq_sessions s), mq_world := w\<rparr>"

lemma installed_fields [simp]:
  "mq_sessions (installed sock cid w s) = omap_put cid \<lparr>ss_client_id = cid, ss_sock = sock, ss_filters = []\<rparr> (mq_sessions s)"
  "mq_threads (installed sock cid w s) = mq_threads s" "mq_world (installed sock cid w s) = w"
  "mq_history (installed sock cid w s) = mq_history s"
  by (simp_all add: installed_def)

lemma handle_connect_cases:
  assumes "handle_connect os addr sock s = (result, s1)"
  obtains w where "result = None" "s1 = close_socket os sock (s\<lparr>mq_world := w\<rparr>)"
  | cid w where "result = None" "s1 = leave os sock cid (installed sock cid w s)"
  | cid w where "result = Some cid" "s1 = installed sock cid w s"
proof -
  have "(\<exists>w. result = None \<and> s1 = close_socket os sock (s\<lparr>mq_world := w\<rparr>))
      \<or> (\<exists>cid w. result = None \<and> s1 = leave os sock cid (installed sock cid w s))
      \<or> (\<exists>cid w. result = Some cid \<and> s1 = installed sock cid w s)"
    using assms
    by (simp add: handle_connect_def split_beta Let_def installed_def [symmetric]
        split: if_splits option.splits) blast+
  with that show thesis by blast
qed

lemma broker_ok_connect:
  assumes "broker_ok s" "(sock, Connecting) \<in> set (mq_threads s)" "handle_connect os addr sock s = (result, s1)"
  shows "broker_ok (set_phase (sock, Connecting) (map_option Serving result) s1)"
  using assms(3)
proof (cases rule: handle_connect_cases)
  case (1 w)
  with assms(1) show ?thesis by (simp add: broker_ok_leave(2) close_socket_def)
next
  case (2 cid w)
  have "broker_ok (leave os sock cid (installed sock cid w s))"
    using assms(1) by (auto simp: broker_ok_def omap_ok_erase omap_ok_put omap_erase_mem omap_put_mem)
  with 2 show ?thesis by (simp add: broker_ok_leave(2))
next
  case (3 cid w)
  with assms(1,2) show ?thesis
    by (fastforce simp: broker_ok_def set_phase_def omap_ok_put omap_put_mem in_set_remove1)
qed

lemma mqtt_step_ok: "mqtt_step os s s' \<Longrightarrow> broker_ok s \<Longrightarrow> broker_ok s'"
proof (induction rule: mqtt_step.induct)
  case (ms_connect sock s addr result s1)
  then show ?case by (intro broker_ok_connect)
next
  case (ms_serve sock cid s go_on s1)
  then show ?case by (intro serve_ok)
qed (auto simp: mqtt_start_def mqtt_stop_def clear_messages_def mqtt_accept_def broker_ok_def
    split_beta Let_def split: sum.split)

lemma mqtt_steps_ok: "mqtt_steps os s s' \<Longrightarrow> broker_ok s \<Longrightarrow> broker_ok s'"
  by (induction rule: rtranclp_induct) (auto intro: mqtt_step_ok)

text \<open>C22. In every reachable state the sessions are ordered by client identifier, each is stored
  under its own identifier and belongs to the socket of a handler that is serving that client.
  In particular no session is left when no handler is, whatever was stopped or disconnected.\<close>

theorem broker_invariant:
  assumes "mqtt_steps os (new_mqtt w) s"
  shows "broker_ok s \<and> (mq_threads s = [] \<longrightarrow> mq_sessions s = [])"
proof -
  have "broker_ok s"
    using mqtt_steps_ok [OF assms] by (simp add: broker_ok_def new_mqtt_def)
  then show ?thesis
    by (cases "mq_sessions s") (auto simp: broker_ok_def)
qed

theorem broker_invariant_witness:
  "broker_ok (mqtt_stop tape_os (mqtt_accept tape_os (snd (mqtt_start tape_os (new_mqtt ([], []))))))"
proof -
  let ?s1 = "snd (mqtt_start tape_os (new_mqtt ([], [])))"
  have "mq_accepting ?s1"
    by (simp add: mqtt_start_def new_mqtt_def open_listener_def tape_os_def kInvalidSock_def kSockErr_def
        set_reuseaddr_def Let_def)
  then have "mqtt_step tape_os ?s1 (mqtt_accept tape_os ?s1)"
    by (rule ms_accept)
  moreover have "mqtt_step tape_os (new_mqtt ([], [])) ?s1"
    by (rule ms_start) (simp add: new_mqtt_def)
  ultimately have "mqtt_steps tape_os (new_mqtt ([], [])) (mqtt_stop tape_os (mqtt_accept tape_os ?s1))"
    using ms_stop three_steps [of "mqtt_step tape_os"] by blast
  from broker_invariant [OF this] show ?thesis ..
qed

end
