(* ===== verification/MqttRouting.thy ===== *)
theory MqttRouting
  imports MqttBroker
begin

unbundle bit_operations_syntax

text \<open>
  What the packets of a client do to the broker, end to end from the bytes on its socket, who
  receives a publication, and the return of the handlers.
\<close>

subsection \<open>Receivers\<close>

definition wants :: "string \<Rightarrow> session \<Rightarrow> bool" where
  "wants topic ss \<longleftrightarrow> (\<exists>pat\<in>set (ss_filters ss). topic_matches pat topic)"

definition receivers :: "string \<Rightarrow> (string \<times> session) list \<Rightarrow> string list" where
  "receivers topic sessions = map fst (filter (\<lambda>entry. wants topic (snd entry)) sessions)"

lemma wants_add:
  "wants topic (ss\<lparr>ss_filters := ss_filters ss @ map fst fs\<rparr>) \<longleftrightarrow>
     wants topic ss \<or> (\<exists>f\<in>set fs. topic_matches (fst f) topic)"
  by (auto simp: wants_def)

lemma targets_receivers:
  "omap_ok sessions \<Longrightarrow>
     targets topic sessions = map (\<lambda>cid. ss_sock (the (map_of sessions cid))) (receivers topic sessions)"
  by (auto simp: targets_def receivers_def wants_def omap_mem_iff)

lemma distinct_receivers: "omap_ok sessions \<Longrightarrow> distinct (receivers topic sessions)"
  by (simp add: receivers_def distinct_map_filter omap_ok_distinct)

lemma mem_receivers:
  assumes "omap_ok sessions"
  shows "cid \<in> set (receivers topic sessions) \<longleftrightarrow> (\<exists>ss. map_of sessions cid = Some ss \<and> wants topic ss)"
  unfolding omap_mem_iff [OF assms, symmetric] by (force simp: receivers_def)

lemma omap_ok_add_filters: "omap_ok sessions \<Longrightarrow> omap_ok (snd (add_filters cid fs sessions))"
  by (simp add: add_filters_sessions omap_ok_put split: option.split)

text \<open>A subscription takes effect at once and only for its client: afterwards the receivers of
  a topic are the previous ones and, if one of the new filters matches the topic, the subscriber.
  No client is a receiver twice, whatever the number of its filters that match, and the sockets
  a publication is sent to are those of the receivers in the order of their identifiers.\<close>

theorem subscription_receivers:
  assumes "omap_ok sessions" and "map_of sessions cid = Some ss"
    and "sessions' = snd (add_filters cid fs sessions)"
  shows "set (receivers topic sessions') =
      set (receivers topic sessions) \<union> (if \<exists>f\<in>set fs. topic_matches (fst f) topic then {cid} else {})
    \<and> distinct (receivers topic sessions')
    \<and> targets topic sessions' = map (\<lambda>c. ss_sock (the (map_of sessions' c))) (receivers topic sessions')"
proof -
  have ok: "omap_ok sessions'"
    using assms(1,3) by (simp add: omap_ok_add_filters)
  have lookup: "map_of sessions' = (map_of sessions)(cid \<mapsto> ss\<lparr>ss_filters := ss_filters ss @ map fst fs\<rparr>)"
    using assms by (simp add: add_filters_sessions omap_simps)
  have "set (receivers topic sessions') =
      set (receivers topic sessions) \<union> (if \<exists>f\<in>set fs. topic_matches (fst f) topic then {cid} else {})"
  proof (rule set_eqI)
    fix c
    show "c \<in> set (receivers topic sessions') \<longleftrightarrow> c \<in> set (receivers topic sessions)
        \<union> (if \<exists>f\<in>set fs. topic_matches (fst f) topic then {cid} else {})"
      using assms(2) by (cases "c = cid")
        (simp_all add: mem_receivers [OF ok] mem_receivers [OF assms(1)] lookup wants_add)
  qed
  with ok show ?thesis
    by (simp add: distinct_receivers targets_receivers)
qed

definition demo_session :: "string \<Rightarrow> raw_socket \<Rightarrow> session" where
  "demo_session cid sock = \<lparr>ss_client_id = cid, ss_sock = sock, ss_filters = []\<rparr>"

theorem subscription_receivers_witness:
  "set (receivers ''a'' (snd (add_filters ''c'' [(''a'', 0), (''#'', 0)] [(''c'', demo_session ''c'' 4)]))) = {''c''}"
  using subscription_receivers [of "[(''c'', demo_session ''c'' 4)]" "''c''" "demo_session ''c'' 4" _
      "[(''a'', 0), (''#'', 0)]" "''a''"]
  by (simp add: omap_ok_def demo_session_def receivers_def wants_def topic_matches_def split_topic_def)

subsection \<open>Packets end to end\<close>

lemma publish_round:
  assumes "stream_socket os sock pend" and "mq_running s"
    and "pend (mq_world s) = text_of (frame_packet header (publish_body topic payload)) @ rest"
    and "drop_bit 4 header = MQTT_PUBLISH"
    and "0 < length topic" and "length topic < 65536" and "length topic + length payload < 268435454"
  shows "\<exists>w. pend w = rest \<and> serve os sock cid s =
    (True, s\<lparr>mq_history := mq_history s @ [\<lparr>mm_topic = topic, mm_payload = payload\<rparr>],
             mq_world := send_each os (frame_packet 0x30 (publish_body topic payload))
                           (targets topic (mq_sessions s)) w\<rparr>)"
proof -
  let ?body = "publish_body topic payload" and ?r = "read_packet os sock (mq_world s)"
  have "length ?body < 128 ^ 4"
    using assms(7) by (simp add: publish_body_def counted_def)
  note frame = read_packet_framed [OF assms(1) this assms(3)]
  then have read: "?r = (Some (header, ?body), snd ?r)"
    by (metis prod.collapse)
  have dec: "decode_publish ?body = Some (topic, payload)"
    using assms(5,6) by (simp add: decode_publish_format)
  have "serve os sock cid s = (True, handle_publish os ?body (s\<lparr>mq_world := snd ?r\<rparr>))"
    using assms(2,4) by (subst serve_def, subst read) simp
  with dec frame show ?thesis
    by (intro exI [of _ "snd ?r"])
      (simp add: handle_publish_def route_publish_def push_message_def encode_decoded_publish [OF dec])
qed

text \<open>C14. A publication, from the bytes on the wire to the history and the subscribers. When the
  next thing on a served connection is a framed \<open>PUBLISH\<close>, one round of the handler consumes
  exactly the frame, appends the message to the history, sends the same body to every target,
  changes no session, and goes on.\<close>

theorem serve_publish:
  assumes "stream_socket os sock pend" and "mq_running s"
    and "pend (mq_world s) = text_of (frame_packet header (publish_body topic payload)) @ rest"
    and "drop_bit 4 header = MQTT_PUBLISH"
    and "0 < length topic" and "length topic < 65536" and "length topic + length payload < 268435454"
  shows "\<exists>w. pend w = rest \<and> serve os sock cid s =
    (True, s\<lparr>mq_history := mq_history s @ [\<lparr>mm_topic = topic, mm_payload = payload\<rparr>],
             mq_world := send_each os (frame_packet 0x30 (publish_body topic payload))
                           (targets topic (mq_sessions s)) w\<rparr>)"
  by (rule publish_round [OF assms])

definition demo_broker :: "string \<Rightarrow> (string \<times> string) mqtt_server" where
  "demo_broker input = (new_mqtt (input, []))\<lparr>mq_running := True\<rparr>"

theorem serve_publish_witness:
  "\<exists>w. fst w = ''more'' \<and> serve tape_os 4 ''c''
      (demo_broker (text_of (frame_packet 0x30 (publish_body ''a'' ''hi'')) @ ''more''))
    = (True, (demo_broker (text_of (frame_packet 0x30 (publish_body ''a'' ''hi'')) @ ''more''))
        \<lparr>mq_history := [\<lparr>mm_topic = ''a'', mm_payload = ''hi''\<rparr>],
         mq_world := send_each tape_os (frame_packet 0x30 (publish_body ''a'' ''hi'')) [] w\<rparr>)"
  using serve_publish [OF tape_stream, of "demo_broker (text_of (frame_packet 0x30 (publish_body ''a'' ''hi'')) @ ''more'')"
      "0x30" "''a''" "''hi''" "''more''" 4 "''c''"]
  by (simp add: demo_broker_def new_mqtt_def MQTT_PUBLISH_def targets_def)

lemma connect_reads:
  assumes "stream_socket os sock pend" and "length client_id < 65536" and "client_id \<noteq> []"
    and "length rest' < 1000000" and "drop_bit 4 header = MQTT_CONNECT"
    and "pend (mq_world s) = text_of (frame_packet header (connect_body flags keepalive client_id rest')) @ rest"
    and "\<forall>w. fst (send_all os sock encode_connack w)"
  shows "\<exists>w. pend w = rest
    \<and> handle_connect os addr sock s = (Some client_id, installed sock client_id (snd (send_all os sock encode_connack w)) s)"
proof -
  let ?body = "connect_body flags keepalive client_id rest'"
  have "length ?body < 128 ^ 4"
    using assms(2,4) by (simp add: connect_body_def counted_def)
  moreover have "bytes_of (pend (mq_world s)) = frame_packet header ?body @ bytes_of rest"
    using assms(6) by simp
  ultimately obtain w1 w2 w3 where parts: "recv_exact os sock 1 (mq_world s) = (True, [header], w1)"
    "read_remaining_length os sock w1 = (True, length ?body, w2)"
    "recv_exact os sock (length ?body) w2 = (True, ?body, w3)" "bytes_of (pend w3) = bytes_of rest"
    using frame_parts [OF assms(1)] by metis
  obtain w4 where w4: "send_all os sock encode_connack w3 = (True, w4)"
    using assms(7) by (metis prod.collapse)
  with parts(1-3) have "handle_connect os addr sock s = (Some client_id, installed sock client_id w4 s)"
    using assms(3,5) decode_connect_body [OF assms(2), of flags keepalive rest']
    by (simp add: handle_connect_def installed_def)
  moreover have "pend w3 = rest"
    using parts(4) by (metis text_of_bytes_of)
  ultimately show ?thesis
    using w4 by (intro exI [of _ w3]) simp
qed

lemma connect_installs:
  assumes "stream_socket os sock pend" and "length client_id < 65536" and "client_id \<noteq> []"
    and "length rest' < 1000000" and "drop_bit 4 header = MQTT_CONNECT"
    and "pend (mq_world s) = text_of (frame_packet header (connect_body flags keepalive client_id rest')) @ rest"
    and "\<forall>w. fst (send_all os sock encode_connack w)"
  shows "\<exists>w. handle_connect os addr sock s = (Some client_id, installed sock client_id w s)"
  using connect_reads [OF assms] by blast

text \<open>A framed \<open>CONNECT\<close> of protocol level 4 with a client identifier installs a new
  session for its socket, without filters, replacing any session of the same identifier, and
  the handler goes on to serve that client. Nothing is done about the connection replaced.\<close>

theorem connect_installs_session:
  assumes "stream_socket os sock pend" and "length client_id < 65536" and "client_id \<noteq> []"
    and "length rest' < 1000000" and "drop_bit 4 header = MQTT_CONNECT"
    and "pend (mq_world s) = text_of (frame_packet header (connect_body flags keepalive client_id rest')) @ rest"
    and "\<forall>w. fst (send_all os sock encode_connack w)"
  shows "\<exists>w. handle_connect os addr sock s = (Some client_id, installed sock client_id w s)"
  using assms by (rule connect_installs)

theorem connect_installs_session_witness:
  "\<exists>w. handle_connect tape_os 99 4 (demo_broker (text_of (frame_packet 0x10 (connect_body 2 60 ''dev'' []))))
     = (Some ''dev'', installed 4 ''dev'' w (demo_broker (text_of (frame_packet 0x10 (connect_body 2 60 ''dev'' [])))))"
  by (rule connect_installs_session [OF tape_stream, where rest = "[]"])
    (simp_all add: demo_broker_def new_mqtt_def tape_send_all MQTT_CONNECT_def)

subsection \<open>Sessions lost\<close>

lemma serve_leaves:
  assumes "serve os sock cid s = (False, s1)"
  obtains w where "s1 = leave os sock cid (s\<lparr>mq_world := w\<rparr>)"
proof -
  have "\<exists>w. s1 = leave os sock cid (s\<lparr>mq_world := w\<rparr>)"
  proof (cases "mq_running s")
    case True
    with assms show ?thesis
      by (auto simp: serve_def split_beta Let_def split: if_splits option.splits prod.splits)
  next
    case False
    with assms show ?thesis
      by (intro exI [of _ "mq_world s"]) (simp add: serve_def)
  qed
  with that show thesis by blast
qed

lemma leave_own:
  assumes "map_of (mq_sessions s) cid = Some ss" "ss_sock ss \<noteq> kInvalidSock"
  shows "mq_world (leave os sock cid s) = sock_close os sock
      (sock_close os (ss_sock ss) (sock_shutdown os (ss_sock ss) (mq_world s)))"
  using assms by (simp add: leave_def remove_session_def close_socket_def shut_session_def)

text \<open>Two connections with one client identifier. The second takes over the session entry;
  when the handler of the first then ends, it removes the entry of the second and closes the
  second connection's socket, so the second client loses its session although it did nothing.\<close>

theorem takeover_session_lost:
  assumes "omap_ok (mq_sessions s)" and "sock2 \<noteq> kInvalidSock"
    and "handle_connect os addr sock2 s = (Some cid, s1)" and "serve os sock1 cid s1 = (False, s2)"
  shows "map_of (mq_sessions s1) cid = Some \<lparr>ss_client_id = cid, ss_sock = sock2, ss_filters = []\<rparr>
    \<and> map_of (mq_sessions s2) cid = None
    \<and> (\<exists>w. mq_world s2 = sock_close os sock1 (sock_close os sock2 (sock_shutdown os sock2 w)))"
proof -
  from assms(3) obtain w where s1: "s1 = installed sock2 cid w s"
    by (cases rule: handle_connect_cases) auto
  obtain w' where s2: "s2 = leave os sock1 cid (s1\<lparr>mq_world := w'\<rparr>)"
    using serve_leaves [OF assms(4)] .
  have lookup: "map_of (mq_sessions s1) cid = Some \<lparr>ss_client_id = cid, ss_sock = sock2, ss_filters = []\<rparr>"
    using assms(1) by (simp add: s1 omap_simps)
  then have "mq_world s2 = sock_close os sock1 (sock_close os sock2 (sock_shutdown os sock2 w'))"
    using assms(2) s2 leave_own [of "s1\<lparr>mq_world := w'\<rparr>" cid] by simp
  with lookup show ?thesis
    by (auto simp: s2 omap_simps)
qed

theorem takeover_session_lost_witness:
  "\<exists>s1. map_of (mq_sessions s1) ''dev'' = Some \<lparr>ss_client_id = ''dev'', ss_sock = 4, ss_filters = []\<rparr>
    \<and> map_of (mq_sessions (snd (serve tape_os 9 ''dev'' s1))) ''dev'' = None"
proof -
  let ?s = "(demo_broker (text_of (frame_packet 0x10 (connect_body 2 60 ''dev'' []))))\<lparr>mq_running := False\<rparr>"
  have "\<exists>w. handle_connect tape_os 99 4 ?s = (Some ''dev'', installed 4 ''dev'' w ?s)"
    by (rule connect_installs [OF tape_stream, where rest = "[]"])
      (simp_all add: demo_broker_def new_mqtt_def tape_send_all MQTT_CONNECT_def)
  then obtain w where connect: "handle_connect tape_os 99 4 ?s = (Some ''dev'', installed 4 ''dev'' w ?s)" ..
  have serve: "serve tape_os 9 ''dev'' (installed 4 ''dev'' w ?s)
      = (False, leave tape_os 9 ''dev'' (installed 4 ''dev'' w ?s))"
    by (simp add: serve_def installed_def)
  have "omap_ok (mq_sessions ?s)" "(4 :: raw_socket) \<noteq> kInvalidSock"
    by (simp_all add: demo_broker_def new_mqtt_def kInvalidSock_def)
  from takeover_session_lost [OF this connect serve] serve show ?thesis by (metis snd_conv)
qed

text \<open>A handler that ends while its own session is in place closes its socket twice in a row:
  once through the session, once itself. Between the two calls the descriptor may already belong
  to another thread.\<close>

theorem own_socket_closed_twice:
  assumes "serve os sock cid s = (False, s1)" and "map_of (mq_sessions s) cid = Some ss"
    and "ss_sock ss = sock" and "sock \<noteq> kInvalidSock"
  shows "\<exists>w. mq_world s1 = sock_close os sock (sock_close os sock (sock_shutdown os sock w))"
proof -
  obtain w where "s1 = leave os sock cid (s\<lparr>mq_world := w\<rparr>)"
    using serve_leaves [OF assms(1)] .
  then show ?thesis
    using assms(2-4) leave_own [of "s\<lparr>mq_world := w\<rparr>" cid ss os sock] by auto
qed

theorem own_socket_closed_twice_witness:
  "let s = (new_mqtt mem_world0)\<lparr>mq_sessions := [(''c'', demo_session ''c'' 4)]\<rparr>
   in \<exists>w. mq_world (snd (serve mem_os 4 ''c'' s)) = sock_close mem_os 4 (sock_close mem_os 4 (sock_shutdown mem_os 4 w))"
proof -
  let ?s = "(new_mqtt mem_world0)\<lparr>mq_sessions := [(''c'', demo_session ''c'' 4)]\<rparr>"
  have "serve mem_os 4 ''c'' ?s = (False, snd (serve mem_os 4 ''c'' ?s))"
    by (simp add: serve_def new_mqtt_def)
  from own_socket_closed_twice [OF this, of "demo_session ''c'' 4"] show ?thesis
    by (simp add: demo_session_def kInvalidSock_def Let_def)
qed

text \<open>A malformed \<open>SUBSCRIBE\<close> removes the session and closes the socket, but the handler
  goes on: its next round receives from a descriptor that is closed, or by then another
  connection's.\<close>

theorem malformed_subscribe_goes_on:
  assumes "mq_running s" and "read_packet os sock (mq_world s) = (Some (header, body), w)"
    and "drop_bit 4 header = MQTT_SUBSCRIBE" and "decode_subscribe body = None"
    and "map_of (mq_sessions s) cid = Some ss" and "ss_sock ss = sock" and "sock \<noteq> kInvalidSock"
  shows "\<exists>s1. serve os sock cid s = (True, s1) \<and> map_of (mq_sessions s1) cid = None
    \<and> mq_world s1 = sock_close os sock (sock_close os sock (sock_shutdown os sock w))"
  using assms leave_own [of "s\<lparr>mq_world := w\<rparr>" cid ss os sock]
  by (simp add: serve_def handle_subscribe_def packet_type_defs omap_simps)

theorem malformed_subscribe_goes_on_witness:
  "\<exists>s1. serve tape_os 4 ''c'' ((demo_broker (text_of (frame_packet 0x82 [])))\<lparr>mq_sessions := [(''c'', demo_session ''c'' 4)]\<rparr>)
     = (True, s1) \<and> map_of (mq_sessions s1) ''c'' = None"
proof -
  let ?s = "(demo_broker (text_of (frame_packet 0x82 [])))\<lparr>mq_sessions := [(''c'', demo_session ''c'' 4)]\<rparr>"
  have "mq_world ?s = (text_of (frame_packet 0x82 []) @ [], [])"
    by (simp add: demo_broker_def new_mqtt_def)
  then have "fst (read_packet tape_os 4 (mq_world ?s)) = Some (0x82, [])"
    using read_packet_framed [OF tape_stream, of "[]" "mq_world ?s" "0x82" "[]" 4] by simp
  then have "read_packet tape_os 4 (mq_world ?s) = (Some (0x82, []), snd (read_packet tape_os 4 (mq_world ?s)))"
    by (metis prod.collapse)
  from malformed_subscribe_goes_on [OF _ this, of "''c''" "demo_session ''c'' 4"] show ?thesis
    by (auto simp: demo_broker_def demo_session_def decode_subscribe_def MQTT_SUBSCRIBE_def kInvalidSock_def)
qed

subsection \<open>Stopping\<close>

text \<open>\<open>untouched os sock w w'\<close>: \<open>w'\<close> is reached from \<open>w\<close> by closing or shutting down sockets
  other than \<open>sock\<close>.\<close>

inductive untouched :: "'w os \<Rightarrow> raw_socket \<Rightarrow> 'w \<Rightarrow> 'w \<Rightarrow> bool" for os sock where
  untouched_refl: "untouched os sock w w"
| untouched_close: "untouched os sock w w' \<Longrightarrow> t \<noteq> sock \<Longrightarrow> untouched os sock w (os_close os t w')"
| untouched_shutdown: "untouched os sock w w' \<Longrightarrow> t \<noteq> sock \<Longrightarrow> untouched os sock w (os_shutdown os t w')"

lemma untouched_sessions:
  "untouched os sock w w' \<Longrightarrow> \<forall>entry\<in>set entries. ss_sock (snd entry) \<noteq> sock \<Longrightarrow>
     untouched os sock w (foldl (\<lambda>w entry. shut_session os (snd entry) w) w' entries)"
  by (induction entries arbitrary: w')
    (auto simp: shut_session_def sock_close_def sock_shutdown_def intro: untouched.intros)

text \<open>\<open>stop\<close> closes the listening socket and the sockets of the sessions, and no other: the
  connection of a client that has not finished \<open>CONNECT\<close>, or whose session was taken over, is
  neither shut down nor closed, while \<open>stop\<close> then waits for its handler, which is blocked in
  \<open>recv\<close> for as long as the client stays silent.\<close>

theorem stop_leaves_connecting_open:
  assumes "(sock, p) \<in> set (mq_threads s)" and "sock \<noteq> mq_listen s"
    and "\<forall>entry\<in>set (mq_sessions s). ss_sock (snd entry) \<noteq> sock"
  shows "untouched os sock (mq_world s) (mq_world (mqtt_stop os s))
    \<and> (sock, p) \<in> set (mq_threads (mqtt_stop os s))"
  using assms
  by (auto simp: mqtt_stop_def Let_def sock_close_def intro!: untouched_sessions intro: untouched.intros)

theorem stop_leaves_connecting_open_witness:
  "untouched mem_os 9 mem_world0
     (mq_world (mqtt_stop mem_os ((new_mqtt mem_world0)\<lparr>mq_running := True, mq_listen := 3, mq_threads := [(9, Connecting)]\<rparr>)))"
  using stop_leaves_connecting_open [of 9 Connecting
      "(new_mqtt mem_world0)\<lparr>mq_running := True, mq_listen := 3, mq_threads := [(9, Connecting)]\<rparr>" mem_os]
  by (simp add: new_mqtt_def)

subsection \<open>Handlers return\<close>

text \<open>What sending and closing leave alone: the bytes a peer has still to deliver.\<close>

definition output_separate :: "'w os \<Rightarrow> ('w \<Rightarrow> string) \<Rightarrow> bool" where
  "output_separate os pend \<longleftrightarrow>
     (\<forall>t d w. pend (snd (os_send os t d w)) = pend w) \<and> (\<forall>t w. pend (os_close os t w) = pend w)
     \<and> (\<forall>t w. pend (os_shutdown os t w) = pend w)"

lemma send_all_pend:
  assumes "output_separate os pend"
  shows "pend (snd (send_all os t data w)) = pend w"
proof (induction "length data" arbitrary: data w rule: less_induct)
  case less
  show ?case
  proof (cases data)
    case (Cons b bs)
    have "length (drop (nat k) (b # bs)) < length data" if "\<not> k \<le> 0" for k
      using that Cons by simp
    with less.hyps assms Cons show ?thesis
      by (simp add: send_all_step Let_def output_separate_def)
  qed (simp add: send_all.simps)
qed

lemma send_each_pend:
  "output_separate os pend \<Longrightarrow> pend (send_each os frame ts w) = pend w"
  unfolding send_each_def by (induction ts arbitrary: w) (simp_all add: send_all_pend)

lemma leave_pend:
  "output_separate os pend \<Longrightarrow> pend (mq_world (leave os t cid s)) = pend (mq_world s)"
  by (auto simp: leave_def close_socket_def remove_session_def shut_session_def sock_close_def
      sock_shutdown_def output_separate_def split: option.split)

lemma serve_shorter:
  assumes "stream_socket os sock pend" "output_separate os pend" "serve os sock cid s = (True, s1)"
  shows "length (pend (mq_world s1)) < length (pend (mq_world s))"
proof -
  obtain header body w where read: "read_packet os sock (mq_world s) = (Some (header, body), w)"
    using assms(3) by (auto simp: serve_def split: if_splits option.splits prod.splits)
  have "pend (mq_world (handle_publish os body (s\<lparr>mq_world := w\<rparr>))) = pend w"
    using send_each_pend [OF assms(2)]
    by (auto simp: handle_publish_def route_publish_def push_message_def split: option.split)
  moreover have "pend (mq_world (handle_subscribe os sock cid body (s\<lparr>mq_world := w\<rparr>))) = pend w"
    using send_all_pend [OF assms(2)] leave_pend [OF assms(2)]
    by (auto simp: handle_subscribe_def split_beta Let_def split: option.split)
  ultimately have "pend (mq_world s1) = pend w"
    using assms(3) read send_all_pend [OF assms(2)]
    by (auto simp: serve_def Let_def split: if_splits)
  moreover have "length (pend w) < length (pend (mq_world s))"
    using read_packet_shorter [OF assms(1), of "mq_world s"] read by simp
  ultimately show ?thesis by simp
qed



end
