(* ===== verification/MqttDelivery.thy ===== *)
theory MqttDelivery
  imports MqttRouting
begin

text \<open>
  Subscriptions over whole runs of the broker: once a \<open>SUBSCRIBE\<close> has been handled its filters stay
  with the session, whatever other clients do, and a matching publication that any connection
  delivers later is sent to the subscriber.
\<close>

subsection \<open>Sessions that last\<close>

text \<open>A step that does not disturb a client: the client has a session afterwards, and the step is not
  the start of another connection under its identifier.\<close>

definition serving :: "string \<Rightarrow> 'w mqtt_server \<Rightarrow> (raw_socket \<times> phase) list" where
  "serving cid s = filter (\<lambda>t. snd t = Serving cid) (mq_threads s)"

definition undisturbed :: "'w os \<Rightarrow> string \<Rightarrow> 'w mqtt_server \<Rightarrow> 'w mqtt_server \<Rightarrow> bool" where
  "undisturbed os cid s s' \<longleftrightarrow>
     mqtt_step os s s' \<and> cid \<in> fst ` set (mq_sessions s') \<and> length (serving cid s') \<le> length (serving cid s)"

definition keeps_session :: "string \<Rightarrow> 'w mqtt_server \<Rightarrow> 'w mqtt_server \<Rightarrow> bool" where
  "keeps_session cid s s' \<longleftrightarrow> (\<forall>ss. map_of (mq_sessions s) cid = Some ss \<longrightarrow>
     (\<exists>more. map_of (mq_sessions s') cid = Some (ss\<lparr>ss_filters := ss_filters ss @ more\<rparr>)))"

lemma keeps_session_same: "map_of (mq_sessions s') cid = map_of (mq_sessions s) cid \<Longrightarrow> keeps_session cid s s'"
  unfolding keeps_session_def by (intro allI impI exI [of _ "[]"]) simp

lemma keeps_session_trans: "keeps_session cid a b \<Longrightarrow> keeps_session cid b c \<Longrightarrow> keeps_session cid a c"
  unfolding keeps_session_def by fastforce

lemma set_phase_sessions [simp]: "mq_sessions (set_phase t p s) = mq_sessions s"
  by (simp add: set_phase_def)

lemma subscribe_sessions:
  "mq_sessions (handle_subscribe os sock c data s) =
     (case decode_subscribe data of None \<Rightarrow> omap_erase c (mq_sessions s)
      | Some (packet_id, fs) \<Rightarrow> snd (add_filters c fs (mq_sessions s)))"
  by (auto simp: handle_subscribe_def split_beta Let_def split: option.split)

lemma keeps_session_filters:
  assumes "omap_ok (mq_sessions s)" "mq_sessions s' = snd (add_filters c fs (mq_sessions s))"
  shows "keeps_session cid s s'"
proof (cases "c = cid")
  case True
  with assms show ?thesis
    by (auto simp: keeps_session_def add_filters_sessions omap_simps)
next
  case False
  with assms show ?thesis
    by (intro keeps_session_same) (auto simp: add_filters_sessions omap_simps split: option.split)
qed

lemma keeps_session_erase:
  assumes "omap_ok (mq_sessions s)" "mq_sessions s' = omap_erase c (mq_sessions s)" "cid \<in> fst ` set (mq_sessions s')"
  shows "keeps_session cid s s'"
  using assms by (intro keeps_session_same) (auto simp: omap_simps omap_erase_mem)

text \<open>One round of any handler.\<close>

lemma serve_sessions:
  assumes "serve os sock c s = (go_on, s1)"
  shows "mq_sessions s1 = mq_sessions s \<or> mq_sessions s1 = omap_erase c (mq_sessions s)
    \<or> (\<exists>fs. mq_sessions s1 = snd (add_filters c fs (mq_sessions s)))"
  using assms
  by (auto simp: serve_def split_beta Let_def subscribe_sessions split: if_splits option.splits prod.splits)

lemma serve_keeps_session:
  assumes "serve os sock c s = (go_on, s1)" "omap_ok (mq_sessions s)" "cid \<in> fst ` set (mq_sessions s1)"
  shows "keeps_session cid s s1"
  using serve_sessions [OF assms(1)] assms(2,3) keeps_session_same keeps_session_filters keeps_session_erase
  by metis

lemma connect_keeps_session:
  assumes "handle_connect os addr sock s = (result, s1)" "omap_ok (mq_sessions s)" "cid \<in> fst ` set (mq_sessions s1)"
    and "result \<noteq> Some cid"
  shows "keeps_session cid s s1"
  using assms(1)
proof (cases rule: handle_connect_cases)
  case (1 w)
  then show ?thesis by (intro keeps_session_same) (simp add: close_socket_def)
next
  case (2 c w)
  then have "c \<noteq> cid"
    using assms(3) by (auto simp: omap_erase_def)
  with 2 assms(2) show ?thesis
    by (intro keeps_session_same) (simp add: omap_simps omap_ok_put)
next
  case (3 c w)
  with assms(2,4) show ?thesis
    by (intro keeps_session_same) (auto simp: omap_simps)
qed

lemma undisturbed_keeps:
  assumes "undisturbed os cid s s'" "broker_ok s"
  shows "keeps_session cid s s'"
proof -
  have ok: "omap_ok (mq_sessions s)"
    using assms(2) by (simp add: broker_ok_def)
  have here: "cid \<in> fst ` set (mq_sessions s')" "length (serving cid s') \<le> length (serving cid s)"
    and "mqtt_step os s s'"
    using assms(1) by (simp_all add: undisturbed_def)
  from this(3) show ?thesis
  proof cases
    case (ms_connect sock addr result s1)
    have "result \<noteq> Some cid"
    proof
      assume "result = Some cid"
      with ms_connect have "serving cid s' = serving cid s @ [(sock, Serving cid)]"
        by (auto simp: serving_def set_phase_def filter_remove1 elim: handle_connect_cases)
      with here(2) show False by simp
    qed
    with connect_keeps_session [OF ms_connect(3) ok] here(1) show ?thesis
      unfolding ms_connect(1) by (simp add: keeps_session_def)
  next
    case (ms_serve sock c go_on s1)
    with serve_keeps_session [OF ms_serve(3) ok] here(1) show ?thesis
      unfolding ms_serve(1) by (simp add: keeps_session_def)
  qed (use here(1) in \<open>auto simp: mqtt_start_def mqtt_stop_def clear_messages_def mqtt_accept_def split_beta Let_def
    intro!: keeps_session_same split: sum.split if_splits\<close>)
qed

lemma undisturbed_run_keeps:
  assumes "(undisturbed os cid)\<^sup>*\<^sup>* s s'" "broker_ok s"
  shows "keeps_session cid s s' \<and> broker_ok s'"
  using assms(1)
proof (induction rule: rtranclp_induct)
  case base
  show ?case using assms(2) by (simp add: keeps_session_same)
next
  case (step u v)
  then have "mqtt_step os u v"
    by (simp add: undisturbed_def)
  with step undisturbed_keeps [of os cid u v] show ?case
    by (blast intro: keeps_session_trans mqtt_step_ok)
qed

subsection \<open>Delivery\<close>

text \<open>The next thing on a socket is this framed packet.\<close>

definition arriving :: "'w os \<Rightarrow> raw_socket \<Rightarrow> byte \<Rightarrow> byte list \<Rightarrow> 'w mqtt_server \<Rightarrow> bool" where
  "arriving os sock header body s \<longleftrightarrow> (\<exists>pend rest. stream_socket os sock pend
     \<and> pend (mq_world s) = text_of (frame_packet header body) @ rest)"

lemma arriving_read:
  assumes "arriving os sock header body s" "length body < 128 ^ 4"
  shows "\<exists>w. read_packet os sock (mq_world s) = (Some (header, body), w)"
  using assms read_packet_framed unfolding arriving_def by (metis prod.collapse)

text \<open>A framed \<open>SUBSCRIBE\<close> of a client with a session.\<close>

lemma subscribe_round:
  assumes "arriving os sock header (subscribe_body packet_id fs) s" "drop_bit 4 header = MQTT_SUBSCRIBE"
    and "length (subscribe_body packet_id fs) < 128 ^ 4" "list_all (\<lambda>(f, qos). length f < 65536) fs"
    and "mq_running s" "map_of (mq_sessions s) cid = Some ss" "omap_ok (mq_sessions s)"
  shows "fst (serve os sock cid s)
    \<and> map_of (mq_sessions (snd (serve os sock cid s))) cid = Some (ss\<lparr>ss_filters := ss_filters ss @ map fst fs\<rparr>)"
proof -
  obtain w where w: "read_packet os sock (mq_world s) = (Some (header, subscribe_body packet_id fs), w)"
    using arriving_read [OF assms(1,3)] by blast
  have dec: "decode_subscribe (subscribe_body packet_id fs) = Some (packet_id, fs)"
    using assms(4) by (simp add: decode_subscribe_iff)
  have "serve os sock cid s = (True, handle_subscribe os sock cid (subscribe_body packet_id fs) (s\<lparr>mq_world := w\<rparr>))"
    using assms(2,5) by (subst serve_def, subst w) (simp add: packet_type_defs)
  with dec assms(6,7) show ?thesis
    by (simp add: subscribe_sessions add_filters_sessions omap_simps)
qed

lemma session_target:
  assumes "map_of (mq_sessions s) cid = Some ss" "pat \<in> set (ss_filters ss)" "topic_matches pat topic"
  shows "ss_sock ss \<in> set (targets topic (mq_sessions s))"
  using map_of_SomeD [OF assms(1)] assms(2,3) by (force simp: targets_def)

text \<open>C16. A subscription works from the moment it is made until the session ends. A client with a
  session sends a framed \<open>SUBSCRIBE\<close>; then anything may happen in the broker, other connections,
  publications, disconnections, further subscriptions, as long as the client keeps its session and
  does not connect a second time; then some connection sends a framed \<open>PUBLISH\<close> whose topic one of
  the filters matches. The message enters the history, and its body is sent to a list of sockets
  that contains the subscriber's.\<close>

theorem subscriber_receives:
  assumes "mqtt_steps os (new_mqtt w0) s0" and "mq_running s0"
    and "(sock, Serving cid) \<in> set (mq_threads s0)" and "map_of (mq_sessions s0) cid = Some ss"
    and "arriving os sock h (subscribe_body packet_id fs) s0" and "drop_bit 4 h = MQTT_SUBSCRIBE"
    and "list_all (\<lambda>(f, qos). length f < 65536) fs" and "length (subscribe_body packet_id fs) < 128 ^ 4"
    and "serve os sock cid s0 = (go_on, s1)"
    and "(undisturbed os cid)\<^sup>*\<^sup>* (set_phase (sock, Serving cid) (Some (Serving cid)) s1) s" and "mq_running s"
    and "arriving os sock' h' (publish_body topic payload) s" and "drop_bit 4 h' = MQTT_PUBLISH"
    and "0 < length topic" and "length topic < 65536" and "length topic + length payload < 268435454"
    and "(f, qos) \<in> set fs" and "topic_matches f topic"
  shows "go_on \<and> (\<exists>w socks. ss_sock ss \<in> set socks \<and> serve os sock' cid' s =
    (True, s\<lparr>mq_history := mq_history s @ [\<lparr>mm_topic = topic, mm_payload = payload\<rparr>],
             mq_world := send_each os (frame_packet 0x30 (publish_body topic payload)) socks w\<rparr>))"
proof -
  have ok0: "broker_ok s0"
    using mqtt_steps_ok [OF assms(1)] by (simp add: broker_ok_def new_mqtt_def)
  then have "omap_ok (mq_sessions s0)"
    by (simp add: broker_ok_def)
  from subscribe_round [OF assms(5,6,8,7,2,4) this] have go: "go_on"
    and sub: "map_of (mq_sessions s1) cid = Some (ss\<lparr>ss_filters := ss_filters ss @ map fst fs\<rparr>)"
    by (simp_all add: assms(9))
  have "broker_ok (set_phase (sock, Serving cid) (Some (Serving cid)) s1)"
    using serve_ok [OF ok0 assms(3,9)] go by simp
  from undisturbed_run_keeps [OF assms(10) this] sub
  obtain more where "map_of (mq_sessions s) cid = Some (ss\<lparr>ss_filters := (ss_filters ss @ map fst fs) @ more\<rparr>)"
    by (auto simp: keeps_session_def)
  from session_target [OF this, of f topic] assms(17,18)
  have "ss_sock ss \<in> set (targets topic (mq_sessions s))"
    by force
  moreover obtain pend rest where "stream_socket os sock' pend"
    "pend (mq_world s) = text_of (frame_packet h' (publish_body topic payload)) @ rest"
    using assms(12) unfolding arriving_def by blast
  from publish_round [OF this(1) assms(11) this(2) assms(13-16), of cid'] obtain w where
    "serve os sock' cid' s = (True, s\<lparr>mq_history := mq_history s @ [\<lparr>mm_topic = topic, mm_payload = payload\<rparr>],
       mq_world := send_each os (frame_packet 0x30 (publish_body topic payload)) (targets topic (mq_sessions s)) w\<rparr>)"
    by blast
  ultimately show ?thesis using go by blast
qed

text \<open>One client connects, subscribes and publishes; everything is on the tape when it connects.\<close>

definition hi_packet :: string where "hi_packet = text_of (frame_packet 0x30 (publish_body ''a/b'' ''hi''))"
definition sub_packet :: string where "sub_packet = text_of (frame_packet 0x82 (subscribe_body 1 [(''a/#'', 0)]))"
definition dev_packet :: string where "dev_packet = text_of (frame_packet 0x10 (connect_body 2 60 ''dev'' []))"

definition demo_accepting :: "(string \<times> string) mqtt_server" where
  "demo_accepting = mqtt_accept tape_os (snd (mqtt_start tape_os (new_mqtt (dev_packet @ sub_packet @ hi_packet, []))))"

lemma demo_accepting_parts:
  "mq_threads demo_accepting = [(4, Connecting)]" "mq_running demo_accepting" "mq_sessions demo_accepting = []"
  "mq_history demo_accepting = []" "fst (mq_world demo_accepting) = dev_packet @ sub_packet @ hi_packet"
  "mqtt_steps tape_os (new_mqtt (dev_packet @ sub_packet @ hi_packet, [])) demo_accepting"
proof -
  let ?s0 = "new_mqtt (dev_packet @ sub_packet @ hi_packet, [])"
  have 1: "mqtt_step tape_os ?s0 (snd (mqtt_start tape_os ?s0))"
    by (rule ms_start) (simp add: new_mqtt_def)
  have 2: "mqtt_step tape_os (snd (mqtt_start tape_os ?s0)) demo_accepting"
    unfolding demo_accepting_def
    by (rule ms_accept) (simp add: mqtt_start_def new_mqtt_def open_listener_def tape_os_def kInvalidSock_def
      kSockErr_def set_reuseaddr_def Let_def)
  from 1 2 show "mqtt_steps tape_os ?s0 demo_accepting"
    by (meson rtranclp.rtrancl_into_rtrancl rtranclp.rtrancl_refl)
qed (simp_all add: demo_accepting_def mqtt_accept_def mqtt_start_def new_mqtt_def open_listener_def tape_os_def
    kInvalidSock_def kSockErr_def set_reuseaddr_def Let_def)

lemma tape_separate: "output_separate tape_os fst"
  by (simp add: output_separate_def tape_os_def)

theorem subscriber_receives_witness:
  "\<exists>s socks. 4 \<in> set socks \<and> mq_history (snd (serve tape_os 4 ''dev'' s)) = [\<lparr>mm_topic = ''a/b'', mm_payload = ''hi''\<rparr>]
     \<and> (\<exists>w. mq_world (snd (serve tape_os 4 ''dev'' s)) =
          send_each tape_os (frame_packet 0x30 (publish_body ''a/b'' ''hi'')) socks w)"
proof -
  have "\<exists>w. fst w = sub_packet @ hi_packet \<and> handle_connect tape_os 99 4 demo_accepting =
      (Some ''dev'', installed 4 ''dev'' (snd (send_all tape_os 4 encode_connack w)) demo_accepting)"
    by (rule connect_reads [OF tape_stream])
      (simp_all add: demo_accepting_parts dev_packet_def tape_send_all MQTT_CONNECT_def)
  then obtain w where w: "fst w = sub_packet @ hi_packet" "handle_connect tape_os 99 4 demo_accepting =
      (Some ''dev'', installed 4 ''dev'' (snd (send_all tape_os 4 encode_connack w)) demo_accepting)"
    by blast
  define w1 where "w1 = snd (send_all tape_os 4 encode_connack w)"
  define s0 where "s0 = set_phase (4, Connecting) (Some (Serving ''dev'')) (installed 4 ''dev'' w1 demo_accepting)"
  have w1: "fst w1 = sub_packet @ hi_packet"
    using send_all_pend [OF tape_separate] w(1) by (simp add: w1_def)
  have "mqtt_step tape_os demo_accepting s0"
    using ms_connect [OF _ w(2)] unfolding s0_def w1_def by (simp add: demo_accepting_parts)
  with demo_accepting_parts(6) have reach: "mqtt_steps tape_os (new_mqtt (dev_packet @ sub_packet @ hi_packet, [])) s0"
    by (rule rtranclp.rtrancl_into_rtrancl)
  have s0: "mq_running s0" "(4, Serving ''dev'') \<in> set (mq_threads s0)" "fst (mq_world s0) = sub_packet @ hi_packet"
    "map_of (mq_sessions s0) ''dev'' = Some \<lparr>ss_client_id = ''dev'', ss_sock = 4, ss_filters = []\<rparr>" "mq_history s0 = []"
    using w1 by (simp_all add: s0_def set_phase_def installed_def demo_accepting_parts)
  let ?sub = "subscribe_body 1 [(''a/#'', 0)]" and ?pub = "publish_body ''a/b'' ''hi''"
  have arrive: "arriving tape_os 4 0x82 ?sub s0"
    using tape_stream s0(3) unfolding arriving_def sub_packet_def by blast
  obtain go s1 where serve: "serve tape_os 4 ''dev'' s0 = (go, s1)"
    by (metis prod.collapse)
  let ?s = "set_phase (4, Serving ''dev'') (Some (Serving ''dev'')) s1"
  have len: "length ?sub < 128 ^ 4"
    by (simp add: subscribe_body_def filters_body_def counted_def)
  have dec: "decode_subscribe ?sub = Some (1, [(''a/#'', 0)])"
    by (simp add: decode_subscribe_iff)
  note read = read_packet_framed [OF tape_stream len, where w = "mq_world s0" and h = "0x82" and rest = hi_packet]
  have after: "fst (mq_world s1) = hi_packet" "mq_running s1" "mq_history s1 = []"
    using serve read s0(1,3,5) dec
    by (auto simp: send_all_pend [OF tape_separate] serve_def split_beta sub_packet_def packet_type_defs handle_subscribe_def Let_def split: option.splits)
  have hi: "arriving tape_os 4 0x30 ?pub ?s"
    unfolding arriving_def using tape_stream after(1)
    by (intro exI [of _ fst] exI [of _ "[]"]) (simp add: hi_packet_def set_phase_def)
  have running: "mq_running ?s"
    using after(2) by (simp add: set_phase_def)
  from subscriber_receives [OF reach s0(1,2,4) arrive _ _ len serve rtranclp.rtrancl_refl running hi,
      of "''a/#''" 0 "''dev''"]
  obtain w' socks where "4 \<in> set socks" "serve tape_os 4 ''dev'' ?s =
      (True, ?s\<lparr>mq_history := mq_history ?s @ [\<lparr>mm_topic = ''a/b'', mm_payload = ''hi''\<rparr>],
         mq_world := send_each tape_os (frame_packet 0x30 ?pub) socks w'\<rparr>)"
    by (auto simp: packet_type_defs topic_matches_def split_topic_def)
  with after(3) show ?thesis
    by (intro exI [of _ ?s] exI [of _ socks] conjI exI [of _ w']) (simp_all add: set_phase_def)
qed

end
