(* ===== verification/HttpCommon.thy ===== *)
theory HttpCommon
  imports Prelude
begin

text \<open>
  What the two HTTP servers share: the constants, response and response builder of
  \<open>http_common.h\<close> and \<open>http_common.cpp\<close>, and the HTTP library. The library (httplib) is
  not code of the repository. It is a parameter, a record of functions: binding, serving and
  stopping the listening socket over an abstract world, and the choice of the registered handler
  for a request, among registrations listed in the order they were made. \<open>first_match\<close> states
  its documented rule: the first registration made for the request's method whose pattern matches
  the path. That \<open>start\<close> waits until the library reports that it is serving is not modelled.
\<close>

subsection \<open>Constants\<close>

definition method_get :: string where "method_get = ''GET''"
definition method_post :: string where "method_post = ''POST''"
definition method_put :: string where "method_put = ''PUT''"
definition method_del :: string where "method_del = ''DELETE''"
definition method_patch :: string where "method_patch = ''PATCH''"
definition method_head :: string where "method_head = ''HEAD''"
definition method_options :: string where "method_options = ''OPTIONS''"

lemmas method_defs = method_get_def method_post_def method_put_def method_del_def method_patch_def
  method_head_def method_options_def

definition content_type_json :: string where "content_type_json = ''application/json''"

subsection \<open>Responses\<close>

record response =
  status_code :: int
  resp_body :: string
  resp_type :: string

record response_builder =
  rb_status_code :: int
  rb_content_type :: string
  rb_body :: string

definition new_builder :: response_builder where
  "new_builder = \<lparr>rb_status_code = 200, rb_content_type = content_type_json, rb_body = []\<rparr>"

definition rb_set_status :: "int \<Rightarrow> response_builder \<Rightarrow> response_builder" where
  "rb_set_status code b = b\<lparr>rb_status_code := code\<rparr>"

definition rb_set_content_type :: "string \<Rightarrow> response_builder \<Rightarrow> response_builder" where
  "rb_set_content_type ct b = b\<lparr>rb_content_type := ct\<rparr>"

definition rb_set_body :: "string \<Rightarrow> response_builder \<Rightarrow> response_builder" where
  "rb_set_body body b = b\<lparr>rb_body := body\<rparr>"

definition rb_build :: "response_builder \<Rightarrow> response" where
  "rb_build b = \<lparr>status_code = rb_status_code b, resp_body = rb_body b, resp_type = rb_content_type b\<rparr>"

lemmas builder_defs = new_builder_def rb_set_status_def rb_set_content_type_def rb_set_body_def rb_build_def

subsection \<open>The HTTP library\<close>

text \<open>A request as the library hands it over; \<open>hq_header\<close> is the header lookup. The reply is
  the status, the body and the content type a handler sets.\<close>

record http_request =
  hq_method :: string
  hq_path :: string
  hq_body :: string
  hq_header :: "string \<Rightarrow> string option"

datatype verb = VGet | VPost | VPut | VDelete | VPatch

record 'w httplib =
  hl_bind :: "'w \<Rightarrow> int \<times> 'w"
  hl_listen :: "'w \<Rightarrow> 'w"
  hl_stop :: "'w \<Rightarrow> 'w"
  hl_pick :: "(verb \<times> string) list \<Rightarrow> string \<Rightarrow> string \<Rightarrow> nat option"

text \<open>The methods a registration answers: \<open>HEAD\<close> requests go to the \<open>GET\<close> handlers.\<close>

fun verb_serves :: "verb \<Rightarrow> string \<Rightarrow> bool" where
  "verb_serves VGet m = (m = ''GET'' \<or> m = ''HEAD'')"
| "verb_serves VPost m = (m = ''POST'')"
| "verb_serves VPut m = (m = ''PUT'')"
| "verb_serves VDelete m = (m = ''DELETE'')"
| "verb_serves VPatch m = (m = ''PATCH'')"

fun find_index :: "('a \<Rightarrow> bool) \<Rightarrow> 'a list \<Rightarrow> nat option" where
  "find_index P [] = None"
| "find_index P (x # xs) = (if P x then Some 0 else map_option Suc (find_index P xs))"

definition first_match :: "'w httplib \<Rightarrow> (string \<Rightarrow> string \<Rightarrow> bool) \<Rightarrow> bool" where
  "first_match lib matches \<longleftrightarrow> (\<forall>rs m p. hl_pick lib rs m p
     = find_index (\<lambda>(v, pat). verb_serves v m \<and> matches pat p) rs)"

lemma find_index_append:
  "find_index P (xs @ ys) = (case find_index P xs of Some i \<Rightarrow> Some i
     | None \<Rightarrow> map_option (\<lambda>i. length xs + i) (find_index P ys))"
  by (induction xs) (auto split: option.split simp: option.map_comp comp_def option.map_ident_strong
      intro: option.map_cong)

lemma find_index_None: "find_index P xs = None \<longleftrightarrow> (\<forall>x\<in>set xs. \<not> P x)"
  by (induction xs) auto

lemma find_index_Some: "find_index P xs = Some i \<Longrightarrow> i < length xs \<and> P (xs ! i)"
  by (induction xs arbitrary: i) (auto split: if_splits)

text \<open>A library for evaluation: patterns match literally.\<close>

definition plain_lib :: "unit httplib" where
  "plain_lib = \<lparr>hl_bind = (\<lambda>w. (8080, w)), hl_listen = id, hl_stop = id,
     hl_pick = (\<lambda>rs m p. find_index (\<lambda>(v, pat). verb_serves v m \<and> pat = p) rs)\<rparr>"

lemma plain_first_match: "first_match plain_lib (=)"
  by (simp add: first_match_def plain_lib_def)

subsection \<open>Start and stop\<close>

text \<open>\<open>start\<close> of both servers after the check that it is not running: bind, fail on a port that
  is not positive, serve. The port field keeps the failed value.\<close>

definition http_open :: "'w httplib \<Rightarrow> 'w \<Rightarrow> unit throwing \<times> int \<times> 'w" where
  "http_open lib w =
     (let (port, w1) = hl_bind lib w
      in if port \<le> 0 then (Inl ''failed to bind to 127.0.0.1:0'', port, w1)
         else (Inr (), port, hl_listen lib w1))"

end
