(* ===== verification/RestServer.thy ===== *)
theory RestServer
  imports HttpCommon Contracts
begin

text \<open>
  The REST server of \<open>rest_server.cpp\<close>: routes, the callback registered with the HTTP library
  for each route, and the history of requests. A handler is a function that returns a response or
  throws a \<open>std::exception\<close>, whose message is the left side of the result.
\<close>

record rest_request =
  rq_method :: string
  rq_path :: string
  rq_body :: string

type_synonym rest_handler = "rest_request \<Rightarrow> response throwing"

record 'w rest_server =
  rs_port :: int
  rs_running :: bool
  rs_routes :: "((verb \<times> string) \<times> rest_handler) list"
  rs_requests :: "rest_request list"
  rs_world :: 'w

definition new_rest :: "'w \<Rightarrow> 'w rest_server" where
  "new_rest w = \<lparr>rs_port = 0, rs_running = False, rs_routes = [], rs_requests = [], rs_world = w\<rparr>"

definition from_httplib :: "http_request \<Rightarrow> rest_request" where
  "from_httplib src = \<lparr>rq_method = hq_method src, rq_path = hq_path src, rq_body = hq_body src\<rparr>"

subsection \<open>Operations\<close>

definition rest_start :: "'w httplib \<Rightarrow> 'w rest_server \<Rightarrow> unit throwing \<times> 'w rest_server" where
  "rest_start lib s =
     (if rs_running s then (Inl ''rest_server is already running'', s)
      else (case http_open lib (rs_world s) of
              (Inl e, port, w) \<Rightarrow> (Inl e, s\<lparr>rs_port := port, rs_world := w\<rparr>)
            | (Inr _, port, w) \<Rightarrow> (Inr (), s\<lparr>rs_port := port, rs_running := True, rs_world := w\<rparr>)))"

definition rest_stop :: "'w httplib \<Rightarrow> 'w rest_server \<Rightarrow> 'w rest_server" where
  "rest_stop lib s =
     (if \<not> rs_running s then s else s\<lparr>rs_running := False, rs_world := hl_stop lib (rs_world s)\<rparr>)"

definition rest_base_url :: "'w rest_server \<Rightarrow> string throwing" where
  "rest_base_url s =
     (if \<not> rs_running s then Inl ''rest_server is not running''
      else Inr (''http://127.0.0.1:'' @ dec_string_int (rs_port s)))"

definition verb_of :: "string \<Rightarrow> verb" where
  "verb_of m =
     (if m = ''GET'' then VGet
      else if m = ''POST'' then VPost
      else if m = ''PUT'' then VPut
      else if m = ''DELETE'' then VDelete
      else if m = ''PATCH'' then VPatch
      else VGet)"

definition add_route :: "string \<Rightarrow> string \<Rightarrow> rest_handler \<Rightarrow> 'w rest_server \<Rightarrow> 'w rest_server" where
  "add_route m path handler_fn s = s\<lparr>rs_routes := rs_routes s @ [((verb_of m, path), handler_fn)]\<rparr>"

definition then_return :: "string \<Rightarrow> string \<Rightarrow> response_builder \<Rightarrow> 'w rest_server \<Rightarrow> 'w rest_server" where
  "then_return m path builder s = (let resp = rb_build builder in add_route m path (\<lambda>_. Inr resp) s)"

definition push_request :: "rest_request \<Rightarrow> 'w rest_server \<Rightarrow> 'w rest_server" where
  "push_request r s = s\<lparr>rs_requests := rs_requests s @ [r]\<rparr>"

definition rest_requests :: "'w rest_server \<Rightarrow> rest_request list" where
  "rest_requests s = rs_requests s"

definition clear_requests :: "'w rest_server \<Rightarrow> 'w rest_server" where
  "clear_requests s = s\<lparr>rs_requests := []\<rparr>"

definition error_reply :: "string \<Rightarrow> response" where
  "error_reply what = \<lparr>status_code = 500,
     resp_body = ''{'' @ [CHR 0x22] @ ''error'' @ [CHR 0x22] @ '':'' @ [CHR 0x22] @ what @ [CHR 0x22] @ ''}'',
     resp_type = content_type_json\<rparr>"

text \<open>The callback of a route, and a request as the library serves it; \<open>None\<close> when the library
  finds no route and answers by itself.\<close>

definition rest_callback :: "rest_handler \<Rightarrow> http_request \<Rightarrow> 'w rest_server \<Rightarrow> response \<times> 'w rest_server" where
  "rest_callback handler_fn req s =
     (let s1 = push_request (from_httplib req) s
      in case handler_fn (from_httplib req) of
           Inr our_resp \<Rightarrow> (our_resp, s1)
         | Inl what \<Rightarrow> (error_reply what, s1))"

definition rest_serve :: "'w httplib \<Rightarrow> http_request \<Rightarrow> 'w rest_server \<Rightarrow> response option \<times> 'w rest_server" where
  "rest_serve lib req s =
     (case hl_pick lib (map fst (rs_routes s)) (hq_method req) (hq_path req) of
        None \<Rightarrow> (None, s)
      | Some i \<Rightarrow> (let (reply, s1) = rest_callback (snd (rs_routes s ! i)) req s in (Some reply, s1)))"

subsection \<open>Contracts\<close>

interpretation rest_life: lifecycle rs_running "rest_start lib" "rest_stop lib" rest_base_url
  "''rest_server is already running''" "''rest_server is not running''" for lib :: "'w httplib"
  by unfold_locales
    (auto simp: rest_start_def rest_stop_def rest_base_url_def split: sum.split prod.split)

interpretation rest_journal: journal push_request rest_requests clear_requests
  by unfold_locales (simp_all add: push_request_def rest_requests_def clear_requests_def)

subsection \<open>Properties\<close>

lemma rest_callback_state: "snd (rest_callback h req s) = push_request (from_httplib req) s"
  by (simp add: rest_callback_def Let_def split: sum.split)

definition routed :: "'w httplib \<Rightarrow> 'w rest_server \<Rightarrow> http_request \<Rightarrow> bool" where
  "routed lib s req \<longleftrightarrow> hl_pick lib (map fst (rs_routes s)) (hq_method req) (hq_path req) \<noteq> None"

definition rest_serve_all :: "'w httplib \<Rightarrow> http_request list \<Rightarrow> 'w rest_server \<Rightarrow> 'w rest_server" where
  "rest_serve_all lib reqs s = foldl (\<lambda>s req. snd (rest_serve lib req s)) s reqs"

lemma rest_serve_state:
  "snd (rest_serve lib req s) = (if routed lib s req then push_request (from_httplib req) s else s)"
  by (auto simp: rest_serve_def routed_def rest_callback_state split_beta Let_def split: option.split)

lemma rest_serve_all_fold:
  "rest_serve_all lib reqs s = fold push_request (map from_httplib (filter (routed lib s) reqs)) s"
proof -
  have "routed lib (push_request r s) = routed lib s" for r and s :: "'a rest_server"
    by (simp add: fun_eq_iff routed_def push_request_def)
  then show ?thesis
    unfolding rest_serve_all_def by (induction reqs arbitrary: s) (simp_all add: rest_serve_state)
qed

text \<open>C38. The request history. After \<open>clear_requests\<close> the history is exactly the requests served
  by a route since, in the order served, each once, whether its handler returned or threw; requests
  for which there is no route leave no trace.\<close>

theorem rest_history:
  "rest_requests (rest_serve_all lib reqs (clear_requests s)) =
     map from_httplib (filter (routed lib s) reqs)"
proof -
  have "routed lib (clear_requests s) = routed lib s"
    by (simp add: fun_eq_iff routed_def clear_requests_def)
  then show ?thesis
    by (simp add: rest_serve_all_fold rest_journal.entries_since_wipe)
qed

text \<open>A declared route answers with the declared response: the first \<open>when\<close> for a method
  and path, followed by \<open>then_return\<close>, makes every such request get the builder's status, body
  and content type.\<close>

theorem declared_route_answers:
  assumes "first_match lib matches" and "matches path (hq_path req)"
    and "hq_method req \<in> {''GET'', ''POST'', ''PUT'', ''DELETE'', ''PATCH''}"
    and "\<not> routed lib s req"
  shows "fst (rest_serve lib req (then_return (hq_method req) path builder s)) =
    Some \<lparr>status_code = rb_status_code builder, resp_body = rb_body builder, resp_type = rb_content_type builder\<rparr>"
proof -
  have serves: "verb_serves (verb_of (hq_method req)) (hq_method req)"
    using assms(3) by (elim insertE emptyE) (simp_all add: verb_of_def)
  have "find_index (\<lambda>(v, pat). verb_serves v (hq_method req) \<and> matches pat (hq_path req)) (map fst (rs_routes s)) = None"
    using assms(1,4) by (simp add: routed_def first_match_def)
  with assms(1,2) serves show ?thesis
    by (simp add: rest_serve_def then_return_def add_route_def first_match_def find_index_append
        rest_callback_def rb_build_def Let_def)
qed

definition demo_req :: "string \<Rightarrow> http_request" where
  "demo_req m = \<lparr>hq_method = m, hq_path = ''/x'', hq_body = [], hq_header = (\<lambda>_. None)\<rparr>"

theorem declared_route_answers_witness:
  "fst (rest_serve plain_lib (demo_req ''GET'') (then_return ''GET'' ''/x'' (rb_set_body ''hi'' new_builder) (new_rest ())))
     = Some \<lparr>status_code = 200, resp_body = ''hi'', resp_type = content_type_json\<rparr>"
  using declared_route_answers [OF plain_first_match, of "''/x''" "demo_req ''GET''" "new_rest ()"
      "rb_set_body ''hi'' new_builder"]
  by (simp add: demo_req_def routed_def new_rest_def plain_lib_def builder_defs)

text \<open>The first declaration of a route wins: once a request has a route, declaring further
  routes changes nothing for it.\<close>

theorem first_route_wins:
  assumes "first_match lib matches" and "routed lib s req"
  shows "fst (rest_serve lib req (add_route m path h s)) = fst (rest_serve lib req s)"
proof -
  let ?P = "\<lambda>(v, pat). verb_serves v (hq_method req) \<and> matches pat (hq_path req)"
  from assms obtain i where i: "find_index ?P (map fst (rs_routes s)) = Some i"
    by (auto simp: routed_def first_match_def)
  then have "i < length (rs_routes s)"
    using find_index_Some by fastforce
  with i assms(1) show ?thesis
    by (simp add: rest_serve_def add_route_def first_match_def find_index_append nth_append
        rest_callback_def Let_def split: sum.split)
qed

theorem first_route_wins_witness:
  "fst (rest_serve plain_lib (demo_req ''GET'') (add_route ''GET'' ''/x'' (\<lambda>_. Inl ''late'')
      (then_return ''GET'' ''/x'' new_builder (new_rest ()))))
   = fst (rest_serve plain_lib (demo_req ''GET'') (then_return ''GET'' ''/x'' new_builder (new_rest ())))"
  by (rule first_route_wins [OF plain_first_match])
    (simp add: demo_req_def routed_def then_return_def add_route_def new_rest_def plain_lib_def verb_of_def Let_def)

text \<open>A route declared for \<open>OPTIONS\<close> is registered for \<open>GET\<close>: it does not answer
  \<open>OPTIONS\<close> requests, and it answers \<open>GET\<close> requests for which nothing was declared. The same
  holds of every method but the five the code names.\<close>

theorem other_methods_become_get:
  assumes "first_match lib matches" and "matches path p"
    and "m \<notin> {''GET'', ''POST'', ''PUT'', ''DELETE'', ''PATCH'', ''HEAD''}" and "rs_routes s = []"
  shows "fst (rest_serve lib \<lparr>hq_method = m, hq_path = p, hq_body = b, hq_header = hdr\<rparr> (add_route m path h s)) = None
    \<and> fst (rest_serve lib \<lparr>hq_method = ''GET'', hq_path = p, hq_body = b, hq_header = hdr\<rparr> (add_route m path h s)) \<noteq> None"
proof -
  have "verb_of m = VGet"
    using assms(3) by (simp add: verb_of_def)
  with assms show ?thesis
    by (simp add: rest_serve_def add_route_def first_match_def split_beta Let_def)
qed

theorem other_methods_become_get_witness:
  "fst (rest_serve plain_lib (demo_req method_options) (add_route method_options ''/x'' (\<lambda>_. Inl ''e'') (new_rest ()))) = None"
  using other_methods_become_get [OF plain_first_match, of "''/x''" "''/x''" method_options "new_rest ()" "[]" "\<lambda>_. None" "\<lambda>_. Inl ''e''"]
  by (simp add: demo_req_def method_options_def new_rest_def)

end
