(* ===== verification/SoapServer.thy ===== *)
theory SoapServer
  imports HttpCommon Contracts
begin

text \<open>
  The SOAP server of \<open>soap_server.cpp\<close>: handlers keyed by path and action, the version and the
  action of a request, the fault documents, and the history. The XML library (pugixml) is a
  parameter, the function \<open>save\<close> that prints a document; the documents themselves are built
  here as the code builds them.
\<close>

subsection \<open>Documents\<close>

datatype xml = Element string "(string \<times> string) list" "xml list" | Text string

record xml_document =
  xd_declaration :: "(string \<times> string) list"
  xd_root :: xml

datatype soap_version = V1_1 | V1_2

definition soap_declaration :: "(string \<times> string) list" where
  "soap_declaration = [(''version'', ''1.0''), (''encoding'', ''utf-8'')]"

definition fault_document :: "string \<Rightarrow> string \<Rightarrow> soap_version \<Rightarrow> xml_document" where
  "fault_document faultcode faultstring version =
     \<lparr>xd_declaration = soap_declaration,
      xd_root = (case version of
        V1_1 \<Rightarrow>
          Element ''soap:Envelope'' [(''xmlns:soap'', ''http://schemas.xmlsoap.org/soap/envelope/'')]
            [Element ''soap:Body'' []
              [Element ''soap:Fault'' []
                [Element ''faultcode'' [] [Text faultcode],
                 Element ''faultstring'' [] [Text faultstring]]]]
      | V1_2 \<Rightarrow>
          Element ''env:Envelope'' [(''xmlns:env'', ''http://www.w3.org/2003/05/soap-envelope'')]
            [Element ''env:Body'' []
              [Element ''env:Fault'' []
                [Element ''env:Code'' [] [Element ''env:Value'' [] [Text faultcode]],
                 Element ''env:Reason'' [] [Element ''env:Text'' [] [Text faultstring]]]]])\<rparr>"

subsection \<open>Messages\<close>

record soap_request =
  sq_path :: string
  sq_action :: string
  sq_body :: string
  sq_version :: soap_version

record soap_response =
  sr_status :: int
  sr_body :: string

definition soap_fault :: "(xml_document \<Rightarrow> string) \<Rightarrow> int \<Rightarrow> string \<Rightarrow> string \<Rightarrow> soap_version \<Rightarrow> soap_response" where
  "soap_fault save code faultcode faultstring version =
     \<lparr>sr_status = code, sr_body = save (fault_document faultcode faultstring version)\<rparr>"

type_synonym soap_handler = "soap_request \<Rightarrow> soap_response throwing"

subsection \<open>State and operations\<close>

record 'w soap_server =
  so_port :: int
  so_running :: bool
  so_handlers :: "string \<times> string \<rightharpoonup> soap_handler"
  so_paths :: "string list"
  so_posts :: "string list"
  so_requests :: "soap_request list"
  so_world :: 'w

definition new_soap :: "'w \<Rightarrow> 'w soap_server" where
  "new_soap w = \<lparr>so_port = 0, so_running = False, so_handlers = Map.empty, so_paths = [], so_posts = [],
     so_requests = [], so_world = w\<rparr>"

definition soap_start :: "'w httplib \<Rightarrow> 'w soap_server \<Rightarrow> unit throwing \<times> 'w soap_server" where
  "soap_start lib s =
     (if so_running s then (Inl ''soap_server is already running'', s)
      else (case http_open lib (so_world s) of
              (Inl e, port, w) \<Rightarrow> (Inl e, s\<lparr>so_port := port, so_world := w\<rparr>)
            | (Inr _, port, w) \<Rightarrow> (Inr (), s\<lparr>so_port := port, so_running := True, so_world := w\<rparr>)))"

definition soap_stop :: "'w httplib \<Rightarrow> 'w soap_server \<Rightarrow> 'w soap_server" where
  "soap_stop lib s =
     (if \<not> so_running s then s else s\<lparr>so_running := False, so_world := hl_stop lib (so_world s)\<rparr>)"

definition soap_base_url :: "'w soap_server \<Rightarrow> string throwing" where
  "soap_base_url s =
     (if \<not> so_running s then Inl ''soap_server is not running''
      else Inr (''http://127.0.0.1:'' @ dec_string_int (so_port s)))"

text \<open>\<open>so_posts\<close> are the registrations made with the HTTP library, all for \<open>POST\<close> and all with
  the callback \<open>handle_request\<close>.\<close>

definition soap_route :: "string \<Rightarrow> string \<Rightarrow> soap_handler \<Rightarrow> 'w soap_server \<Rightarrow> 'w soap_server" where
  "soap_route path action handler_fn s =
     (let is_new_path = path \<notin> set (so_paths s);
          s1 = s\<lparr>so_paths := insort_insert path (so_paths s),
                 so_handlers := (so_handlers s)((path, action) \<mapsto> handler_fn)\<rparr>
      in if is_new_path then s1\<lparr>so_posts := so_posts s1 @ [path]\<rparr> else s1)"

definition soap_then_return :: "string \<Rightarrow> string \<Rightarrow> soap_response \<Rightarrow> 'w soap_server \<Rightarrow> 'w soap_server" where
  "soap_then_return path action resp s = soap_route path action (\<lambda>_. Inr resp) s"

definition push_soap :: "soap_request \<Rightarrow> 'w soap_server \<Rightarrow> 'w soap_server" where
  "push_soap r s = s\<lparr>so_requests := so_requests s @ [r]\<rparr>"

definition soap_requests :: "'w soap_server \<Rightarrow> soap_request list" where
  "soap_requests s = so_requests s"

definition clear_soap :: "'w soap_server \<Rightarrow> 'w soap_server" where
  "clear_soap s = s\<lparr>so_requests := []\<rparr>"

subsection \<open>Handling a request\<close>

fun contains :: "string \<Rightarrow> string \<Rightarrow> bool" where
  "contains [] pat = (pat = [])"
| "contains (c # cs) pat = (take (length pat) (c # cs) = pat \<or> contains cs pat)"

definition request_version :: "http_request \<Rightarrow> soap_version" where
  "request_version req =
     (case hq_header req ''Content-Type'' of
        Some v \<Rightarrow> (if contains v ''application/soap+xml'' then V1_2 else V1_1)
      | None \<Rightarrow> V1_1)"

definition unquote :: "string \<Rightarrow> string" where
  "unquote a = (if 2 \<le> length a \<and> hd a = CHR 0x22 \<and> last a = CHR 0x22 then butlast (tl a) else a)"

definition request_action :: "http_request \<Rightarrow> string" where
  "request_action req = (case hq_header req ''SOAPAction'' of Some v \<Rightarrow> unquote v | None \<Rightarrow> [])"

definition soap_content_type :: "soap_version \<Rightarrow> string" where
  "soap_content_type version =
     (if version = V1_1 then ''text/xml; charset=utf-8'' else ''application/soap+xml; charset=utf-8'')"

definition to_soap :: "http_request \<Rightarrow> soap_request" where
  "to_soap req = \<lparr>sq_path = hq_path req, sq_action = request_action req, sq_body = hq_body req,
     sq_version = request_version req\<rparr>"

definition handle_request ::
  "(xml_document \<Rightarrow> string) \<Rightarrow> http_request \<Rightarrow> 'w soap_server \<Rightarrow> response \<times> 'w soap_server" where
  "handle_request save req s =
     (let version = request_version req;
          action = request_action req;
          s1 = push_soap (to_soap req) s;
          reply = (\<lambda>code body. \<lparr>status_code = code, resp_body = body, resp_type = soap_content_type version\<rparr>)
      in case so_handlers s1 (hq_path req, action) of
           Some handler_fn \<Rightarrow>
             (case handler_fn (to_soap req) of
                Inr soap_resp \<Rightarrow> (reply (sr_status soap_resp) (sr_body soap_resp), s1)
              | Inl what \<Rightarrow> (reply 500 (sr_body (soap_fault save 500 ''soap:Server'' what version)), s1))
         | None \<Rightarrow>
             (reply 500 (sr_body (soap_fault save 500 ''soap:Client''
                (''Action '' @ [CHR 0x27] @ action @ [CHR 0x27] @ '' not supported'') version)), s1))"

definition soap_serve ::
  "'w httplib \<Rightarrow> (xml_document \<Rightarrow> string) \<Rightarrow> http_request \<Rightarrow> 'w soap_server \<Rightarrow> response option \<times> 'w soap_server" where
  "soap_serve lib save req s =
     (case hl_pick lib (map (Pair VPost) (so_posts s)) (hq_method req) (hq_path req) of
        None \<Rightarrow> (None, s)
      | Some i \<Rightarrow> (let (reply, s1) = handle_request save req s in (Some reply, s1)))"

subsection \<open>Contracts\<close>

interpretation soap_life: lifecycle so_running "soap_start lib" "soap_stop lib" soap_base_url
  "''soap_server is already running''" "''soap_server is not running''" for lib :: "'w httplib"
  by unfold_locales
    (auto simp: soap_start_def soap_stop_def soap_base_url_def split: sum.split prod.split)

interpretation soap_journal: journal push_soap soap_requests clear_soap
  by unfold_locales (simp_all add: push_soap_def soap_requests_def clear_soap_def)

subsection \<open>Invariant\<close>

definition soap_ok :: "'w soap_server \<Rightarrow> bool" where
  "soap_ok s \<longleftrightarrow> oset_ok (so_paths s) \<and> distinct (so_posts s) \<and> set (so_posts s) = set (so_paths s)
     \<and> fst ` dom (so_handlers s) = set (so_paths s)"

lemma soap_ok_route: "soap_ok s \<Longrightarrow> soap_ok (soap_route path action h s)"
  by (auto simp: soap_ok_def soap_route_def Let_def oset_ok_put set_oset_put)

lemma soap_ok_new: "soap_ok (new_soap w)"
  by (simp add: soap_ok_def new_soap_def)

definition soap_routes :: "(string \<times> string \<times> soap_handler) list \<Rightarrow> 'w soap_server \<Rightarrow> 'w soap_server" where
  "soap_routes rs s = foldl (\<lambda>s (path, action, h). soap_route path action h s) s rs"

lemma soap_ok_routes: "soap_ok s \<Longrightarrow> soap_ok (soap_routes rs s)"
  unfolding soap_routes_def by (induction rs arbitrary: s) (auto intro: soap_ok_route)

lemma soap_routes_handlers:
  "so_handlers (soap_routes rs s) = so_handlers s ++ map_of (map (\<lambda>(path, action, h). ((path, action), h)) (rev rs))"
proof (induction rs rule: rev_induct)
  case (snoc r rs)
  obtain path action h where "r = (path, action, h)" by (cases r)
  with snoc show ?case
    by (simp add: soap_routes_def soap_route_def Let_def map_add_def fun_eq_iff)
qed (simp add: soap_routes_def)

text \<open>C39. Routes. After any declarations on a new server, each path is registered with the HTTP
  library exactly once, the registered paths are those that have a handler, and the handler of a
  path and action is the one declared last for them.\<close>

theorem soap_routes_table:
  "distinct (so_posts (soap_routes rs (new_soap w)))
    \<and> set (so_posts (soap_routes rs (new_soap w))) = (\<lambda>(path, action, h). path) ` set rs
    \<and> so_handlers (soap_routes rs (new_soap w)) =
        map_of (map (\<lambda>(path, action, h). ((path, action), h)) (rev rs))"
proof -
  let ?s = "soap_routes rs (new_soap w)"
  have handlers: "so_handlers ?s = map_of (map (\<lambda>(path, action, h). ((path, action), h)) (rev rs))"
    by (simp add: soap_routes_handlers) (simp add: new_soap_def)
  have "soap_ok ?s"
    by (rule soap_ok_routes [OF soap_ok_new])
  moreover from this have "set (so_posts ?s) = fst ` dom (so_handlers ?s)"
    by (simp add: soap_ok_def)
  then have "set (so_posts ?s) = (\<lambda>(path, action, h). path) ` set rs"
    unfolding handlers dom_map_of_conv_image_fst by (simp add: image_image case_prod_unfold)
  ultimately show ?thesis
    using handlers by (simp add: soap_ok_def)
qed

subsection \<open>Requests\<close>

lemma handle_request_result:
  "handle_request save req s =
     (\<lparr>status_code = (case so_handlers s (hq_path req, request_action req) of
          Some h \<Rightarrow> (case h (to_soap req) of Inr r \<Rightarrow> sr_status r | Inl _ \<Rightarrow> 500) | None \<Rightarrow> 500),
       resp_body = (case so_handlers s (hq_path req, request_action req) of
          Some h \<Rightarrow> (case h (to_soap req) of Inr r \<Rightarrow> sr_body r
            | Inl what \<Rightarrow> save (fault_document ''soap:Server'' what (request_version req)))
        | None \<Rightarrow> save (fault_document ''soap:Client''
            (''Action '' @ [CHR 0x27] @ request_action req @ [CHR 0x27] @ '' not supported'') (request_version req))),
       resp_type = soap_content_type (request_version req)\<rparr>,
      push_soap (to_soap req) s)"
  by (auto simp: handle_request_def soap_fault_def push_soap_def Let_def split: option.split sum.split)

text \<open>A request is answered by the handler of its path and action: with the handler's status
  and body, or, when the handler throws, with status 500 and a fault carrying the message; when
  there is no handler, with status 500 and a fault naming the action. The content type is that of
  the request's SOAP version, and the request is recorded in every case.\<close>

theorem soap_dispatch:
  "handle_request save req s =
     (\<lparr>status_code = (case so_handlers s (hq_path req, request_action req) of
          Some h \<Rightarrow> (case h (to_soap req) of Inr r \<Rightarrow> sr_status r | Inl _ \<Rightarrow> 500) | None \<Rightarrow> 500),
       resp_body = (case so_handlers s (hq_path req, request_action req) of
          Some h \<Rightarrow> (case h (to_soap req) of Inr r \<Rightarrow> sr_body r
            | Inl what \<Rightarrow> save (fault_document ''soap:Server'' what (request_version req)))
        | None \<Rightarrow> save (fault_document ''soap:Client''
            (''Action '' @ [CHR 0x27] @ request_action req @ [CHR 0x27] @ '' not supported'') (request_version req))),
       resp_type = soap_content_type (request_version req)\<rparr>,
      push_soap (to_soap req) s)"
  by (rule handle_request_result)

text \<open>A quoted and an unquoted action header mean the same, and only one pair of quotes is
  taken off.\<close>

theorem quoted_action:
  assumes "hq_header req ''SOAPAction'' = Some ([CHR 0x22] @ action @ [CHR 0x22])"
  shows "request_action req = action"
  using assms by (simp add: request_action_def unquote_def)

theorem quoted_action_witness:
  "request_action \<lparr>hq_method = ''POST'', hq_path = ''/c'', hq_body = [],
     hq_header = [''SOAPAction'' \<mapsto> [CHR 0x22] @ ''Add'' @ [CHR 0x22]]\<rparr> = ''Add''"
  by (rule quoted_action) simp

text \<open>The action parameter of a SOAP 1.2 content type is not read: a request without a
  \<open>SOAPAction\<close> header, which is how SOAP 1.2 clients send them, has the empty action, and when no
  handler is declared for the empty action it is answered with a fault whatever its content type
  says.\<close>

theorem soap12_action_ignored:
  assumes "hq_header req ''SOAPAction'' = None" and "so_handlers s (hq_path req, []) = None"
  shows "status_code (fst (handle_request save req s)) = 500 \<and> request_action req = []"
  using assms by (simp add: handle_request_result request_action_def)

theorem soap12_action_ignored_witness:
  "status_code (fst (handle_request (\<lambda>_. []) \<lparr>hq_method = ''POST'', hq_path = ''/c'', hq_body = [],
     hq_header = [''Content-Type'' \<mapsto> ''application/soap+xml; action=Add'']\<rparr>
     (soap_then_return ''/c'' ''Add'' \<lparr>sr_status = 200, sr_body = ''ok''\<rparr> (new_soap ())))) = 500"
  using soap12_action_ignored [of "\<lparr>hq_method = ''POST'', hq_path = ''/c'', hq_body = [],
      hq_header = [''Content-Type'' \<mapsto> ''application/soap+xml; action=Add'']\<rparr>"
      "soap_then_return ''/c'' ''Add'' \<lparr>sr_status = 200, sr_body = ''ok''\<rparr> (new_soap ())" "\<lambda>_. []"]
  by (simp add: soap_then_return_def soap_route_def new_soap_def Let_def)

subsection \<open>Namespaces in faults\<close>

text \<open>The prefixes declared on the root of a document, and the text of its fault code.\<close>

definition declared_prefixes :: "xml_document \<Rightarrow> string list" where
  "declared_prefixes d = (case xd_root d of
     Element n atts kids \<Rightarrow> map (drop 6) (filter (\<lambda>a. take 6 a = ''xmlns:'') (map fst atts)) | Text t \<Rightarrow> [])"

fun element_text :: "string \<Rightarrow> xml \<Rightarrow> string list" where
  "element_text tag (Element n atts kids) =
     concat (map (\<lambda>k. case k of Text t \<Rightarrow> (if n = tag then [t] else []) | Element _ _ _ \<Rightarrow> element_text tag k) kids)"
| "element_text tag (Text t) = []"

text \<open>The faults the server makes itself use the code \<open>soap:Server\<close> or \<open>soap:Client\<close> in both
  versions. In a SOAP 1.2 document the prefix \<open>soap\<close> is not declared, so the value of its
  \<open>env:Value\<close> element is not a qualified name of the document.\<close>

theorem fault_code_prefix:
  "declared_prefixes (fault_document (''soap:'' @ code) what V1_1) = [''soap'']
    \<and> element_text ''faultcode'' (xd_root (fault_document (''soap:'' @ code) what V1_1)) = [''soap:'' @ code]
    \<and> declared_prefixes (fault_document (''soap:'' @ code) what V1_2) = [''env'']
    \<and> element_text ''env:Value'' (xd_root (fault_document (''soap:'' @ code) what V1_2)) = [''soap:'' @ code]"
  by (simp add: fault_document_def declared_prefixes_def)

end
