(* ===== verification/Housekeeping.thy ===== *)
theory Housekeeping
  imports Effects MemoryOs "HOL-Library.Multiset"
begin

text \<open>
  The two helper classes of the servers: \<open>thread_group\<close> of \<open>detail/thread_utils.h\<close>, which
  keeps the client threads until they are joined, and \<open>TempDir\<close> of \<open>temp_dir.cpp\<close>, the
  directory that is the root of the file servers and is erased with them.
\<close>

subsection \<open>Thread groups\<close>

text \<open>A thread is named by a number; \<open>done\<close> reads its stop flag. The operations return the threads
  they join, in order; a join waits until the thread has ended.\<close>

type_synonym thread_group = "nat list"

definition tg_add :: "nat \<Rightarrow> thread_group \<Rightarrow> thread_group" where
  "tg_add t tg = tg @ [t]"

fun join_finished :: "(nat \<Rightarrow> bool) \<Rightarrow> thread_group \<Rightarrow> nat list \<times> thread_group" where
  "join_finished finished [] = ([], [])"
| "join_finished finished (t # ts) =
     (let (joined, kept) = join_finished finished ts
      in if finished t then (t # joined, kept) else (joined, t # kept))"

definition join_all :: "thread_group \<Rightarrow> nat list \<times> thread_group" where
  "join_all tg = (tg, [])"

datatype tg_call = Add nat | JoinFinished "nat set" | JoinAll

fun tg_run :: "tg_call list \<Rightarrow> thread_group \<Rightarrow> nat list \<times> thread_group" where
  "tg_run [] tg = ([], tg)"
| "tg_run (Add t # cs) tg = tg_run cs (tg_add t tg)"
| "tg_run (JoinFinished fin # cs) tg =
     (let (j1, tg1) = join_finished (\<lambda>t. t \<in> fin) tg; (j2, tg2) = tg_run cs tg1 in (j1 @ j2, tg2))"
| "tg_run (JoinAll # cs) tg =
     (let (j1, tg1) = join_all tg; (j2, tg2) = tg_run cs tg1 in (j1 @ j2, tg2))"

definition added :: "tg_call list \<Rightarrow> nat list" where
  "added cs = concat (map (\<lambda>c. case c of Add t \<Rightarrow> [t] | _ \<Rightarrow> []) cs)"

lemma join_finished_filter:
  "join_finished finished tg = (filter finished tg, filter (\<lambda>t. \<not> finished t) tg)"
  by (induction tg) auto

lemma tg_run_mset:
  "mset (fst (tg_run cs tg)) + mset (snd (tg_run cs tg)) = mset (added cs) + mset tg"
proof (induction cs tg rule: tg_run.induct)
  case (3 fin cs tg)
  have "mset (filter (\<lambda>t. t \<in> fin) tg) + mset (filter (\<lambda>t. t \<notin> fin) tg) = mset tg"
    by (simp add: mset_filter multiset_partition [symmetric])
  moreover note "3.IH" [OF refl, of "fst (join_finished (\<lambda>t. t \<in> fin) tg)" "snd (join_finished (\<lambda>t. t \<in> fin) tg)"]
  ultimately show ?case
    by (simp add: join_finished_filter split_beta Let_def added_def ac_simps)
qed (auto simp: tg_add_def join_all_def added_def split_beta Let_def ac_simps)

text \<open>C40. Every thread that is handed to the group is joined exactly once: whatever calls are made,
  with a \<open>join_all\<close> as the last one, the threads joined are, with multiplicity, the threads added,
  and the group is empty.\<close>

theorem threads_joined_once:
  "mset (fst (tg_run (cs @ [JoinAll]) [])) = mset (added cs) \<and> snd (tg_run (cs @ [JoinAll]) []) = []"
proof -
  have last: "snd (tg_run (cs @ [JoinAll]) tg) = []" for tg
    by (induction cs tg rule: tg_run.induct) (auto simp: join_all_def split_beta Let_def join_finished_filter)
  have "added (cs @ [JoinAll]) = added cs"
    by (simp add: added_def)
  with tg_run_mset [of "cs @ [JoinAll]" "[]"] last show ?thesis by simp
qed

subsection \<open>Names of temporary directories\<close>

text \<open>\<open>unique_id\<close> with the counter it increments; \<open>pid\<close> and \<open>timestamp\<close> are what the system
  reports, as 32-bit numbers. \<open>snprintf\<close> into 32 bytes keeps 31 characters.\<close>

definition unique_id :: "32 word \<Rightarrow> 32 word \<Rightarrow> 32 word \<Rightarrow> string \<times> 32 word" where
  "unique_id pid timestamp counter =
     (let current_count = counter + 1
      in (take 31 (hex_string (unat pid) @ hex_string (unat timestamp) @ hex_string (unat current_count)),
          current_count))"

definition temp_base :: "string option \<Rightarrow> string" where
  "temp_base tmpdir =
     (let path = (case tmpdir of Some d \<Rightarrow> (if d \<noteq> [] then d else ''/tmp'') | None \<Rightarrow> ''/tmp'')
      in if path \<noteq> [] \<and> last path \<noteq> CHR ''/'' \<and> last path \<noteq> CHR 0x5C then path @ ''/'' else path)"

definition temp_dir ::
  "'w os \<Rightarrow> string option \<Rightarrow> string \<Rightarrow> string \<Rightarrow> 'w \<Rightarrow> string throwing \<times> 'w" where
  "temp_dir os tmpdir name_prefix uid w =
     (let path = temp_base tmpdir @ name_prefix @ uid;
          (rc, w1) = os_mkdir os path 448 w
      in if rc \<noteq> 0 then (Inl (''mkdir temp failed: '' @ path), w1) else (Inr path, w1))"

lemma length_hex32: "length (hex_string (unat (x :: 32 word))) \<le> 8"
proof -
  have "unat x < 16 ^ 8"
    using unsigned_less [of x] by simp
  then show ?thesis
    unfolding hex_string_def by (rule length_print_base [rotated 2]) simp_all
qed

text \<open>The identifier always fits the buffer, so nothing is cut off; and two identifiers of one
  process made in the same era (times with equally many digits) differ as soon as the time or the
  counter differs.\<close>

theorem unique_id_injective:
  assumes "length (hex_string (unat t1)) = length (hex_string (unat t2))"
  shows "fst (unique_id pid t1 c1) = fst (unique_id pid t2 c2) \<longleftrightarrow> t1 = t2 \<and> c1 = c2"
proof -
  have fits: "fst (unique_id pid t c) = hex_string (unat pid) @ hex_string (unat t) @ hex_string (unat (c + 1))" for t c
    using length_hex32 [of pid] length_hex32 [of t] length_hex32 [of "c + 1"]
    by (simp add: unique_id_def Let_def)
  have "unat (c1 + 1) = unat (c2 + 1) \<longleftrightarrow> c1 = c2"
    by (simp add: word_unat_eq_iff [symmetric])
  then show ?thesis
    unfolding fits using assms by (auto simp: append_eq_append_conv word_unat_eq_iff [symmetric])
qed

theorem unique_id_injective_witness:
  "fst (unique_id 77 1700000000 5) \<noteq> fst (unique_id 77 1700000000 6)"
  using unique_id_injective [of 1700000000 1700000000 77 5 6] by simp

subsection \<open>Erasing a directory tree\<close>

text \<open>\<open>erase_all\<close>, with the depth of the recursion as fuel, and its loop over the entries. The
  code reads the directory while it removes entries; here the entries are those found when it was
  opened.\<close>

definition is_directory :: "'w os \<Rightarrow> string \<Rightarrow> 'w \<Rightarrow> bool" where
  "is_directory os p w = (case os_stat os p w of Some file_stat \<Rightarrow> st_dir file_stat | None \<Rightarrow> False)"

function erase_all :: "nat \<Rightarrow> 'w os \<Rightarrow> string \<Rightarrow> 'w \<Rightarrow> 'w option"
  and erase_entries :: "nat \<Rightarrow> 'w os \<Rightarrow> string \<Rightarrow> string list \<Rightarrow> 'w \<Rightarrow> 'w option" where
  "erase_all fuel os dir w =
     (case fuel of
        0 \<Rightarrow> None
      | Suc n \<Rightarrow>
          (case os_list os dir w of
             (None, w1) \<Rightarrow> Some (snd (os_rmdir os dir w1))
           | (Some names, w1) \<Rightarrow>
               map_option (\<lambda>w2. snd (os_rmdir os dir w2)) (erase_entries n os dir names w1)))"
| "erase_entries n os dir names w =
     (case names of
        [] \<Rightarrow> Some w
      | name # rest \<Rightarrow>
          if name = ''.'' \<or> name = ''..'' then erase_entries n os dir rest w
          else (let child_path = dir @ ''/'' @ name
                in if is_directory os child_path w
                   then (case erase_all n os child_path w of
                           None \<Rightarrow> None
                         | Some w1 \<Rightarrow> erase_entries n os dir rest (snd (os_rmdir os child_path w1)))
                   else erase_entries n os dir rest (snd (os_unlink os child_path w))))"
  by pat_completeness auto
termination
  by (relation "measures [\<lambda>x. case x of Inl (n, _, _, _) \<Rightarrow> n | Inr (n, _, _, _, _) \<Rightarrow> n,
      \<lambda>x. case x of Inl _ \<Rightarrow> 0 | Inr (_, _, _, names, _) \<Rightarrow> Suc (length names)]") auto

declare erase_all.simps [simp del] erase_entries.simps [simp del]

text \<open>The paths in a tree, as \<open>erase_all\<close> spells them.\<close>

definition below :: "string \<Rightarrow> string \<Rightarrow> bool" where
  "below dir p \<longleftrightarrow> p = dir \<or> prefix (dir @ ''/'') p"

lemma below_refl [simp]: "below dir dir"
  by (simp add: below_def)

lemma below_child: "below (dir @ ''/'' @ name) p \<Longrightarrow> below dir p"
  by (auto simp: below_def prefix_def)

lemma below_own_child [simp]: "below dir (dir @ CHR ''/'' # name)"
  by (simp add: below_def prefix_def)

lemma effects_trans: "effects os ok a b \<Longrightarrow> effects os ok b c \<Longrightarrow> effects os ok a c"
  by simp

lemma erase_all_0 [simp]: "erase_all 0 os dir w = None"
  by (simp add: erase_all.simps)

lemma erase_all_Suc:
  "erase_all (Suc n) os dir w = (case fst (os_list os dir w) of
      None \<Rightarrow> Some (snd (os_rmdir os dir (snd (os_list os dir w))))
    | Some names \<Rightarrow> map_option (\<lambda>w2. snd (os_rmdir os dir w2)) (erase_entries n os dir names (snd (os_list os dir w))))"
  by (simp add: erase_all.simps [of "Suc n"] split_beta)

lemma erase_entries_Nil [simp]: "erase_entries n os dir [] w = Some w"
  by (simp add: erase_entries.simps)

lemma erase_entries_Cons:
  "erase_entries n os dir (name # rest) w =
     (if name = ''.'' \<or> name = ''..'' then erase_entries n os dir rest w
      else if is_directory os (dir @ ''/'' @ name) w
      then (case erase_all n os (dir @ ''/'' @ name) w of None \<Rightarrow> None
            | Some w1 \<Rightarrow> erase_entries n os dir rest (snd (os_rmdir os (dir @ ''/'' @ name) w1)))
      else erase_entries n os dir rest (snd (os_unlink os (dir @ ''/'' @ name) w)))"
  by (simp add: erase_entries.simps [of _ _ _ "name # rest"] Let_def split: option.split)

lemma erase_effects: "erase_all fuel os dir w = Some w' \<Longrightarrow> effects os (below dir) w w'"
proof (induction fuel arbitrary: dir w w')
  case (Suc n)
  have child: "effects os (below dir) u u'" if "erase_all n os (dir @ ''/'' @ name) u = Some u'" for name u u'
    by (rule effects_mono [OF Suc.IH [OF that] below_child])
  have entries: "erase_entries n os dir names u = Some u' \<Longrightarrow> effects os (below dir) u u'" for names u u'
  proof (induction names arbitrary: u)
    case (Cons name rest)
    show ?case
    proof (cases "name = ''.'' \<or> name = ''..''")
      case False
      show ?thesis
      proof (cases "is_directory os (dir @ ''/'' @ name) u")
        case True
        with False Cons.prems obtain u1 where u1: "erase_all n os (dir @ ''/'' @ name) u = Some u1"
          "erase_entries n os dir rest (snd (os_rmdir os (dir @ ''/'' @ name) u1)) = Some u'"
          by (auto simp: erase_entries_Cons split: option.splits)
        have "effects os (below dir) u (snd (os_rmdir os (dir @ ''/'' @ name) u1))"
          using child [OF u1(1)] by (intro effects_intros) simp_all
        with Cons.IH [OF u1(2)] show ?thesis by simp
      next
        case no_dir: False
        have "effects os (below dir) u (snd (os_unlink os (dir @ ''/'' @ name) u))"
          by (intro effects_intros) simp_all
        with Cons.IH [of "snd (os_unlink os (dir @ ''/'' @ name) u)"] Cons.prems False no_dir
        show ?thesis by (simp add: erase_entries_Cons)
      qed
    qed (use Cons in \<open>auto simp: erase_entries_Cons\<close>)
  qed simp
  have listed: "effects os (below dir) w (snd (os_list os dir w))"
    by (intro effects_intros) simp_all
  show ?case
  proof (cases "fst (os_list os dir w)")
    case None
    with Suc.prems listed show ?thesis by (auto simp: erase_all_Suc intro!: effects_intros)
  next
    case (Some names)
    with Suc.prems obtain w2 where "erase_entries n os dir names (snd (os_list os dir w)) = Some w2"
      "w' = snd (os_rmdir os dir w2)"
      by (auto simp: erase_all_Suc)
    with entries listed show ?thesis by (auto intro!: effects_intros elim: effects_trans)
  qed
qed simp

text \<open>Erasing a directory touches only paths spelled below it: whatever the tree holds, every
  call is made at the directory or at a path that begins with it and a \<open>/\<close>.\<close>

theorem erase_all_below:
  assumes "erase_all fuel os dir w = Some w'"
  shows "effects os (below dir) w w'"
  using assms by (rule erase_effects)

theorem erase_all_below_witness:
  "effects mem_os (below ''/t'') mem_world0 (the (erase_all 1 mem_os ''/t'' mem_world0))"
proof -
  have "erase_all 1 mem_os ''/t'' mem_world0 = Some (the (erase_all 1 mem_os ''/t'' mem_world0))"
    by (simp add: erase_all_Suc [of 0, simplified] mem_os_def)
  then show ?thesis by (rule erase_all_below)
qed

text \<open>Symbolic links are followed. \<open>stat\<close> reports the target of a link, so an entry that is a
  link to a directory is treated as that directory: the files in the target are removed one by
  one, through the link.\<close>

theorem linked_directory_emptied:
  assumes "os_list os dir w = (Some [link], w)" and "is_directory os (dir @ ''/'' @ link) w"
    and "link \<notin> {''.'', ''..''}" and "file \<notin> {''.'', ''..''}"
    and "os_list os (dir @ ''/'' @ link) w = (Some [file], w)"
    and "\<not> is_directory os ((dir @ ''/'' @ link) @ ''/'' @ file) w"
  shows "\<exists>w1. w1 = snd (os_unlink os ((dir @ ''/'' @ link) @ ''/'' @ file) w)
    \<and> erase_all (Suc (Suc n)) os dir w = Some (snd (os_rmdir os dir (snd (os_rmdir os (dir @ ''/'' @ link)
        (snd (os_rmdir os (dir @ ''/'' @ link) w1))))))"
  using assms by (simp add: erase_all_Suc erase_entries_Cons)

theorem linked_directory_emptied_witness:
  "let os = mem_os\<lparr>os_list := (\<lambda>p w. (Some (if p = ''/t'' then [''l''] else [''f'']), w)),
        os_stat := (\<lambda>p w. Some \<lparr>st_dir = (p = ''/t/l''), st_size = 0, st_mtime = 0\<rparr>)\<rparr>
   in \<exists>w1. w1 = snd (os_unlink os ''/t/l/f'' mem_world0)
     \<and> erase_all 2 os ''/t'' mem_world0 = Some (snd (os_rmdir os ''/t''
         (snd (os_rmdir os ''/t/l'' (snd (os_rmdir os ''/t/l'' w1))))))"
proof -
  define os where "os = mem_os\<lparr>os_list := (\<lambda>p w. (Some (if p = ''/t'' then [''l''] else [''f'']), w)),
        os_stat := (\<lambda>p w. Some \<lparr>st_dir = (p = ''/t/l''), st_size = 0, st_mtime = 0\<rparr>)\<rparr>"
  have "os_list os ''/t'' mem_world0 = (Some [''l''], mem_world0)"
    "is_directory os (''/t'' @ ''/'' @ ''l'') mem_world0" "''l'' \<notin> {''.'', ''..''}" "''f'' \<notin> {''.'', ''..''}"
    "os_list os (''/t'' @ ''/'' @ ''l'') mem_world0 = (Some [''f''], mem_world0)"
    "\<not> is_directory os ((''/t'' @ ''/'' @ ''l'') @ ''/'' @ ''f'') mem_world0"
    by (simp_all add: os_def is_directory_def)
  from linked_directory_emptied [OF this, of 0] show ?thesis
    unfolding os_def [symmetric] Let_def by (simp add: numeral_2_eq_2)
qed

text \<open>Erasing returns: on a tree of finite depth, in which an entry that is a directory is less
  deep than the directory it is in, a recursion depth above that of the tree is enough.\<close>

theorem erase_all_returns:
  assumes "\<And>d name w w'. name \<notin> {''.'', ''..''} \<Longrightarrow> is_directory os (d @ ''/'' @ name) w' \<Longrightarrow>
      fst (os_list os d w) \<noteq> None \<Longrightarrow> name \<in> set (the (fst (os_list os d w))) \<Longrightarrow> depth (d @ ''/'' @ name) < depth d"
    and "depth dir < fuel"
  shows "\<exists>w'. erase_all fuel os dir w = Some w'"
  using assms(2)
proof (induction fuel arbitrary: dir w)
  case (Suc n)
  have entries: "\<exists>u'. erase_entries n os dir names u = Some u'"
    if "set names \<subseteq> set (the (fst (os_list os dir w)))" "fst (os_list os dir w) \<noteq> None" for names u
    using that(1)
  proof (induction names arbitrary: u)
    case (Cons name rest)
    have rest: "\<exists>u'. erase_entries n os dir rest u = Some u'" for u
      using Cons by simp
    show ?case
    proof (cases "name \<in> {''.'', ''..''} \<or> \<not> is_directory os (dir @ ''/'' @ name) u")
      case True
      with rest show ?thesis by (auto simp: erase_entries_Cons)
    next
      case False
      then have "depth (dir @ ''/'' @ name) < depth dir"
        using assms(1) [of name dir u w] Cons.prems that(2) by auto
      then have "depth (dir @ ''/'' @ name) < n"
        using Suc.prems by simp
      from Suc.IH [OF this] obtain u1 where "erase_all n os (dir @ ''/'' @ name) u = Some u1" by blast
      with False rest show ?thesis by (auto simp: erase_entries_Cons)
    qed
  qed simp
  show ?case
  proof (cases "fst (os_list os dir w)")
    case (Some names)
    then have "\<exists>u'. erase_entries n os dir names (snd (os_list os dir w)) = Some u'"
      by (intro entries) simp_all
    with Some show ?thesis by (auto simp: erase_all_Suc)
  qed (simp add: erase_all_Suc)
qed simp

theorem erase_all_returns_witness:
  "\<exists>w'. erase_all 1 mem_os ''/t'' mem_world0 = Some w'"
  by (rule erase_all_returns [where depth = "\<lambda>_. 0"]) (simp_all add: mem_os_def)

end
