(* ===== verification/SftpPaths.thy ===== *)
theory SftpPaths
  imports FtpPaths
begin

text \<open>
  Path handling of the SFTP server: \<open>resolve_path\<close> of \<open>sftp_server.cpp\<close> (POSIX side),
  which joins the user's root and the client's path, asks the system for the canonical path, and
  compares its beginning with the root. \<open>realpath\<close> is a system call, here an argument: the
  canonical path of an existing file, or \<open>None\<close>. What POSIX documents of its result is the
  predicate \<open>realpath_canonical\<close>.
\<close>

subsection \<open>The code\<close>

definition relative_client_path :: "string \<Rightarrow> string" where
  "relative_client_path client_path = dropWhile (\<lambda>c. c = CHR ''/'' \<or> c = CHR 0x5C) client_path"

definition combined_path :: "string \<Rightarrow> string \<Rightarrow> string" where
  "combined_path root client_path =
     (let combined = normalize_separators root;
          combined = (if combined \<noteq> [] \<and> last combined \<noteq> CHR ''/'' then combined @ ''/'' else combined)
      in combined @ relative_client_path client_path)"

text \<open>The part behind the last \<open>/\<close>, as \<open>rfind\<close> and \<open>substr\<close> give it, and the part before.\<close>

definition base_name :: "string \<Rightarrow> string" where
  "base_name path = rev (takeWhile (\<lambda>c. c \<noteq> CHR ''/'') (rev path))"

definition split_dir :: "string \<Rightarrow> string \<times> string" where
  "split_dir combined =
     (if CHR ''/'' \<in> set combined
      then (take (length combined - Suc (length (base_name combined))) combined, base_name combined)
      else (combined, []))"

definition canonical_path :: "(string \<Rightarrow> string option) \<Rightarrow> string \<Rightarrow> bool \<Rightarrow> string option" where
  "canonical_path realpath combined must_exist =
     (case realpath combined of
        Some resolved \<Rightarrow> Some resolved
      | None \<Rightarrow>
          if \<not> must_exist
          then (let (dir, base) = split_dir combined
                in case realpath dir of Some resolved \<Rightarrow> Some (resolved @ ''/'' @ base) | None \<Rightarrow> None)
          else None)"

definition resolve_path :: "(string \<Rightarrow> string option) \<Rightarrow> string \<Rightarrow> string \<Rightarrow> bool \<Rightarrow> string" where
  "resolve_path realpath root client_path must_exist =
     (if root = [] then []
      else (case canonical_path realpath (combined_path root client_path) must_exist of
              None \<Rightarrow> []
            | Some resolved \<Rightarrow>
                (let nroot = normalize_separators root; nresolved = normalize_separators resolved
                 in if \<not> has_case_insensitive_prefix nresolved nroot then [] else resolved)))"

subsection \<open>What is assumed of realpath\<close>

definition canonical :: "string \<Rightarrow> bool" where
  "canonical path \<longleftrightarrow> path = ''/''
     \<or> (tl path \<noteq> [] \<and> hd path = CHR ''/'' \<and> list_all clean_seg (split_on (CHR ''/'') (tl path)))"

definition realpath_canonical :: "(string \<Rightarrow> string option) \<Rightarrow> bool" where
  "realpath_canonical realpath \<longleftrightarrow> (\<forall>p r. realpath p = Some r \<longrightarrow> canonical r)"

lemma canonical_nonempty: "canonical path \<Longrightarrow> path \<noteq> []"
  by (auto simp: canonical_def)

lemma canonical_last: "canonical path \<Longrightarrow> path \<noteq> ''/'' \<Longrightarrow> last path \<noteq> CHR ''/''"
proof
  assume path: "canonical path" "path \<noteq> ''/''" and slash: "last path = CHR ''/''"
  then obtain q where "path = CHR ''/'' # q" "q \<noteq> []" "list_all clean_seg (split_on (CHR ''/'') q)"
    by (cases path) (auto simp: canonical_def)
  moreover from this slash obtain p where "q = p @ CHR ''/'' # []"
    by (metis append_butlast_last_id last.simps)
  ultimately show False
    by (simp add: split_on_append_sep)
qed

lemma canonical_wf_base: "canonical path \<Longrightarrow> path \<noteq> ''/'' \<Longrightarrow> CHR 0x5C \<notin> set path \<Longrightarrow> wf_base path"
  by (cases path) (auto simp: canonical_def wf_base_def)

subsection \<open>Splitting at the last slash\<close>

lemma base_name_append:
  assumes "CHR ''/'' \<notin> set base"
  shows "base_name (dir @ CHR ''/'' # base) = base"
proof -
  have "takeWhile (\<lambda>c. c \<noteq> CHR ''/'') (rev base @ CHR ''/'' # rev dir) = rev base"
    by (subst takeWhile_append2) (use assms in auto)
  then show ?thesis by (simp add: base_name_def)
qed

lemma split_dir_append: "CHR ''/'' \<notin> set base \<Longrightarrow> split_dir (dir @ CHR ''/'' # base) = (dir, base)"
  by (simp add: split_dir_def base_name_append)

lemma base_name_no_slash: "CHR ''/'' \<notin> set (base_name path)"
  by (auto simp: base_name_def dest: set_takeWhileD)

lemma split_dir_base: "CHR ''/'' \<notin> set (snd (split_dir path))"
  by (simp add: split_dir_def base_name_no_slash)

subsection \<open>Facts about resolve_path\<close>

lemma resolve_path_cases:
  assumes "resolve_path realpath root client_path must_exist \<noteq> []"
  obtains resolved where
    "canonical_path realpath (combined_path root client_path) must_exist = Some resolved"
    "resolve_path realpath root client_path must_exist = resolved" "root \<noteq> []"
    "prefix (normalize_separators root) (normalize_separators resolved)"
  using assms that
  by (auto simp: resolve_path_def has_prefix_iff Let_def split: if_splits option.splits)

lemma canonical_path_cases:
  assumes "canonical_path realpath combined must_exist = Some resolved"
  obtains (existing) "realpath combined = Some resolved"
    | (fresh) dir where "\<not> must_exist" "realpath (fst (split_dir combined)) = Some dir"
        "resolved = dir @ ''/'' @ snd (split_dir combined)"
  using assms that
  by (auto simp: canonical_path_def split_beta split: option.splits if_splits)

lemma resolve_path_prefix:
  "resolve_path realpath root client_path must_exist \<noteq> [] \<Longrightarrow>
     prefix (normalize_separators root) (normalize_separators (resolve_path realpath root client_path must_exist))"
  by (erule resolve_path_cases) simp

lemma normalize_prefix_split:
  assumes "prefix base (normalize_separators path)"
  shows "\<exists>here rest. path = here @ rest \<and> normalize_separators here = base"
proof (intro exI conjI)
  show "path = take (length base) path @ drop (length base) path"
    by simp
  show "normalize_separators (take (length base) path) = base"
    using assms by (auto simp: prefix_def normalize_separators_def simp flip: take_map)
qed

lemma combined_path_wf:
  assumes "wf_base root" "client_path = [] \<or> hd client_path \<noteq> CHR ''/'' \<and> hd client_path \<noteq> CHR 0x5C"
  shows "combined_path root client_path = root @ ''/'' @ client_path"
proof -
  have "normalize_separators root = root" "root \<noteq> []"
    using assms(1) by (auto simp: wf_base_def path_simps)
  moreover have "last root \<noteq> CHR ''/''"
  proof
    assume slash: "last root = CHR ''/''"
    from assms(1) obtain b where b: "root = CHR ''/'' # b" "list_all clean_seg (split_on (CHR ''/'') b)"
      by (cases root) (auto simp: wf_base_def)
    then have "b \<noteq> []"
      by auto
    with b slash obtain a where "b = a @ CHR ''/'' # []"
      by (metis append_butlast_last_id last.simps)
    with b(2) show False
      by (simp add: split_on_append_sep)
  qed
  ultimately show ?thesis
    using assms(2) by (cases client_path) (auto simp: combined_path_def relative_client_path_def)
qed

lemma resolve_path_accepts:
  assumes "wf_base root" "canonical_path realpath (combined_path root client_path) must_exist = Some r"
    "prefix root (normalize_separators r)"
  shows "resolve_path realpath root client_path must_exist = r"
  using assms by (auto simp: resolve_path_def wf_base_def has_prefix_iff path_simps)

subsection \<open>Properties\<close>


text \<open>A file system with three directories, for the witnesses.\<close>

definition demo_realpath :: "string \<Rightarrow> string option" where
  "demo_realpath p = map_of
     [(''/t/bob/'', ''/t/bob''), (''/t/bob'', ''/t/bob''), (''/t/bob/notes'', ''/t/bob/notes''),
      (''/t/bob/../bob2/key'', ''/t/bob2/key'')] p"

lemma demo_realpath_canonical: "realpath_canonical demo_realpath"
  unfolding realpath_canonical_def
proof (intro allI impI)
  fix p r
  assume "demo_realpath p = Some r"
  then have "r \<in> {''/t/bob'', ''/t/bob/notes'', ''/t/bob2/key''}"
    by (auto simp: demo_realpath_def split: if_splits)
  then show "canonical r"
    by (elim insertE emptyE) (simp_all add: canonical_def clean_seg_def)
qed

lemma demo_root: "wf_base ''/t/bob''"
  by (simp add: wf_base_def clean_seg_def)


text \<open>Leaving the root through a sibling. The comparison is one of strings, so a path in a
  directory whose name is the root's name with something appended is accepted. From a root, the
  path \<open>../<name of the sibling>/<file>\<close> resolves when the file exists.\<close>

theorem resolve_path_sibling:
  assumes "wf_base root" and "e \<noteq> []" and "CHR ''/'' \<notin> set e" "CHR 0x5C \<notin> set (e @ name)"
    and "realpath (root @ ''/../'' @ sibling @ ''/'' @ name) = Some (root @ e @ ''/'' @ name)"
  shows "resolve_path realpath root (''../'' @ sibling @ ''/'' @ name) must_exist = root @ e @ ''/'' @ name
    \<and> \<not> inside root (root @ e @ ''/'' @ name)"
proof -
  have "combined_path root (''../'' @ sibling @ ''/'' @ name) = root @ ''/../'' @ sibling @ ''/'' @ name"
    using combined_path_wf [OF assms(1)] by simp
  moreover have "prefix root (normalize_separators (root @ e @ ''/'' @ name))"
    using assms(1) by (simp add: wf_base_def path_simps)
  ultimately show ?thesis
    using resolve_path_accepts [OF assms(1)] assms(2,3,5)
    by (cases e) (auto simp: canonical_path_def inside_def)
qed

theorem resolve_path_sibling_witness:
  "resolve_path demo_realpath ''/t/bob'' ''../bob2/key'' True = ''/t/bob2/key''
   \<and> \<not> inside ''/t/bob'' ''/t/bob2/key''"
  using resolve_path_sibling [OF demo_root, of "''2''" "''key''" demo_realpath "''bob2''" True]
  by (simp add: demo_realpath_def)

text \<open>Leaving the root through a backslash. The result is compared after its backslashes have been
  turned into slashes, and returned before. On a POSIX system a backslash is an ordinary
  character of a name, so from the root \<open><upper>/<p>/<q>\<close> a client can create, in the directory
  \<open><upper>\<close> two levels up, a file whose name is \<open>p\<close>, a backslash, \<open>q\<close> and whatever it likes.\<close>

theorem resolve_path_backslash:
  assumes "wf_base (upper @ ''/'' @ p @ ''/'' @ q)" and "CHR ''/'' \<notin> set (p @ q @ tail)"
    and "realpath ((upper @ ''/'' @ p @ ''/'' @ q) @ ''/../../'' @ p @ [CHR 0x5C] @ q @ tail) = None"
    and "realpath ((upper @ ''/'' @ p @ ''/'' @ q) @ ''/../..'') = Some upper"
  shows "resolve_path realpath (upper @ ''/'' @ p @ ''/'' @ q) (''../../'' @ p @ [CHR 0x5C] @ q @ tail) False
      = upper @ ''/'' @ p @ [CHR 0x5C] @ q @ tail
    \<and> \<not> inside (upper @ ''/'' @ p @ ''/'' @ q) (upper @ ''/'' @ p @ [CHR 0x5C] @ q @ tail)"
proof -
  let ?root = "upper @ ''/'' @ p @ ''/'' @ q" and ?name = "p @ [CHR 0x5C] @ q @ tail"
  have "combined_path ?root (''../../'' @ ?name) = (?root @ ''/../..'') @ CHR ''/'' # ?name"
    using combined_path_wf [OF assms(1)] by simp
  moreover have "split_dir \<dots> = (?root @ ''/../..'', ?name)"
    using assms(2) by (intro split_dir_append) auto
  ultimately have "canonical_path realpath (combined_path ?root (''../../'' @ ?name)) False
      = Some (upper @ ''/'' @ ?name)"
    using assms(3,4) by (simp add: canonical_path_def)
  moreover have "prefix ?root (normalize_separators (upper @ ''/'' @ ?name))"
  proof -
    have "CHR 0x5C \<notin> set ?root"
      using assms(1) by (simp add: wf_base_def)
    then have "normalize_separators upper = upper" "normalize_separators p = p" "normalize_separators q = q"
      by (auto intro!: normalize_separators_id)
    moreover have "normalize_separators (CHR 0x5C # q @ tail) = CHR ''/'' # normalize_separators (q @ tail)"
      "normalize_separators (CHR ''/'' # x) = CHR ''/'' # normalize_separators x" for x
      by (simp_all add: normalize_separators_def)
    ultimately show ?thesis by (simp add: path_simps)
  qed
  ultimately show ?thesis
    using resolve_path_accepts [OF assms(1)] by (simp add: inside_def)
qed

definition demo_deep :: "string \<Rightarrow> string option" where
  "demo_deep p = map_of [(''/srv/t/bob'', ''/srv/t/bob''), (''/srv/t/bob/../..'', ''/srv'')] p"

theorem resolve_path_backslash_witness:
  "resolve_path demo_deep ''/srv/t/bob'' (''../../t'' @ [CHR 0x5C] @ ''bob.txt'') False
      = ''/srv/t'' @ [CHR 0x5C] @ ''bob.txt''"
  using resolve_path_backslash [of "''/srv''" "''t''" "''bob''" "''.txt''" demo_deep]
  by (simp add: demo_deep_def wf_base_def clean_seg_def)

text \<open>A root that is not spelled as the system spells it. If \<open>realpath\<close> of the root is not an
  extension of the root's text, as for a root behind a symbolic link or one written with a
  trailing slash, then the root directory itself is refused; every canonical root is accepted.\<close>

theorem resolve_path_root:
  assumes "root \<noteq> []" and "realpath (combined_path root []) = Some r"
  shows "resolve_path realpath root ''/'' must_exist =
    (if prefix (normalize_separators root) (normalize_separators r) then r else [])"
  using assms
  by (simp add: resolve_path_def canonical_path_def has_prefix_iff combined_path_def relative_client_path_def)

theorem resolve_path_root_witness:
  "resolve_path demo_realpath ''/t/bob/'' ''/'' True = []"
  using resolve_path_root [of "''/t/bob/''" demo_realpath "''/t/bob''" True]
  by (simp add: demo_realpath_def combined_path_def relative_client_path_def normalize_separators_def)

end
