(* ===== verification/SftpData.thy ===== *)
theory SftpData
  imports SftpPaths
begin

unbundle bit_operations_syntax

text \<open>
  The data of \<open>sftp_handlers.cpp\<close> and of its header: permissions, requests, replies, file
  attributes, the objects behind handles, and the state of a session thread. What is not code of
  the repository comes in two records of functions. \<open>'w sys\<close>: the C library's files and
  directory streams, and libssh's calls on a session, over an abstract world \<open>'w\<close>.
  \<open>'t handle_lib\<close>: libssh's table of handles of an SFTP session, over an abstract table \<open>'t\<close>.

  A stream (\<open>FILE*\<close>, \<open>DIR*\<close>) and an object (\<open>new FileData\<close>) is named by a number; a null
  pointer is \<open>None\<close>. The objects live in a heap, a map that is undefined where nothing has been
  allocated or where the object has been deleted; the allocator does not hand out the same name
  twice, because a use of a deleted object is an error whatever is at its address by then. A
  handler that would use such an object, or use it as an object of a type it does not have, or
  make a \<open>std::string\<close> from a null pointer, has the outcome \<open>Undefined\<close>; one whose loop does
  not end has the outcome \<open>Hangs\<close>.
\<close>

datatype 's outcome = Done 's | Undefined | Hangs

subsection \<open>Permissions\<close>

type_synonym sftp_permission = "32 word"

definition sftp_perm_none :: sftp_permission where "sftp_perm_none = 0"
definition sftp_perm_read :: sftp_permission where "sftp_perm_read = 1"
definition sftp_perm_write :: sftp_permission where "sftp_perm_write = 2"
definition sftp_perm_all :: sftp_permission where "sftp_perm_all = sftp_perm_read OR sftp_perm_write"

definition can_read :: "sftp_permission \<Rightarrow> bool" where
  "can_read permission \<longleftrightarrow> permission AND sftp_perm_read \<noteq> 0"

definition can_write :: "sftp_permission \<Rightarrow> bool" where
  "can_write permission \<longleftrightarrow> permission AND sftp_perm_write \<noteq> 0"

lemma can_simps [simp]:
  "\<not> can_read 0" "can_read 1" "\<not> can_read 2" "can_read 3"
  "\<not> can_write 0" "\<not> can_write 1" "can_write 2" "can_write 3"
  by (simp_all add: can_read_def can_write_def sftp_perm_read_def sftp_perm_write_def)

record sftp_activity =
  sa_user :: string
  sa_operation :: string
  sa_path :: string
  sa_result :: string

subsection \<open>Requests and replies\<close>

text \<open>Constants of the protocol, from libssh's header.\<close>

definition FXF_READ :: "32 word" where "FXF_READ = 0x01"
definition FXF_WRITE :: "32 word" where "FXF_WRITE = 0x02"
definition FXF_APPEND :: "32 word" where "FXF_APPEND = 0x04"
definition FXF_CREAT :: "32 word" where "FXF_CREAT = 0x08"
definition FXF_TRUNC :: "32 word" where "FXF_TRUNC = 0x10"

lemmas flag_defs = FXF_READ_def FXF_WRITE_def FXF_APPEND_def FXF_CREAT_def FXF_TRUNC_def

definition S_IFDIR :: "32 word" where "S_IFDIR = 0x4000"
definition S_IFREG :: "32 word" where "S_IFREG = 0x8000"

datatype fx = FX_OK | FX_EOF | FX_NO_SUCH_FILE | FX_PERMISSION_DENIED | FX_FAILURE
  | FX_OP_UNSUPPORTED | FX_INVALID_HANDLE | FX_NO_SUCH_PATH

datatype fxp = FXP_OPEN | FXP_CLOSE | FXP_READ | FXP_WRITE | FXP_OPENDIR | FXP_READDIR | FXP_STAT
  | FXP_LSTAT | FXP_FSTAT | FXP_SETSTAT | FXP_FSETSTAT | FXP_MKDIR | FXP_RMDIR | FXP_REMOVE
  | FXP_RENAME | FXP_REALPATH | FXP_other "8 word"

datatype attr_type = TYPE_DIRECTORY | TYPE_REGULAR | TYPE_UNKNOWN

record sftp_attr =
  at_name :: string
  at_size :: "64 word"
  at_permissions :: "32 word"
  at_atime :: "32 word"
  at_mtime :: "32 word"
  at_flags :: "32 word"
  at_type :: attr_type

datatype reply =
    Reply_status fx "string option"
  | Reply_handle string
  | Reply_data string
  | Reply_name string "sftp_attr option"
  | Reply_attr "sftp_attr option"

record sftp_message =
  mg_type :: fxp
  mg_id :: "32 word"
  mg_filename :: "string option"
  mg_flags :: "32 word"
  mg_handle :: string
  mg_offset :: "64 word"
  mg_len :: "32 word"
  mg_data :: string
  mg_submessage :: "string option"
  mg_str_data :: "string option"

subsection \<open>The system and the library\<close>

record file_info =
  fi_mode :: "32 word"
  fi_size :: "64 word"
  fi_mtime :: int
  fi_atime :: int

record 'w sys =
  c_realpath :: "string \<Rightarrow> 'w \<Rightarrow> string option"
  c_stat :: "string \<Rightarrow> 'w \<Rightarrow> file_info option"
  c_calloc :: "'w \<Rightarrow> bool"
  c_fopen :: "string \<Rightarrow> string \<Rightarrow> 'w \<Rightarrow> nat option \<times> 'w"
  c_fclose :: "nat \<Rightarrow> 'w \<Rightarrow> 'w"
  c_fseek :: "nat \<Rightarrow> int \<Rightarrow> 'w \<Rightarrow> int \<times> 'w"
  c_fread :: "nat \<Rightarrow> nat \<Rightarrow> 'w \<Rightarrow> string \<times> 'w"
  c_fwrite :: "nat \<Rightarrow> string \<Rightarrow> 'w \<Rightarrow> nat \<times> 'w"
  c_fflush :: "nat \<Rightarrow> 'w \<Rightarrow> 'w"
  c_opendir :: "string \<Rightarrow> 'w \<Rightarrow> nat option \<times> 'w"
  c_readdir :: "nat \<Rightarrow> 'w \<Rightarrow> string option \<times> 'w"
  c_closedir :: "nat \<Rightarrow> 'w \<Rightarrow> 'w"
  c_mkdir :: "string \<Rightarrow> nat \<Rightarrow> 'w \<Rightarrow> int \<times> 'w"
  c_rmdir :: "string \<Rightarrow> 'w \<Rightarrow> int \<times> 'w"
  c_unlink :: "string \<Rightarrow> 'w \<Rightarrow> int \<times> 'w"
  c_rename :: "string \<Rightarrow> string \<Rightarrow> 'w \<Rightarrow> int \<times> 'w"
  ssh_reply :: "32 word \<Rightarrow> reply \<Rightarrow> 'w \<Rightarrow> bool \<times> 'w"
  ssh_poll :: "'w \<Rightarrow> int \<times> 'w"
  ssh_channel_open :: "'w \<Rightarrow> bool"
  ssh_channel_eof :: "'w \<Rightarrow> bool"
  ssh_message :: "'w \<Rightarrow> sftp_message option \<times> 'w"

text \<open>
  \<open>sftp_handle_alloc\<close> gets the object and returns the handle sent to the client, or null when the
  table is full; \<open>sftp_handle\<close> looks a handle up; \<open>sftp_handle_remove\<close> gets a \<open>void*\<close>. The
  handlers call it with the address of a handle string, not with that of an object.
\<close>

datatype pointer = Object nat | Handle_string string

record 't handle_lib =
  ht_alloc :: "nat \<Rightarrow> 't \<Rightarrow> string option \<times> 't"
  ht_lookup :: "string \<Rightarrow> 't \<Rightarrow> nat option"
  ht_remove :: "pointer \<Rightarrow> 't \<Rightarrow> 't"

subsection \<open>The state of a session\<close>

datatype handle_data =
    FileData "nat option" string
  | DirData "nat option" string

record sftp_context =
  cx_username :: string
  cx_root :: string
  cx_perm :: sftp_permission

record ('w, 't) sftp_thread =
  st_table :: 't
  st_heap :: "nat \<Rightarrow> handle_data option"
  st_fresh :: nat
  st_activity :: "sftp_activity list"
  st_replies :: "(32 word \<times> reply) list"
  st_world :: 'w

definition on_world :: "('w \<Rightarrow> 'w) \<Rightarrow> ('w, 't) sftp_thread \<Rightarrow> ('w, 't) sftp_thread" where
  "on_world f st = st\<lparr>st_world := f (st_world st)\<rparr>"

text \<open>A reply, with whether sending it succeeded (\<open>SSH_OK\<close>), and a status reply whose result
  is not looked at.\<close>

definition send_reply ::
  "'w sys \<Rightarrow> sftp_message \<Rightarrow> reply \<Rightarrow> ('w, 't) sftp_thread \<Rightarrow> bool \<times> ('w, 't) sftp_thread" where
  "send_reply sys msg r st =
     (let (ok, w) = ssh_reply sys (mg_id msg) r (st_world st)
      in (ok, st\<lparr>st_replies := st_replies st @ [(mg_id msg, r)], st_world := w\<rparr>))"

definition status :: "'w sys \<Rightarrow> sftp_message \<Rightarrow> fx \<Rightarrow> ('w, 't) sftp_thread \<Rightarrow> ('w, 't) sftp_thread" where
  "status sys msg code st = snd (send_reply sys msg (Reply_status code None) st)"

definition log_activity ::
  "sftp_context \<Rightarrow> string \<Rightarrow> string \<Rightarrow> string \<Rightarrow> ('w, 't) sftp_thread \<Rightarrow> ('w, 't) sftp_thread" where
  "log_activity cx op path result st =
     st\<lparr>st_activity := st_activity st @
         [\<lparr>sa_user = cx_username cx, sa_operation = op, sa_path = path, sa_result = result\<rparr>]\<rparr>"

definition resolve_in ::
  "'w sys \<Rightarrow> sftp_context \<Rightarrow> string \<Rightarrow> bool \<Rightarrow> ('w, 't) sftp_thread \<Rightarrow> string" where
  "resolve_in sys cx path must_exist st =
     resolve_path (\<lambda>p. c_realpath sys p (st_world st)) (cx_root cx) path must_exist"

definition new_object :: "handle_data \<Rightarrow> ('w, 't) sftp_thread \<Rightarrow> nat \<times> ('w, 't) sftp_thread" where
  "new_object d st =
     (st_fresh st, st\<lparr>st_heap := (st_heap st)(st_fresh st \<mapsto> d), st_fresh := Suc (st_fresh st)\<rparr>)"

definition delete_object :: "nat \<Rightarrow> ('w, 't) sftp_thread \<Rightarrow> ('w, 't) sftp_thread" where
  "delete_object a st = st\<lparr>st_heap := (st_heap st)(a := None)\<rparr>"

definition alloc_handle ::
  "'t handle_lib \<Rightarrow> nat \<Rightarrow> ('w, 't) sftp_thread \<Rightarrow> string option \<times> ('w, 't) sftp_thread" where
  "alloc_handle lib a st =
     (let (h, t) = ht_alloc lib a (st_table st) in (h, st\<lparr>st_table := t\<rparr>))"

definition remove_handle ::
  "'t handle_lib \<Rightarrow> pointer \<Rightarrow> ('w, 't) sftp_thread \<Rightarrow> ('w, 't) sftp_thread" where
  "remove_handle lib p st = st\<lparr>st_table := ht_remove lib p (st_table st)\<rparr>"

definition close_file :: "'w sys \<Rightarrow> nat option \<Rightarrow> ('w, 't) sftp_thread \<Rightarrow> ('w, 't) sftp_thread" where
  "close_file sys fp st = (case fp of Some f \<Rightarrow> on_world (c_fclose sys f) st | None \<Rightarrow> st)"

definition close_dir :: "'w sys \<Rightarrow> nat option \<Rightarrow> ('w, 't) sftp_thread \<Rightarrow> ('w, 't) sftp_thread" where
  "close_dir sys dir st = (case dir of Some d \<Rightarrow> on_world (c_closedir sys d) st | None \<Rightarrow> st)"

subsection \<open>Attributes\<close>

definition make_attr ::
  "'w sys \<Rightarrow> string \<Rightarrow> 64 word \<Rightarrow> 32 word \<Rightarrow> int \<Rightarrow> int \<Rightarrow> 'w \<Rightarrow> sftp_attr option" where
  "make_attr sys name file_size perm mtime atime w =
     (if \<not> c_calloc sys w then None
      else Some \<lparr>at_name = name, at_size = file_size, at_permissions = perm,
             at_atime = word_of_int atime, at_mtime = word_of_int mtime,
             at_flags = 0x1 OR 0x4 OR 0x8,
             at_type = (if perm AND S_IFDIR \<noteq> 0 then TYPE_DIRECTORY
                        else if perm AND S_IFREG \<noteq> 0 then TYPE_REGULAR else TYPE_UNKNOWN)\<rparr>)"

definition stat_to_attr :: "'w sys \<Rightarrow> string \<Rightarrow> string \<Rightarrow> 'w \<Rightarrow> sftp_attr option" where
  "stat_to_attr sys full_path display_name w =
     (case c_stat sys full_path w of
        None \<Rightarrow> None
      | Some st \<Rightarrow> make_attr sys display_name (fi_size st) (fi_mode st) (fi_mtime st) (fi_atime st) w)"

text \<open>The mode string, and whether the file is to be truncated.\<close>

definition sftp_flags_to_mode :: "32 word \<Rightarrow> string \<times> bool" where
  "sftp_flags_to_mode sftp_flags =
     (let rw = sftp_flags AND (FXF_READ OR FXF_WRITE)
      in if rw = FXF_READ then (''rb'', False)
         else if rw = FXF_WRITE then
           (if sftp_flags AND FXF_APPEND \<noteq> 0 then (''ab'', False)
            else if sftp_flags AND FXF_TRUNC \<noteq> 0 then (''wb'', True)
            else if sftp_flags AND FXF_CREAT \<noteq> 0 then (''wb'', False)
            else (''rb+'', False))
         else if rw = (FXF_READ OR FXF_WRITE) then
           (if sftp_flags AND FXF_APPEND \<noteq> 0 then (''ab+'', False)
            else if sftp_flags AND FXF_TRUNC \<noteq> 0 then (''wb+'', True)
            else (''rb+'', False))
         else (''rb'', False))"

end
