(* ===== verification/SftpHandlers.thy ===== *)
theory SftpHandlers
  imports SftpData
begin

unbundle bit_operations_syntax

text \<open>
  The handlers of \<open>sftp_handlers.cpp\<close> (POSIX side), one definition each, and the switch and
  loop of \<open>process_sftp\<close>, which calls them. A handler takes the context of the session and
  a request to the next state of the session's thread.
\<close>

subsection \<open>Opening and closing\<close>

definition sftp_do_open ::
  "'w sys \<Rightarrow> 't handle_lib \<Rightarrow> sftp_context \<Rightarrow> sftp_message \<Rightarrow> ('w, 't) sftp_thread
   \<Rightarrow> ('w, 't) sftp_thread outcome" where
  "sftp_do_open sys lib cx msg st =
     (case mg_filename msg of None \<Rightarrow> Undefined | Some client_path \<Rightarrow>
       (let flags = mg_flags msg
        in if flags AND (FXF_WRITE OR FXF_CREAT OR FXF_TRUNC) \<noteq> 0 \<and> \<not> can_write (cx_perm cx)
        then Done (status sys msg FX_PERMISSION_DENIED (log_activity cx ''OPEN'' client_path ''DENIED'' st))
        else if flags AND FXF_READ \<noteq> 0 \<and> \<not> can_read (cx_perm cx)
        then Done (status sys msg FX_PERMISSION_DENIED (log_activity cx ''OPEN'' client_path ''DENIED'' st))
        else (let full = resolve_in sys cx client_path (flags AND FXF_CREAT = 0) st
              in if full = []
              then Done (status sys msg FX_NO_SUCH_FILE (log_activity cx ''OPEN'' client_path ''NO_SUCH_FILE'' st))
              else (let (mode, trunc) = sftp_flags_to_mode flags;
                        (fp, w) = c_fopen sys full mode (st_world st);
                        st = st\<lparr>st_world := w\<rparr>
                    in if fp = None
                    then Done (status sys msg FX_FAILURE (log_activity cx ''OPEN'' client_path ''FAILURE'' st))
                    else (let (fd, st) = new_object (FileData fp full) st;
                              (handle, st) = alloc_handle lib fd st
                          in case handle of
                               None \<Rightarrow> Done (status sys msg FX_FAILURE (delete_object fd (close_file sys fp st)))
                             | Some h \<Rightarrow>
                                 (let (ok, st) = send_reply sys msg (Reply_handle h) st;
                                      st = (if \<not> ok
                                            then delete_object fd
                                                   (remove_handle lib (Handle_string h) (close_file sys fp st))
                                            else st)
                                  in Done (log_activity cx ''OPEN'' client_path ''OK'' st)))))))"

definition sftp_do_close ::
  "'w sys \<Rightarrow> 't handle_lib \<Rightarrow> sftp_context \<Rightarrow> sftp_message \<Rightarrow> ('w, 't) sftp_thread
   \<Rightarrow> ('w, 't) sftp_thread outcome" where
  "sftp_do_close sys lib cx msg st =
     (let request_handle = mg_handle msg
      in case ht_lookup lib request_handle (st_table st) of
           None \<Rightarrow> Done (status sys msg FX_INVALID_HANDLE st)
         | Some info \<Rightarrow>
             (case st_heap st info of
                None \<Rightarrow> Undefined
              | Some object \<Rightarrow>
                  (let st = delete_object info
                              (case object of FileData fp path \<Rightarrow> close_file sys fp st
                                            | DirData dir path \<Rightarrow> close_dir sys dir st);
                       st = remove_handle lib (Handle_string request_handle) st
                   in Done (log_activity cx ''CLOSE'' [] ''OK'' (status sys msg FX_OK st)))))"

subsection \<open>Reading and writing\<close>

definition sftp_do_read ::
  "'w sys \<Rightarrow> 't handle_lib \<Rightarrow> sftp_context \<Rightarrow> sftp_message \<Rightarrow> ('w, 't) sftp_thread
   \<Rightarrow> ('w, 't) sftp_thread outcome" where
  "sftp_do_read sys lib cx msg st =
     (case ht_lookup lib (mg_handle msg) (st_table st) of
        None \<Rightarrow> Done (status sys msg FX_INVALID_HANDLE st)
      | Some info \<Rightarrow>
          (case st_heap st info of
             Some (FileData None path) \<Rightarrow> Done (status sys msg FX_FAILURE st)
           | Some (FileData (Some fp) path) \<Rightarrow>
               (let (rc, w) = c_fseek sys fp (sint (mg_offset msg)) (st_world st);
                    st = st\<lparr>st_world := w\<rparr>
                in if rc \<noteq> 0 then Done (status sys msg FX_FAILURE st)
                else (let buffer_size = (if mg_len msg > 65536 then 65536 else unat (mg_len msg));
                          (buffer, w) = c_fread sys fp buffer_size (st_world st);
                          st = st\<lparr>st_world := w\<rparr>
                      in if length buffer = 0 then Done (status sys msg FX_EOF st)
                      else (let (ok, st) = send_reply sys msg (Reply_data buffer) st
                            in if \<not> ok then Done (status sys msg FX_FAILURE st) else Done st)))
           | _ \<Rightarrow> Undefined))"

definition sftp_do_write ::
  "'w sys \<Rightarrow> 't handle_lib \<Rightarrow> sftp_context \<Rightarrow> sftp_message \<Rightarrow> ('w, 't) sftp_thread
   \<Rightarrow> ('w, 't) sftp_thread outcome" where
  "sftp_do_write sys lib cx msg st =
     (if \<not> can_write (cx_perm cx) then Done (status sys msg FX_PERMISSION_DENIED st)
      else (case ht_lookup lib (mg_handle msg) (st_table st) of
              None \<Rightarrow> Done (status sys msg FX_INVALID_HANDLE st)
            | Some info \<Rightarrow>
                (case st_heap st info of
                   Some (FileData None path) \<Rightarrow> Done (status sys msg FX_FAILURE st)
                 | Some (FileData (Some fp) path) \<Rightarrow>
                     (let (rc, w) = c_fseek sys fp (sint (mg_offset msg)) (st_world st);
                          st = st\<lparr>st_world := w\<rparr>
                      in if rc \<noteq> 0 then Done (status sys msg FX_FAILURE st)
                      else (let data_length = unat (word_of_nat (length (mg_data msg)) :: 32 word);
                                (written_count, w) = c_fwrite sys fp (take data_length (mg_data msg)) (st_world st);
                                st = st\<lparr>st_world := w\<rparr>
                            in if written_count \<noteq> data_length then Done (status sys msg FX_FAILURE st)
                            else Done (log_activity cx ''WRITE'' path ''OK''
                                   (status sys msg FX_OK (on_world (c_fflush sys fp) st)))))
                 | _ \<Rightarrow> Undefined)))"

subsection \<open>Directories\<close>

definition sftp_do_opendir ::
  "'w sys \<Rightarrow> 't handle_lib \<Rightarrow> sftp_context \<Rightarrow> sftp_message \<Rightarrow> ('w, 't) sftp_thread
   \<Rightarrow> ('w, 't) sftp_thread outcome" where
  "sftp_do_opendir sys lib cx msg st =
     (case mg_filename msg of None \<Rightarrow> Undefined | Some client_path \<Rightarrow>
       (if \<not> can_read (cx_perm cx)
        then Done (status sys msg FX_PERMISSION_DENIED (log_activity cx ''OPENDIR'' client_path ''DENIED'' st))
        else (let full = resolve_in sys cx client_path True st
              in if full = []
              then Done (status sys msg FX_NO_SUCH_FILE (log_activity cx ''OPENDIR'' client_path ''NO_SUCH_FILE'' st))
              else (let (dd, st) = new_object (DirData None full) st;
                        (d, w) = c_opendir sys full (st_world st);
                        st = st\<lparr>st_world := w\<rparr>
                    in if d = None
                    then Done (status sys msg FX_FAILURE
                           (log_activity cx ''OPENDIR'' client_path ''FAILURE'' (delete_object dd st)))
                    else (let st = st\<lparr>st_heap := (st_heap st)(dd \<mapsto> DirData d full)\<rparr>;
                              (handle, st) = alloc_handle lib dd st
                          in case handle of
                               None \<Rightarrow> Done (status sys msg FX_FAILURE (delete_object dd (close_dir sys d st)))
                             | Some h \<Rightarrow>
                                 (let (ok, st) = send_reply sys msg (Reply_handle h) st;
                                      st = (if \<not> ok
                                            then delete_object dd
                                                   (remove_handle lib (Handle_string h) (close_dir sys d st))
                                            else st)
                                  in Done (log_activity cx ''OPENDIR'' client_path ''OK'' st)))))))"

text \<open>Reading entries until one is neither \<open>.\<close> nor \<open>..\<close>.\<close>

partial_function (option) next_entry :: "'w sys \<Rightarrow> nat \<Rightarrow> 'w \<Rightarrow> (string option \<times> 'w) option" where
  "next_entry sys d w =
     (let r = c_readdir sys d w
      in if fst r = Some ''.'' \<or> fst r = Some ''..'' then next_entry sys d (snd r) else Some r)"

definition sftp_do_readdir ::
  "'w sys \<Rightarrow> 't handle_lib \<Rightarrow> sftp_context \<Rightarrow> sftp_message \<Rightarrow> ('w, 't) sftp_thread
   \<Rightarrow> ('w, 't) sftp_thread outcome" where
  "sftp_do_readdir sys lib cx msg st =
     (case ht_lookup lib (mg_handle msg) (st_table st) of
        None \<Rightarrow> Done (status sys msg FX_INVALID_HANDLE st)
      | Some info \<Rightarrow>
          (case st_heap st info of
             Some (DirData (Some d) path) \<Rightarrow>
               (case next_entry sys d (st_world st) of
                  None \<Rightarrow> Hangs
                | Some (None, w) \<Rightarrow> Done (status sys msg FX_EOF (st\<lparr>st_world := w\<rparr>))
                | Some (Some name, w) \<Rightarrow>
                    (let st = st\<lparr>st_world := w\<rparr>;
                         entry_full = path @ ''/'' @ name;
                         found = stat_to_attr sys entry_full name w;
                         attr = (if found = None then make_attr sys name 0 (S_IFREG OR 0x1A4) 0 0 w else found);
                         (ok, st) = send_reply sys msg (Reply_name name attr) st
                     in if \<not> ok then Done (status sys msg FX_FAILURE st) else Done st))
           | _ \<Rightarrow> Undefined))"

subsection \<open>Attributes\<close>

definition display_name :: "string \<Rightarrow> string" where
  "display_name path = (if CHR ''/'' \<in> set path then base_name path else path)"

definition sftp_do_stat ::
  "'w sys \<Rightarrow> sftp_context \<Rightarrow> sftp_message \<Rightarrow> ('w, 't) sftp_thread \<Rightarrow> ('w, 't) sftp_thread outcome" where
  "sftp_do_stat sys cx msg st =
     (case mg_filename msg of None \<Rightarrow> Undefined | Some client_path \<Rightarrow>
       (let full = resolve_in sys cx client_path True st
        in if full = []
        then Done (status sys msg FX_NO_SUCH_FILE (log_activity cx ''STAT'' client_path ''NO_SUCH_FILE'' st))
        else (let attr = stat_to_attr sys full (display_name client_path) (st_world st)
              in if attr = None then Done (status sys msg FX_NO_SUCH_FILE st)
              else (let (ok, st) = send_reply sys msg (Reply_attr attr) st
                    in if \<not> ok then Done (status sys msg FX_FAILURE st) else Done st))))"

definition sftp_do_fstat ::
  "'w sys \<Rightarrow> 't handle_lib \<Rightarrow> sftp_message \<Rightarrow> ('w, 't) sftp_thread \<Rightarrow> ('w, 't) sftp_thread outcome" where
  "sftp_do_fstat sys lib msg st =
     (case ht_lookup lib (mg_handle msg) (st_table st) of
        None \<Rightarrow> Done (status sys msg FX_INVALID_HANDLE st)
      | Some info \<Rightarrow>
          (case st_heap st info of
             Some (FileData fp path) \<Rightarrow>
               (let attr = stat_to_attr sys path (display_name path) (st_world st)
                in if attr = None then Done (status sys msg FX_FAILURE st)
                else (let (ok, st) = send_reply sys msg (Reply_attr attr) st
                      in if \<not> ok then Done (status sys msg FX_FAILURE st) else Done st))
           | _ \<Rightarrow> Undefined))"

definition sftp_do_setstat ::
  "'w sys \<Rightarrow> sftp_context \<Rightarrow> sftp_message \<Rightarrow> ('w, 't) sftp_thread \<Rightarrow> ('w, 't) sftp_thread outcome" where
  "sftp_do_setstat sys cx msg st =
     (case mg_filename msg of None \<Rightarrow> Undefined | Some client_path \<Rightarrow>
       (if \<not> can_write (cx_perm cx)
        then Done (status sys msg FX_PERMISSION_DENIED (log_activity cx ''SETSTAT'' client_path ''DENIED'' st))
        else if resolve_in sys cx client_path True st = []
        then Done (status sys msg FX_NO_SUCH_FILE (log_activity cx ''SETSTAT'' client_path ''NO_SUCH_FILE'' st))
        else Done (log_activity cx ''SETSTAT'' client_path ''OK'' (status sys msg FX_OK st))))"

definition sftp_do_fsetstat ::
  "'w sys \<Rightarrow> 't handle_lib \<Rightarrow> sftp_context \<Rightarrow> sftp_message \<Rightarrow> ('w, 't) sftp_thread
   \<Rightarrow> ('w, 't) sftp_thread outcome" where
  "sftp_do_fsetstat sys lib cx msg st =
     (if ht_lookup lib (mg_handle msg) (st_table st) = None then Done (status sys msg FX_INVALID_HANDLE st)
      else if \<not> can_write (cx_perm cx) then Done (status sys msg FX_PERMISSION_DENIED st)
      else Done (status sys msg FX_OK st))"

subsection \<open>Changing the tree\<close>

definition sftp_do_mkdir ::
  "'w sys \<Rightarrow> sftp_context \<Rightarrow> sftp_message \<Rightarrow> ('w, 't) sftp_thread \<Rightarrow> ('w, 't) sftp_thread outcome" where
  "sftp_do_mkdir sys cx msg st =
     (case mg_filename msg of None \<Rightarrow> Undefined | Some client_path \<Rightarrow>
       (if \<not> can_write (cx_perm cx)
        then Done (status sys msg FX_PERMISSION_DENIED (log_activity cx ''MKDIR'' client_path ''DENIED'' st))
        else (let full = resolve_in sys cx client_path False st
              in if full = []
              then Done (status sys msg FX_NO_SUCH_PATH (log_activity cx ''MKDIR'' client_path ''NO_SUCH_PATH'' st))
              else (let (rc, w) = c_mkdir sys full 493 (st_world st); st = st\<lparr>st_world := w\<rparr>
                    in if rc \<noteq> 0
                    then Done (status sys msg FX_FAILURE (log_activity cx ''MKDIR'' client_path ''FAILURE'' st))
                    else Done (log_activity cx ''MKDIR'' client_path ''OK'' (status sys msg FX_OK st))))))"

definition sftp_do_rmdir ::
  "'w sys \<Rightarrow> sftp_context \<Rightarrow> sftp_message \<Rightarrow> ('w, 't) sftp_thread \<Rightarrow> ('w, 't) sftp_thread outcome" where
  "sftp_do_rmdir sys cx msg st =
     (case mg_filename msg of None \<Rightarrow> Undefined | Some client_path \<Rightarrow>
       (if \<not> can_write (cx_perm cx)
        then Done (status sys msg FX_PERMISSION_DENIED (log_activity cx ''RMDIR'' client_path ''DENIED'' st))
        else (let full = resolve_in sys cx client_path True st
              in if full = []
              then Done (status sys msg FX_NO_SUCH_FILE (log_activity cx ''RMDIR'' client_path ''NO_SUCH_FILE'' st))
              else (let (rc, w) = c_rmdir sys full (st_world st); st = st\<lparr>st_world := w\<rparr>
                    in if rc \<noteq> 0
                    then Done (status sys msg FX_FAILURE (log_activity cx ''RMDIR'' client_path ''FAILURE'' st))
                    else Done (log_activity cx ''RMDIR'' client_path ''OK'' (status sys msg FX_OK st))))))"

definition sftp_do_remove ::
  "'w sys \<Rightarrow> sftp_context \<Rightarrow> sftp_message \<Rightarrow> ('w, 't) sftp_thread \<Rightarrow> ('w, 't) sftp_thread outcome" where
  "sftp_do_remove sys cx msg st =
     (case mg_filename msg of None \<Rightarrow> Undefined | Some client_path \<Rightarrow>
       (if \<not> can_write (cx_perm cx)
        then Done (status sys msg FX_PERMISSION_DENIED (log_activity cx ''REMOVE'' client_path ''DENIED'' st))
        else (let full = resolve_in sys cx client_path True st
              in if full = []
              then Done (status sys msg FX_NO_SUCH_FILE (log_activity cx ''REMOVE'' client_path ''NO_SUCH_FILE'' st))
              else (let (rc, w) = c_unlink sys full (st_world st); st = st\<lparr>st_world := w\<rparr>
                    in if rc \<noteq> 0
                    then Done (status sys msg FX_FAILURE (log_activity cx ''REMOVE'' client_path ''FAILURE'' st))
                    else Done (log_activity cx ''REMOVE'' client_path ''OK'' (status sys msg FX_OK st))))))"

definition sftp_do_rename ::
  "'w sys \<Rightarrow> sftp_context \<Rightarrow> sftp_message \<Rightarrow> ('w, 't) sftp_thread \<Rightarrow> ('w, 't) sftp_thread outcome" where
  "sftp_do_rename sys cx msg st =
     (case mg_filename msg of None \<Rightarrow> Undefined | Some src_path \<Rightarrow>
       (let dst = (if mg_submessage msg = None then mg_str_data msg else mg_submessage msg)
        in if \<not> can_write (cx_perm cx)
        then Done (status sys msg FX_PERMISSION_DENIED (log_activity cx ''RENAME'' src_path ''DENIED'' st))
        else (let full_src = resolve_in sys cx src_path True st
              in if full_src = []
              then Done (status sys msg FX_NO_SUCH_FILE (log_activity cx ''RENAME'' src_path ''NO_SUCH_FILE'' st))
              else (case dst of
                      None \<Rightarrow> Done (snd (send_reply sys msg (Reply_status FX_FAILURE (Some ''No destination path'')) st))
                    | Some dst_path \<Rightarrow>
                        (let full_dst = resolve_in sys cx dst_path False st
                         in if full_dst = []
                         then Done (status sys msg FX_NO_SUCH_PATH (log_activity cx ''RENAME'' dst_path ''NO_SUCH_PATH'' st))
                         else (let (rc, w) = c_rename sys full_src full_dst (st_world st); st = st\<lparr>st_world := w\<rparr>
                               in if rc \<noteq> 0
                               then Done (status sys msg FX_FAILURE (log_activity cx ''RENAME'' src_path ''FAILURE'' st))
                               else Done (log_activity cx ''RENAME'' (src_path @ '' -> '' @ dst_path) ''OK''
                                      (status sys msg FX_OK st))))))))"

subsection \<open>REALPATH\<close>

text \<open>The loop that drops every slash behind a slash; \<open>prev\<close> says whether the character before was
  one.\<close>

fun squeeze_slashes :: "bool \<Rightarrow> string \<Rightarrow> string" where
  "squeeze_slashes prev [] = []"
| "squeeze_slashes prev (c # cs) =
     (if prev \<and> c = CHR ''/'' then squeeze_slashes True cs else c # squeeze_slashes (c = CHR ''/'') cs)"

definition display_path :: "string \<Rightarrow> string \<Rightarrow> string" where
  "display_path root full =
     (let nroot = normalize_separators root; nfull = normalize_separators full
      in if has_case_insensitive_prefix nfull nroot
         then (let suffix = dropWhile (\<lambda>c. c = CHR ''/'' \<or> c = CHR 0x5C) (drop (length root) nfull)
               in if suffix = [] then ''/'' else ''/'' @ suffix)
         else full)"

definition sftp_do_realpath ::
  "'w sys \<Rightarrow> sftp_context \<Rightarrow> sftp_message \<Rightarrow> ('w, 't) sftp_thread \<Rightarrow> ('w, 't) sftp_thread outcome" where
  "sftp_do_realpath sys cx msg st =
     (if \<not> can_read (cx_perm cx)
      then (case mg_filename msg of None \<Rightarrow> Undefined | Some client_path \<Rightarrow>
              Done (status sys msg FX_PERMISSION_DENIED (log_activity cx ''REALPATH'' client_path ''DENIED'' st)))
      else if mg_filename msg = None \<or> mg_filename msg = Some [] then Done (status sys msg FX_FAILURE st)
      else (let client_path = the (mg_filename msg);
                full = (if client_path = ''/'' \<or> client_path = ''.'' then cx_root cx
                        else (let resolved = resolve_in sys cx client_path False st
                              in if resolved = []
                                 then squeeze_slashes False (normalize_separators (cx_root cx) @ ''/'' @ client_path)
                                 else resolved));
                display = display_path (cx_root cx) full;
                attr = make_attr sys display 0 (S_IFDIR OR 0x1ED) 0 0 (st_world st)
            in if attr = None then Done (status sys msg FX_FAILURE st)
            else (let (ok, st) = send_reply sys msg (Reply_name display attr) st
                  in if \<not> ok then Done (status sys msg FX_FAILURE st) else Done st)))"

subsection \<open>The loop of a session\<close>

fun do_request ::
  "'w sys \<Rightarrow> 't handle_lib \<Rightarrow> sftp_context \<Rightarrow> sftp_message \<Rightarrow> ('w, 't) sftp_thread
   \<Rightarrow> ('w, 't) sftp_thread outcome" where
  "do_request sys lib cx msg st =
     (case mg_type msg of
        FXP_OPEN \<Rightarrow> sftp_do_open sys lib cx msg st
      | FXP_CLOSE \<Rightarrow> sftp_do_close sys lib cx msg st
      | FXP_READ \<Rightarrow> sftp_do_read sys lib cx msg st
      | FXP_WRITE \<Rightarrow> sftp_do_write sys lib cx msg st
      | FXP_OPENDIR \<Rightarrow> sftp_do_opendir sys lib cx msg st
      | FXP_READDIR \<Rightarrow> sftp_do_readdir sys lib cx msg st
      | FXP_STAT \<Rightarrow> sftp_do_stat sys cx msg st
      | FXP_LSTAT \<Rightarrow> sftp_do_stat sys cx msg st
      | FXP_FSTAT \<Rightarrow> sftp_do_fstat sys lib msg st
      | FXP_SETSTAT \<Rightarrow> sftp_do_setstat sys cx msg st
      | FXP_FSETSTAT \<Rightarrow> sftp_do_fsetstat sys lib cx msg st
      | FXP_MKDIR \<Rightarrow> sftp_do_mkdir sys cx msg st
      | FXP_RMDIR \<Rightarrow> sftp_do_rmdir sys cx msg st
      | FXP_REMOVE \<Rightarrow> sftp_do_remove sys cx msg st
      | FXP_RENAME \<Rightarrow> sftp_do_rename sys cx msg st
      | FXP_REALPATH \<Rightarrow> sftp_do_realpath sys cx msg st
      | FXP_other t \<Rightarrow> Done (status sys msg FX_OP_UNSUPPORTED st))"

declare do_request.simps [simp del]

text \<open>One round of the loop of \<open>process_sftp\<close>: it goes on, it leaves the loop, or a handler has no
  defined outcome or does not return. \<open>running\<close> reads the flag that \<open>stop\<close> clears, as it is when
  the loop looks at it. \<open>SSH_ERROR\<close> is -1.\<close>

datatype 's round = Again 's | Leave 's | Fault | Stuck

definition sftp_round ::
  "'w sys \<Rightarrow> 't handle_lib \<Rightarrow> ('w \<Rightarrow> bool) \<Rightarrow> sftp_context \<Rightarrow> ('w, 't) sftp_thread
   \<Rightarrow> ('w, 't) sftp_thread round" where
  "sftp_round sys lib running cx st =
     (if \<not> running (st_world st) then Leave st
      else (let (available, w) = ssh_poll sys (st_world st); st = st\<lparr>st_world := w\<rparr>
            in if available = - 1 then Leave st
            else if available = 0 then
              (if \<not> ssh_channel_open sys (st_world st) \<or> ssh_channel_eof sys (st_world st) then Leave st
               else Again st)
            else (let (received, w) = ssh_message sys (st_world st); st = st\<lparr>st_world := w\<rparr>
                  in case received of
                       None \<Rightarrow> Leave st
                     | Some msg \<Rightarrow>
                         (case do_request sys lib cx msg st of
                            Done st \<Rightarrow> Again st | Undefined \<Rightarrow> Fault | Hangs \<Rightarrow> Stuck))))"

partial_function (option) process_sftp ::
  "'w sys \<Rightarrow> 't handle_lib \<Rightarrow> ('w \<Rightarrow> bool) \<Rightarrow> sftp_context \<Rightarrow> ('w, 't) sftp_thread
   \<Rightarrow> ('w, 't) sftp_thread outcome option" where
  "process_sftp sys lib running cx st =
     (case sftp_round sys lib running cx st of
        Again st1 \<Rightarrow> process_sftp sys lib running cx st1
      | Leave st1 \<Rightarrow> Some (Done st1)
      | Fault \<Rightarrow> Some Undefined
      | Stuck \<Rightarrow> None)"

end
