(* ===== verification/SftpConduct.thy ===== *)
theory SftpConduct
  imports SftpHandlers
begin

unbundle bit_operations_syntax

text \<open>
  What every SFTP handler does to each part of the state: a contract per part (replies, activity,
  objects, world), proved for every handler and lifted to \<open>do_request\<close> and to the session loop.
\<close>

subsection \<open>The parts of the state after the small operations\<close>

lemma send_reply_parts [simp]:
  "st_table (snd (send_reply sys msg r st)) = st_table st"
  "st_heap (snd (send_reply sys msg r st)) = st_heap st"
  "st_fresh (snd (send_reply sys msg r st)) = st_fresh st"
  "st_activity (snd (send_reply sys msg r st)) = st_activity st"
  "st_replies (snd (send_reply sys msg r st)) = st_replies st @ [(mg_id msg, r)]"
  "st_world (snd (send_reply sys msg r st)) = snd (ssh_reply sys (mg_id msg) r (st_world st))"
  by (simp_all add: send_reply_def split_beta)

lemma send_reply_ok [simp]:
  "fst (send_reply sys msg r st) = fst (ssh_reply sys (mg_id msg) r (st_world st))"
  by (simp add: send_reply_def split_beta)

lemma status_parts [simp]:
  "st_table (status sys msg code st) = st_table st"
  "st_heap (status sys msg code st) = st_heap st"
  "st_fresh (status sys msg code st) = st_fresh st"
  "st_activity (status sys msg code st) = st_activity st"
  "st_replies (status sys msg code st) = st_replies st @ [(mg_id msg, Reply_status code None)]"
  "st_world (status sys msg code st) = snd (ssh_reply sys (mg_id msg) (Reply_status code None) (st_world st))"
  by (simp_all add: status_def)

lemma log_activity_parts [simp]:
  "st_table (log_activity cx op path result st) = st_table st"
  "st_heap (log_activity cx op path result st) = st_heap st"
  "st_fresh (log_activity cx op path result st) = st_fresh st"
  "st_activity (log_activity cx op path result st) = st_activity st @
     [\<lparr>sa_user = cx_username cx, sa_operation = op, sa_path = path, sa_result = result\<rparr>]"
  "st_replies (log_activity cx op path result st) = st_replies st"
  "st_world (log_activity cx op path result st) = st_world st"
  by (simp_all add: log_activity_def)

lemma object_parts [simp]:
  "fst (new_object d st) = st_fresh st"
  "st_table (snd (new_object d st)) = st_table st"
  "st_heap (snd (new_object d st)) = (st_heap st)(st_fresh st \<mapsto> d)"
  "st_fresh (snd (new_object d st)) = Suc (st_fresh st)"
  "st_activity (snd (new_object d st)) = st_activity st"
  "st_replies (snd (new_object d st)) = st_replies st"
  "st_world (snd (new_object d st)) = st_world st"
  "st_table (delete_object a st) = st_table st"
  "st_heap (delete_object a st) = (st_heap st)(a := None)"
  "st_fresh (delete_object a st) = st_fresh st"
  "st_activity (delete_object a st) = st_activity st"
  "st_replies (delete_object a st) = st_replies st"
  "st_world (delete_object a st) = st_world st"
  by (simp_all add: new_object_def delete_object_def)

lemma handle_parts [simp]:
  "fst (alloc_handle lib a st) = fst (ht_alloc lib a (st_table st))"
  "st_table (snd (alloc_handle lib a st)) = snd (ht_alloc lib a (st_table st))"
  "st_heap (snd (alloc_handle lib a st)) = st_heap st"
  "st_fresh (snd (alloc_handle lib a st)) = st_fresh st"
  "st_activity (snd (alloc_handle lib a st)) = st_activity st"
  "st_replies (snd (alloc_handle lib a st)) = st_replies st"
  "st_world (snd (alloc_handle lib a st)) = st_world st"
  "st_table (remove_handle lib p st) = ht_remove lib p (st_table st)"
  "st_heap (remove_handle lib p st) = st_heap st"
  "st_fresh (remove_handle lib p st) = st_fresh st"
  "st_activity (remove_handle lib p st) = st_activity st"
  "st_replies (remove_handle lib p st) = st_replies st"
  "st_world (remove_handle lib p st) = st_world st"
  by (simp_all add: alloc_handle_def remove_handle_def split_beta)

lemma stream_parts [simp]:
  "st_table (close_file sys fp st) = st_table st"
  "st_heap (close_file sys fp st) = st_heap st"
  "st_fresh (close_file sys fp st) = st_fresh st"
  "st_activity (close_file sys fp st) = st_activity st"
  "st_replies (close_file sys fp st) = st_replies st"
  "st_table (close_dir sys dir st) = st_table st"
  "st_heap (close_dir sys dir st) = st_heap st"
  "st_fresh (close_dir sys dir st) = st_fresh st"
  "st_activity (close_dir sys dir st) = st_activity st"
  "st_replies (close_dir sys dir st) = st_replies st"
  "st_table (on_world f st) = st_table st"
  "st_heap (on_world f st) = st_heap st"
  "st_fresh (on_world f st) = st_fresh st"
  "st_activity (on_world f st) = st_activity st"
  "st_replies (on_world f st) = st_replies st"
  "st_world (on_world f st) = f (st_world st)"
  by (simp_all add: close_file_def close_dir_def on_world_def split: option.split)

lemma close_world [simp]:
  "st_world (close_file sys (Some f) st) = c_fclose sys f (st_world st)"
  "close_file sys None st = st"
  "st_world (close_dir sys (Some d) st) = c_closedir sys d (st_world st)"
  "close_dir sys None st = st"
  by (simp_all add: close_file_def close_dir_def on_world_def)

lemma resolve_in_world: "st_world st = st_world st' \<Longrightarrow> resolve_in sys cx p e st = resolve_in sys cx p e st'"
  by (simp add: resolve_in_def)

lemmas handler_defs = sftp_do_open_def sftp_do_close_def sftp_do_read_def sftp_do_write_def
  sftp_do_opendir_def sftp_do_readdir_def sftp_do_stat_def sftp_do_fstat_def sftp_do_setstat_def
  sftp_do_fsetstat_def sftp_do_mkdir_def sftp_do_rmdir_def sftp_do_remove_def sftp_do_rename_def
  sftp_do_realpath_def

subsection \<open>Replies\<close>

text \<open>A request is answered by one reply, which a failure status follows when it could not be sent;
  all carry the number of the request.\<close>

definition answered :: "sftp_message \<Rightarrow> (32 word \<times> reply) list \<Rightarrow> (32 word \<times> reply) list \<Rightarrow> bool" where
  "answered msg before after \<longleftrightarrow>
     (\<exists>r rest. after = before @ (mg_id msg, r) # rest
        \<and> (rest = [] \<or> rest = [(mg_id msg, Reply_status FX_FAILURE None)]))"

lemma answered_one [simp]: "answered msg before (before @ [(mg_id msg, r)])"
  by (auto simp: answered_def)

lemma answered_two [simp]:
  "answered msg before (before @ [(mg_id msg, r), (mg_id msg, Reply_status FX_FAILURE None)])"
  by (auto simp: answered_def)

lemma request_answered:
  "do_request sys lib cx msg st = Done st' \<Longrightarrow> answered msg (st_replies st) (st_replies st')"
  by (cases "mg_type msg")
    (auto simp: do_request.simps handler_defs Let_def split_beta
      split: if_splits option.splits handle_data.splits)

definition replies_succeed :: "'w sys \<Rightarrow> bool" where
  "replies_succeed sys \<longleftrightarrow> (\<forall>i r w. fst (ssh_reply sys i r w))"

lemma request_answered_once:
  "replies_succeed sys \<Longrightarrow> do_request sys lib cx msg st = Done st' \<Longrightarrow>
     \<exists>r. st_replies st' = st_replies st @ [(mg_id msg, r)]"
  by (cases "mg_type msg")
    (auto simp: do_request.simps handler_defs Let_def split_beta replies_succeed_def
      split: if_splits option.splits handle_data.splits)

subsection \<open>The activity log\<close>

lemma request_logged:
  "do_request sys lib cx msg st = Done st' \<Longrightarrow>
     \<exists>new. st_activity st' = st_activity st @ new \<and> length new \<le> 1
       \<and> list_all (\<lambda>a. sa_user a = cx_username cx) new"
  by (cases "mg_type msg")
    (auto simp: do_request.simps handler_defs Let_def split_beta
      split: if_splits option.splits handle_data.splits)

subsection \<open>Objects\<close>

fun has_stream :: "handle_data \<Rightarrow> bool" where
  "has_stream (FileData fp path) = (fp \<noteq> None)"
| "has_stream (DirData dir path) = (dir \<noteq> None)"

definition objects_ok :: "('w, 't) sftp_thread \<Rightarrow> bool" where
  "objects_ok st \<longleftrightarrow> (\<forall>a d. st_heap st a = Some d \<longrightarrow> a < st_fresh st \<and> has_stream d)"

lemma objects_ok_world [simp]: "objects_ok (st\<lparr>st_world := w\<rparr>) = objects_ok st"
  by (simp add: objects_ok_def)

lemma request_objects:
  "do_request sys lib cx msg st = Done st' \<Longrightarrow> objects_ok st \<Longrightarrow> objects_ok st'"
  by (cases "mg_type msg")
    (auto simp: do_request.simps handler_defs Let_def split_beta objects_ok_def less_Suc_eq
      split: if_splits option.splits handle_data.splits)

subsection \<open>Calls of the system\<close>

text \<open>
  The calls by which a handler may change the world. Those that name a path or write to a stream
  are accesses, which a predicate \<open>ok\<close> allows or not; the others (replies, polling and receiving,
  reading, positioning, flushing and closing of streams) are always possible.
\<close>

datatype access = Open_file string string | Open_dir string | Make_dir string | Remove_dir string
  | Remove_file string | Rename_file string string | Write_stream

inductive sys_call :: "'w sys \<Rightarrow> (access \<Rightarrow> bool) \<Rightarrow> 'w \<Rightarrow> 'w \<Rightarrow> bool" for sys ok where
  call_reply: "sys_call sys ok w (snd (ssh_reply sys i r w))"
| call_fclose: "sys_call sys ok w (c_fclose sys f w)"
| call_fseek: "sys_call sys ok w (snd (c_fseek sys f n w))"
| call_fread: "sys_call sys ok w (snd (c_fread sys f k w))"
| call_fflush: "sys_call sys ok w (c_fflush sys f w)"
| call_readdir: "sys_call sys ok w (snd (c_readdir sys f w))"
| call_closedir: "sys_call sys ok w (c_closedir sys f w)"
| call_poll: "sys_call sys ok w (snd (ssh_poll sys w))"
| call_message: "sys_call sys ok w (snd (ssh_message sys w))"
| call_fopen: "ok (Open_file p m) \<Longrightarrow> sys_call sys ok w (snd (c_fopen sys p m w))"
| call_opendir: "ok (Open_dir p) \<Longrightarrow> sys_call sys ok w (snd (c_opendir sys p w))"
| call_mkdir: "ok (Make_dir p) \<Longrightarrow> sys_call sys ok w (snd (c_mkdir sys p mo w))"
| call_rmdir: "ok (Remove_dir p) \<Longrightarrow> sys_call sys ok w (snd (c_rmdir sys p w))"
| call_unlink: "ok (Remove_file p) \<Longrightarrow> sys_call sys ok w (snd (c_unlink sys p w))"
| call_rename: "ok (Rename_file p q) \<Longrightarrow> sys_call sys ok w (snd (c_rename sys p q w))"
| call_fwrite: "ok Write_stream \<Longrightarrow> sys_call sys ok w (snd (c_fwrite sys f d w))"

abbreviation sys_calls :: "'w sys \<Rightarrow> (access \<Rightarrow> bool) \<Rightarrow> 'w \<Rightarrow> 'w \<Rightarrow> bool" where
  "sys_calls sys ok \<equiv> (sys_call sys ok)\<^sup>*\<^sup>*"

lemma sys_calls_intros:
  "sys_calls sys ok w w"
  "sys_calls sys ok w w1 \<Longrightarrow> sys_calls sys ok w (snd (ssh_reply sys i r w1))"
  "sys_calls sys ok w w1 \<Longrightarrow> sys_calls sys ok w (c_fclose sys f w1)"
  "sys_calls sys ok w w1 \<Longrightarrow> sys_calls sys ok w (snd (c_fseek sys f n w1))"
  "sys_calls sys ok w w1 \<Longrightarrow> sys_calls sys ok w (snd (c_fread sys f k w1))"
  "sys_calls sys ok w w1 \<Longrightarrow> sys_calls sys ok w (c_fflush sys f w1)"
  "sys_calls sys ok w w1 \<Longrightarrow> sys_calls sys ok w (snd (c_readdir sys f w1))"
  "sys_calls sys ok w w1 \<Longrightarrow> sys_calls sys ok w (c_closedir sys f w1)"
  "sys_calls sys ok w w1 \<Longrightarrow> sys_calls sys ok w (snd (ssh_poll sys w1))"
  "sys_calls sys ok w w1 \<Longrightarrow> sys_calls sys ok w (snd (ssh_message sys w1))"
  "ok (Open_file p m) \<Longrightarrow> sys_calls sys ok w w1 \<Longrightarrow> sys_calls sys ok w (snd (c_fopen sys p m w1))"
  "ok (Open_dir p) \<Longrightarrow> sys_calls sys ok w w1 \<Longrightarrow> sys_calls sys ok w (snd (c_opendir sys p w1))"
  "ok (Make_dir p) \<Longrightarrow> sys_calls sys ok w w1 \<Longrightarrow> sys_calls sys ok w (snd (c_mkdir sys p mo w1))"
  "ok (Remove_dir p) \<Longrightarrow> sys_calls sys ok w w1 \<Longrightarrow> sys_calls sys ok w (snd (c_rmdir sys p w1))"
  "ok (Remove_file p) \<Longrightarrow> sys_calls sys ok w w1 \<Longrightarrow> sys_calls sys ok w (snd (c_unlink sys p w1))"
  "ok (Rename_file p q) \<Longrightarrow> sys_calls sys ok w w1 \<Longrightarrow> sys_calls sys ok w (snd (c_rename sys p q w1))"
  "ok Write_stream \<Longrightarrow> sys_calls sys ok w w1 \<Longrightarrow> sys_calls sys ok w (snd (c_fwrite sys f d w1))"
  by (auto intro: rtranclp.rtrancl_into_rtrancl sys_call.intros)

lemma sys_calls_close:
  "sys_calls sys ok w (st_world st) \<Longrightarrow> sys_calls sys ok w (st_world (close_file sys fp st))"
  "sys_calls sys ok w (st_world st) \<Longrightarrow> sys_calls sys ok w (st_world (close_dir sys dir st))"
  by (auto simp: close_file_def close_dir_def intro: sys_calls_intros split: option.split)

lemma sys_calls_invariant:
  assumes "sys_calls sys ok w w'" "P w" "\<And>u v. sys_call sys ok u v \<Longrightarrow> P u \<Longrightarrow> P v"
  shows "P w'"
  using assms by (induction rule: rtranclp_induct) blast+

lemma next_entry_calls:
  assumes "next_entry sys d w = Some r"
  shows "sys_calls sys ok w (snd r) \<and> fst r \<noteq> Some ''.'' \<and> fst r \<noteq> Some ''..''"
proof (rule next_entry.raw_induct [where P =
      "\<lambda>sys d w r. sys_calls sys ok w (snd r) \<and> fst r \<noteq> Some ''.'' \<and> fst r \<noteq> Some ''..''", OF _ assms])
  fix f sys d w r
  assume IH: "\<And>sys d w r. f sys d w = Some r \<Longrightarrow>
      sys_calls sys ok w (snd r) \<and> fst r \<noteq> Some ''.'' \<and> fst r \<noteq> Some ''..''"
    and eq: "(let r = c_readdir sys d w in if fst r = Some ''.'' \<or> fst r = Some ''..''
        then f sys d (snd r) else Some r) = Some r"
  have "sys_calls sys ok w (snd (c_readdir sys d w))"
    by (intro sys_calls_intros)
  with eq show "sys_calls sys ok w (snd r) \<and> fst r \<noteq> Some ''.'' \<and> fst r \<noteq> Some ''..''"
    by (auto simp: Let_def split: if_splits dest!: IH)
qed

lemma next_entry_world: "next_entry sys d w = Some (name, w') \<Longrightarrow> sys_calls sys ok w w'"
  using next_entry_calls [of sys d w "(name, w')" ok] by simp

text \<open>What a user may do: a path must be what \<open>resolve_path\<close> made of some request for this user's
  root; changes need the write permission and directories are opened with the read permission. A
  file is opened for reading (\<open>rb\<close>) whatever the permissions are.\<close>

definition resolved_for :: "'w sys \<Rightarrow> sftp_context \<Rightarrow> string \<Rightarrow> bool" where
  "resolved_for sys cx p \<longleftrightarrow> p \<noteq> []
     \<and> (\<exists>path must_exist w. resolve_path (\<lambda>q. c_realpath sys q w) (cx_root cx) path must_exist = p)"

fun permitted :: "'w sys \<Rightarrow> sftp_context \<Rightarrow> access \<Rightarrow> bool" where
  "permitted sys cx (Open_file p m) = (resolved_for sys cx p \<and> (m = ''rb'' \<or> can_write (cx_perm cx)))"
| "permitted sys cx (Open_dir p) = (resolved_for sys cx p \<and> can_read (cx_perm cx))"
| "permitted sys cx (Make_dir p) = (resolved_for sys cx p \<and> can_write (cx_perm cx))"
| "permitted sys cx (Remove_dir p) = (resolved_for sys cx p \<and> can_write (cx_perm cx))"
| "permitted sys cx (Remove_file p) = (resolved_for sys cx p \<and> can_write (cx_perm cx))"
| "permitted sys cx (Rename_file p q) =
     (resolved_for sys cx p \<and> resolved_for sys cx q \<and> can_write (cx_perm cx))"
| "permitted sys cx Write_stream = can_write (cx_perm cx)"

lemma resolved_for_resolve_in:
  "resolve_in sys cx path must_exist st \<noteq> [] \<Longrightarrow> resolved_for sys cx (resolve_in sys cx path must_exist st)"
  by (auto simp: resolved_for_def resolve_in_def)

lemma open_mode_writes:
  "fst (sftp_flags_to_mode flags) \<noteq> ''rb'' \<Longrightarrow> flags AND (FXF_WRITE OR FXF_CREAT OR FXF_TRUNC) \<noteq> 0"
proof -
  have "flags AND FXF_WRITE \<noteq> 0" if "fst (sftp_flags_to_mode flags) \<noteq> ''rb''"
  proof
    assume "flags AND FXF_WRITE = 0"
    then have "flags AND (FXF_READ OR FXF_WRITE) = flags AND FXF_READ"
      by (simp add: bit.conj_disj_distrib)
    moreover have "flags AND FXF_READ = 0 \<or> flags AND FXF_READ = FXF_READ"
      by (simp add: FXF_READ_def and_one_eq mod_2_eq_odd)
    ultimately show False
      using that by (auto simp: sftp_flags_to_mode_def Let_def flag_defs)
  qed
  moreover have "flags AND FXF_WRITE = (flags AND (FXF_WRITE OR FXF_CREAT OR FXF_TRUNC)) AND FXF_WRITE"
    by (simp add: flag_defs and.assoc)
  ultimately show "fst (sftp_flags_to_mode flags) \<noteq> ''rb'' \<Longrightarrow> flags AND (FXF_WRITE OR FXF_CREAT OR FXF_TRUNC) \<noteq> 0"
    by (metis and_zero_eq bit.conj_zero_left)
qed

lemma open_mode_reads:
  "flags AND (FXF_WRITE OR FXF_CREAT OR FXF_TRUNC) = 0 \<Longrightarrow> fst (sftp_flags_to_mode flags) = ''rb''"
  using open_mode_writes by blast

lemma request_calls:
  "do_request sys lib cx msg st = Done st' \<Longrightarrow>
     sys_calls sys (permitted sys cx) (st_world st) (st_world st')"
  by (cases "mg_type msg")
    (auto simp: do_request.simps handler_defs Let_def split_beta resolved_for_resolve_in open_mode_reads
      split: if_splits option.splits handle_data.splits
      intro!: sys_calls_intros sys_calls_close dest: next_entry_world)

subsection \<open>Whole sessions\<close>

text \<open>A relation between states that every request satisfies, and every change of the world by the
  loop itself, holds over a round and over a session.\<close>

locale session_relation =
  fixes R :: "('w, 't) sftp_thread \<Rightarrow> ('w, 't) sftp_thread \<Rightarrow> bool"
    and sys :: "'w sys" and lib :: "'t handle_lib" and cx :: sftp_context
  assumes same: "R st st"
    and chain: "R a b \<Longrightarrow> R b c \<Longrightarrow> R a c"
    and poll: "R st (st\<lparr>st_world := snd (ssh_poll sys (st_world st))\<rparr>)"
    and receive: "R st (st\<lparr>st_world := snd (ssh_message sys (st_world st))\<rparr>)"
    and request: "do_request sys lib cx msg st = Done st' \<Longrightarrow> R st st'"
begin

lemma round:
  assumes "sftp_round sys lib running cx st = Again st' \<or> sftp_round sys lib running cx st = Leave st'"
  shows "R st st'"
proof -
  define st1 where "st1 = st\<lparr>st_world := snd (ssh_poll sys (st_world st))\<rparr>"
  define st2 where "st2 = st1\<lparr>st_world := snd (ssh_message sys (st_world st1))\<rparr>"
  have r1: "R st st1" and r2: "R st st2"
    using poll [of st] chain [OF poll receive, of st] by (simp_all add: st1_def st2_def)
  from assms have "st' = st \<or> st' = st1 \<or> st' = st2 \<or> (\<exists>msg. do_request sys lib cx msg st2 = Done st')"
    unfolding st2_def st1_def sftp_round_def
    by (auto simp: Let_def split_beta split: if_splits option.splits outcome.splits)
  with same r1 r2 chain [OF r2 request] show ?thesis by blast
qed

lemma session:
  assumes "process_sftp sys lib running cx st = Some (Done st')"
  shows "R st st'"
proof -
  define P where "P = (\<lambda>sys' lib' (running' :: 'w \<Rightarrow> bool) cx' st r.
    sys' = sys \<longrightarrow> lib' = lib \<longrightarrow> cx' = cx \<longrightarrow> (\<forall>st'. r = Done st' \<longrightarrow> R st st'))"
  have "P sys lib running cx st (Done st')"
  proof (rule process_sftp.raw_induct [where P = P, OF _ assms])
    fix loop sys' lib' running' cx' st r
    assume IH: "\<And>sys' lib' running' cx' st r. loop sys' lib' running' cx' st = Some r \<Longrightarrow> P sys' lib' running' cx' st r"
      and eq: "(case sftp_round sys' lib' running' cx' st of
          Again st1 \<Rightarrow> loop sys' lib' running' cx' st1 | Leave st1 \<Rightarrow> Some (Done st1)
        | Fault \<Rightarrow> Some Undefined | Stuck \<Rightarrow> None) = Some r"
    show "P sys' lib' running' cx' st r"
      unfolding P_def
    proof (intro impI allI)
      fix st'
      assume here: "sys' = sys" "lib' = lib" "cx' = cx" "r = Done st'"
      show "R st st'"
      proof (cases "sftp_round sys lib running' cx st")
        case (Again st1)
        with eq here have "loop sys lib running' cx st1 = Some (Done st')"
          by simp
        from IH [OF this] have "R st1 st'"
          by (simp add: P_def)
        with round Again show ?thesis
          by (blast intro: chain)
      qed (use eq here round in \<open>auto simp: P_def\<close>)
    qed
  qed
  then show ?thesis by (simp add: P_def)
qed

end

text \<open>The three contracts of whole sessions.\<close>

definition logs_as :: "sftp_context \<Rightarrow> ('w, 't) sftp_thread \<Rightarrow> ('w, 't) sftp_thread \<Rightarrow> bool" where
  "logs_as cx st st' \<longleftrightarrow>
     (\<exists>new. st_activity st' = st_activity st @ new \<and> list_all (\<lambda>a. sa_user a = cx_username cx) new)"

definition calls_permitted ::
  "'w sys \<Rightarrow> sftp_context \<Rightarrow> ('w, 't) sftp_thread \<Rightarrow> ('w, 't) sftp_thread \<Rightarrow> bool" where
  "calls_permitted sys cx st st' \<longleftrightarrow> sys_calls sys (permitted sys cx) (st_world st) (st_world st')"

definition keeps_objects :: "('w, 't) sftp_thread \<Rightarrow> ('w, 't) sftp_thread \<Rightarrow> bool" where
  "keeps_objects st st' \<longleftrightarrow> (objects_ok st \<longrightarrow> objects_ok st')"

lemma logs_as_trans: "logs_as cx a b \<Longrightarrow> logs_as cx b c \<Longrightarrow> logs_as cx a c"
  by (force simp: logs_as_def)

interpretation log_session: session_relation "logs_as cx" sys lib cx for cx sys lib
proof unfold_locales
  fix msg and st st' :: "('a, 'b) sftp_thread"
  assume "do_request sys lib cx msg st = Done st'"
  from request_logged [OF this] show "logs_as cx st st'"
    by (auto simp: logs_as_def)
qed (auto simp: logs_as_def intro: logs_as_trans [unfolded logs_as_def])

interpretation call_session: session_relation "calls_permitted sys cx" sys lib cx for sys cx lib
  by unfold_locales
    (auto simp: calls_permitted_def intro: sys_calls_intros request_calls rtranclp_trans)

interpretation object_session: session_relation keeps_objects sys lib cx for sys lib cx
proof unfold_locales
  fix msg and st st' :: "('a, 'b) sftp_thread"
  assume "do_request sys lib cx msg st = Done st'"
  from request_objects [OF this] show "keeps_objects st st'"
    by (simp add: keeps_objects_def)
qed (simp_all add: keeps_objects_def)

end
