(* ===== verification/MemorySftp.thy ===== *)
theory MemorySftp
  imports SftpData
begin

text \<open>
  A concrete file system, SSH channel and handle table, to evaluate the SFTP model on. They are not
  part of the model of the program; they instantiate its parameters in the witnesses. Files are
  regular files named by their paths; a path is canonical when it names a file or one of the
  directories; a stream is a path and a position. The channel holds the requests still to be
  delivered, and every poll finds it readable as long as there is one; it is at its end afterwards.
  The table follows libssh: 256 slots, a handle is the number of its slot in four bytes, and
  \<open>ht_remove\<close> clears the slot that holds the pointer it is given.
\<close>

record mem_ftp =
  mf_files :: "(string \<times> string) list"
  mf_dirs :: "string list"
  mf_streams :: "(nat \<times> string \<times> nat) list"
  mf_next :: nat
  mf_requests :: "sftp_message list"

definition mem_ftp0 :: mem_ftp where
  "mem_ftp0 = \<lparr>mf_files = [], mf_dirs = [''/t''], mf_streams = [], mf_next = 3, mf_requests = []\<rparr>"

definition put_file :: "string \<Rightarrow> string \<Rightarrow> mem_ftp \<Rightarrow> mem_ftp" where
  "put_file p c w = w\<lparr>mf_files := (p, c) # filter (\<lambda>f. fst f \<noteq> p) (mf_files w)\<rparr>"

definition put_stream :: "nat \<Rightarrow> string \<Rightarrow> nat \<Rightarrow> mem_ftp \<Rightarrow> mem_ftp" where
  "put_stream f p n w = w\<lparr>mf_streams := (f, p, n) # filter (\<lambda>s. fst s \<noteq> f) (mf_streams w)\<rparr>"

definition stream_path :: "nat \<Rightarrow> mem_ftp \<Rightarrow> string" where
  "stream_path f w = (case map_of (mf_streams w) f of Some (p, n) \<Rightarrow> p | None \<Rightarrow> [])"

definition stream_pos :: "nat \<Rightarrow> mem_ftp \<Rightarrow> nat" where
  "stream_pos f w = (case map_of (mf_streams w) f of Some (p, n) \<Rightarrow> n | None \<Rightarrow> 0)"

definition stream_text :: "nat \<Rightarrow> mem_ftp \<Rightarrow> string" where
  "stream_text f w = (case map_of (mf_files w) (stream_path f w) of Some c \<Rightarrow> c | None \<Rightarrow> [])"

text \<open>A file with \<open>d\<close> written at position \<open>n\<close>; the gap behind a short file is filled with NULs.\<close>

definition overwrite :: "string \<Rightarrow> nat \<Rightarrow> string \<Rightarrow> string" where
  "overwrite c n d = take n (c @ replicate (n - length c) (CHR 0x00)) @ d @ drop (n + length d) c"

definition mem_fopen :: "string \<Rightarrow> string \<Rightarrow> mem_ftp \<Rightarrow> nat option \<times> mem_ftp" where
  "mem_fopen p mode w =
     (let w = (if hd mode = CHR ''w'' \<or> hd mode = CHR ''a'' \<and> map_of (mf_files w) p = None
               then put_file p [] w else w)
      in if map_of (mf_files w) p = None then (None, w)
         else (Some (mf_next w), put_stream (mf_next w) p 0 (w\<lparr>mf_next := Suc (mf_next w)\<rparr>)))"

definition mem_realpath :: "string \<Rightarrow> mem_ftp \<Rightarrow> string option" where
  "mem_realpath p w =
     (if p \<in> fst ` set (mf_files w) \<or> p \<in> set (mf_dirs w) then Some p
      else if p \<noteq> [] \<and> last p = CHR ''/'' \<and> butlast p \<in> set (mf_dirs w) then Some (butlast p)
      else None)"

definition mem_stat :: "string \<Rightarrow> mem_ftp \<Rightarrow> file_info option" where
  "mem_stat p w = map_option
     (\<lambda>c. \<lparr>fi_mode = 0x81A4, fi_size = word_of_nat (length c), fi_mtime = 0, fi_atime = 0\<rparr>)
     (map_of (mf_files w) p)"

definition mem_fread :: "nat \<Rightarrow> nat \<Rightarrow> mem_ftp \<Rightarrow> string \<times> mem_ftp" where
  "mem_fread f k w =
     (let d = take k (drop (stream_pos f w) (stream_text f w))
      in (d, put_stream f (stream_path f w) (stream_pos f w + length d) w))"

definition mem_fwrite :: "nat \<Rightarrow> string \<Rightarrow> mem_ftp \<Rightarrow> nat \<times> mem_ftp" where
  "mem_fwrite f d w =
     (length d,
      put_file (stream_path f w) (overwrite (stream_text f w) (stream_pos f w) d)
        (put_stream f (stream_path f w) (stream_pos f w + length d) w))"

definition mem_opendir :: "string \<Rightarrow> mem_ftp \<Rightarrow> nat option \<times> mem_ftp" where
  "mem_opendir p w =
     (if p \<in> set (mf_dirs w) then (Some (mf_next w), w\<lparr>mf_next := Suc (mf_next w)\<rparr>) else (None, w))"

definition mem_makedir :: "string \<Rightarrow> mem_ftp \<Rightarrow> int \<times> mem_ftp" where
  "mem_makedir p w = (if p \<in> set (mf_dirs w) then (- 1, w) else (0, w\<lparr>mf_dirs := p # mf_dirs w\<rparr>))"

definition mem_removedir :: "string \<Rightarrow> mem_ftp \<Rightarrow> int \<times> mem_ftp" where
  "mem_removedir p w =
     (if p \<in> set (mf_dirs w) then (0, w\<lparr>mf_dirs := filter (\<lambda>d. d \<noteq> p) (mf_dirs w)\<rparr>) else (- 1, w))"

definition mem_remove :: "string \<Rightarrow> mem_ftp \<Rightarrow> int \<times> mem_ftp" where
  "mem_remove p w =
     (if p \<in> fst ` set (mf_files w) then (0, w\<lparr>mf_files := filter (\<lambda>f. fst f \<noteq> p) (mf_files w)\<rparr>)
      else (- 1, w))"

definition mem_rename :: "string \<Rightarrow> string \<Rightarrow> mem_ftp \<Rightarrow> int \<times> mem_ftp" where
  "mem_rename p q w =
     (case map_of (mf_files w) p of
        None \<Rightarrow> (- 1, w)
      | Some c \<Rightarrow> (0, put_file q c (w\<lparr>mf_files := filter (\<lambda>f. fst f \<noteq> p) (mf_files w)\<rparr>)))"

definition mem_message :: "mem_ftp \<Rightarrow> sftp_message option \<times> mem_ftp" where
  "mem_message w = (case mf_requests w of [] \<Rightarrow> (None, w) | m # ms \<Rightarrow> (Some m, w\<lparr>mf_requests := ms\<rparr>))"

definition mem_sys :: "mem_ftp sys" where
  "mem_sys = \<lparr>
     c_realpath = mem_realpath, c_stat = mem_stat, c_calloc = (\<lambda>w. True), c_fopen = mem_fopen,
     c_fclose = (\<lambda>f w. w\<lparr>mf_streams := filter (\<lambda>s. fst s \<noteq> f) (mf_streams w)\<rparr>),
     c_fseek = (\<lambda>f n w. if n < 0 then (- 1, w) else (0, put_stream f (stream_path f w) (nat n) w)),
     c_fread = mem_fread, c_fwrite = mem_fwrite, c_fflush = (\<lambda>f w. w),
     c_opendir = mem_opendir, c_readdir = (\<lambda>d w. (None, w)), c_closedir = (\<lambda>d w. w),
     c_mkdir = (\<lambda>p m w. mem_makedir p w), c_rmdir = mem_removedir, c_unlink = mem_remove,
     c_rename = mem_rename, ssh_reply = (\<lambda>i r w. (True, w)),
     ssh_poll = (\<lambda>w. (if mf_requests w = [] then 0 else 1, w)),
     ssh_channel_open = (\<lambda>w. True), ssh_channel_eof = (\<lambda>w. mf_requests w = []),
     ssh_message = mem_message\<rparr>"

lemma mem_sys_calls [simp]:
  "c_realpath mem_sys = mem_realpath" "c_stat mem_sys = mem_stat" "c_calloc mem_sys w = True"
  "c_fopen mem_sys = mem_fopen"
  "c_fclose mem_sys f w = w\<lparr>mf_streams := filter (\<lambda>s. fst s \<noteq> f) (mf_streams w)\<rparr>"
  "c_fseek mem_sys f n w = (if n < 0 then (- 1, w) else (0, put_stream f (stream_path f w) (nat n) w))"
  "c_fread mem_sys = mem_fread" "c_fwrite mem_sys = mem_fwrite" "c_fflush mem_sys f w = w"
  "c_opendir mem_sys = mem_opendir" "c_readdir mem_sys d w = (None, w)" "c_closedir mem_sys d w = w"
  "c_mkdir mem_sys p m w = mem_makedir p w" "c_rmdir mem_sys = mem_removedir" "c_unlink mem_sys = mem_remove"
  "c_rename mem_sys = mem_rename" "ssh_reply mem_sys i r w = (True, w)"
  "ssh_poll mem_sys w = (if mf_requests w = [] then 0 else 1, w)"
  "ssh_channel_open mem_sys w = True" "ssh_channel_eof mem_sys w = (mf_requests w = [])"
  "ssh_message mem_sys = mem_message"
  by (simp_all add: mem_sys_def)

lemmas mem_sys_defs = mem_realpath_def mem_stat_def mem_fopen_def mem_fread_def mem_fwrite_def
  mem_opendir_def mem_makedir_def mem_removedir_def mem_remove_def mem_rename_def mem_message_def
  put_file_def put_stream_def mem_ftp0_def

lemma stream_put_stream [simp]:
  "stream_path f (put_stream f p n w) = p" "stream_pos f (put_stream f p n w) = n"
  "mf_files (put_stream f p n w) = mf_files w"
  by (simp_all add: stream_path_def stream_pos_def put_stream_def)

lemma stream_put_file [simp]:
  "stream_path f (put_file p c w) = stream_path f w" "stream_pos f (put_file p c w) = stream_pos f w"
  "map_of (mf_files (put_file p c w)) p = Some c"
  by (simp_all add: stream_path_def stream_pos_def put_file_def)

lemma stream_text_put [simp]:
  "stream_text f (put_stream f (stream_path f w) n w) = stream_text f w"
  "stream_text f (put_file (stream_path f w) c w) = c"
  by (simp_all add: stream_text_def)

subsection \<open>The handle table\<close>

definition slot_handle :: "nat \<Rightarrow> string" where
  "slot_handle i = [char_of i, CHR 0x00, CHR 0x00, CHR 0x00]"

fun free_slot :: "nat \<Rightarrow> nat option list \<Rightarrow> nat option" where
  "free_slot i [] = None"
| "free_slot i (s # ss) = (if s = None then Some i else free_slot (Suc i) ss)"

definition slot_lib :: "nat option list handle_lib" where
  "slot_lib = \<lparr>
     ht_alloc = (\<lambda>a t. case free_slot 0 t of Some i \<Rightarrow> (Some (slot_handle i), t[i := Some a]) | None \<Rightarrow> (None, t)),
     ht_lookup = (\<lambda>h t. if length h = 4 \<and> tl h = [CHR 0x00, CHR 0x00, CHR 0x00] \<and> of_char (hd h) < length t
                        then t ! of_char (hd h) else None),
     ht_remove = (\<lambda>p t. case p of Object a \<Rightarrow> map (\<lambda>s. if s = Some a then None else s) t
                        | Handle_string s \<Rightarrow> t)\<rparr>"

definition new_thread :: "nat \<Rightarrow> 'w \<Rightarrow> ('w, nat option list) sftp_thread" where
  "new_thread n w = \<lparr>st_table = replicate n None, st_heap = Map.empty, st_fresh = 0, st_activity = [],
     st_replies = [], st_world = w\<rparr>"

definition plain_message :: "fxp \<Rightarrow> sftp_message" where
  "plain_message t = \<lparr>mg_type = t, mg_id = 1, mg_filename = None, mg_flags = 0, mg_handle = slot_handle 0,
     mg_offset = 0, mg_len = 0, mg_data = [], mg_submessage = None, mg_str_data = None\<rparr>"

end
