(* ===== verification/SftpAccess.thy ===== *)
theory SftpAccess
  imports SftpConduct MemorySftp
begin

unbundle bit_operations_syntax

text \<open>
  Who may do what over SFTP: the system calls a session makes, what a user without permissions
  can and cannot do, and the replies and log entries of refused requests.
\<close>

lemma run_session:
  "sftp_round sys lib running cx st = Again st1 \<Longrightarrow>
     process_sftp sys lib running cx st = process_sftp sys lib running cx st1"
  "sftp_round sys lib running cx st = Leave st1 \<Longrightarrow> process_sftp sys lib running cx st = Some (Done st1)"
  by (subst process_sftp.simps, simp)+

lemma resolve_in_update [simp]:
  "resolve_in sys cx p e (st\<lparr>st_world := w\<rparr>) = resolve_path (\<lambda>q. c_realpath sys q w) (cx_root cx) p e"
  by (simp add: resolve_in_def)

subsection \<open>Calls of a session\<close>


definition demo_cx :: "sftp_permission \<Rightarrow> sftp_context" where
  "demo_cx p = \<lparr>cx_username = ''bob'', cx_root = ''/t'', cx_perm = p\<rparr>"

definition demo_world :: "sftp_message list \<Rightarrow> mem_ftp" where
  "demo_world msgs = mem_ftp0\<lparr>mf_files := [(''/t/a'', ''hello'')], mf_requests := msgs\<rparr>"

definition remove_a :: sftp_message where
  "remove_a = (plain_message FXP_REMOVE)\<lparr>mg_filename := Some ''a''\<rparr>"

lemmas demo_defs = demo_cx_def demo_world_def mem_sys_defs plain_message_def

lemmas resolve_path_code = resolve_path_def combined_path_def relative_client_path_def canonical_path_def
  normalize_separators_def has_case_insensitive_prefix_def split_dir_def base_name_def

lemmas small_step_defs = status_def send_reply_def log_activity_def new_object_def delete_object_def
  alloc_handle_def remove_handle_def close_file_def close_dir_def on_world_def resolve_in_def

definition after_remove :: "(mem_ftp, nat option list) sftp_thread" where
  "after_remove = (new_thread 4 (mem_ftp0\<lparr>mf_files := []\<rparr>))\<lparr>
     st_replies := [(1, Reply_status FX_OK None)],
     st_activity := [\<lparr>sa_user = ''bob'', sa_operation = ''REMOVE'', sa_path = ''a'', sa_result = ''OK''\<rparr>]\<rparr>"

lemma remove_a_round:
  "sftp_round mem_sys slot_lib (\<lambda>_. True) (demo_cx 2) (new_thread 4 (demo_world [remove_a])) = Again after_remove"
  by (simp add: sftp_round_def demo_defs new_thread_def after_remove_def remove_a_def
      do_request.simps sftp_do_remove_def small_step_defs resolve_path_code Let_def)

lemma remove_a_session:
  "process_sftp mem_sys slot_lib (\<lambda>_. True) (demo_cx 2) (new_thread 4 (demo_world [remove_a])) = Some (Done after_remove)"
proof -
  have "sftp_round mem_sys slot_lib (\<lambda>_. True) (demo_cx 2) after_remove = Leave after_remove"
    by (simp add: sftp_round_def after_remove_def mem_sys_defs new_thread_def)
  then show ?thesis
    by (simp add: run_session(1) [OF remove_a_round] run_session(2))
qed


text \<open>An aspect of the world that is not altered by receiving requests, replying, and opening for
  reading, reading, positioning and closing streams.\<close>

definition untouched_by_reading :: "'w sys \<Rightarrow> ('w \<Rightarrow> 'c) \<Rightarrow> bool" where
  "untouched_by_reading sys content \<longleftrightarrow>
     (\<forall>w i r p f n k.
        content (snd (ssh_reply sys i r w)) = content w
      \<and> content (snd (ssh_poll sys w)) = content w \<and> content (snd (ssh_message sys w)) = content w
      \<and> content (c_fclose sys f w) = content w \<and> content (snd (c_fseek sys f n w)) = content w
      \<and> content (snd (c_fread sys f k w)) = content w \<and> content (c_fflush sys f w) = content w
      \<and> content (snd (c_readdir sys f w)) = content w \<and> content (c_closedir sys f w) = content w
      \<and> content (snd (c_opendir sys p w)) = content w \<and> content (snd (c_fopen sys p ''rb'' w)) = content w)"

lemma read_only_call:
  assumes "untouched_by_reading sys content" "\<not> can_write (cx_perm cx)"
    "sys_call sys (permitted sys cx) u v"
  shows "content v = content u"
  using assms(3,1,2) by cases (simp_all add: untouched_by_reading_def)

text \<open>What a user without write permission can change: nothing. Take any aspect of the world
  that receiving requests, replying, and opening for reading, reading, positioning and closing
  streams do not alter, for example the files and their contents; no session of such a user
  alters it.\<close>

theorem sftp_read_only_session:
  assumes "untouched_by_reading sys content" and "\<not> can_write (cx_perm cx)"
    and "process_sftp sys lib running cx st = Some (Done st')"
  shows "content (st_world st') = content (st_world st)"
proof -
  have "calls_permitted sys cx st st'"
    by (rule call_session.session [OF assms(3)])
  then have "sys_calls sys (permitted sys cx) (st_world st) (st_world st')"
    by (simp add: calls_permitted_def)
  then show ?thesis
    by (rule sys_calls_invariant [where P = "\<lambda>w. content w = content (st_world st)"])
      (use read_only_call [OF assms(1,2)] in auto)
qed

lemma mem_untouched: "untouched_by_reading mem_sys mf_files"
  by (simp add: untouched_by_reading_def mem_sys_defs Let_def split: list.split)

definition after_denial :: "(mem_ftp, nat option list) sftp_thread" where
  "after_denial = (new_thread 4 (demo_world []))\<lparr>
     st_replies := [(1, Reply_status FX_PERMISSION_DENIED None)],
     st_activity := [\<lparr>sa_user = ''bob'', sa_operation = ''REMOVE'', sa_path = ''a'', sa_result = ''DENIED''\<rparr>]\<rparr>"

lemma remove_a_denied:
  "process_sftp mem_sys slot_lib (\<lambda>_. True) (demo_cx 1) (new_thread 4 (demo_world [remove_a])) = Some (Done after_denial)"
proof -
  have "sftp_round mem_sys slot_lib (\<lambda>_. True) (demo_cx 1) (new_thread 4 (demo_world [remove_a])) = Again after_denial"
    by (simp add: sftp_round_def demo_defs new_thread_def after_denial_def remove_a_def
        do_request.simps sftp_do_remove_def small_step_defs Let_def)
  moreover have "sftp_round mem_sys slot_lib (\<lambda>_. True) (demo_cx 1) after_denial = Leave after_denial"
    by (simp add: sftp_round_def after_denial_def demo_defs new_thread_def)
  ultimately show ?thesis
    by (simp add: run_session)
qed

theorem sftp_read_only_session_witness:
  "mf_files (st_world after_denial) = [(''/t/a'', ''hello'')]"
  using sftp_read_only_session [OF mem_untouched _ remove_a_denied]
  by (simp add: demo_cx_def demo_world_def new_thread_def)

end
