(* ===== verification/SftpHandles.thy ===== *)
theory SftpHandles
  imports SftpAccess
begin

unbundle bit_operations_syntax

text \<open>
  Handles: which requests have a defined outcome, what a handle refers to after \<open>CLOSE\<close>, and the
  invariant of the objects behind handles.
\<close>

subsection \<open>Requests with a defined outcome\<close>

text \<open>\<open>request_safe\<close>: a request that names a path has one; one that names a handle names none, or
  one whose object has not been deleted and is of the kind the handler takes it for.\<close>

definition handle_safe ::
  "'t handle_lib \<Rightarrow> (handle_data \<Rightarrow> bool) \<Rightarrow> sftp_message \<Rightarrow> ('w, 't) sftp_thread \<Rightarrow> bool" where
  "handle_safe lib kind msg st \<longleftrightarrow>
     (case ht_lookup lib (mg_handle msg) (st_table st) of
        None \<Rightarrow> True
      | Some a \<Rightarrow> (case st_heap st a of None \<Rightarrow> False | Some d \<Rightarrow> kind d))"

fun is_file :: "handle_data \<Rightarrow> bool" where
  "is_file (FileData fp path) = True"
| "is_file (DirData dir path) = False"

fun is_open_dir :: "handle_data \<Rightarrow> bool" where
  "is_open_dir (FileData fp path) = False"
| "is_open_dir (DirData dir path) = (dir \<noteq> None)"

definition request_safe ::
  "'t handle_lib \<Rightarrow> sftp_context \<Rightarrow> sftp_message \<Rightarrow> ('w, 't) sftp_thread \<Rightarrow> bool" where
  "request_safe lib cx msg st \<longleftrightarrow>
     (case mg_type msg of
        FXP_CLOSE \<Rightarrow> handle_safe lib (\<lambda>d. True) msg st
      | FXP_READ \<Rightarrow> handle_safe lib is_file msg st
      | FXP_WRITE \<Rightarrow> can_write (cx_perm cx) \<longrightarrow> handle_safe lib is_file msg st
      | FXP_READDIR \<Rightarrow> handle_safe lib is_open_dir msg st
      | FXP_FSTAT \<Rightarrow> handle_safe lib is_file msg st
      | FXP_FSETSTAT \<Rightarrow> True
      | FXP_other t \<Rightarrow> True
      | FXP_REALPATH \<Rightarrow> mg_filename msg \<noteq> None \<or> can_read (cx_perm cx)
      | _ \<Rightarrow> mg_filename msg \<noteq> None)"

lemma undefined_iff_unsafe:
  "do_request sys lib cx msg st = Undefined \<longleftrightarrow> \<not> request_safe lib cx msg st"
  by (cases "mg_type msg")
    (auto simp: do_request.simps handler_defs request_safe_def handle_safe_def Let_def split_beta
      split: option.splits handle_data.splits)


text \<open>In a session every object behind a handle that has not been deleted has been allocated
  by it and holds an open stream.\<close>

theorem sftp_objects_invariant:
  assumes "objects_ok st" and "process_sftp sys lib running cx st = Some (Done st')"
  shows "objects_ok st'"
  using object_session.session [OF assms(2)] assms(1) by (simp add: keeps_objects_def)

theorem sftp_objects_invariant_witness: "objects_ok after_remove"
  by (rule sftp_objects_invariant [OF _ remove_a_session]) (simp add: objects_ok_def new_thread_def)

subsection \<open>After CLOSE\<close>

text \<open>What libssh does: \<open>sftp_handle_remove\<close> clears the slot that holds the pointer it is given. The
  handlers give it the address of the handle's string, which is in no slot.\<close>

definition removes_objects :: "'t handle_lib \<Rightarrow> bool" where
  "removes_objects lib \<longleftrightarrow>
     (\<forall>s h t. ht_lookup lib h (ht_remove lib (Handle_string s) t) = ht_lookup lib h t)"

lemma slot_removes_objects: "removes_objects slot_lib"
  by (simp add: removes_objects_def slot_lib_def)

lemma close_done:
  assumes "mg_type msg = FXP_CLOSE" "ht_lookup lib (mg_handle msg) (st_table st) = Some a"
    "do_request sys lib cx msg st = Done st1"
  shows "st_heap st1 a = None"
    "st_table st1 = ht_remove lib (Handle_string (mg_handle msg)) (st_table st)"
  using assms by (auto simp: do_request.simps sftp_do_close_def Let_def split: option.splits handle_data.splits)

text \<open>C36. The handle of a closed file stays valid. After a successful \<open>CLOSE\<close> the library still maps
  the handle to the object, which has been deleted, so the next request that uses the handle (a
  second \<open>CLOSE\<close>, or a \<open>READ\<close>, \<open>FSTAT\<close>, \<open>READDIR\<close>, or a permitted \<open>WRITE\<close>) works on freed
  memory instead of being answered with an invalid-handle status.\<close>

theorem closed_handle_used:
  assumes "removes_objects lib"
    and "mg_type msg = FXP_CLOSE" and "ht_lookup lib (mg_handle msg) (st_table st) = Some a"
    and "do_request sys lib cx msg st = Done st1"
    and "mg_handle later = mg_handle msg"
    and "mg_type later \<in> {FXP_CLOSE, FXP_READ, FXP_FSTAT, FXP_READDIR}
       \<or> mg_type later = FXP_WRITE \<and> can_write (cx_perm cx)"
  shows "do_request sys lib cx later st1 = Undefined"
proof -
  have "ht_lookup lib (mg_handle later) (st_table st1) = Some a" "st_heap st1 a = None"
    using close_done [OF assms(2,3,4)] assms(1,3,5) by (simp_all add: removes_objects_def)
  then have "\<not> handle_safe lib kind later st1" for kind
    by (simp add: handle_safe_def)
  then have "\<not> request_safe lib cx later st1"
    using assms(6) by (auto simp: request_safe_def)
  then show ?thesis by (simp add: undefined_iff_unsafe)
qed

definition open_thread :: "(mem_ftp, nat option list) sftp_thread" where
  "open_thread = (new_thread 4 (demo_world []))\<lparr>st_table := [Some 0, None, None, None],
     st_heap := (\<lambda>a. if a = 0 then Some (FileData (Some 9) ''/t/a'') else None), st_fresh := 1,
     st_world := (demo_world [])\<lparr>mf_streams := [(9, ''/t/a'', 0)]\<rparr>\<rparr>"

lemma open_thread_lookup: "ht_lookup slot_lib (slot_handle 0) (st_table open_thread) = Some 0"
  by (simp add: open_thread_def slot_lib_def slot_handle_def)

lemma open_thread_closed: "\<exists>st1. do_request mem_sys slot_lib cx (plain_message FXP_CLOSE) open_thread = Done st1"
  using open_thread_lookup
  by (simp add: do_request.simps sftp_do_close_def plain_message_def Let_def)
    (simp add: open_thread_def)

theorem closed_handle_used_witness:
  "\<exists>st1. do_request mem_sys slot_lib (demo_cx 1) (plain_message FXP_CLOSE) open_thread = Done st1
     \<and> do_request mem_sys slot_lib (demo_cx 1) (plain_message FXP_CLOSE) st1 = Undefined"
proof -
  obtain st1 where st1: "do_request mem_sys slot_lib (demo_cx 1) (plain_message FXP_CLOSE) open_thread = Done st1"
    using open_thread_closed by blast
  have "do_request mem_sys slot_lib (demo_cx 1) (plain_message FXP_CLOSE) st1 = Undefined"
    by (rule closed_handle_used [OF slot_removes_objects _ _ st1])
      (simp_all add: plain_message_def open_thread_lookup)
  with st1 show ?thesis by blast
qed

text \<open>With a library that did remove a handle by its string, the next use would be answered as the
  handlers intend.\<close>

theorem closed_handle_refused:
  assumes "ht_lookup lib (mg_handle msg) (ht_remove lib (Handle_string (mg_handle msg)) (st_table st)) = None"
    and "mg_type msg = FXP_CLOSE" and "ht_lookup lib (mg_handle msg) (st_table st) = Some a"
    and "do_request sys lib cx msg st = Done st1"
    and "mg_handle later = mg_handle msg" and "mg_type later \<in> {FXP_CLOSE, FXP_READ, FXP_FSTAT, FXP_READDIR}"
  shows "do_request sys lib cx later st1 = Done (status sys later FX_INVALID_HANDLE st1)"
  using close_done(2) [OF assms(2,3,4)] assms(1,5,6)
  by (elim insertE emptyE)
    (simp_all add: do_request.simps sftp_do_close_def sftp_do_read_def sftp_do_fstat_def sftp_do_readdir_def)

definition strict_lib :: "nat option list handle_lib" where
  "strict_lib = slot_lib\<lparr>ht_remove := (\<lambda>p t. t[0 := None])\<rparr>"

theorem closed_handle_refused_witness:
  "\<exists>st1. do_request mem_sys strict_lib (demo_cx 1) (plain_message FXP_CLOSE) open_thread = Done st1
     \<and> do_request mem_sys strict_lib (demo_cx 1) (plain_message FXP_READ) st1
         = Done (status mem_sys (plain_message FXP_READ) FX_INVALID_HANDLE st1)"
proof -
  have lookup: "ht_lookup strict_lib (slot_handle 0) (st_table open_thread) = Some 0"
    using open_thread_lookup by (simp add: strict_lib_def)
  then obtain st1 where st1: "do_request mem_sys strict_lib (demo_cx 1) (plain_message FXP_CLOSE) open_thread = Done st1"
    by (simp add: do_request.simps sftp_do_close_def plain_message_def Let_def)
      (simp add: open_thread_def)
  have "do_request mem_sys strict_lib (demo_cx 1) (plain_message FXP_READ) st1
      = Done (status mem_sys (plain_message FXP_READ) FX_INVALID_HANDLE st1)"
    by (rule closed_handle_refused [OF _ _ _ st1, where a = 0])
      (simp_all add: plain_message_def lookup, simp add: strict_lib_def slot_lib_def slot_handle_def open_thread_def)
  with st1 show ?thesis by blast
qed

end
