(* ===== verification/SftpTransfer.thy ===== *)
theory SftpTransfer
  imports SftpHandles
begin

unbundle bit_operations_syntax

text \<open>
  File contents over SFTP: the meaning of the flags of \<open>OPEN\<close>, the size of what \<open>READ\<close> returns,
  reading back what was written, and a file read without the read permission.
\<close>

subsection \<open>Modes\<close>

text \<open>What the modes of \<open>fopen\<close> mean, and the flags of a request.\<close>

definition mode_reads :: "string \<Rightarrow> bool" where
  "mode_reads m \<longleftrightarrow> hd m = CHR ''r'' \<or> CHR ''+'' \<in> set m"

definition mode_writes :: "string \<Rightarrow> bool" where
  "mode_writes m \<longleftrightarrow> hd m \<noteq> CHR ''r'' \<or> CHR ''+'' \<in> set m"

definition mode_creates :: "string \<Rightarrow> bool" where
  "mode_creates m \<longleftrightarrow> hd m = CHR ''w'' \<or> hd m = CHR ''a''"

definition mode_truncates :: "string \<Rightarrow> bool" where
  "mode_truncates m \<longleftrightarrow> hd m = CHR ''w''"

definition mode_appends :: "string \<Rightarrow> bool" where
  "mode_appends m \<longleftrightarrow> hd m = CHR ''a''"

lemmas mode_defs = mode_reads_def mode_writes_def mode_creates_def mode_truncates_def mode_appends_def

definition wants :: "32 word \<Rightarrow> 32 word \<Rightarrow> bool" where
  "wants flag flags \<longleftrightarrow> flags AND flag \<noteq> 0"

lemma read_write_bits:
  "flags AND (FXF_READ OR FXF_WRITE) =
     (if wants FXF_READ flags then FXF_READ else 0) OR (if wants FXF_WRITE flags then FXF_WRITE else 0)"
proof -
  have bit: "flags AND 2 ^ n = (if bit flags n then 2 ^ n else 0)" for n
    by (rule bit_eqI) (auto simp: bit_simps)
  have "flags AND FXF_READ = (if bit flags 0 then FXF_READ else 0)"
    "flags AND FXF_WRITE = (if bit flags 1 then FXF_WRITE else 0)"
    using bit [of 0] bit [of 1] by (simp_all add: flag_defs)
  moreover have "FXF_READ \<noteq> 0" "FXF_WRITE \<noteq> 0"
    by (simp_all add: flag_defs)
  ultimately show ?thesis
    by (simp add: wants_def bit.conj_disj_distrib)
qed

text \<open>C29. The meaning of the flags. A file is opened for writing exactly when the request has the write
  flag. It is opened for reading when it has the read flag, but also when it has no write flag, and
  when it has the write flag alone. It is truncated when the truncate flag is set, but also when a
  request to write only has the create flag without it; and it is created for appending,
  truncating and for creating in a request to write only, not for creating in a request to read
  and write.\<close>

theorem open_mode_meaning:
  "let m = fst (sftp_flags_to_mode flags);
       r = wants FXF_READ flags; w = wants FXF_WRITE flags; a = wants FXF_APPEND flags;
       c = wants FXF_CREAT flags; t = wants FXF_TRUNC flags
   in (mode_writes m \<longleftrightarrow> w) \<and> (mode_reads m \<longleftrightarrow> r \<or> \<not> w \<or> \<not> a \<and> \<not> t \<and> \<not> c)
    \<and> (mode_appends m \<longleftrightarrow> w \<and> a)
    \<and> (mode_truncates m \<longleftrightarrow> w \<and> \<not> a \<and> (t \<or> c \<and> \<not> r))
    \<and> (mode_creates m \<longleftrightarrow> w \<and> (a \<or> t \<or> c \<and> \<not> r))"
proof -
  have "FXF_READ \<noteq> 0" "FXF_WRITE \<noteq> 0" "FXF_READ \<noteq> FXF_WRITE" "FXF_WRITE \<noteq> FXF_READ"
    "0 \<noteq> FXF_READ" "0 \<noteq> FXF_WRITE" "FXF_READ OR FXF_WRITE \<noteq> FXF_READ"
    "FXF_READ OR FXF_WRITE \<noteq> FXF_WRITE" "FXF_READ OR FXF_WRITE \<noteq> 0"
    by (simp_all add: flag_defs)
  then show ?thesis
    unfolding sftp_flags_to_mode_def read_write_bits Let_def
    by (auto simp: mode_defs wants_def)
qed

theorem open_mode_meaning_witness:
  "mode_truncates (fst (sftp_flags_to_mode (FXF_WRITE OR FXF_CREAT)))
    \<and> \<not> mode_creates (fst (sftp_flags_to_mode (FXF_READ OR FXF_WRITE OR FXF_CREAT)))"
  using open_mode_meaning [of "FXF_WRITE OR FXF_CREAT"] open_mode_meaning [of "FXF_READ OR FXF_WRITE OR FXF_CREAT"]
  by (simp add: Let_def wants_def flag_defs)

subsection \<open>READ\<close>

definition fread_bounded :: "'w sys \<Rightarrow> bool" where
  "fread_bounded sys \<longleftrightarrow> (\<forall>f k w. length (fst (c_fread sys f k w)) \<le> k)"

lemma buffer_size_bound:
  "(if len > 65536 then 65536 else unat len) \<le> 65536" "(if len > 65536 then 65536 else unat len) \<le> unat len"
  for len :: "32 word"
  by (auto simp: word_less_nat_alt word_le_nat_alt not_less)

definition chunk_read :: "'w sys \<Rightarrow> nat \<Rightarrow> string \<Rightarrow> bool" where
  "chunk_read sys k d \<longleftrightarrow> (\<exists>f w. d = fst (c_fread sys f k w))"

lemma chunk_read_fread [simp]: "chunk_read sys k (fst (c_fread sys f k w))"
  by (auto simp: chunk_read_def)

lemma request_data:
  assumes "do_request sys lib cx msg st = Done st'"
    and "st_replies st' = st_replies st @ new" "(i, Reply_data d) \<in> set new"
  shows "mg_type msg = FXP_READ \<and> d \<noteq> []
    \<and> chunk_read sys (if mg_len msg > 65536 then 65536 else unat (mg_len msg)) d"
  using assms
  by (cases "mg_type msg")
    (auto simp: do_request.simps handler_defs Let_def split_beta
      split: if_splits option.splits handle_data.splits)

text \<open>C23. A data reply is never empty and never longer than the request asked for, nor than 64 KiB,
  whatever length the request announces, so the buffer it is read into is never overrun.\<close>

theorem read_reply_bounded:
  assumes "fread_bounded sys" and "do_request sys lib cx msg st = Done st'"
    and "st_replies st' = st_replies st @ new" and "(i, Reply_data d) \<in> set new"
  shows "0 < length d \<and> length d \<le> unat (mg_len msg) \<and> length d \<le> 65536"
proof -
  let ?n = "if mg_len msg > 65536 then 65536 else unat (mg_len msg)"
  have d: "d \<noteq> []" "chunk_read sys ?n d"
    using request_data [OF assms(2-4)] by blast+
  with assms(1) have "length d \<le> ?n"
    by (auto simp only: chunk_read_def fread_bounded_def)
  with buffer_size_bound [of "mg_len msg"] d(1) show ?thesis
    by (meson length_greater_0_conv order_trans)
qed

lemma mem_fread_bounded: "fread_bounded mem_sys"
  by (simp add: fread_bounded_def mem_fread_def Let_def)

subsection \<open>Writing and reading back\<close>

text \<open>A stream that can be read and written at any position, as \<open>rb+\<close> and \<open>wb+\<close> open one: \<open>text\<close> is
  the content of its file and \<open>pos\<close> its position.\<close>

definition update_stream ::
  "'w sys \<Rightarrow> nat \<Rightarrow> ('w \<Rightarrow> string) \<Rightarrow> ('w \<Rightarrow> nat) \<Rightarrow> bool" where
  "update_stream sys fp text pos \<longleftrightarrow>
     (\<forall>w n. 0 \<le> n \<longrightarrow> fst (c_fseek sys fp n w) = 0 \<and> pos (snd (c_fseek sys fp n w)) = nat n
        \<and> text (snd (c_fseek sys fp n w)) = text w) \<and>
     (\<forall>w d. fst (c_fwrite sys fp d w) = length d
        \<and> text (snd (c_fwrite sys fp d w)) = overwrite (text w) (pos w) d) \<and>
     (\<forall>w k. fst (c_fread sys fp k w) = take k (drop (pos w) (text w))) \<and>
     (\<forall>w. text (c_fflush sys fp w) = text w) \<and>
     (\<forall>w i r. text (snd (ssh_reply sys i r w)) = text w)"

lemma mem_update_stream: "update_stream mem_sys fp (stream_text fp) (stream_pos fp)"
  by (auto simp: update_stream_def mem_fwrite_def mem_fread_def Let_def)
    (metis stream_put_stream(1) stream_text_put)

lemma overwrite_read: "take (length d) (drop n (overwrite c n d)) = d"
  by (simp add: overwrite_def)

lemma data_length: "length d < 2 ^ 32 \<Longrightarrow> unat (word_of_nat (length d) :: 32 word) = length d"
  by (simp add: unat_of_nat)

text \<open>C21. What \<open>WRITE\<close> stores, \<open>READ\<close> returns: a write of at most 64 KiB at some offset of an open
  file is acknowledged, puts the bytes at that offset, and a read of as many bytes at the same
  offset through the same handle replies with them.\<close>

theorem write_then_read:
  assumes "update_stream sys fp text pos" and "replies_succeed sys" and "can_write (cx_perm cx)"
    and "mg_type wr = FXP_WRITE" and "mg_type rd = FXP_READ"
    and "mg_handle rd = mg_handle wr" and "mg_offset rd = mg_offset wr" and "0 \<le> sint (mg_offset wr)"
    and "mg_data wr \<noteq> []" and "length (mg_data wr) \<le> 65536" and "unat (mg_len rd) = length (mg_data wr)"
    and "ht_lookup lib (mg_handle wr) (st_table st) = Some a"
    and "st_heap st a = Some (FileData (Some fp) path)"
  shows "\<exists>st1 st2. do_request sys lib cx wr st = Done st1 \<and> do_request sys lib cx rd st1 = Done st2
    \<and> text (st_world st1) = overwrite (text (st_world st)) (nat (sint (mg_offset wr))) (mg_data wr)
    \<and> st_replies st2 = st_replies st @ [(mg_id wr, Reply_status FX_OK None), (mg_id rd, Reply_data (mg_data wr))]"
proof -
  let ?off = "sint (mg_offset wr)" and ?d = "mg_data wr"
  let ?w1 = "snd (c_fwrite sys fp ?d (snd (c_fseek sys fp ?off (st_world st))))"
  define st1 where "st1 = log_activity cx ''WRITE'' path ''OK''
    (status sys wr FX_OK (on_world (c_fflush sys fp) (st\<lparr>st_world := ?w1\<rparr>)))"
  have len: "unat (word_of_nat (length ?d) :: 32 word) = length ?d"
    using assms(10) by (intro data_length) simp
  have seek: "fst (c_fseek sys fp ?off w) = 0" "pos (snd (c_fseek sys fp ?off w)) = nat ?off"
    "text (snd (c_fseek sys fp ?off w)) = text w" for w
    using assms(1,8) by (auto simp: update_stream_def)
  have wrote: "do_request sys lib cx wr st = Done st1"
    using assms(1,3,4,12,13) seek(1)
    by (simp add: do_request.simps sftp_do_write_def Let_def split_beta len st1_def update_stream_def)
  have text1: "text (st_world st1) = overwrite (text (st_world st)) (nat ?off) ?d"
    using assms(1) seek by (simp add: st1_def update_stream_def)
  have small: "\<not> 65536 < mg_len rd"
    using assms(10,11) by (simp add: word_less_nat_alt)
  have data: "fst (c_fread sys fp (length ?d) (snd (c_fseek sys fp ?off (st_world st1)))) = ?d"
    using assms(1) seek text1 overwrite_read by (simp add: update_stream_def)
  have parts: "st_table st1 = st_table st" "st_heap st1 = st_heap st"
    "st_replies st1 = st_replies st @ [(mg_id wr, Reply_status FX_OK None)]"
    by (simp_all add: st1_def)
  have "\<exists>st2. do_request sys lib cx rd st1 = Done st2
      \<and> st_replies st2 = st_replies st1 @ [(mg_id rd, Reply_data ?d)]"
    using assms(2,5,6,7,9,11,12,13) seek(1) small data parts(1,2)
    by (simp add: do_request.simps sftp_do_read_def Let_def split_beta replies_succeed_def)
  with wrote text1 parts(3) show ?thesis by auto
qed

definition write_msg :: sftp_message where
  "write_msg = (plain_message FXP_WRITE)\<lparr>mg_offset := 2, mg_data := ''abc''\<rparr>"

definition read_msg :: sftp_message where
  "read_msg = (plain_message FXP_READ)\<lparr>mg_offset := 2, mg_len := 3\<rparr>"

lemma mem_replies: "replies_succeed mem_sys"
  by (simp add: replies_succeed_def)

lemma open_thread_object:
  "ht_lookup slot_lib (mg_handle write_msg) (st_table open_thread) = Some 0"
  "ht_lookup slot_lib (mg_handle read_msg) (st_table open_thread) = Some 0"
  "st_heap open_thread 0 = Some (FileData (Some 9) ''/t/a'')"
  using open_thread_lookup by (simp_all add: write_msg_def read_msg_def plain_message_def open_thread_def)

theorem write_then_read_witness:
  "\<exists>st1 st2. do_request mem_sys slot_lib (demo_cx 3) write_msg open_thread = Done st1
    \<and> do_request mem_sys slot_lib (demo_cx 3) read_msg st1 = Done st2
    \<and> st_replies st2 = [(1, Reply_status FX_OK None), (1, Reply_data ''abc'')]"
  using write_then_read [OF mem_update_stream mem_replies, of "demo_cx 3" write_msg read_msg slot_lib
      open_thread 0 9 "''/t/a''"] open_thread_object
  by (auto simp: write_msg_def read_msg_def plain_message_def demo_cx_def open_thread_def new_thread_def)

definition after_read :: "(mem_ftp, nat option list) sftp_thread" where
  "after_read = open_thread\<lparr>st_replies := [(1, Reply_data ''llo'')],
     st_world := (demo_world [])\<lparr>mf_streams := [(9, ''/t/a'', 5)]\<rparr>\<rparr>"

lemma read_open_thread: "do_request mem_sys slot_lib cx read_msg open_thread = Done after_read"
  using open_thread_object(2,3)
  by (simp add: do_request.simps, simp add: sftp_do_read_def Let_def read_msg_def plain_message_def open_thread_def new_thread_def
      demo_world_def mem_sys_defs stream_path_def stream_pos_def stream_text_def send_reply_def after_read_def)

theorem read_reply_bounded_witness:
  "0 < length ''llo'' \<and> length ''llo'' \<le> unat (mg_len read_msg) \<and> length ''llo'' \<le> 65536"
  by (rule read_reply_bounded [OF mem_fread_bounded read_open_thread [of "demo_cx 1"],
        where new = "[(1, Reply_data ''llo'')]" and i = 1])
    (simp_all add: after_read_def open_thread_def new_thread_def)

subsection \<open>Reading without permission\<close>

text \<open>The read permission does not protect files. \<open>OPEN\<close> asks for it only when the request has the
  read flag, but opens the file for reading whatever the flags are, and \<open>READ\<close> never asks. A user
  without any permission who opens an existing file with no access flag gets a handle, and the
  content through it.\<close>

theorem read_without_permission:
  assumes "cx_perm cx = sftp_perm_none" and "replies_succeed sys"
    and "mg_type op = FXP_OPEN" and "mg_filename op = Some p"
    and "mg_flags op AND (FXF_READ OR FXF_WRITE OR FXF_CREAT OR FXF_TRUNC) = 0"
    and "full = resolve_in sys cx p True st" and "full \<noteq> []"
    and "c_fopen sys full ''rb'' (st_world st) = (Some fp, w1)"
    and "ht_alloc lib (st_fresh st) (st_table st) = (Some h, t1)"
    and "ht_lookup lib h t1 = Some (st_fresh st)"
    and "mg_type rd = FXP_READ" and "mg_handle rd = h"
    and "c_fseek sys fp (sint (mg_offset rd)) (snd (ssh_reply sys (mg_id op) (Reply_handle h) w1)) = (0, w2)"
    and "c_fread sys fp (if mg_len rd > 65536 then 65536 else unat (mg_len rd)) w2 = (d, w3)" and "d \<noteq> []"
  shows "\<exists>st1 st2. do_request sys lib cx op st = Done st1 \<and> do_request sys lib cx rd st1 = Done st2
    \<and> st_replies st2 = st_replies st @ [(mg_id op, Reply_handle h), (mg_id rd, Reply_data d)]"
proof -
  have flags: "mg_flags op AND FXF_READ = 0" "mg_flags op AND FXF_CREAT = 0"
    "mg_flags op AND (FXF_WRITE OR FXF_CREAT OR FXF_TRUNC) = 0"
    using assms(5) by (simp_all add: bit.conj_disj_distrib or_eq_0_iff)
  have mode: "fst (sftp_flags_to_mode (mg_flags op)) = ''rb''"
    using open_mode_reads flags(3) by blast
  have opened: "\<exists>st1. do_request sys lib cx op st = Done st1 \<and> st_table st1 = t1
      \<and> st_heap st1 (st_fresh st) = Some (FileData (Some fp) full)
      \<and> st_world st1 = snd (ssh_reply sys (mg_id op) (Reply_handle h) w1)
      \<and> st_replies st1 = st_replies st @ [(mg_id op, Reply_handle h)]"
    using assms(2,3,4,6-9) flags mode
    by (simp add: do_request.simps sftp_do_open_def Let_def split_beta replies_succeed_def)
  then obtain st1 where st1: "do_request sys lib cx op st = Done st1" "st_table st1 = t1"
    "st_heap st1 (st_fresh st) = Some (FileData (Some fp) full)"
    "st_world st1 = snd (ssh_reply sys (mg_id op) (Reply_handle h) w1)"
    "st_replies st1 = st_replies st @ [(mg_id op, Reply_handle h)]"
    by blast
  have "\<exists>st2. do_request sys lib cx rd st1 = Done st2
      \<and> st_replies st2 = st_replies st1 @ [(mg_id rd, Reply_data d)]"
    using assms(2,10-15) st1(2-4)
    by (simp add: do_request.simps sftp_do_read_def Let_def split_beta replies_succeed_def)
  with st1 show ?thesis by auto
qed

definition open_msg :: sftp_message where
  "open_msg = (plain_message FXP_OPEN)\<lparr>mg_filename := Some ''a''\<rparr>"

lemma replicate_4: "replicate 4 x = [x, x, x, x]"
  by (simp add: numeral_eq_Suc)

theorem read_without_permission_witness:
  "\<exists>st1 st2. do_request mem_sys slot_lib (demo_cx 0) open_msg (new_thread 4 (demo_world [])) = Done st1
    \<and> do_request mem_sys slot_lib (demo_cx 0) read_msg st1 = Done st2
    \<and> st_replies st2 = [(1, Reply_handle (slot_handle 0)), (1, Reply_data ''llo'')]"
proof -
  let ?st = "new_thread 4 (demo_world [])"
  let ?w1 = "(demo_world [])\<lparr>mf_streams := [(3, ''/t/a'', 0)], mf_next := 4\<rparr>"
  let ?w2 = "?w1\<lparr>mf_streams := [(3, ''/t/a'', 2)]\<rparr>"
  have full: "''/t/a'' = resolve_in mem_sys (demo_cx 0) ''a'' True ?st"
    by (simp add: resolve_in_def resolve_path_code demo_defs new_thread_def)
  have opened: "c_fopen mem_sys ''/t/a'' ''rb'' (st_world ?st) = (Some 3, ?w1)"
    by (simp add: demo_defs new_thread_def Let_def)
  have alloc: "ht_alloc slot_lib (st_fresh ?st) (st_table ?st) = (Some (slot_handle 0), [Some 0, None, None, None])"
    "ht_lookup slot_lib (slot_handle 0) [Some 0, None, None, None] = Some (st_fresh ?st)"
    using open_thread_lookup
    by (simp_all add: new_thread_def open_thread_def replicate_4 demo_world_def) (simp add: slot_lib_def)
  have seek: "c_fseek mem_sys 3 (sint (mg_offset read_msg)) (snd (ssh_reply mem_sys (mg_id open_msg)
      (Reply_handle (slot_handle 0)) ?w1)) = (0, ?w2)"
    by (simp add: read_msg_def demo_defs stream_path_def)
  have data: "c_fread mem_sys 3 (if mg_len read_msg > 65536 then 65536 else unat (mg_len read_msg)) ?w2
      = (''llo'', ?w2\<lparr>mf_streams := [(3, ''/t/a'', 5)]\<rparr>)"
    by (simp add: read_msg_def demo_defs stream_path_def stream_pos_def stream_text_def Let_def)
  show ?thesis
    using read_without_permission [where op = open_msg and cx = "demo_cx 0",
        OF _ mem_replies _ _ _ full _ opened alloc _ _ seek data]
    by (simp add: demo_cx_def sftp_perm_none_def open_msg_def read_msg_def plain_message_def new_thread_def)
qed

end
