(* ===== verification/SftpRefusals.thy ===== *)
theory SftpRefusals
  imports SftpTransfer
begin

unbundle bit_operations_syntax

text \<open>
  Requests that are refused, and what each request leaves behind: its replies and its log entry.
\<close>

subsection \<open>Refused requests\<close>

text \<open>The operation as the log names it, the permission a request needs, whether it asks for an
  existing file, and the status and log entry for a path that does not resolve.\<close>

fun op_name :: "fxp \<Rightarrow> string" where
  "op_name FXP_OPEN = ''OPEN''"
| "op_name FXP_OPENDIR = ''OPENDIR''"
| "op_name FXP_STAT = ''STAT''"
| "op_name FXP_LSTAT = ''STAT''"
| "op_name FXP_SETSTAT = ''SETSTAT''"
| "op_name FXP_MKDIR = ''MKDIR''"
| "op_name FXP_RMDIR = ''RMDIR''"
| "op_name FXP_REMOVE = ''REMOVE''"
| "op_name FXP_RENAME = ''RENAME''"
| "op_name FXP_REALPATH = ''REALPATH''"
| "op_name _ = []"

definition lacks_permission :: "sftp_context \<Rightarrow> sftp_message \<Rightarrow> bool" where
  "lacks_permission cx msg \<longleftrightarrow>
     (case mg_type msg of
        FXP_OPEN \<Rightarrow> mg_flags msg AND (FXF_WRITE OR FXF_CREAT OR FXF_TRUNC) \<noteq> 0 \<and> \<not> can_write (cx_perm cx)
          \<or> mg_flags msg AND FXF_READ \<noteq> 0 \<and> \<not> can_read (cx_perm cx)
      | FXP_STAT \<Rightarrow> False
      | FXP_LSTAT \<Rightarrow> False
      | FXP_OPENDIR \<Rightarrow> \<not> can_read (cx_perm cx)
      | FXP_REALPATH \<Rightarrow> \<not> can_read (cx_perm cx)
      | _ \<Rightarrow> \<not> can_write (cx_perm cx))"

definition asks_existing :: "sftp_message \<Rightarrow> bool" where
  "asks_existing msg \<longleftrightarrow> mg_type msg \<noteq> FXP_MKDIR \<and> (mg_type msg = FXP_OPEN \<longrightarrow> mg_flags msg AND FXF_CREAT = 0)"

definition missing_code :: "fxp \<Rightarrow> fx" where
  "missing_code t = (if t = FXP_MKDIR then FX_NO_SUCH_PATH else FX_NO_SUCH_FILE)"

definition missing_word :: "fxp \<Rightarrow> string" where
  "missing_word t = (if t = FXP_MKDIR then ''NO_SUCH_PATH'' else ''NO_SUCH_FILE'')"

text \<open>C25. Refusals. A request on a path by a user who lacks the permission is answered with
  permission-denied; one with the permission whose path does not resolve inside the root with
  no-such-file, or no-such-path for \<open>MKDIR\<close>. Either way one log entry is made and nothing else
  changes: no file call, no object, no handle. (\<open>REALPATH\<close> answers unresolved paths.)\<close>

theorem refused_request:
  assumes "mg_filename msg = Some p"
    and "mg_type msg \<in> {FXP_OPEN, FXP_OPENDIR, FXP_STAT, FXP_LSTAT, FXP_SETSTAT, FXP_MKDIR, FXP_RMDIR,
      FXP_REMOVE, FXP_RENAME, FXP_REALPATH}"
  shows "(lacks_permission cx msg \<longrightarrow>
        do_request sys lib cx msg st =
          Done (status sys msg FX_PERMISSION_DENIED (log_activity cx (op_name (mg_type msg)) p ''DENIED'' st)))
    \<and> (\<not> lacks_permission cx msg \<and> mg_type msg \<noteq> FXP_REALPATH
          \<and> resolve_in sys cx p (asks_existing msg) st = [] \<longrightarrow>
        do_request sys lib cx msg st =
          Done (status sys msg (missing_code (mg_type msg))
            (log_activity cx (op_name (mg_type msg)) p (missing_word (mg_type msg)) st)))"
  using assms(2,1)
  by (elim insertE emptyE)
    (simp_all add: do_request.simps handler_defs lacks_permission_def asks_existing_def missing_code_def
      missing_word_def Let_def)

theorem refused_request_witness:
  "do_request mem_sys slot_lib (demo_cx 1) remove_a (new_thread 4 (demo_world []))
    = Done (status mem_sys remove_a FX_PERMISSION_DENIED
        (log_activity (demo_cx 1) ''REMOVE'' ''a'' ''DENIED'' (new_thread 4 (demo_world []))))"
  using refused_request [of remove_a "''a''" "demo_cx 1" mem_sys slot_lib "new_thread 4 (demo_world [])"]
  by (simp add: remove_a_def plain_message_def lacks_permission_def demo_cx_def)

subsection \<open>Replies and log entries\<close>

text \<open>C27. Every request with a defined outcome is answered under its own number: by one reply, and by
  a second one, a failure status, at most when sending the first has failed. When sending does not
  fail there is exactly one.\<close>

theorem request_replies:
  assumes "do_request sys lib cx msg st = Done st'"
  shows "answered msg (st_replies st) (st_replies st')
    \<and> (replies_succeed sys \<longrightarrow> (\<exists>r. st_replies st' = st_replies st @ [(mg_id msg, r)]))"
  using request_answered [OF assms] request_answered_once [OF _ assms] by blast

theorem request_replies_witness:
  "\<exists>r. st_replies after_read = [(1, r)]"
  using request_replies [OF read_open_thread [of "demo_cx 1"]] mem_replies
  by (simp add: open_thread_def new_thread_def read_msg_def plain_message_def)

text \<open>The log of a session: what was there stays, and every new entry names the session's user.\<close>

theorem session_log:
  assumes "process_sftp sys lib running cx st = Some (Done st')"
  shows "\<exists>new. st_activity st' = st_activity st @ new \<and> list_all (\<lambda>a. sa_user a = cx_username cx) new"
  using log_session.session [OF assms] by (simp add: logs_as_def)

theorem session_log_witness:
  "\<exists>new. st_activity after_denial = new \<and> list_all (\<lambda>a. sa_user a = ''bob'') new"
  using session_log [OF remove_a_denied] by (simp add: new_thread_def demo_cx_def)

subsection \<open>RENAME\<close>

text \<open>What libssh hands over for \<open>SSH_FXP_RENAME\<close>: the new name is in the \<open>data\<close> string of the message;
  \<open>submessage\<close> is set for extended requests only, and \<open>str_data\<close> only when
  \<open>sftp_client_message_get_data\<close> has been called on the message.\<close>

definition libssh_rename :: "sftp_message \<Rightarrow> bool" where
  "libssh_rename msg \<longleftrightarrow> mg_type msg = FXP_RENAME \<and> mg_filename msg \<noteq> None
     \<and> mg_submessage msg = None \<and> mg_str_data msg = None"

text \<open>Renaming never works. The handler looks for the new name in the two places where libssh does
  not put it, so every rename request, of any user and for any file, is answered with an error
  status, and the only call made is that reply.\<close>

theorem rename_never_renames:
  assumes "libssh_rename msg"
  shows "\<exists>st' code note. do_request sys lib cx msg st = Done st' \<and> code \<noteq> FX_OK
    \<and> st_replies st' = st_replies st @ [(mg_id msg, Reply_status code note)]
    \<and> st_world st' = snd (ssh_reply sys (mg_id msg) (Reply_status code note) (st_world st))"
  using assms
  by (auto simp: libssh_rename_def do_request.simps sftp_do_rename_def Let_def)

theorem rename_never_renames_witness:
  "let msg = (plain_message FXP_RENAME)\<lparr>mg_filename := Some ''a'', mg_data := ''b''\<rparr>
   in \<exists>st' code note. do_request mem_sys slot_lib (demo_cx 3) msg (new_thread 4 (demo_world [])) = Done st'
     \<and> code \<noteq> FX_OK \<and> st_world st' = demo_world []"
  using rename_never_renames [of "(plain_message FXP_RENAME)\<lparr>mg_filename := Some ''a'', mg_data := ''b''\<rparr>"
      mem_sys slot_lib "demo_cx 3" "new_thread 4 (demo_world [])"]
  by (auto simp: libssh_rename_def plain_message_def Let_def new_thread_def)

end
