(* ===== verification/SftpServer.thy ===== *)
theory SftpServer
  imports SftpHandlers Contracts
begin

text \<open>
  The SFTP server object of \<open>sftp_server.cpp\<close>: its tables, its public operations, the callbacks
  libssh calls while it handles packets of a session, the accepting thread, and the thread of a
  session. libssh's server calls are parameters, in the record \<open>'w ssh_host\<close>. The request
  handlers are those of \<open>SftpHandlers\<close>.

  While it handles packets libssh calls back into the server, and goes on according to the answers.
  What it does in one call of \<open>ssh_handle_packets\<close> is therefore a tree, a \<open>script\<close>: a callback
  and what follows for each answer, down to the end of the call with its return code. It depends
  on the session, on the world, and on whether the session is authenticated, that is, whether an
  earlier authentication callback on it has returned success; libssh keeps this flag, here the list
  \<open>sf_authenticated\<close>.
\<close>

subsection \<open>libssh\<close>

datatype callback =
    On_auth_password string string
  | On_channel_open "nat option"
  | On_subsystem "string option"

datatype answer = Auth_success | Auth_denied | Channel "nat option" | Subsystem_result int

datatype 'w script = Finish bool 'w | Call callback "answer \<Rightarrow> 'w script"

record 'w ssh_host =
  pki_ctx_new :: "'w \<Rightarrow> nat option \<times> 'w"
  pki_set_key_size :: "nat \<Rightarrow> nat \<Rightarrow> 'w \<Rightarrow> 'w"
  pki_generate :: "nat \<Rightarrow> 'w \<Rightarrow> bool \<times> nat option \<times> 'w"
  pki_ctx_free :: "nat \<Rightarrow> 'w \<Rightarrow> 'w"
  bind_new :: "'w \<Rightarrow> nat option \<times> 'w"
  bind_free :: "nat \<Rightarrow> 'w \<Rightarrow> 'w"
  bind_set_addr :: "nat option \<Rightarrow> string \<Rightarrow> 'w \<Rightarrow> bool \<times> 'w"
  bind_set_port :: "nat option \<Rightarrow> nat \<Rightarrow> 'w \<Rightarrow> bool \<times> 'w"
  bind_import_key :: "nat option \<Rightarrow> nat \<Rightarrow> 'w \<Rightarrow> bool \<times> 'w"
  bind_listen :: "nat option \<Rightarrow> 'w \<Rightarrow> bool \<times> 'w"
  bind_error :: "nat option \<Rightarrow> 'w \<Rightarrow> string option"
  bind_get_fd :: "nat option \<Rightarrow> 'w \<Rightarrow> raw_socket"
  bind_accept :: "nat option \<Rightarrow> nat \<Rightarrow> 'w \<Rightarrow> bool \<times> 'w"
  sock_name :: "raw_socket \<Rightarrow> 'w \<Rightarrow> int \<times> 16 word \<times> 'w"
  sock_new :: "'w \<Rightarrow> raw_socket \<times> 'w"
  sock_connect :: "raw_socket \<Rightarrow> 16 word \<Rightarrow> 'w \<Rightarrow> 'w"
  sock_drop :: "raw_socket \<Rightarrow> 'w \<Rightarrow> 'w"
  ssh_new :: "'w \<Rightarrow> nat option \<times> 'w"
  ssh_free :: "nat \<Rightarrow> 'w \<Rightarrow> 'w"
  ssh_disconnect :: "nat \<Rightarrow> 'w \<Rightarrow> 'w"
  ssh_set_callbacks :: "nat \<Rightarrow> 'w \<Rightarrow> 'w"
  ssh_key_exchange :: "nat \<Rightarrow> 'w \<Rightarrow> bool \<times> 'w"
  ssh_handle_packets :: "nat \<Rightarrow> bool \<Rightarrow> 'w \<Rightarrow> 'w script"
  channel_send_eof :: "nat \<Rightarrow> 'w \<Rightarrow> 'w"
  channel_close :: "nat \<Rightarrow> 'w \<Rightarrow> 'w"
  channel_free :: "nat \<Rightarrow> 'w \<Rightarrow> 'w"
  sftp_new :: "nat \<Rightarrow> nat \<Rightarrow> 'w \<Rightarrow> nat option \<times> 'w"
  sftp_init :: "nat \<Rightarrow> 'w \<Rightarrow> bool \<times> 'w"
  sftp_free :: "nat \<Rightarrow> 'w \<Rightarrow> 'w"

subsection \<open>State\<close>

record sftp_user =
  su_name :: string
  su_pass :: string
  su_root :: string
  su_perm :: sftp_permission

record handshake =
  hs_pending :: "nat option"
  hs_accepted :: bool

text \<open>The accepting thread: not there, at the head of its loop, or waiting in \<open>ssh_bind_accept\<close>
  with a new session.\<close>

datatype acceptor = Absent | Looping | Waiting nat

text \<open>The thread of a session: not begun, in \<open>do_callback_handshake\<close> with \<open>out_chan\<close>, or serving
  requests: the channel, libssh's SFTP session, the context, and the parts of the thread state
  that belong to this session alone (in the order table, heap, next object, replies).\<close>

datatype 't session_phase =
    Begun
  | Handshaking "nat option"
  | Serving nat nat sftp_context 't "nat \<Rightarrow> handle_data option" nat "(32 word \<times> reply) list"

record ('w, 't) sftp_server =
  sf_bind :: "nat option"
  sf_hostkey :: "nat option"
  sf_port :: "16 word"
  sf_temp :: string
  sf_running :: bool
  sf_stopping :: bool
  sf_users :: "sftp_user list"
  sf_activity :: "sftp_activity list"
  sf_conn_users :: "string list"
  sf_acceptor :: acceptor
  sf_threads :: "(nat \<times> 't session_phase) list"
  sf_session_users :: "(nat \<times> string) list"
  sf_handshakes :: "(nat \<times> handshake) list"
  sf_authenticated :: "nat list"
  sf_world :: 'w

definition run_world :: "('w \<Rightarrow> 'w) \<Rightarrow> ('w, 't) sftp_server \<Rightarrow> ('w, 't) sftp_server" where
  "run_world f s = s\<lparr>sf_world := f (sf_world s)\<rparr>"

subsection \<open>Construction\<close>

definition generate_rsa_key :: "'w ssh_host \<Rightarrow> 'w \<Rightarrow> nat option throwing \<times> 'w" where
  "generate_rsa_key host w =
     (let (pk, w) = pki_ctx_new host w
      in case pk of
           None \<Rightarrow> (Inl ''Failed to create PKI context'', w)
         | Some pk \<Rightarrow>
             (let w = pki_set_key_size host pk 2048 w;
                  (ok, raw, w) = pki_generate host pk w;
                  w = pki_ctx_free host pk w
              in if \<not> ok then (Inl ''Failed to generate RSA host key'', w) else (Inr raw, w)))"

definition new_bind :: "'w ssh_host \<Rightarrow> 'w \<Rightarrow> nat option throwing \<times> 'w" where
  "new_bind host w =
     (let (b, w) = bind_new host w
      in case b of None \<Rightarrow> (Inl ''ssh_bind_new failed'', w) | Some b \<Rightarrow> (Inr (Some b), w))"

text \<open>The constructor, with the temporary directory it is given: \<open>bind_\<close> is constructed before its
  body runs.\<close>

definition new_sftp :: "'w ssh_host \<Rightarrow> string \<Rightarrow> 'w \<Rightarrow> ('w, 't) sftp_server throwing" where
  "new_sftp host tmp w =
     (case new_bind host w of
        (Inl e, w) \<Rightarrow> Inl e
      | (Inr b, w) \<Rightarrow>
          (case generate_rsa_key host w of
             (Inl e, w) \<Rightarrow> Inl e
           | (Inr key, w) \<Rightarrow>
               Inr \<lparr>sf_bind = b, sf_hostkey = key, sf_port = 0, sf_temp = tmp, sf_running = False,
                 sf_stopping = False, sf_users = [], sf_activity = [], sf_conn_users = [],
                 sf_acceptor = Absent, sf_threads = [], sf_session_users = [], sf_handshakes = [],
                 sf_authenticated = [], sf_world = w\<rparr>))"

subsection \<open>Starting\<close>

definition bind_reset :: "'w ssh_host \<Rightarrow> ('w, 't) sftp_server \<Rightarrow> ('w, 't) sftp_server" where
  "bind_reset host s =
     (case sf_bind s of
        Some b \<Rightarrow> s\<lparr>sf_bind := None, sf_world := bind_free host b (sf_world s)\<rparr>
      | None \<Rightarrow> s)"

text \<open>What \<open>start\<close> throws when an option cannot be set: \<open>bind_\<close> is reset first, and its error is
  asked for afterwards, so \<open>ssh_get_error\<close> gets the null pointer.\<close>

definition option_error ::
  "'w ssh_host \<Rightarrow> string \<Rightarrow> ('w, 't) sftp_server \<Rightarrow> unit throwing \<times> ('w, 't) sftp_server" where
  "option_error host what s =
     (let s = bind_reset host s
      in (Inl (''ssh_bind_options_set '' @ what @ '' failed: '' @
            (case bind_error host (sf_bind s) (sf_world s) of Some e \<Rightarrow> e | None \<Rightarrow> [])), s))"

definition ensure_bind :: "'w ssh_host \<Rightarrow> ('w, 't) sftp_server \<Rightarrow> unit throwing \<times> ('w, 't) sftp_server" where
  "ensure_bind host s =
     (if sf_bind s \<noteq> None then (Inr (), s)
      else (case new_bind host (sf_world s) of
              (Inl e, w) \<Rightarrow> (Inl e, s\<lparr>sf_world := w\<rparr>)
            | (Inr b, w) \<Rightarrow> (Inr (), s\<lparr>sf_bind := b, sf_world := w\<rparr>)))"

definition ensure_hostkey :: "'w ssh_host \<Rightarrow> ('w, 't) sftp_server \<Rightarrow> unit throwing \<times> ('w, 't) sftp_server" where
  "ensure_hostkey host s =
     (if sf_hostkey s \<noteq> None then (Inr (), s)
      else (case generate_rsa_key host (sf_world s) of
              (Inl e, w) \<Rightarrow> (Inl e, s\<lparr>sf_world := w\<rparr>)
            | (Inr key, w) \<Rightarrow> (Inr (), s\<lparr>sf_hostkey := key, sf_world := w\<rparr>)))"

definition import_hostkey :: "'w ssh_host \<Rightarrow> ('w, 't) sftp_server \<Rightarrow> unit throwing \<times> ('w, 't) sftp_server" where
  "import_hostkey host s =
     (case sf_hostkey s of
        None \<Rightarrow> (Inr (), s)
      | Some key \<Rightarrow>
          (let (ok, w) = bind_import_key host (sf_bind s) key (sf_world s); s = s\<lparr>sf_world := w\<rparr>
           in if \<not> ok then option_error host ''IMPORT_KEY'' s else (Inr (), s\<lparr>sf_hostkey := None\<rparr>)))"

definition listen_bind :: "'w ssh_host \<Rightarrow> ('w, 't) sftp_server \<Rightarrow> unit throwing \<times> ('w, 't) sftp_server" where
  "listen_bind host s =
     (let (ok, w) = bind_listen host (sf_bind s) (sf_world s); s = s\<lparr>sf_world := w\<rparr>
      in if \<not> ok
      then (Inl (''ssh_bind_listen failed: '' @
              (case bind_error host (sf_bind s) w of Some e \<Rightarrow> e | None \<Rightarrow> ''unknown error'')),
            bind_reset host s)
      else (let (rc, port, w) = sock_name host (bind_get_fd host (sf_bind s) w) w; s = s\<lparr>sf_world := w\<rparr>
            in if rc \<noteq> 0 then (Inl ''getsockname after ssh_bind_listen failed'', bind_reset host s)
            else (Inr (), s\<lparr>sf_port := port, sf_running := True, sf_acceptor := Looping\<rparr>)))"

definition sftp_start :: "'w ssh_host \<Rightarrow> ('w, 't) sftp_server \<Rightarrow> unit throwing \<times> ('w, 't) sftp_server" where
  "sftp_start host s =
     (if sf_running s then (Inl ''sftp_server is already running'', s)
      else (case ensure_bind host s of
        (Inl e, s) \<Rightarrow> (Inl e, s)
      | (Inr _, s) \<Rightarrow> (case ensure_hostkey host s of
          (Inl e, s) \<Rightarrow> (Inl e, s)
        | (Inr _, s) \<Rightarrow>
            (let (ok, w) = bind_set_addr host (sf_bind s) ''127.0.0.1'' (sf_world s); s = s\<lparr>sf_world := w\<rparr>
             in if \<not> ok then option_error host ''BINDADDR'' s
             else (let (ok, w) = bind_set_port host (sf_bind s) 0 (sf_world s); s = s\<lparr>sf_world := w\<rparr>
                   in if \<not> ok then option_error host ''BINDPORT'' s
                   else (case import_hostkey host s of
                     (Inl e, s) \<Rightarrow> (Inl e, s)
                   | (Inr _, s) \<Rightarrow> listen_bind host s))))))"

subsection \<open>Stopping\<close>

definition unblock_accept :: "'w ssh_host \<Rightarrow> ('w, 't) sftp_server \<Rightarrow> ('w, 't) sftp_server" where
  "unblock_accept host s =
     (if sf_port s = 0 then s
      else (let (sock, w) = sock_new host (sf_world s)
            in s\<lparr>sf_world := (if sock \<ge> 0 then sock_drop host sock (sock_connect host sock (sf_port s) w) else w)\<rparr>))"

text \<open>\<open>stop\<close> waits for the accepting thread and the session threads. What it does before it waits
  and what it does when they have ended are the two parts of the whole operation.\<close>

definition stop_begin :: "'w ssh_host \<Rightarrow> ('w, 't) sftp_server \<Rightarrow> ('w, 't) sftp_server" where
  "stop_begin host s = unblock_accept host (s\<lparr>sf_running := False, sf_stopping := True\<rparr>)"

definition stop_end :: "'w ssh_host \<Rightarrow> ('w, 't) sftp_server \<Rightarrow> ('w, 't) sftp_server" where
  "stop_end host s =
     (bind_reset host s)\<lparr>sf_port := 0, sf_conn_users := [], sf_session_users := [], sf_stopping := False\<rparr>"

definition sftp_stop :: "'w ssh_host \<Rightarrow> ('w, 't) sftp_server \<Rightarrow> ('w, 't) sftp_server" where
  "sftp_stop host s = (if \<not> sf_running s then s else stop_end host (stop_begin host s))"

subsection \<open>Users and history\<close>

definition sftp_base_url :: "('w, 't) sftp_server \<Rightarrow> string throwing" where
  "sftp_base_url s =
     (if \<not> sf_running s then Inl ''sftp_server is not running''
      else Inr (''sftp://127.0.0.1:'' @ dec_string (unat (sf_port s))))"

fun put_sftp_user :: "sftp_user \<Rightarrow> sftp_user list \<Rightarrow> sftp_user list" where
  "put_sftp_user new [] = [new]"
| "put_sftp_user new (u # us) =
     (if su_name u = su_name new
      then u\<lparr>su_pass := su_pass new, su_root := su_root new, su_perm := su_perm new\<rparr> # us
      else u # put_sftp_user new us)"

definition sftp_add_user ::
  "string \<Rightarrow> string \<Rightarrow> string \<Rightarrow> sftp_permission \<Rightarrow> ('w, 't) sftp_server \<Rightarrow> ('w, 't) sftp_server" where
  "sftp_add_user name pass root perm s =
     s\<lparr>sf_users := put_sftp_user \<lparr>su_name = name, su_pass = pass, su_root = root, su_perm = perm\<rparr> (sf_users s)\<rparr>"

definition sftp_clear_users :: "('w, 't) sftp_server \<Rightarrow> ('w, 't) sftp_server" where
  "sftp_clear_users s = s\<lparr>sf_users := []\<rparr>"

definition sftp_temp_root :: "('w, 't) sftp_server \<Rightarrow> string" where
  "sftp_temp_root s = sf_temp s"

definition sftp_connected_users :: "('w, 't) sftp_server \<Rightarrow> string list" where
  "sftp_connected_users s = sf_conn_users s"

definition sftp_history :: "('w, 't) sftp_server \<Rightarrow> sftp_activity list" where
  "sftp_history s = map (\<lambda>a. a) (sf_activity s)"

definition sftp_clear_activity :: "('w, 't) sftp_server \<Rightarrow> ('w, 't) sftp_server" where
  "sftp_clear_activity s = s\<lparr>sf_activity := []\<rparr>"

definition push_activity :: "sftp_activity \<Rightarrow> ('w, 't) sftp_server \<Rightarrow> ('w, 't) sftp_server" where
  "push_activity a s = s\<lparr>sf_activity := sf_activity s @ [a]\<rparr>"

subsection \<open>Authentication\<close>

text \<open>\<open>check_auth\<close>, with libssh's record of the success it returns.\<close>

definition check_auth ::
  "nat \<Rightarrow> string \<Rightarrow> string \<Rightarrow> ('w, 't) sftp_server \<Rightarrow> answer \<times> ('w, 't) sftp_server" where
  "check_auth session user password s =
     (if \<exists>u\<in>set (sf_users s). su_name u = user \<and> su_pass u = password
      then (Auth_success,
            s\<lparr>sf_session_users := omap_put session user (sf_session_users s),
              sf_conn_users := (if user \<in> set (sf_conn_users s) then sf_conn_users s
                                else sf_conn_users s @ [user]),
              sf_authenticated := session # sf_authenticated s\<rparr>)
      else (Auth_denied, s))"

definition sftp_remove_session :: "nat \<Rightarrow> ('w, 't) sftp_server \<Rightarrow> ('w, 't) sftp_server" where
  "sftp_remove_session session s =
     (case map_of (sf_session_users s) session of
        None \<Rightarrow> s
      | Some user \<Rightarrow> s\<lparr>sf_conn_users := remove1 user (sf_conn_users s),
                      sf_session_users := omap_erase session (sf_session_users s)\<rparr>)"

text \<open>\<open>lookup_user\<close>: whether it succeeds, and the name, root and permissions as it leaves them when
  they begin empty and \<open>none\<close>.\<close>

definition lookup_user ::
  "nat \<Rightarrow> ('w, 't) sftp_server \<Rightarrow> bool \<times> string \<times> string \<times> sftp_permission" where
  "lookup_user session s =
     (case map_of (sf_session_users s) session of
        None \<Rightarrow> (False, [], [], sftp_perm_none)
      | Some username \<Rightarrow>
          (case find (\<lambda>u. su_name u = username) (sf_users s) of
             None \<Rightarrow> (False, username, [], sftp_perm_none)
           | Some u \<Rightarrow> (True, username, su_root u, su_perm u)))"

end
