(* ===== verification/SftpSystem.thy ===== *)
theory SftpSystem
  imports SftpServer
begin

text \<open>
  The threads of the SFTP server: the accepting thread, and the thread of each session with its
  handshake, its requests and its end, as functions on the server object and as a step relation.
  One step is one public call, one part of \<open>stop\<close>, one half round of the accepting thread (up to
  the blocking accept, and from it), or one round of a loop of a session thread.
\<close>

subsection \<open>Callbacks\<close>

definition make_hs :: "nat \<Rightarrow> ('w, 't) sftp_server \<Rightarrow> ('w, 't) sftp_server" where
  "make_hs session s =
     (if map_of (sf_handshakes s) session = None
      then s\<lparr>sf_handshakes := omap_put session \<lparr>hs_pending = None, hs_accepted = False\<rparr> (sf_handshakes s)\<rparr>
      else s)"

definition remove_hs :: "nat \<Rightarrow> ('w, 't) sftp_server \<Rightarrow> ('w, 't) sftp_server" where
  "remove_hs session s = s\<lparr>sf_handshakes := omap_erase session (sf_handshakes s)\<rparr>"

text \<open>\<open>get_hs\<close> followed by a store into the entry it returns. For a session without entry \<open>get_hs\<close>
  dereferences the end of the map.\<close>

definition update_hs ::
  "nat \<Rightarrow> (handshake \<Rightarrow> handshake) \<Rightarrow> ('w, 't) sftp_server \<Rightarrow> ('w, 't) sftp_server outcome" where
  "update_hs session f s =
     (case map_of (sf_handshakes s) session of
        None \<Rightarrow> Undefined
      | Some hs \<Rightarrow> Done (s\<lparr>sf_handshakes := omap_put session (f hs) (sf_handshakes s)\<rparr>))"

definition on_channel_open_session ::
  "nat \<Rightarrow> nat option \<Rightarrow> ('w, 't) sftp_server \<Rightarrow> (answer \<times> ('w, 't) sftp_server) outcome" where
  "on_channel_open_session session chan s =
     (if chan = None then Done (Channel None, s)
      else (case update_hs session (\<lambda>hs. hs\<lparr>hs_pending := chan\<rparr>) s of
              Done s1 \<Rightarrow> Done (Channel chan, s1) | Undefined \<Rightarrow> Undefined | Hangs \<Rightarrow> Hangs))"

definition on_channel_subsystem ::
  "nat \<Rightarrow> string option \<Rightarrow> ('w, 't) sftp_server \<Rightarrow> (answer \<times> ('w, 't) sftp_server) outcome" where
  "on_channel_subsystem session subsystem s =
     (if subsystem = Some ''sftp''
      then (case update_hs session (\<lambda>hs. hs\<lparr>hs_accepted := True\<rparr>) s of
              Done s1 \<Rightarrow> Done (Subsystem_result 0, s1) | Undefined \<Rightarrow> Undefined | Hangs \<Rightarrow> Hangs)
      else Done (Subsystem_result 1, s))"

fun run_callback ::
  "nat \<Rightarrow> callback \<Rightarrow> ('w, 't) sftp_server \<Rightarrow> (answer \<times> ('w, 't) sftp_server) outcome" where
  "run_callback session (On_auth_password user password) s = Done (check_auth session user password s)"
| "run_callback session (On_channel_open chan) s = on_channel_open_session session chan s"
| "run_callback session (On_subsystem subsystem) s = on_channel_subsystem session subsystem s"

primrec run_script ::
  "nat \<Rightarrow> 'w script \<Rightarrow> ('w, 't) sftp_server \<Rightarrow> (bool \<times> ('w, 't) sftp_server) outcome" where
  "run_script session (Finish ok w) = (\<lambda>s. Done (ok, s\<lparr>sf_world := w\<rparr>))"
| "run_script session (Call cb next) = (\<lambda>s.
     case run_callback session cb s of
       Done (a, s1) \<Rightarrow> run_script session (next a) s1
     | Undefined \<Rightarrow> Undefined | Hangs \<Rightarrow> Hangs)"

subsection \<open>The thread of a session\<close>

text \<open>The end of a session: channel, tables, session object. libssh's authentication flag is in the
  session object, so it goes with it.\<close>

definition close_session ::
  "'w ssh_host \<Rightarrow> nat \<Rightarrow> nat option \<Rightarrow> ('w, 't) sftp_server \<Rightarrow> ('w, 't) sftp_server" where
  "close_session host session chan s =
     (let s = (case chan of
                 Some c \<Rightarrow> run_world (\<lambda>w. channel_free host c (channel_close host c (channel_send_eof host c w))) s
               | None \<Rightarrow> s);
          s = sftp_remove_session session (remove_hs session s);
          s = run_world (\<lambda>w. ssh_free host session (ssh_disconnect host session w)) s
      in s\<lparr>sf_authenticated := removeAll session (sf_authenticated s)\<rparr>)"

text \<open>One round of the loop of \<open>do_callback_handshake\<close>, with \<open>out_chan\<close>.\<close>

datatype 's hs_round = Hs_again "nat option" 's | Hs_done nat 's | Hs_failed "nat option" 's | Hs_fault

definition handshake_round ::
  "'w ssh_host \<Rightarrow> nat \<Rightarrow> nat option \<Rightarrow> ('w, 't) sftp_server \<Rightarrow> ('w, 't) sftp_server hs_round" where
  "handshake_round host session out_chan s =
     (if \<not> sf_running s then Hs_failed out_chan s
      else (case run_script session
                   (ssh_handle_packets host session (session \<in> set (sf_authenticated s)) (sf_world s)) s of
              Done (ok, s) \<Rightarrow>
                (if \<not> ok then Hs_failed out_chan s
                 else (case map_of (sf_handshakes s) session of
                         None \<Rightarrow> Hs_fault
                       | Some hs \<Rightarrow>
                           (let out_chan = (if hs_pending hs \<noteq> None \<and> out_chan = None then hs_pending hs else out_chan)
                            in case out_chan of
                                 Some c \<Rightarrow> (if hs_accepted hs then Hs_done c s else Hs_again out_chan s)
                               | None \<Rightarrow> Hs_again None s)))
            | _ \<Rightarrow> Hs_fault))"

text \<open>\<open>handle_session_after_auth\<close> between the handshake and the loop: the context of the session, or
  its end.\<close>

definition enter_sftp ::
  "'w ssh_host \<Rightarrow> 't \<Rightarrow> nat \<Rightarrow> nat \<Rightarrow> ('w, 't) sftp_server \<Rightarrow> 't session_phase option \<times> ('w, 't) sftp_server" where
  "enter_sftp host table session chan s =
     (let (sftp_srv, w) = sftp_new host session chan (sf_world s); s = s\<lparr>sf_world := w\<rparr>
      in case sftp_srv of
           None \<Rightarrow> (None, close_session host session (Some chan) s)
         | Some srv \<Rightarrow>
             (let (ok, w) = sftp_init host srv (sf_world s); s = s\<lparr>sf_world := w\<rparr>
              in if \<not> ok then (None, close_session host session (Some chan) (run_world (sftp_free host srv) s))
              else (let (found, username, user_root, user_perm) = lookup_user session s
                    in (Some (Serving chan srv
                          \<lparr>cx_username = username, cx_root = user_root, cx_perm = user_perm\<rparr>
                          table Map.empty 0 []), s))))"

definition session_view ::
  "'t \<Rightarrow> (nat \<Rightarrow> handle_data option) \<Rightarrow> nat \<Rightarrow> (32 word \<times> reply) list \<Rightarrow> ('w, 't) sftp_server
   \<Rightarrow> ('w, 't) sftp_thread" where
  "session_view table heap fresh replies s =
     \<lparr>st_table = table, st_heap = heap, st_fresh = fresh, st_activity = sf_activity s,
      st_replies = replies, st_world = sf_world s\<rparr>"

definition session_put :: "('w, 't) sftp_thread \<Rightarrow> ('w, 't) sftp_server \<Rightarrow> ('w, 't) sftp_server" where
  "session_put st s = s\<lparr>sf_activity := st_activity st, sf_world := st_world st\<rparr>"

definition serving_of :: "nat \<Rightarrow> nat \<Rightarrow> sftp_context \<Rightarrow> ('w, 't) sftp_thread \<Rightarrow> 't session_phase" where
  "serving_of chan srv cx st = Serving chan srv cx (st_table st) (st_heap st) (st_fresh st) (st_replies st)"

text \<open>One step of a session thread: its next phase, \<open>None\<close> when it has ended. There is no result when
  the behaviour is undefined or a handler does not return.\<close>

fun session_step ::
  "'w ssh_host \<Rightarrow> 'w sys \<Rightarrow> 't handle_lib \<Rightarrow> 't \<Rightarrow> nat \<Rightarrow> 't session_phase \<Rightarrow> ('w, 't) sftp_server
   \<Rightarrow> ('t session_phase option \<times> ('w, 't) sftp_server) option" where
  "session_step host sys lib table0 session Begun s = Some (Some (Handshaking None), make_hs session s)"
| "session_step host sys lib table0 session (Handshaking out_chan) s =
     (case handshake_round host session out_chan s of
        Hs_again out s1 \<Rightarrow> Some (Some (Handshaking out), s1)
      | Hs_done chan s1 \<Rightarrow> Some (enter_sftp host table0 session chan s1)
      | Hs_failed out s1 \<Rightarrow> Some (None, close_session host session out s1)
      | Hs_fault \<Rightarrow> None)"
| "session_step host sys lib table0 session (Serving chan srv cx table heap fresh replies) s =
     (case sftp_round sys lib (\<lambda>_. sf_running s) cx (session_view table heap fresh replies s) of
        Again st \<Rightarrow> Some (Some (serving_of chan srv cx st), session_put st s)
      | Leave st \<Rightarrow> Some (None, close_session host session (Some chan) (run_world (sftp_free host srv) (session_put st s)))
      | Fault \<Rightarrow> None
      | Stuck \<Rightarrow> None)"

text \<open>A whole session, from some phase on, when no other thread runs.\<close>

partial_function (option) session_from ::
  "'w ssh_host \<Rightarrow> 'w sys \<Rightarrow> 't handle_lib \<Rightarrow> 't \<Rightarrow> nat \<Rightarrow> 't session_phase \<Rightarrow> ('w, 't) sftp_server
   \<Rightarrow> ('w, 't) sftp_server option" where
  "session_from host sys lib table0 session phase s =
     (case session_step host sys lib table0 session phase s of
        None \<Rightarrow> None
      | Some (None, s1) \<Rightarrow> Some s1
      | Some (Some phase1, s1) \<Rightarrow> session_from host sys lib table0 session phase1 s1)"

definition handle_session_after_auth ::
  "'w ssh_host \<Rightarrow> 'w sys \<Rightarrow> 't handle_lib \<Rightarrow> 't \<Rightarrow> nat \<Rightarrow> ('w, 't) sftp_server \<Rightarrow> ('w, 't) sftp_server option" where
  "handle_session_after_auth host sys lib table0 session s = session_from host sys lib table0 session Begun s"

subsection \<open>The accepting thread\<close>

text \<open>\<open>acceptor_loop\<close> from its head to the blocking accept, and from there to its head.\<close>

definition accept_begin :: "'w ssh_host \<Rightarrow> ('w, 't) sftp_server \<Rightarrow> ('w, 't) sftp_server" where
  "accept_begin host s =
     (if \<not> sf_running s then s\<lparr>sf_acceptor := Absent\<rparr>
      else (let (session, w) = ssh_new host (sf_world s); s = s\<lparr>sf_world := w\<rparr>
            in case session of None \<Rightarrow> s | Some i \<Rightarrow> s\<lparr>sf_acceptor := Waiting i\<rparr>))"

definition accept_return :: "'w ssh_host \<Rightarrow> nat \<Rightarrow> ('w, 't) sftp_server \<Rightarrow> ('w, 't) sftp_server" where
  "accept_return host session s =
     (let loop = (\<lambda>s. s\<lparr>sf_acceptor := (if sf_running s then Looping else Absent)\<rparr>);
          (ok, w) = bind_accept host (sf_bind s) session (sf_world s); s = s\<lparr>sf_world := w\<rparr>
      in if \<not> ok then loop (run_world (ssh_free host session) s)
      else if \<not> sf_running s then loop (run_world (ssh_free host session) s)
      else (let (ok, w) = ssh_key_exchange host session (ssh_set_callbacks host session (sf_world s));
                s = s\<lparr>sf_world := w\<rparr>
            in if \<not> ok
            then loop (run_world (\<lambda>w. ssh_free host session (ssh_disconnect host session w))
                   (sftp_remove_session session s))
            else loop (s\<lparr>sf_threads := sf_threads s @ [(session, Begun)]\<rparr>)))"

subsection \<open>Steps\<close>

definition set_session_phase ::
  "nat \<Rightarrow> 't session_phase option \<Rightarrow> ('w, 't) sftp_server \<Rightarrow> ('w, 't) sftp_server" where
  "set_session_phase session phase s =
     s\<lparr>sf_threads := (case phase of
         None \<Rightarrow> filter (\<lambda>t. fst t \<noteq> session) (sf_threads s)
       | Some p \<Rightarrow> map (\<lambda>t. if fst t = session then (session, p) else t) (sf_threads s))\<rparr>"

text \<open>\<open>ssh_new\<close> allocates a session object, so what it returns is not the address of one in use.\<close>

definition new_session_ok :: "('w, 't) sftp_server \<Rightarrow> bool" where
  "new_session_ok s \<longleftrightarrow> (case sf_acceptor s of Waiting i \<Rightarrow> i \<notin> fst ` set (sf_threads s) | _ \<Rightarrow> True)"

inductive sftp_step ::
  "'w ssh_host \<Rightarrow> 'w sys \<Rightarrow> 't handle_lib \<Rightarrow> 't \<Rightarrow> ('w, 't) sftp_server \<Rightarrow> ('w, 't) sftp_server \<Rightarrow> bool"
  for host sys lib table0 where
  ss_start: "sf_running s \<or> \<not> sf_stopping s \<Longrightarrow>
     sftp_step host sys lib table0 s (snd (sftp_start host s))"
| ss_stop_begin: "sf_running s \<Longrightarrow> sftp_step host sys lib table0 s (stop_begin host s)"
| ss_stop_end: "sf_stopping s \<Longrightarrow> sf_acceptor s = Absent \<Longrightarrow> sf_threads s = [] \<Longrightarrow>
     sftp_step host sys lib table0 s (stop_end host s)"
| ss_add_user: "sftp_step host sys lib table0 s (sftp_add_user name pass root perm s)"
| ss_clear_users: "sftp_step host sys lib table0 s (sftp_clear_users s)"
| ss_clear_activity: "sftp_step host sys lib table0 s (sftp_clear_activity s)"
| ss_accept_begin: "sf_acceptor s = Looping \<Longrightarrow> new_session_ok (accept_begin host s) \<Longrightarrow>
     sftp_step host sys lib table0 s (accept_begin host s)"
| ss_accept_return: "sf_acceptor s = Waiting i \<Longrightarrow>
     sftp_step host sys lib table0 s (accept_return host i s)"
| ss_session: "(i, phase) \<in> set (sf_threads s) \<Longrightarrow>
     session_step host sys lib table0 i phase s = Some (phase1, s1) \<Longrightarrow>
     sftp_step host sys lib table0 s (set_session_phase i phase1 s1)"

definition sftp_reachable ::
  "'w ssh_host \<Rightarrow> 'w sys \<Rightarrow> 't handle_lib \<Rightarrow> 't \<Rightarrow> ('w, 't) sftp_server \<Rightarrow> bool" where
  "sftp_reachable host sys lib table0 s \<longleftrightarrow>
     (\<exists>tmp w s0. new_sftp host tmp w = Inr s0 \<and> (sftp_step host sys lib table0)\<^sup>*\<^sup>* s0 s)"

subsection \<open>Contracts of the public operations\<close>

lemma option_error_fails [simp]: "fst (option_error host what s) \<noteq> Inr ()"
  by (simp add: option_error_def Let_def)

lemma option_error_running [simp]: "sf_running (snd (option_error host what s)) = sf_running s"
  by (simp add: option_error_def bind_reset_def Let_def split: option.split)

lemma bind_reset_running [simp]: "sf_running (bind_reset host s) = sf_running s"
  by (simp add: bind_reset_def split: option.split)

lemma unblock_running [simp]: "sf_running (unblock_accept host s) = sf_running s"
  by (simp add: unblock_accept_def split_beta Let_def)

lemma ensure_running [simp]:
  "sf_running (snd (ensure_bind host s)) = sf_running s"
  "sf_running (snd (ensure_hostkey host s)) = sf_running s"
  "sf_running (snd (import_hostkey host s)) = sf_running s"
  by (simp_all add: ensure_bind_def ensure_hostkey_def import_hostkey_def split_beta Let_def
      split: option.split sum.split prod.split)

lemma listen_running:
  "\<not> sf_running s \<Longrightarrow> sf_running (snd (listen_bind host s)) \<longleftrightarrow> fst (listen_bind host s) = Inr ()"
  by (simp add: listen_bind_def split_beta Let_def)

lemma start_running_iff:
  "\<not> sf_running s \<Longrightarrow> sf_running (snd (sftp_start host s)) \<longleftrightarrow> fst (sftp_start host s) = Inr ()"
  unfolding sftp_start_def
  by (auto simp: split_beta Let_def listen_running split: sum.splits prod.splits
      dest: arg_cong [where f = "\<lambda>r. sf_running (snd r)"])

interpretation sftp_life: lifecycle sf_running "sftp_start host" "sftp_stop host" sftp_base_url
  "''sftp_server is already running''" "''sftp_server is not running''" for host :: "'w ssh_host"
proof unfold_locales
  fix s :: "('w, 'b) sftp_server"
  show "\<not> sf_running s \<Longrightarrow> sf_running (snd (sftp_start host s)) \<longleftrightarrow> fst (sftp_start host s) = Inr ()"
    by (rule start_running_iff)
qed (simp_all add: sftp_start_def sftp_stop_def sftp_base_url_def stop_end_def stop_begin_def)

interpretation sftp_journal: journal push_activity sftp_history sftp_clear_activity
  by unfold_locales (simp_all add: push_activity_def sftp_history_def sftp_clear_activity_def)

definition sftp_account :: "('w, 't) sftp_server \<Rightarrow> string \<rightharpoonup> string \<times> string \<times> sftp_permission" where
  "sftp_account s name =
     map_option (\<lambda>u. (su_pass u, su_root u, su_perm u)) (find (\<lambda>u. su_name u = name) (sf_users s))"

lemma find_put_sftp_user:
  "find (\<lambda>u. su_name u = name) (put_sftp_user new us) =
     (if name = su_name new
      then Some (case find (\<lambda>u. su_name u = name) us of None \<Rightarrow> new
                 | Some u \<Rightarrow> u\<lparr>su_pass := su_pass new, su_root := su_root new, su_perm := su_perm new\<rparr>)
      else find (\<lambda>u. su_name u = name) us)"
  by (induction new us rule: put_sftp_user.induct) auto

interpretation sftp_accounts: accounts "\<lambda>name (pass, root, perm). sftp_add_user name pass root perm"
  sftp_account sftp_clear_users
  by unfold_locales
    (auto simp: sftp_account_def sftp_add_user_def sftp_clear_users_def find_put_sftp_user split_beta
      split: option.split)

end
