(* ===== verification/SftpInvariant.thy ===== *)
theory SftpInvariant
  imports SftpSystem
begin

text \<open>
  The invariant of the SFTP server. The tables shared by the threads (handshakes, users of sessions,
  connected users) are related to the set \<open>live\<close> of the sessions whose threads have begun, and to
  libssh's record of authenticated sessions; the phases of the threads are related to the tables.

  It rests on one documented behaviour of libssh, \<open>gated_host\<close>: channels are opened, and subsystems
  requested, only on authenticated sessions, and an authenticated session is not authenticated
  again.
\<close>

subsection \<open>What libssh promises\<close>

primrec script_gated :: "bool \<Rightarrow> 'w script \<Rightarrow> bool" where
  "script_gated auth (Finish ok w) = True"
| "script_gated auth (Call cb next) =
     (case cb of
        On_auth_password user password \<Rightarrow>
          \<not> auth \<and> script_gated True (next Auth_success) \<and> script_gated False (next Auth_denied)
      | _ \<Rightarrow> auth \<and> (\<forall>a. script_gated auth (next a)))"

definition gated_host :: "'w ssh_host \<Rightarrow> bool" where
  "gated_host host \<longleftrightarrow> (\<forall>session auth w. script_gated auth (ssh_handle_packets host session auth w))"

subsection \<open>The tables\<close>

definition tables_ok :: "nat set \<Rightarrow> ('w, 't) sftp_server \<Rightarrow> bool" where
  "tables_ok live s \<longleftrightarrow>
     omap_ok (sf_session_users s) \<and> omap_ok (sf_handshakes s)
   \<and> fst ` set (sf_handshakes s) = live
   \<and> set (sf_authenticated s) \<subseteq> live
   \<and> fst ` set (sf_session_users s) = set (sf_authenticated s)
   \<and> distinct (sf_conn_users s)
   \<and> set (sf_conn_users s) \<subseteq> snd ` set (sf_session_users s)
   \<and> (\<forall>i hs. map_of (sf_handshakes s) i = Some hs \<longrightarrow> hs_pending hs \<noteq> None \<or> hs_accepted hs \<longrightarrow>
        i \<in> set (sf_authenticated s))"

text \<open>What a thread leaves alone while it runs callbacks: everything but its own entries.\<close>

definition callbacks_keep :: "nat \<Rightarrow> ('w, 't) sftp_server \<Rightarrow> ('w, 't) sftp_server \<Rightarrow> bool" where
  "callbacks_keep i s s' \<longleftrightarrow>
     sf_threads s' = sf_threads s \<and> sf_acceptor s' = sf_acceptor s \<and> sf_running s' = sf_running s
   \<and> sf_stopping s' = sf_stopping s
   \<and> set (sf_authenticated s) \<subseteq> set (sf_authenticated s')
   \<and> (\<forall>j u. map_of (sf_session_users s) j = Some u \<longrightarrow> map_of (sf_session_users s') j = Some u)"

lemma callbacks_keep_trans: "callbacks_keep i a b \<Longrightarrow> callbacks_keep i b c \<Longrightarrow> callbacks_keep i a c"
  by (auto simp: callbacks_keep_def)

lemma omap_snd: "omap_ok kvs \<Longrightarrow> v \<in> snd ` set kvs \<longleftrightarrow> (\<exists>k. map_of kvs k = Some v)"
  by (force simp: omap_mem_iff [symmetric])

lemma omap_dom: "omap_ok kvs \<Longrightarrow> k \<in> fst ` set kvs \<longleftrightarrow> (\<exists>v. map_of kvs k = Some v)"
  by (force simp: omap_mem_iff [symmetric])

lemma values_omap_put: "map_of kvs k = None \<Longrightarrow> snd ` set (omap_put k v kvs) = insert v (snd ` set kvs)"
  by (induction k v kvs rule: omap_put.induct) (auto split: if_splits)

lemma check_auth_ok:
  assumes "tables_ok live s" "i \<in> live" "i \<notin> set (sf_authenticated s)"
  shows "tables_ok live (snd (check_auth i u p s))" "callbacks_keep i s (snd (check_auth i u p s))"
    "fst (check_auth i u p s) = Auth_success \<and> i \<in> set (sf_authenticated (snd (check_auth i u p s)))
     \<or> fst (check_auth i u p s) = Auth_denied \<and> snd (check_auth i u p s) = s"
proof -
  have new: "map_of (sf_session_users s) i = None"
    using assms(1,3) by (metis map_of_eq_None_iff set_map tables_ok_def)
  show "callbacks_keep i s (snd (check_auth i u p s))"
    using assms(1) new by (auto simp: callbacks_keep_def check_auth_def tables_ok_def omap_simps)
  show "fst (check_auth i u p s) = Auth_success \<and> i \<in> set (sf_authenticated (snd (check_auth i u p s)))
     \<or> fst (check_auth i u p s) = Auth_denied \<and> snd (check_auth i u p s) = s"
    by (auto simp: check_auth_def)
  have ran: "snd ` set (omap_put i u (sf_session_users s)) = insert u (snd ` set (sf_session_users s))"
    using new by (rule values_omap_put)
  show "tables_ok live (snd (check_auth i u p s))"
    using assms ran
    by (auto simp: check_auth_def tables_ok_def omap_ok_put keys_omap_put)
qed

lemma update_hs_ok:
  assumes "tables_ok live s" "i \<in> live" "i \<in> set (sf_authenticated s)"
  obtains s' where "update_hs i f s = Done s'" "tables_ok live s'" "callbacks_keep i s s'"
    "sf_authenticated s' = sf_authenticated s"
proof -
  obtain hs where hs: "map_of (sf_handshakes s) i = Some hs"
    using assms(1,2) omap_dom [of "sf_handshakes s" i] by (auto simp: tables_ok_def)
  let ?s' = "s\<lparr>sf_handshakes := omap_put i (f hs) (sf_handshakes s)\<rparr>"
  have "tables_ok live ?s'"
    using assms by (auto simp: tables_ok_def omap_ok_put keys_omap_put map_of_omap_put)
  then show thesis
    using that [of ?s'] hs by (simp add: update_hs_def callbacks_keep_def)
qed

lemma run_script_ok:
  assumes "script_gated (i \<in> set (sf_authenticated s)) scr" "tables_ok live s" "i \<in> live"
  obtains ok s' where "run_script i scr s = Done (ok, s')" "tables_ok live s'" "callbacks_keep i s s'"
proof -
  have "\<exists>ok s'. run_script i scr s = Done (ok, s') \<and> tables_ok live s' \<and> callbacks_keep i s s'"
    using assms(1,2)
  proof (induction scr arbitrary: s)
    case (Finish ok w)
    then show ?case by (simp add: tables_ok_def callbacks_keep_def)
  next
    case (Call cb nxt)
    have step: ?case if "run_callback i cb s = Done (a, s1)" "tables_ok live s1" "callbacks_keep i s s1"
      "script_gated (i \<in> set (sf_authenticated s1)) (nxt a)" for a s1
      using Call.IH [OF _ that(4,2)] that(1,3) by (auto intro: callbacks_keep_trans)
    show ?case
    proof (cases cb)
      case (On_auth_password u p)
      with Call.prems(1) have "i \<notin> set (sf_authenticated s)"
        "script_gated True (nxt Auth_success)" "script_gated False (nxt Auth_denied)"
        by auto
      with check_auth_ok [OF Call.prems(2) assms(3) this(1), of u p] show ?thesis
        by (intro step [of "fst (check_auth i u p s)" "snd (check_auth i u p s)"])
          (auto simp: On_auth_password)
    next
      case (On_channel_open chan)
      with Call.prems(1) have gate: "i \<in> set (sf_authenticated s)" "\<And>a. script_gated True (nxt a)"
        by auto
      show ?thesis
      proof (cases chan)
        case None
        show ?thesis
          by (rule step [of "Channel None" s])
            (use gate Call.prems(2) None On_channel_open in
              \<open>auto simp: on_channel_open_session_def callbacks_keep_def\<close>)
      next
        case (Some c)
        obtain s1 where s1: "update_hs i (\<lambda>hs. hs\<lparr>hs_pending := chan\<rparr>) s = Done s1" "tables_ok live s1"
          "callbacks_keep i s s1" "sf_authenticated s1 = sf_authenticated s"
          using update_hs_ok [OF Call.prems(2) assms(3) gate(1)] by metis
        show ?thesis
          by (rule step [of "Channel chan" s1])
            (use gate s1 Some On_channel_open in \<open>auto simp: on_channel_open_session_def\<close>)
      qed
    next
      case (On_subsystem sub)
      with Call.prems(1) have gate: "i \<in> set (sf_authenticated s)" "\<And>a. script_gated True (nxt a)"
        by auto
      show ?thesis
      proof (cases "sub = Some ''sftp''")
        case False
        show ?thesis
          by (rule step [of "Subsystem_result 1" s])
            (use gate Call.prems(2) False On_subsystem in
              \<open>auto simp: on_channel_subsystem_def callbacks_keep_def\<close>)
      next
        case True
        obtain s1 where s1: "update_hs i (\<lambda>hs. hs\<lparr>hs_accepted := True\<rparr>) s = Done s1" "tables_ok live s1"
          "callbacks_keep i s s1" "sf_authenticated s1 = sf_authenticated s"
          using update_hs_ok [OF Call.prems(2) assms(3) gate(1)] by metis
        show ?thesis
          by (rule step [of "Subsystem_result 0" s1])
            (use gate s1 True On_subsystem in \<open>auto simp: on_channel_subsystem_def\<close>)
      qed
    qed
  qed
  with that show thesis by blast
qed

lemma omap_erase_absent: "map_of kvs k = None \<Longrightarrow> omap_erase k kvs = kvs"
  by (auto simp: omap_erase_def map_of_eq_None_iff intro!: filter_True)

lemma close_session_keeps:
  "sf_threads (close_session host i chan s) = sf_threads s"
  "sf_acceptor (close_session host i chan s) = sf_acceptor s"
  "sf_running (close_session host i chan s) = sf_running s"
  "sf_stopping (close_session host i chan s) = sf_stopping s"
  by (simp_all add: close_session_def sftp_remove_session_def remove_hs_def run_world_def Let_def
      split: option.split)

lemma close_session_tables:
  assumes "tables_ok live s"
  shows "tables_ok (live - {i}) (close_session host i chan s)"
    "j \<noteq> i \<Longrightarrow> map_of (sf_session_users (close_session host i chan s)) j = map_of (sf_session_users s) j"
    "set (sf_authenticated (close_session host i chan s)) = set (sf_authenticated s) - {i}"
proof -
  let ?s' = "close_session host i chan s"
  have parts: "sf_handshakes ?s' = omap_erase i (sf_handshakes s)"
    "sf_authenticated ?s' = removeAll i (sf_authenticated s)"
    "sf_session_users ?s' = omap_erase i (sf_session_users s)"
    "sf_conn_users ?s' = (case map_of (sf_session_users s) i of None \<Rightarrow> sf_conn_users s
       | Some u \<Rightarrow> remove1 u (sf_conn_users s))"
    by (auto simp: close_session_def sftp_remove_session_def remove_hs_def run_world_def Let_def
        omap_erase_absent split: option.split)
  show "j \<noteq> i \<Longrightarrow> map_of (sf_session_users ?s') j = map_of (sf_session_users s) j"
    by (simp add: parts map_of_omap_erase)
  show "set (sf_authenticated ?s') = set (sf_authenticated s) - {i}"
    by (simp add: parts)
  have su: "omap_ok (sf_session_users s)" "omap_ok (omap_erase i (sf_session_users s))"
    using assms by (auto simp: tables_ok_def omap_ok_erase)
  have "set (sf_conn_users ?s') \<subseteq> snd ` set (sf_session_users ?s')"
  proof
    fix v assume v: "v \<in> set (sf_conn_users ?s')"
    have "v \<in> snd ` set (sf_session_users s)" "map_of (sf_session_users s) i \<noteq> Some v"
      using v assms by (auto simp: parts tables_ok_def split: option.splits dest: notin_set_remove1)
    then obtain k where "map_of (sf_session_users s) k = Some v" "k \<noteq> i"
      using su(1) by (auto simp: omap_snd)
    then show "v \<in> snd ` set (sf_session_users ?s')"
      using su(2) by (auto simp: parts omap_snd map_of_omap_erase)
  qed
  moreover have "distinct (sf_conn_users ?s')"
    using assms by (auto simp: parts tables_ok_def split: option.split)
  ultimately show "tables_ok (live - {i}) ?s'"
    using assms
    by (auto simp: tables_ok_def parts(1-3) omap_ok_erase keys_omap_erase map_of_omap_erase split: if_splits)
qed

subsection \<open>The server\<close>

definition live_sessions :: "('w, 't) sftp_server \<Rightarrow> nat set" where
  "live_sessions s = {i. \<exists>p. (i, p) \<in> set (sf_threads s) \<and> p \<noteq> Begun}"

fun phase_ok :: "('w, 't) sftp_server \<Rightarrow> nat \<Rightarrow> 't session_phase \<Rightarrow> bool" where
  "phase_ok s i Begun = True"
| "phase_ok s i (Handshaking None) = True"
| "phase_ok s i (Handshaking (Some c)) = (i \<in> set (sf_authenticated s))"
| "phase_ok s i (Serving chan srv cx table heap fresh replies) =
     (map_of (sf_session_users s) i = Some (cx_username cx))"

definition sftp_ok :: "('w, 't) sftp_server \<Rightarrow> bool" where
  "sftp_ok s \<longleftrightarrow>
     distinct (map fst (sf_threads s))
   \<and> tables_ok (live_sessions s) s
   \<and> (\<forall>i p. (i, p) \<in> set (sf_threads s) \<longrightarrow> phase_ok s i p)
   \<and> (\<forall>i. sf_acceptor s = Waiting i \<longrightarrow> i \<notin> fst ` set (sf_threads s))
   \<and> (\<not> sf_running s \<and> \<not> sf_stopping s \<longrightarrow> sf_acceptor s = Absent \<and> sf_threads s = [])
   \<and> (sf_running s \<longrightarrow> \<not> sf_stopping s)"

lemma phase_ok_keep: "callbacks_keep j s s' \<Longrightarrow> phase_ok s i p \<Longrightarrow> phase_ok s' i p"
  by (cases "(s, i, p)" rule: phase_ok.cases) (auto simp: callbacks_keep_def)

lemma phase_ok_close: "tables_ok live s \<Longrightarrow> i \<noteq> j \<Longrightarrow> phase_ok s i p \<Longrightarrow> phase_ok (close_session host j chan s) i p"
  using close_session_tables(2,3) [where host = host and i = j and chan = chan and s = s]
  by (cases "(s, i, p)" rule: phase_ok.cases) auto

lemma phase_ok_threads [simp]: "phase_ok (s\<lparr>sf_threads := ts\<rparr>) i p = phase_ok s i p"
  by (cases "(s, i, p)" rule: phase_ok.cases) auto

lemma tables_ok_threads [simp]: "tables_ok live (s\<lparr>sf_threads := ts\<rparr>) = tables_ok live s"
  by (simp add: tables_ok_def)

lemma set_phase_mem:
  "(i, old) \<in> set ts \<Longrightarrow> (j, q) \<in> set (map (\<lambda>t. if fst t = i then (i, p) else t) ts) \<longleftrightarrow>
     (if j = i then q = p else (j, q) \<in> set ts)"
  by force

lemma map_fst_set_phase: "map fst (map (\<lambda>t. if fst t = i then (i, p) else t) ts) = map fst ts"
  by (induction ts) auto

text \<open>Writing back the next phase of session \<open>i\<close>.\<close>

lemma set_phase_ok:
  assumes "sftp_ok s" "(i, old) \<in> set (sf_threads s)"
    and "sf_threads s1 = sf_threads s" "sf_acceptor s1 = sf_acceptor s" "sf_running s1 = sf_running s"
      "sf_stopping s1 = sf_stopping s"
    and "\<And>j p. j \<noteq> i \<Longrightarrow> phase_ok s j p \<Longrightarrow> phase_ok s1 j p"
    and "case new of None \<Rightarrow> tables_ok (live_sessions s - {i}) s1
         | Some p \<Rightarrow> p \<noteq> Begun \<and> phase_ok s1 i p \<and> tables_ok (insert i (live_sessions s)) s1"
  shows "sftp_ok (set_session_phase i new s1)"
proof (cases new)
  case None
  have "live_sessions (set_session_phase i None s1) = live_sessions s - {i}"
    using assms(3) by (auto simp: live_sessions_def set_session_phase_def)
  then show ?thesis
    using assms None
    by (auto simp: sftp_ok_def set_session_phase_def distinct_map_filter)
next
  case (Some p)
  have "live_sessions (set_session_phase i (Some p) s1) = insert i (live_sessions s)"
    using assms(2,3,8) Some
    by (auto simp: live_sessions_def set_session_phase_def set_phase_mem simp del: set_map)
  moreover have "\<forall>j q. (j, q) \<in> set (sf_threads (set_session_phase i (Some p) s1)) \<longrightarrow>
      phase_ok (set_session_phase i (Some p) s1) j q"
    using assms(1,2,3,7,8) Some
    by (auto simp: sftp_ok_def set_session_phase_def set_phase_mem simp del: set_map split: if_splits)
  moreover have "map fst (sf_threads (set_session_phase i (Some p) s1)) = map fst (sf_threads s)"
    using assms(3) by (simp add: set_session_phase_def map_fst_set_phase del: map_map)
  then have "distinct (map fst (sf_threads (set_session_phase i (Some p) s1)))"
    "fst ` set (sf_threads (set_session_phase i (Some p) s1)) = fst ` set (sf_threads s)"
    using assms(1) by (auto simp: sftp_ok_def simp flip: set_map)
  moreover have "sf_threads (set_session_phase i (Some p) s1) \<noteq> []"
    using assms(2,3) by (auto simp: set_session_phase_def)
  ultimately show ?thesis
    using assms(1,2,4,5,6,8) Some unfolding sftp_ok_def
    by (auto simp: set_session_phase_def)
qed

text \<open>A session thread keeps the invariant, step by step.\<close>

lemma run_world_tables [simp]:
  "tables_ok live (run_world f s) = tables_ok live s" "sf_threads (run_world f s) = sf_threads s"
  "sf_acceptor (run_world f s) = sf_acceptor s" "sf_running (run_world f s) = sf_running s"
  "sf_stopping (run_world f s) = sf_stopping s"
  by (simp_all add: run_world_def tables_ok_def)

lemma session_put_tables [simp]:
  "tables_ok live (session_put st s) = tables_ok live s" "sf_threads (session_put st s) = sf_threads s"
  "sf_acceptor (session_put st s) = sf_acceptor s" "sf_running (session_put st s) = sf_running s"
  "sf_stopping (session_put st s) = sf_stopping s"
  by (simp_all add: session_put_def tables_ok_def)

lemma world_tables [simp]: "tables_ok live (s\<lparr>sf_world := w\<rparr>) = tables_ok live s"
  by (simp add: tables_ok_def)

lemma phase_ok_world [simp]:
  "phase_ok (s\<lparr>sf_world := w\<rparr>) i p = phase_ok s i p" "phase_ok (run_world f s) i p = phase_ok s i p"
  "phase_ok (session_put st s) i p = phase_ok s i p"
  by (cases "(s, i, p)" rule: phase_ok.cases; auto simp: run_world_def session_put_def)+

lemma make_hs_ok:
  assumes "tables_ok live s" "i \<notin> live"
  shows "tables_ok (insert i live) (make_hs i s)"
proof -
  have "map_of (sf_handshakes s) i = None"
    using assms by (auto simp: tables_ok_def map_of_eq_None_iff)
  then show ?thesis
    using assms by (auto simp: make_hs_def tables_ok_def omap_ok_put keys_omap_put map_of_omap_put)
qed

lemma not_live_begun:
  assumes "sftp_ok s" "(i, Begun) \<in> set (sf_threads s)"
  shows "i \<notin> live_sessions s"
  using assms by (auto simp: sftp_ok_def live_sessions_def dest: eq_key_imp_eq_value)

lemma sftp_ok_phase: "sftp_ok s \<Longrightarrow> (i, p) \<in> set (sf_threads s) \<Longrightarrow> phase_ok s i p"
  by (simp add: sftp_ok_def)

lemma live_session: "(i, p) \<in> set (sf_threads s) \<Longrightarrow> p \<noteq> Begun \<Longrightarrow> i \<in> live_sessions s"
  by (auto simp: live_sessions_def)

lemma handshake_ok:
  assumes "gated_host host" "tables_ok live s" "i \<in> live"
    and "out = None \<or> i \<in> set (sf_authenticated s)"
  obtains (again) out1 s1 where "handshake_round host i out s = Hs_again out1 s1" "tables_ok live s1"
      "callbacks_keep i s s1" "out1 = None \<or> i \<in> set (sf_authenticated s1)"
    | (entered) c s1 where "handshake_round host i out s = Hs_done c s1" "tables_ok live s1"
      "callbacks_keep i s s1" "i \<in> set (sf_authenticated s1)"
    | (failed) s1 where "handshake_round host i out s = Hs_failed out s1" "tables_ok live s1"
      "callbacks_keep i s s1"
proof (cases "sf_running s")
  case False
  with assms(2) failed show thesis by (auto simp: handshake_round_def callbacks_keep_def)
next
  case True
  let ?scr = "ssh_handle_packets host i (i \<in> set (sf_authenticated s)) (sf_world s)"
  have "script_gated (i \<in> set (sf_authenticated s)) ?scr"
    using assms(1) unfolding gated_host_def by blast
  then obtain ok s1 where s1: "run_script i ?scr s = Done (ok, s1)" "tables_ok live s1" "callbacks_keep i s s1"
    using run_script_ok assms(2,3) by metis
  obtain hs where hs: "map_of (sf_handshakes s1) i = Some hs"
    using s1(2) assms(3) omap_dom [of "sf_handshakes s1" i] by (auto simp: tables_ok_def)
  have auth: "i \<in> set (sf_authenticated s1)" if "out \<noteq> None \<or> hs_pending hs \<noteq> None"
    using that assms(4) s1(2,3) hs by (auto simp: tables_ok_def callbacks_keep_def)
  show thesis
  proof (cases ok)
    case False
    show thesis
      by (rule failed [OF _ s1(2,3)]) (use True False s1(1) in \<open>simp add: handshake_round_def\<close>)
  next
    case ok: True
    define out1 where "out1 = (if hs_pending hs \<noteq> None \<and> out = None then hs_pending hs else out)"
    have out1: "out1 = None \<or> i \<in> set (sf_authenticated s1)"
      using auth by (cases out; cases "hs_pending hs") (simp_all add: out1_def)
    have round: "handshake_round host i out s = (case out1 of
        Some c \<Rightarrow> (if hs_accepted hs then Hs_done c s1 else Hs_again out1 s1) | None \<Rightarrow> Hs_again None s1)"
      using True s1(1) ok hs by (cases "hs_pending hs"; cases out) (simp_all add: handshake_round_def out1_def)
    show thesis
    proof (cases "\<exists>c. out1 = Some c \<and> hs_accepted hs")
      case True
      then obtain c where "out1 = Some c" "hs_accepted hs" by blast
      with round out1 entered [OF _ s1(2,3)] show thesis by simp
    next
      case False
      then have "handshake_round host i out s = Hs_again out1 s1"
        using round by (auto split: option.splits)
      with out1 again [OF _ s1(2,3)] show thesis by simp
    qed
  qed
qed

text \<open>What a step of session \<open>i\<close> does to the rest of the server, and what it needs to put back.\<close>

definition steps_to ::
  "nat \<Rightarrow> nat set \<Rightarrow> ('w, 't) sftp_server \<Rightarrow> 't session_phase option \<Rightarrow> ('w, 't) sftp_server \<Rightarrow> bool" where
  "steps_to i live s new s1 \<longleftrightarrow>
     sf_threads s1 = sf_threads s \<and> sf_acceptor s1 = sf_acceptor s \<and> sf_running s1 = sf_running s
   \<and> sf_stopping s1 = sf_stopping s
   \<and> (\<forall>j p. j \<noteq> i \<longrightarrow> phase_ok s j p \<longrightarrow> phase_ok s1 j p)
   \<and> (case new of None \<Rightarrow> tables_ok (live - {i}) s1
      | Some p \<Rightarrow> p \<noteq> Begun \<and> phase_ok s1 i p \<and> tables_ok (insert i live) s1)"

lemma steps_to_close:
  assumes "tables_ok live s1" "callbacks_keep i s s1"
  shows "steps_to i live s None (close_session host i chan s1)"
  using close_session_tables(1) [OF assms(1)] phase_ok_close [OF assms(1)] phase_ok_keep [OF assms(2)] assms(2)
  by (auto simp: steps_to_def close_session_keeps callbacks_keep_def)

lemma steps_to_phase:
  assumes "tables_ok (insert i live) s1" "callbacks_keep i s s1" "p \<noteq> Begun" "phase_ok s1 i p"
  shows "steps_to i live s (Some p) s1"
  using assms phase_ok_keep [OF assms(2)] by (auto simp: steps_to_def callbacks_keep_def)

lemma callbacks_keep_world [simp]:
  "callbacks_keep i s (s1\<lparr>sf_world := w\<rparr>) = callbacks_keep i s s1"
  "callbacks_keep i s (run_world f s1) = callbacks_keep i s s1"
  by (simp_all add: callbacks_keep_def run_world_def)

lemma lookup_user_name:
  "map_of (sf_session_users s) i = Some u \<Longrightarrow> fst (snd (lookup_user i s)) = u"
  by (simp add: lookup_user_def split: option.split)

lemma enter_sftp_ok:
  assumes "tables_ok live s1" "callbacks_keep i s s1" "i \<in> live" "i \<in> set (sf_authenticated s1)"
  shows "steps_to i live s (fst (enter_sftp host table i chan s1)) (snd (enter_sftp host table i chan s1))"
proof -
  obtain u where u: "map_of (sf_session_users s1) i = Some u"
    using assms(1,4) omap_dom [of "sf_session_users s1" i] by (auto simp: tables_ok_def)
  have "insert i live = live"
    using assms(3) by blast
  then show ?thesis
    using assms(1,2) u
    by (auto simp: enter_sftp_def Let_def split_beta lookup_user_name
        intro!: steps_to_close steps_to_phase split: option.split)
qed

lemma session_step_ok:
  assumes "gated_host host" "sftp_ok s" "(i, p) \<in> set (sf_threads s)"
    and "session_step host sys lib table0 i p s = Some (new, s1)"
  shows "steps_to i (live_sessions s) s new s1"
proof (cases p)
  case Begun
  have "tables_ok (live_sessions s) s" "i \<notin> live_sessions s"
    using assms(2,3) not_live_begun Begun by (auto simp: sftp_ok_def)
  from make_hs_ok [OF this] show ?thesis
    using assms(4) Begun
    by (auto simp: make_hs_def callbacks_keep_def intro!: steps_to_phase)
next
  case (Handshaking out)
  have tables: "tables_ok (live_sessions s) s" and live: "i \<in> live_sessions s"
    using assms(2,3) live_session Handshaking by (auto simp: sftp_ok_def)
  have out: "out = None \<or> i \<in> set (sf_authenticated s)"
    using sftp_ok_phase [OF assms(2,3)] Handshaking by (cases out) simp_all
  show ?thesis
    using assms(1) tables live out
  proof (cases rule: handshake_ok)
    case (again out1 s2)
    then show ?thesis
      using assms(4) Handshaking live
      by (cases out1) (auto simp: insert_absorb intro!: steps_to_phase)
  next
    case (entered c s2)
    then show ?thesis
      using assms(4) Handshaking enter_sftp_ok [OF entered(2,3) live entered(4), of host table0 c] by simp
  next
    case (failed s2)
    then show ?thesis
      using assms(4) Handshaking by (auto intro!: steps_to_close)
  qed
next
  case (Serving chan srv cx table heap fresh replies)
  have tables: "tables_ok (live_sessions s) s" and live: "i \<in> live_sessions s"
    and user: "map_of (sf_session_users s) i = Some (cx_username cx)"
    using assms(2,3) live_session Serving sftp_ok_phase [OF assms(2,3)] by (auto simp: sftp_ok_def)
  have put: "tables_ok (live_sessions s) (session_put st s)" "callbacks_keep i s (session_put st s)" for st
    using tables by (simp, simp add: callbacks_keep_def session_put_def)
  have keep: "steps_to i (live_sessions s) s None (close_session host i c (run_world f (session_put st s)))" for c f st
    by (rule steps_to_close) (simp_all add: put tables)
  moreover have "steps_to i (live_sessions s) s (Some (serving_of chan srv cx st')) (session_put st s)" for st st'
    by (rule steps_to_phase)
      (use put user live in \<open>simp_all add: serving_of_def insert_absorb, simp add: session_put_def\<close>)
  ultimately show ?thesis
    using assms(4) Serving
    by (auto split: round.splits)
qed

text \<open>The other steps.\<close>

lemma sftp_ok_same:
  assumes "sftp_ok s" "sf_threads s' = sf_threads s" "sf_session_users s' = sf_session_users s"
    "sf_handshakes s' = sf_handshakes s" "sf_authenticated s' = sf_authenticated s"
    "sf_conn_users s' = sf_conn_users s"
    "sf_acceptor s' = sf_acceptor s \<or> sf_acceptor s' = Absent
       \<or> (sf_acceptor s' = Looping \<or> (\<exists>i. sf_acceptor s' = Waiting i \<and> i \<notin> fst ` set (sf_threads s)))
          \<and> (sf_running s' \<or> sf_stopping s')"
    "\<not> sf_running s' \<and> \<not> sf_stopping s' \<longrightarrow> \<not> sf_running s \<and> \<not> sf_stopping s"
    "sf_running s' \<longrightarrow> \<not> sf_stopping s'"
  shows "sftp_ok s'"
proof -
  have "phase_ok s' i p = phase_ok s i p" for i p
    using assms(3,5) by (cases "(s, i, p)" rule: phase_ok.cases) auto
  moreover have "tables_ok (live_sessions s') s'"
    using assms(1-6) by (simp add: sftp_ok_def tables_ok_def live_sessions_def)
  moreover have "i \<notin> fst ` set (sf_threads s)" if "sf_acceptor s' = Waiting i" for i
    using assms(1,7) that unfolding sftp_ok_def by (metis acceptor.distinct acceptor.inject)
  moreover have "sf_acceptor s' = Absent \<and> sf_threads s = []" if "\<not> sf_running s' \<and> \<not> sf_stopping s'"
    using assms(1,7,8) that unfolding sftp_ok_def by auto
  ultimately show ?thesis
    using assms(1,2,9) unfolding sftp_ok_def by simp
qed

definition same_tables :: "('w, 't) sftp_server \<Rightarrow> ('w, 't) sftp_server \<Rightarrow> bool" where
  "same_tables s s' \<longleftrightarrow> sf_threads s' = sf_threads s \<and> sf_session_users s' = sf_session_users s
     \<and> sf_handshakes s' = sf_handshakes s \<and> sf_authenticated s' = sf_authenticated s
     \<and> sf_conn_users s' = sf_conn_users s \<and> sf_stopping s' = sf_stopping s"

definition start_keeps :: "('w, 't) sftp_server \<Rightarrow> ('w, 't) sftp_server \<Rightarrow> bool" where
  "start_keeps s s' \<longleftrightarrow> same_tables s s' \<and> sf_acceptor s' = sf_acceptor s \<and> sf_running s' = sf_running s"

lemma start_keeps_trans: "start_keeps a b \<Longrightarrow> start_keeps b c \<Longrightarrow> start_keeps a c"
  by (simp add: start_keeps_def same_tables_def)

lemma start_keeps_parts:
  "start_keeps s s" "start_keeps s (s\<lparr>sf_world := w\<rparr>)" "start_keeps s (bind_reset host s)"
  "start_keeps s (snd (option_error host what s))" "start_keeps s (snd (ensure_bind host s))"
  "start_keeps s (snd (ensure_hostkey host s))"
  by (simp_all add: start_keeps_def same_tables_def option_error_def bind_reset_def ensure_bind_def
      ensure_hostkey_def Let_def split: option.split sum.split prod.split)

lemma start_keeps_import: "start_keeps s (snd (import_hostkey host s))"
proof (cases "sf_hostkey s")
  case (Some key)
  let ?s1 = "s\<lparr>sf_world := snd (bind_import_key host (sf_bind s) key (sf_world s))\<rparr>"
  have "start_keeps s (snd (option_error host ''IMPORT_KEY'' ?s1))"
    by (rule start_keeps_trans [OF start_keeps_parts(2) start_keeps_parts(4)])
  moreover have "start_keeps s (?s1\<lparr>sf_hostkey := None\<rparr>)"
    by (simp add: start_keeps_def same_tables_def)
  ultimately show ?thesis
    using Some by (simp add: import_hostkey_def Let_def split_beta)
qed (simp add: import_hostkey_def start_keeps_parts)

definition start_result :: "('w, 't) sftp_server \<Rightarrow> ('w, 't) sftp_server \<Rightarrow> bool" where
  "start_result s s' \<longleftrightarrow>
     start_keeps s s' \<or> same_tables s s' \<and> sf_acceptor s' = Looping \<and> sf_running s'"

lemma start_result_listen: "start_result s (snd (listen_bind host s))"
  by (simp add: listen_bind_def start_result_def start_keeps_def same_tables_def bind_reset_def Let_def
      split_beta split: option.split)

lemma start_result_trans: "start_keeps a b \<Longrightarrow> start_result b c \<Longrightarrow> start_result a c"
  by (auto simp: start_result_def start_keeps_def same_tables_def)

text \<open>\<open>start\<close> as a chain of its parts: what every part does (\<open>R\<close>), followed by what listening does
  (\<open>Q\<close>), \<open>start\<close> does.\<close>

lemma sftp_start_chain:
  assumes refl: "\<And>a. R a a" and trans: "\<And>a b c. R a b \<Longrightarrow> R b c \<Longrightarrow> R a c"
    and weaken: "\<And>a b. R a b \<Longrightarrow> Q a b" and chain: "\<And>a b c. R a b \<Longrightarrow> Q b c \<Longrightarrow> Q a c"
    and bind: "\<And>a. R a (snd (ensure_bind host a))" and key: "\<And>a. R a (snd (ensure_hostkey host a))"
    and addr: "\<And>a b t. R a (a\<lparr>sf_world := snd (bind_set_addr host b t (sf_world a))\<rparr>)"
    and port: "\<And>a b n. R a (a\<lparr>sf_world := snd (bind_set_port host b n (sf_world a))\<rparr>)"
    and imp: "\<And>a. R a (snd (import_hostkey host a))" and error: "\<And>a what. R a (snd (option_error host what a))"
    and listen: "\<And>a. Q a (snd (listen_bind host a))"
  shows "Q s (snd (sftp_start host s))"
proof -
  define s1 where "s1 = snd (ensure_bind host s)"
  define s2 where "s2 = snd (ensure_hostkey host s1)"
  define s3 where "s3 = s2\<lparr>sf_world := snd (bind_set_addr host (sf_bind s2) ''127.0.0.1'' (sf_world s2))\<rparr>"
  define s4 where "s4 = s3\<lparr>sf_world := snd (bind_set_port host (sf_bind s3) 0 (sf_world s3))\<rparr>"
  define s5 where "s5 = snd (import_hostkey host s4)"
  have k1: "R s s1" unfolding s1_def by (rule bind)
  have k2: "R s s2" unfolding s2_def by (rule trans [OF k1 key])
  have k3: "R s s3" unfolding s3_def by (rule trans [OF k2 addr])
  have k4: "R s s4" unfolding s4_def by (rule trans [OF k3 port])
  have k5: "R s s5" unfolding s5_def by (rule trans [OF k4 imp])
  have "snd (sftp_start host s) \<in> {s, s1, s2, snd (option_error host ''BINDADDR'' s3),
      snd (option_error host ''BINDPORT'' s4), s5, snd (listen_bind host s5)}"
    by (simp add: sftp_start_def Let_def split_beta s1_def s2_def s3_def s4_def s5_def split: sum.split)
  moreover have "Q s s" "Q s s1" "Q s s2" "Q s s5"
    by (rule weaken refl k1 k2 k5)+
  moreover have "Q s (snd (option_error host what s3))" "Q s (snd (option_error host what s4))" for what
    by (rule weaken, rule trans [OF k3 error], rule weaken, rule trans [OF k4 error])
  moreover have "Q s (snd (listen_bind host s5))"
    by (rule chain [OF k5 listen])
  ultimately show ?thesis
    by (elim insertE emptyE) simp_all
qed

lemma sftp_start_result: "start_result s (snd (sftp_start host s))"
proof (rule sftp_start_chain [where R = start_keeps])
  show "start_keeps a b \<Longrightarrow> start_result a b" for a b :: "('a, 'b) sftp_server"
    by (simp add: start_result_def)
qed (rule start_keeps_parts start_keeps_import start_result_listen | erule (1) start_keeps_trans start_result_trans)+

lemma sftp_ok_same_tables:
  assumes "sftp_ok s" "same_tables s s'"
    "sf_acceptor s' = sf_acceptor s \<and> sf_running s' = sf_running s
     \<or> sf_acceptor s' = Looping \<and> sf_running s' \<and> \<not> sf_stopping s
     \<or> sf_acceptor s' = Absent \<and> sf_running s' = sf_running s
     \<or> (\<exists>i. sf_acceptor s' = Waiting i \<and> i \<notin> fst ` set (sf_threads s)) \<and> sf_running s' \<and> sf_running s"
  shows "sftp_ok s'"
  using assms(1)
  by (rule sftp_ok_same) (use assms in \<open>auto simp: same_tables_def sftp_ok_def\<close>)

lemma start_ok:
  assumes "sftp_ok s" "sf_running s \<or> \<not> sf_stopping s"
  shows "sftp_ok (snd (sftp_start host s))"
proof (cases "sf_running s")
  case True
  with assms(1) show ?thesis by (simp add: sftp_start_def)
next
  case False
  with sftp_start_result [of s host] assms show ?thesis
    by (intro sftp_ok_same_tables [OF assms(1)]) (auto simp: start_result_def start_keeps_def)
qed

lemma stop_end_ok:
  assumes "sftp_ok s" "sf_stopping s" "sf_acceptor s = Absent" "sf_threads s = []"
  shows "sftp_ok (stop_end host s)"
proof -
  have "live_sessions s = {}"
    using assms(4) by (simp add: live_sessions_def)
  with assms(1) have "sf_authenticated s = []" "sf_handshakes s = []"
    by (auto simp: sftp_ok_def tables_ok_def)
  moreover have "same_tables s (bind_reset host s)" "sf_acceptor (bind_reset host s) = sf_acceptor s"
    "sf_running (bind_reset host s) = sf_running s"
    using start_keeps_parts(3) [of s host] by (simp_all add: start_keeps_def)
  ultimately show ?thesis
    using assms
    by (auto simp: stop_end_def same_tables_def sftp_ok_def tables_ok_def live_sessions_def)
qed

lemma accept_begin_ok:
  assumes "sftp_ok s" "sf_acceptor s = Looping" "new_session_ok (accept_begin host s)"
  shows "sftp_ok (accept_begin host s)"
proof -
  have "same_tables s (accept_begin host s)"
    by (simp add: accept_begin_def same_tables_def Let_def split_beta split: option.split)
  moreover have "sf_running (accept_begin host s) = sf_running s"
    by (simp add: accept_begin_def Let_def split_beta split: option.split)
  moreover have "sf_acceptor (accept_begin host s) = Looping \<or> sf_acceptor (accept_begin host s) = Absent
      \<or> sf_running s \<and> (\<exists>i. sf_acceptor (accept_begin host s) = Waiting i)"
    using assms(2) by (simp add: accept_begin_def Let_def split_beta split: option.split)
  ultimately show ?thesis
    using assms(2,3)
    by (intro sftp_ok_same_tables [OF assms(1)]) (auto simp: new_session_ok_def same_tables_def simp del: set_map)
qed

lemma stop_begin_ok:
  assumes "sftp_ok s" "sf_running s"
  shows "sftp_ok (stop_begin host s)"
proof -
  have "sf_threads (stop_begin host s) = sf_threads s" "sf_session_users (stop_begin host s) = sf_session_users s"
    "sf_handshakes (stop_begin host s) = sf_handshakes s" "sf_authenticated (stop_begin host s) = sf_authenticated s"
    "sf_conn_users (stop_begin host s) = sf_conn_users s" "sf_acceptor (stop_begin host s) = sf_acceptor s"
    "\<not> sf_running (stop_begin host s)" "sf_stopping (stop_begin host s)"
    by (simp_all add: stop_begin_def unblock_accept_def Let_def split_beta)
  then show ?thesis
    by (intro sftp_ok_same [OF assms(1)]) simp_all
qed

lemma accept_return_ok:
  assumes "sftp_ok s" "sf_acceptor s = Waiting i"
  shows "sftp_ok (accept_return host i s)"
proof -
  have new: "i \<notin> fst ` set (sf_threads s)"
    using assms by (simp add: sftp_ok_def)
  then have "i \<notin> live_sessions s"
    by (force simp: live_sessions_def)
  then have "map_of (sf_session_users s) i = None"
    using assms(1) by (auto simp: sftp_ok_def tables_ok_def map_of_eq_None_iff)
  then have absent: "sftp_remove_session i (s\<lparr>sf_world := w\<rparr>) = s\<lparr>sf_world := w\<rparr>" for w
    by (simp add: sftp_remove_session_def)
  have awake: "sf_running s \<or> sf_stopping s"
    using assms by (auto simp: sftp_ok_def)
  have absent_ok: "sftp_ok (s\<lparr>sf_world := w, sf_acceptor := Absent\<rparr>)" for w
    by (rule sftp_ok_same [OF assms(1)]) (use assms(1) in \<open>simp_all add: sftp_ok_def\<close>)
  have looping_ok: "sftp_ok (s\<lparr>sf_world := w, sf_acceptor := Looping\<rparr>)" for w
    by (rule sftp_ok_same [OF assms(1)]) (use assms(1) awake in \<open>simp_all add: sftp_ok_def\<close>)
  have spawned_ok: "sftp_ok (s\<lparr>sf_world := w, sf_threads := sf_threads s @ [(i, Begun)], sf_acceptor := Looping\<rparr>)"
    if "sf_running s" for w
  proof -
    let ?s' = "s\<lparr>sf_world := w, sf_threads := sf_threads s @ [(i, Begun)], sf_acceptor := Looping\<rparr>"
    have "live_sessions ?s' = live_sessions s"
      by (auto simp: live_sessions_def)
    moreover have "phase_ok ?s' j p = phase_ok s j p" for j p
      by (cases "(s, j, p)" rule: phase_ok.cases) auto
    moreover have "tables_ok live ?s' = tables_ok live s" for live
      by (simp add: tables_ok_def)
    ultimately show ?thesis
      using assms(1) new that unfolding sftp_ok_def by auto
  qed
  show ?thesis
    by (cases "sf_running s")
      (simp_all add: accept_return_def Let_def split_beta absent run_world_def absent_ok looping_ok spawned_ok)
qed

lemma sftp_step_ok:
  assumes "gated_host host" "sftp_step host sys lib table0 s s'" "sftp_ok s"
  shows "sftp_ok s'"
  using assms(2)
proof cases
  case (ss_session i p new s1)
  from session_step_ok [OF assms(1,3) ss_session(2,3)] show ?thesis
    unfolding ss_session(1) using assms(3) ss_session(2)
    by (intro set_phase_ok [where s = s and old = p]) (auto simp: steps_to_def split: option.split)
next
  case ss_start
  then show ?thesis using start_ok [OF assms(3)] by simp
next
  case ss_stop_begin
  then show ?thesis using stop_begin_ok [OF assms(3)] by simp
next
  case ss_stop_end
  then show ?thesis using stop_end_ok [OF assms(3)] by simp
next
  case ss_accept_begin
  then show ?thesis using accept_begin_ok [OF assms(3)] by simp
next
  case (ss_accept_return i)
  then show ?thesis using accept_return_ok [OF assms(3)] by simp
qed (rule sftp_ok_same_tables [OF assms(3)],
    simp_all add: same_tables_def sftp_add_user_def sftp_clear_users_def sftp_clear_activity_def)+

lemma new_sftp_ok: "new_sftp host tmp w = Inr s \<Longrightarrow> sftp_ok s"
  by (auto simp: new_sftp_def sftp_ok_def tables_ok_def live_sessions_def
      split: sum.splits prod.splits)

lemma sftp_reachable_ok:
  assumes "gated_host host" "sftp_reachable host sys lib table0 s"
  shows "sftp_ok s"
proof -
  obtain tmp w s0 where "new_sftp host tmp w = Inr s0" "(sftp_step host sys lib table0)\<^sup>*\<^sup>* s0 s"
    using assms(2) by (auto simp: sftp_reachable_def)
  from this(2) new_sftp_ok [OF this(1)] show ?thesis
    by (induction rule: rtranclp_induct) (auto intro: sftp_step_ok [OF assms(1)])
qed

end
