(* ===== verification/SftpLifetime.thy ===== *)
theory SftpLifetime
  imports SftpInvariant MemorySftp
begin

text \<open>
  Properties of the SFTP server as a whole: who is logged in, what the tables say in every reachable
  state, that callbacks and \<open>stop\<close> work as intended, and what is left behind at the end of a
  session.
\<close>

subsection \<open>A concrete SSH library\<close>

text \<open>For the witnesses: every call succeeds, and the one client of every session authenticates as bob
  with the password b, then opens a channel, then asks for the subsystem.\<close>

definition demo_script :: "nat \<Rightarrow> bool \<Rightarrow> 'w \<Rightarrow> 'w script" where
  "demo_script session auth w =
     (if auth then Call (On_channel_open (Some 70)) (\<lambda>_. Call (On_subsystem (Some ''sftp'')) (\<lambda>_. Finish True w))
      else Call (On_auth_password ''bob'' ''b'') (\<lambda>a. Finish True w))"

definition demo_host :: "mem_ftp ssh_host" where
  "demo_host = \<lparr>
     pki_ctx_new = (\<lambda>w. (Some 1, w)), pki_set_key_size = (\<lambda>p k w. w), pki_generate = (\<lambda>p w. (True, Some 2, w)),
     pki_ctx_free = (\<lambda>p w. w), bind_new = (\<lambda>w. (Some 5, w)), bind_free = (\<lambda>b w. w),
     bind_set_addr = (\<lambda>b a w. (True, w)), bind_set_port = (\<lambda>b p w. (True, w)),
     bind_import_key = (\<lambda>b k w. (True, w)), bind_listen = (\<lambda>b w. (True, w)), bind_error = (\<lambda>b w. None),
     bind_get_fd = (\<lambda>b w. 4), bind_accept = (\<lambda>b s w. (True, w)), sock_name = (\<lambda>s w. (0, 2222, w)),
     sock_new = (\<lambda>w. (8, w)), sock_connect = (\<lambda>s p w. w), sock_drop = (\<lambda>s w. w),
     ssh_new = (\<lambda>w. (Some (mf_next w), w\<lparr>mf_next := Suc (mf_next w)\<rparr>)), ssh_free = (\<lambda>s w. w),
     ssh_disconnect = (\<lambda>s w. w), ssh_set_callbacks = (\<lambda>s w. w), ssh_key_exchange = (\<lambda>s w. (True, w)),
     ssh_handle_packets = demo_script, channel_send_eof = (\<lambda>c w. w), channel_close = (\<lambda>c w. w),
     channel_free = (\<lambda>c w. w), sftp_new = (\<lambda>s c w. (Some 90, w)), sftp_init = (\<lambda>f w. (True, w)),
     sftp_free = (\<lambda>f w. w)\<rparr>"

lemma demo_gated: "gated_host demo_host"
  by (simp add: gated_host_def demo_host_def demo_script_def)

definition demo_sftp :: "sftp_message list \<Rightarrow> (mem_ftp, nat option list) sftp_server" where
  "demo_sftp rs = \<lparr>sf_bind = Some 5, sf_hostkey = Some 2, sf_port = 0, sf_temp = ''/t'', sf_running = False,
     sf_stopping = False, sf_users = [], sf_activity = [], sf_conn_users = [], sf_acceptor = Absent,
     sf_threads = [], sf_session_users = [], sf_handshakes = [], sf_authenticated = [], sf_world = mem_ftp0\<lparr>mf_requests := rs\<rparr>\<rparr>"

lemma demo_new: "new_sftp demo_host ''/t'' (mem_ftp0\<lparr>mf_requests := rs\<rparr>) = Inr (demo_sftp rs)"
  by (simp add: new_sftp_def new_bind_def generate_rsa_key_def demo_host_def demo_sftp_def)

abbreviation demo_step ::
  "(mem_ftp, nat option list) sftp_server \<Rightarrow> (mem_ftp, nat option list) sftp_server \<Rightarrow> bool" where
  "demo_step \<equiv> sftp_step demo_host mem_sys slot_lib [None, None]"

definition demo_up :: "sftp_permission \<Rightarrow> sftp_message list \<Rightarrow> (mem_ftp, nat option list) sftp_server" where
  "demo_up p rs = (demo_sftp rs)\<lparr>sf_hostkey := None, sf_port := 2222, sf_running := True, sf_acceptor := Looping,
     sf_users := [\<lparr>su_name = ''bob'', su_pass = ''b'', su_root = ''/t'', su_perm = p\<rparr>]\<rparr>"

definition demo_accepted :: "sftp_permission \<Rightarrow> sftp_message list \<Rightarrow> (mem_ftp, nat option list) sftp_server" where
  "demo_accepted p rs = (demo_up p rs)\<lparr>sf_threads := [(3, Begun)], sf_world := mem_ftp0\<lparr>mf_next := 4, mf_requests := rs\<rparr>\<rparr>"

definition demo_hs :: "sftp_permission \<Rightarrow> sftp_message list \<Rightarrow> (mem_ftp, nat option list) sftp_server" where
  "demo_hs p rs = (demo_accepted p rs)\<lparr>sf_threads := [(3, Handshaking None)],
     sf_handshakes := [(3, \<lparr>hs_pending = None, hs_accepted = False\<rparr>)]\<rparr>"

definition demo_auth :: "sftp_permission \<Rightarrow> sftp_message list \<Rightarrow> (mem_ftp, nat option list) sftp_server" where
  "demo_auth p rs = (demo_hs p rs)\<lparr>sf_session_users := [(3, ''bob'')], sf_conn_users := [''bob''], sf_authenticated := [3]\<rparr>"

definition bob_cx :: "sftp_permission \<Rightarrow> sftp_context" where
  "bob_cx p = \<lparr>cx_username = ''bob'', cx_root = ''/t'', cx_perm = p\<rparr>"

definition demo_serving :: "sftp_permission \<Rightarrow> sftp_message list \<Rightarrow> (mem_ftp, nat option list) sftp_server" where
  "demo_serving p rs = (demo_auth p rs)\<lparr>sf_handshakes := [(3, \<lparr>hs_pending = Some 70, hs_accepted = True\<rparr>)],
     sf_threads := [(3, Serving 70 90 (bob_cx p) [None, None] Map.empty 0 [])]\<rparr>"

lemmas demo_states = demo_sftp_def demo_up_def demo_accepted_def demo_hs_def demo_auth_def demo_serving_def
  bob_cx_def

lemma demo_steps:
  "demo_step (demo_sftp rs) (sftp_add_user ''bob'' ''b'' ''/t'' p (demo_sftp rs))"
  "demo_step (sftp_add_user ''bob'' ''b'' ''/t'' p (demo_sftp rs)) (demo_up p rs)"
  "demo_step (demo_up p rs) (accept_begin demo_host (demo_up p rs))"
  "demo_step (accept_begin demo_host (demo_up p rs)) (demo_accepted p rs)"
  "demo_step (demo_accepted p rs) (demo_hs p rs)"
  "demo_step (demo_hs p rs) (demo_auth p rs)"
  "demo_step (demo_auth p rs) (demo_serving p rs)"
proof -
  show "demo_step (demo_sftp rs) (sftp_add_user ''bob'' ''b'' ''/t'' p (demo_sftp rs))"
    by (rule ss_add_user)
  have "demo_up p rs = snd (sftp_start demo_host (sftp_add_user ''bob'' ''b'' ''/t'' p (demo_sftp rs)))"
    by (simp add: sftp_start_def ensure_bind_def ensure_hostkey_def import_hostkey_def listen_bind_def
        demo_states sftp_add_user_def demo_host_def)
  then show "demo_step (sftp_add_user ''bob'' ''b'' ''/t'' p (demo_sftp rs)) (demo_up p rs)"
    using ss_start [of "sftp_add_user ''bob'' ''b'' ''/t'' p (demo_sftp rs)" demo_host mem_sys slot_lib "[None, None]"]
    by (simp add: sftp_add_user_def demo_sftp_def)
  show "demo_step (demo_up p rs) (accept_begin demo_host (demo_up p rs))"
    by (rule ss_accept_begin)
      (simp_all add: demo_up_def demo_sftp_def accept_begin_def demo_host_def new_session_ok_def)
  have "accept_return demo_host 3 (accept_begin demo_host (demo_up p rs)) = (demo_accepted p rs)"
    by (simp add: accept_begin_def accept_return_def demo_states demo_host_def mem_ftp0_def Let_def)
  then show "demo_step (accept_begin demo_host (demo_up p rs)) (demo_accepted p rs)"
    using ss_accept_return [of "accept_begin demo_host (demo_up p rs)" 3 demo_host mem_sys slot_lib "[None, None]"]
    by (simp add: accept_begin_def demo_up_def demo_sftp_def demo_host_def mem_ftp0_def)
  have step: "demo_step s (set_session_phase 3 new s1)"
    if "sf_threads s = [(3, ph)]" "session_step demo_host mem_sys slot_lib [None, None] 3 ph s = Some (new, s1)" for s ph new s1
    using that by (intro ss_session) simp_all
  show "demo_step (demo_accepted p rs) (demo_hs p rs)"
    using step [of "demo_accepted p rs" Begun "Some (Handshaking None)" "make_hs 3 (demo_accepted p rs)"]
    by (simp add: demo_states make_hs_def set_session_phase_def)
  show "demo_step (demo_hs p rs) (demo_auth p rs)"
    using step [of "demo_hs p rs" "Handshaking None" "Some (Handshaking None)" "demo_auth p rs"]
    by (simp add: handshake_round_def demo_states demo_host_def demo_script_def check_auth_def set_session_phase_def)
  show "demo_step (demo_auth p rs) (demo_serving p rs)"
    using step [of "demo_auth p rs" "Handshaking None"
        "Some (Serving 70 90 (bob_cx p) [None, None] Map.empty 0 [])"
        "(demo_auth p rs)\<lparr>sf_handshakes := [(3, \<lparr>hs_pending = Some 70, hs_accepted = True\<rparr>)]\<rparr>"]
    by (simp add: handshake_round_def demo_states demo_host_def demo_script_def on_channel_open_session_def
        on_channel_subsystem_def update_hs_def enter_sftp_def lookup_user_def set_session_phase_def Let_def)
qed

lemma demo_reachable: "sftp_reachable demo_host mem_sys slot_lib [None, None] (demo_serving p rs)"
proof -
  have "demo_step\<^sup>*\<^sup>* (demo_sftp rs) (demo_up p rs)"
    using demo_steps(1,2) by (meson rtranclp.rtrancl_into_rtrancl rtranclp.rtrancl_refl)
  then have "demo_step\<^sup>*\<^sup>* (demo_sftp rs) (demo_accepted p rs)"
    using demo_steps(3,4) by (meson rtranclp.rtrancl_into_rtrancl)
  then have "demo_step\<^sup>*\<^sup>* (demo_sftp rs) (demo_serving p rs)"
    using demo_steps(5,6,7) by (meson rtranclp.rtrancl_into_rtrancl)
  with demo_new show ?thesis
    unfolding sftp_reachable_def by blast
qed

subsection \<open>The state\<close>

text \<open>C4. In every reachable state a session that serves requests is recorded as a session of the
  user it serves; the names reported as connected are without repetition and belong to sessions
  that are there; the handshakes are those of the sessions whose threads have begun, and no others;
  and a server that is stopped has no session, no handshake and no connected user.\<close>

theorem sftp_state_invariant:
  assumes "gated_host host" and "sftp_reachable host sys lib table0 s"
  shows "(\<forall>i chan srv cx t h n r. (i, Serving chan srv cx t h n r) \<in> set (sf_threads s) \<longrightarrow>
        map_of (sf_session_users s) i = Some (cx_username cx))
    \<and> distinct (sftp_connected_users s)
    \<and> set (sftp_connected_users s) \<subseteq> snd ` set (sf_session_users s)
    \<and> fst ` set (sf_session_users s) \<subseteq> live_sessions s
    \<and> fst ` set (sf_handshakes s) = live_sessions s
    \<and> (\<not> sf_running s \<and> \<not> sf_stopping s \<longrightarrow> sf_threads s = [] \<and> sf_handshakes s = []
         \<and> sf_session_users s = [] \<and> sftp_connected_users s = [])"
proof -
  have ok: "sftp_ok s"
    using assms by (rule sftp_reachable_ok)
  have "map_of (sf_session_users s) i = Some (cx_username cx)"
    if "(i, Serving chan srv cx t h n r) \<in> set (sf_threads s)" for i chan srv cx t h n r
    using sftp_ok_phase [OF ok that] by simp
  moreover have "live_sessions s = {}" if "sf_threads s = []"
    using that by (simp add: live_sessions_def)
  ultimately show ?thesis
    using ok by (auto simp: sftp_ok_def tables_ok_def sftp_connected_users_def)
qed

theorem sftp_state_invariant_witness:
  "map_of (sf_session_users (demo_serving 3 [])) 3 = Some ''bob'' \<and> live_sessions (demo_serving 3 []) = {3}"
  using sftp_state_invariant [OF demo_gated demo_reachable, of 3 "[]"]
  by (auto simp: demo_states)

text \<open>C31. The handshake is never undefined: the entry that \<open>get_hs\<close> takes for granted is there
  whenever a callback or the loop asks for it. A session thread has no next step only when a request
  it serves has no defined outcome, or does not return.\<close>

theorem handshake_defined:
  assumes "gated_host host" and "sftp_reachable host sys lib table0 s" and "(i, p) \<in> set (sf_threads s)"
    and "session_step host sys lib table0 i p s = None"
  shows "\<exists>chan srv cx t h n r. p = Serving chan srv cx t h n r
    \<and> sftp_round sys lib (\<lambda>_. sf_running s) cx (session_view t h n r s) \<in> {Fault, Stuck}"
proof (cases p)
  case Begun
  with assms(4) show ?thesis by simp
next
  case (Handshaking out)
  have ok: "sftp_ok s"
    using assms(1,2) by (rule sftp_reachable_ok)
  then have tables: "tables_ok (live_sessions s) s" and live: "i \<in> live_sessions s"
    using assms(3) live_session Handshaking by (auto simp: sftp_ok_def)
  have "out = None \<or> i \<in> set (sf_authenticated s)"
    using sftp_ok_phase [OF ok assms(3)] Handshaking by (cases out) simp_all
  with assms(1) tables live show ?thesis
    using assms(4) Handshaking by (cases rule: handshake_ok) simp_all
next
  case (Serving chan srv cx t h n r)
  with assms(4) show ?thesis by (auto split: round.splits)
qed


theorem handshake_defined_witness:
  "sftp_round mem_sys slot_lib (\<lambda>_. True) (bob_cx 3)
     (session_view [None, None] Map.empty 0 [] (demo_serving 3 [plain_message FXP_OPEN])) \<in> {Fault, Stuck}"
proof -
  let ?s = "demo_serving 3 [plain_message FXP_OPEN]"
  let ?p = "Serving 70 90 (bob_cx 3) [None, None] Map.empty 0 []"
  have "(3, ?p) \<in> set (sf_threads ?s)" "sf_running ?s"
    by (simp_all add: demo_states)
  moreover have "session_step demo_host mem_sys slot_lib [None, None] 3 ?p ?s = None"
    by (simp add: sftp_round_def session_view_def demo_states mem_ftp0_def mem_message_def
        do_request.simps sftp_do_open_def plain_message_def)
  ultimately show ?thesis
    using handshake_defined [OF demo_gated demo_reachable [of 3 "[plain_message FXP_OPEN]"], of 3 ?p] by simp
qed

subsection \<open>Accounts\<close>

definition sftp_add_accounts ::
  "(string \<times> string \<times> string \<times> sftp_permission) list \<Rightarrow> ('w, 't) sftp_server \<Rightarrow> ('w, 't) sftp_server" where
  "sftp_add_accounts = fold (\<lambda>(name, cred). case cred of (pass, root, perm) \<Rightarrow> sftp_add_user name pass root perm)"

lemma names_put_sftp_user:
  "map su_name (put_sftp_user new us) =
     (if su_name new \<in> su_name ` set us then map su_name us else map su_name us @ [su_name new])"
  by (induction new us rule: put_sftp_user.induct) auto

lemma distinct_accounts:
  "distinct (map su_name (sf_users s)) \<Longrightarrow> distinct (map su_name (sf_users (sftp_add_accounts accs s)))"
proof (induction accs arbitrary: s)
  case (Cons acc accs)
  obtain name pass root perm where acc: "acc = (name, pass, root, perm)"
    by (cases acc)
  have "distinct (map su_name (sf_users (sftp_add_user name pass root perm s)))"
    using Cons.prems by (simp add: sftp_add_user_def names_put_sftp_user)
  from Cons.IH [OF this] show ?case
    by (simp add: sftp_add_accounts_def acc)
qed (simp add: sftp_add_accounts_def)

lemma find_unique_name:
  "distinct (map su_name us) \<Longrightarrow> u \<in> set us \<Longrightarrow> find (\<lambda>v. su_name v = su_name u) us = Some u"
  by (induction us) auto

lemma find_name: "find (\<lambda>v. su_name v = name) us = Some u \<Longrightarrow> u \<in> set us \<and> su_name u = name"
  by (induction us) (auto split: if_splits)

lemma check_auth_account:
  assumes "distinct (map su_name (sf_users s))"
  shows "fst (check_auth i name pass s) = Auth_success \<longleftrightarrow> (\<exists>root perm. sftp_account s name = Some (pass, root, perm))"
proof -
  have "(\<exists>u\<in>set (sf_users s). su_name u = name \<and> su_pass u = pass)
      \<longleftrightarrow> (\<exists>u. find (\<lambda>v. su_name v = name) (sf_users s) = Some u \<and> su_pass u = pass)"
    using find_unique_name [OF assms] find_name by metis
  then show ?thesis
    by (auto simp: check_auth_def sftp_account_def)
qed

lemma map_of_omap_put_same: "map_of (omap_put k v kvs) k = Some v"
  by (induction k v kvs rule: omap_put.induct) auto

lemma lookup_user_account:
  assumes "fst (check_auth i name pass s) = Auth_success" "sftp_account s name = Some (p, root, perm)"
  shows "lookup_user i (snd (check_auth i name pass s)) = (True, name, root, perm)"
  using assms
  by (auto simp: check_auth_def lookup_user_def sftp_account_def map_of_omap_put_same split: if_splits)

text \<open>C13. Login against the configured accounts. After \<open>clear_users\<close> and any calls of \<open>add_user\<close> the
  password callback accepts a name and a password exactly when the last call for that name gave
  this password, and the session then gets the root and the permissions of that call.\<close>

theorem sftp_login:
  "fst (check_auth i name pass (sftp_add_accounts accs (sftp_clear_users s))) =
      (if \<exists>root perm. map_of (rev accs) name = Some (pass, root, perm) then Auth_success else Auth_denied)
    \<and> (\<forall>root perm. map_of (rev accs) name = Some (pass, root, perm) \<longrightarrow>
      lookup_user i (snd (check_auth i name pass (sftp_add_accounts accs (sftp_clear_users s)))) = (True, name, root, perm))"
proof -
  let ?s = "sftp_add_accounts accs (sftp_clear_users s)"
  have account: "sftp_account ?s = map_of (rev accs)"
    using sftp_accounts.account_after_clear [of accs s] by (simp add: sftp_add_accounts_def split_def)
  have distinct: "distinct (map su_name (sf_users ?s))"
    by (rule distinct_accounts) (simp add: sftp_clear_users_def)
  have success: "fst (check_auth i name pass ?s) = Auth_success \<longleftrightarrow> (\<exists>root perm. map_of (rev accs) name = Some (pass, root, perm))"
    using check_auth_account [OF distinct] account by simp
  moreover have "fst (check_auth i name pass ?s) = Auth_success \<or> fst (check_auth i name pass ?s) = Auth_denied"
    by (simp add: check_auth_def)
  ultimately have "fst (check_auth i name pass ?s) =
      (if \<exists>root perm. map_of (rev accs) name = Some (pass, root, perm) then Auth_success else Auth_denied)"
    by auto
  moreover have "lookup_user i (snd (check_auth i name pass ?s)) = (True, name, root, perm)"
    if "map_of (rev accs) name = Some (pass, root, perm)" for root perm
    using lookup_user_account [of i name pass ?s pass root perm] success account that by auto
  ultimately show ?thesis by blast
qed

theorem sftp_login_witness:
  "lookup_user 3 (snd (check_auth 3 ''bob'' ''b''
     (sftp_add_accounts [(''bob'', ''a'', ''/'', 1), (''bob'', ''b'', ''/t'', 3)] (sftp_clear_users (demo_sftp []))))) =
     (True, ''bob'', ''/t'', 3)"
  using sftp_login [of 3 "''bob''" "''b''" "[(''bob'', ''a'', ''/'', 1), (''bob'', ''b'', ''/t'', 3)]" "demo_sftp []"]
  by simp

text \<open>The connected users are a list of names. In a state that satisfies the invariant \<open>sftp_ok\<close>,
  as every reachable state does, when two sessions are logged in as the same user
  and one of them ends, the user is no longer reported as connected although the other session is
  still there.\<close>

theorem second_sftp_session_unlisted:
  assumes "sftp_ok s"
    and "map_of (sf_session_users s) i = Some user" and "map_of (sf_session_users s) j = Some user" and "i \<noteq> j"
  shows "user \<notin> set (sftp_connected_users (close_session host i chan s))
    \<and> map_of (sf_session_users (close_session host i chan s)) j = Some user"
proof -
  have "tables_ok (live_sessions s) s"
    using assms(1) by (simp add: sftp_ok_def)
  then show ?thesis
    using close_session_tables(2) [of "live_sessions s" s j i host chan] assms(2-)
    by (auto simp: tables_ok_def close_session_def sftp_remove_session_def remove_hs_def run_world_def
        sftp_connected_users_def Let_def split: option.split)
qed

definition demo_two :: "(mem_ftp, nat option list) sftp_server" where
  "demo_two = (demo_auth 3 [])\<lparr>sf_threads := [(3, Handshaking None), (4, Handshaking None)],
     sf_handshakes := [(3, \<lparr>hs_pending = None, hs_accepted = False\<rparr>), (4, \<lparr>hs_pending = None, hs_accepted = False\<rparr>)],
     sf_session_users := [(3, ''bob''), (4, ''bob'')], sf_authenticated := [4, 3]\<rparr>"

theorem second_sftp_session_unlisted_witness:
  "''bob'' \<notin> set (sftp_connected_users (close_session demo_host 3 None demo_two))
    \<and> map_of (sf_session_users (close_session demo_host 3 None demo_two)) 4 = Some ''bob''"
proof (rule second_sftp_session_unlisted)
  have "live_sessions demo_two = {3, 4}"
    by (auto simp: live_sessions_def demo_two_def)
  then show "sftp_ok demo_two"
    by (auto simp: sftp_ok_def tables_ok_def demo_two_def demo_states omap_ok_Cons omap_ok_def)
qed (simp_all add: demo_two_def)

subsection \<open>Streams left open\<close>

text \<open>What the library does at the end of a session does not close streams of the C library.\<close>

definition keeps_streams :: "'w sys \<Rightarrow> 'w ssh_host \<Rightarrow> (nat \<Rightarrow> 'w \<Rightarrow> bool) \<Rightarrow> bool" where
  "keeps_streams sys host is_open \<longleftrightarrow> (\<forall>f w n. is_open f w \<longrightarrow>
     is_open f (snd (ssh_poll sys w)) \<and> is_open f (snd (ssh_message sys w)) \<and> is_open f (sftp_free host n w)
   \<and> is_open f (channel_send_eof host n w) \<and> is_open f (channel_close host n w) \<and> is_open f (channel_free host n w)
   \<and> is_open f (ssh_disconnect host n w) \<and> is_open f (ssh_free host n w))"

lemma leave_world:
  assumes "sftp_round sys lib running cx st = Leave st'"
  shows "st_world st' \<in> {st_world st, snd (ssh_poll sys (st_world st)),
    snd (ssh_message sys (snd (ssh_poll sys (st_world st))))}"
  using assms by (auto simp: sftp_round_def Let_def split_beta split: if_splits option.splits outcome.splits)

lemma close_session_world:
  "sf_world (close_session host i (Some c) s) = ssh_free host i (ssh_disconnect host i
     (channel_free host c (channel_close host c (channel_send_eof host c (sf_world s)))))"
  by (simp add: close_session_def run_world_def sftp_remove_session_def remove_hs_def Let_def split: option.split)

text \<open>A session that ends with handles still open closes nothing: every file that an object of
  the session holds stays open, with the objects gone.\<close>

theorem open_files_leak:
  assumes "keeps_streams sys host is_open"
    and "session_step host sys lib table0 i (Serving chan srv cx table heap fresh replies) s = Some (None, s1)"
  shows "\<forall>a f path. heap a = Some (FileData (Some f) path) \<longrightarrow> is_open f (sf_world s) \<longrightarrow> is_open f (sf_world s1)"
proof -
  obtain st where leave: "sftp_round sys lib (\<lambda>_. sf_running s) cx (session_view table heap fresh replies s) = Leave st"
    and s1: "s1 = close_session host i (Some chan) (run_world (sftp_free host srv) (session_put st s))"
    using assms(2) by (auto split: round.splits)
  have "is_open f (st_world st)" if "is_open f (sf_world s)" for f
    using leave_world [OF leave] assms(1) that by (auto simp: session_view_def keeps_streams_def)
  then show ?thesis
    using assms(1) by (simp add: s1 close_session_world run_world_def session_put_def keeps_streams_def)
qed

definition demo_open :: "(mem_ftp, nat option list) sftp_server" where
  "demo_open = (demo_serving 3 [])\<lparr>sf_world := mem_ftp0\<lparr>mf_streams := [(9, ''/t/a'', 0)]\<rparr>\<rparr>"

theorem open_files_leak_witness:
  "\<exists>s1. session_step demo_host mem_sys slot_lib [None, None] 3
       (Serving 70 90 (bob_cx 3) [Some 0, None] [0 \<mapsto> FileData (Some 9) ''/t/a''] 1 []) demo_open = Some (None, s1)
     \<and> map_of (mf_streams (sf_world s1)) 9 \<noteq> None"
proof -
  let ?p = "Serving 70 90 (bob_cx 3) [Some 0, None] [0 \<mapsto> FileData (Some 9) ''/t/a''] 1 []"
  have keep: "keeps_streams mem_sys demo_host (\<lambda>f w. map_of (mf_streams w) f \<noteq> None)"
    by (simp add: keeps_streams_def demo_host_def mem_message_def split: list.split)
  obtain s1 where "session_step demo_host mem_sys slot_lib [None, None] 3 ?p demo_open = Some (None, s1)"
    by (simp add: sftp_round_def session_view_def demo_open_def demo_states mem_ftp0_def)
  moreover have "map_of (mf_streams (sf_world demo_open)) 9 \<noteq> None"
    by (simp add: demo_open_def)
  ultimately show ?thesis
    using open_files_leak [OF keep, of slot_lib "[None, None]" 3 70 90 "bob_cx 3" "[Some 0, None]"
        "[0 \<mapsto> FileData (Some 9) ''/t/a'']" 1 "[]" demo_open s1] by simp
qed

end
