(* ===== verification/SftpLiveness.thy ===== *)
theory SftpLiveness
  imports SftpLifetime SftpConduct
begin

text \<open>
  What ends: the loop of a session whose client is finite, and \<open>stop\<close>, which waits for all threads.
  And the whole session as one function is a run of the step relation.
\<close>

subsection \<open>The loop of a session\<close>

text \<open>A client that sends finitely many requests and then closes the channel, in directories of
  finitely many entries, with a measure of what is left of both. A poll that finds nothing to read
  on an open channel takes something from the measure too: the client does not keep silent for
  ever.\<close>

definition finite_client :: "'w sys \<Rightarrow> ('w \<Rightarrow> nat) \<Rightarrow> bool" where
  "finite_client sys left \<longleftrightarrow>
     (\<forall>w w'. sys_call sys (\<lambda>_. True) w w' \<longrightarrow> left w' \<le> left w)
   \<and> (\<forall>w. fst (ssh_poll sys w) = 0 \<longrightarrow> ssh_channel_open sys (snd (ssh_poll sys w)) \<longrightarrow>
        \<not> ssh_channel_eof sys (snd (ssh_poll sys w)) \<longrightarrow> left (snd (ssh_poll sys w)) < left w)
   \<and> (\<forall>w. fst (ssh_message sys w) \<noteq> None \<longrightarrow> left (snd (ssh_message sys w)) < left w)"

definition finite_directories :: "'w sys \<Rightarrow> (nat \<Rightarrow> 'w \<Rightarrow> nat) \<Rightarrow> bool" where
  "finite_directories sys entries \<longleftrightarrow>
     (\<forall>d w. fst (c_readdir sys d w) \<noteq> None \<longrightarrow> entries d (snd (c_readdir sys d w)) < entries d w)"

lemma next_entry_returns: "finite_directories sys entries \<Longrightarrow> next_entry sys d w \<noteq> None"
proof (induction "entries d w" arbitrary: w rule: less_induct)
  case less
  then show ?case
    by (cases "fst (c_readdir sys d w)")
      (auto simp: next_entry.simps [of sys d w] Let_def finite_directories_def)
qed

lemma request_returns:
  assumes "finite_directories sys entries"
  shows "do_request sys lib cx msg st \<noteq> Hangs"
  by (cases "mg_type msg")
    (auto simp: do_request.simps handler_defs Let_def split_beta next_entry_returns [OF assms]
      split: option.splits handle_data.splits prod.splits)

lemma sys_call_mono: "sys_call sys ok w w' \<Longrightarrow> sys_call sys (\<lambda>_. True) w w'"
  by (cases rule: sys_call.cases, assumption) (simp_all add: sys_call.intros)

lemma sys_calls_left:
  assumes "finite_client sys left" "sys_calls sys ok w w'"
  shows "left w' \<le> left w"
proof (rule sys_calls_invariant [OF assms(2), of "\<lambda>v. left v \<le> left w"])
  fix u v assume "sys_call sys ok u v" and le: "left u \<le> left w"
  from sys_call_mono [OF this(1)] have "left v \<le> left u"
    using assms(1) by (simp add: finite_client_def)
  with le show "left v \<le> left w" by simp
qed simp

lemma round_again:
  assumes "finite_client sys left" "sftp_round sys lib running cx st = Again st'"
  shows "left (st_world st') < left (st_world st)"
proof -
  define w1 where "w1 = snd (ssh_poll sys (st_world st))"
  have w1: "left w1 \<le> left (st_world st)"
    using assms(1) sys_call.call_poll [of sys "\<lambda>_. True" "st_world st"]
    by (simp add: finite_client_def w1_def)
  show ?thesis
  proof (cases "fst (ssh_poll sys (st_world st)) = 0")
    case True
    with assms show ?thesis
      by (auto simp: sftp_round_def Let_def split_beta finite_client_def split: if_splits)
  next
    case False
    with assms(2) obtain msg st2 where msg: "fst (ssh_message sys w1) = Some msg"
      "do_request sys lib cx msg (st\<lparr>st_world := snd (ssh_message sys w1)\<rparr>) = Done st'"
      by (auto simp: sftp_round_def Let_def split_beta w1_def split: if_splits option.splits outcome.splits)
    then have "left (st_world st') \<le> left (snd (ssh_message sys w1))"
      using sys_calls_left [OF assms(1) request_calls [OF msg(2)]] by simp
    moreover have "left (snd (ssh_message sys w1)) < left w1"
      using msg(1) assms(1) by (simp add: finite_client_def)
    ultimately show ?thesis using w1 by linarith
  qed
qed

lemma round_not_stuck: "finite_directories sys entries \<Longrightarrow> sftp_round sys lib running cx st \<noteq> Stuck"
  using request_returns [of sys entries lib cx]
  by (auto simp: sftp_round_def Let_def split_beta split: option.splits outcome.splits)


lemma mem_finite_client: "finite_client mem_sys (\<lambda>w. length (mf_requests w))"
proof -
  have "length (mf_requests w') \<le> length (mf_requests w)" if "sys_call mem_sys (\<lambda>_. True) w w'" for w w'
    using that by cases (auto simp: mem_sys_defs Let_def split: list.split option.split)
  then show ?thesis
    by (auto simp: finite_client_def mem_message_def split: list.split)
qed


subsection \<open>Stopping\<close>

text \<open>What the threads still have to do once the flag is cleared: steps of the accepting thread and of
  the session threads.\<close>

fun session_work :: "'t session_phase \<Rightarrow> nat" where
  "session_work Begun = 2"
| "session_work (Handshaking out) = 1"
| "session_work (Serving chan srv cx table heap fresh replies) = 1"

definition threads_work :: "(nat \<times> 't session_phase) list \<Rightarrow> nat" where
  "threads_work ts = sum_list (map (\<lambda>t. session_work (snd t)) ts)"

definition stop_work :: "('w, 't) sftp_server \<Rightarrow> nat" where
  "stop_work s = (if sf_acceptor s = Absent then 0 else 1) + threads_work (sf_threads s)"

definition fully_stopped :: "('w, 't) sftp_server \<Rightarrow> bool" where
  "fully_stopped s \<longleftrightarrow> \<not> sf_running s \<and> \<not> sf_stopping s \<and> sf_acceptor s = Absent \<and> sf_threads s = []
     \<and> sf_bind s = None \<and> sf_port s = 0 \<and> sf_conn_users s = [] \<and> sf_session_users s = []"

lemma session_work_pos: "0 < session_work p"
  by (cases p) simp_all

lemma work_filter: "threads_work (filter P ts) \<le> threads_work ts"
  by (induction ts) (simp_all add: threads_work_def)

lemma work_without: "(i, p) \<in> set ts \<Longrightarrow> threads_work (filter (\<lambda>t. fst t \<noteq> i) ts) < threads_work ts"
proof (induction ts)
  case (Cons t ts)
  then show ?case
    using session_work_pos [of "snd t"] work_filter [of "\<lambda>t. fst t \<noteq> i" ts]
    by (cases "fst t = i") (auto simp: threads_work_def)
qed simp

lemma work_absent: "i \<notin> fst ` set ts \<Longrightarrow> map (\<lambda>t. if fst t = i then (i, q) else t) ts = ts"
  by (induction ts) auto

lemma work_with:
  "(i, p) \<in> set ts \<Longrightarrow> distinct (map fst ts) \<Longrightarrow> session_work q < session_work p \<Longrightarrow>
     threads_work (map (\<lambda>t. if fst t = i then (i, q) else t) ts) < threads_work ts"
proof (induction ts)
  case (Cons t ts)
  show ?case
  proof (cases "fst t = i")
    case True
    then have "t = (i, p)" "i \<notin> fst ` set ts"
      using Cons.prems(1,2) by (auto simp: rev_image_eqI)
    with Cons.prems(3) show ?thesis by (simp add: threads_work_def work_absent)
  next
    case False
    with Cons show ?thesis by (auto simp: threads_work_def)
  qed
qed simp

lemma session_stops:
  assumes "\<not> sf_running s"
  obtains (begun) "p = Begun" "session_step host sys lib table0 i p s = Some (Some (Handshaking None), make_hs i s)"
  | (ended) c f st where "p \<noteq> Begun"
    "session_step host sys lib table0 i p s = Some (None, close_session host i c (run_world f (session_put st s)))"
  | (failed) out where "session_step host sys lib table0 i p s = Some (None, close_session host i out s)"
  using assms by (cases p) (auto simp: handshake_round_def sftp_round_def session_view_def)

lemma make_hs_keeps [simp]:
  "sf_threads (make_hs i s) = sf_threads s" "sf_acceptor (make_hs i s) = sf_acceptor s"
  "sf_running (make_hs i s) = sf_running s" "sf_stopping (make_hs i s) = sf_stopping s"
  by (simp_all add: make_hs_def)

lemma session_stop_step:
  assumes "distinct (map fst (sf_threads s))" "\<not> sf_running s" "(i, p) \<in> set (sf_threads s)"
  obtains new s1 where "session_step host sys lib table0 i p s = Some (new, s1)"
    "stop_work (set_session_phase i new s1) < stop_work s"
    "sf_stopping (set_session_phase i new s1) = sf_stopping s"
    "sf_running (set_session_phase i new s1) = sf_running s"
  using assms(2)
proof (cases rule: session_stops [of s p host sys lib table0 i])
  case begun
  then show thesis
    using that [OF begun(2)] work_with [OF assms(3,1), of "Handshaking None"]
    by (simp add: set_session_phase_def stop_work_def)
next
  case (ended c f st)
  then show thesis
    using that [OF ended(2)] work_without [OF assms(3)]
    by (simp add: set_session_phase_def stop_work_def close_session_keeps)
next
  case (failed out)
  then show thesis
    using that [OF failed] work_without [OF assms(3)]
    by (simp add: set_session_phase_def stop_work_def close_session_keeps)
qed

lemma accept_stop_step:
  assumes "\<not> sf_running s"
  shows "sf_acceptor (accept_begin host s) = Absent" "sf_threads (accept_begin host s) = sf_threads s"
    "sf_stopping (accept_begin host s) = sf_stopping s" "sf_running (accept_begin host s) = sf_running s"
    "sf_acceptor (accept_return host i s) = Absent" "sf_threads (accept_return host i s) = sf_threads s"
    "sf_stopping (accept_return host i s) = sf_stopping s" "sf_running (accept_return host i s) = sf_running s"
  using assms by (simp_all add: accept_begin_def accept_return_def run_world_def Let_def split_beta)

lemma stop_end_stops:
  assumes "\<not> sf_running s" "sf_acceptor s = Absent" "sf_threads s = []"
  shows "fully_stopped (stop_end host s)"
  using assms by (simp add: fully_stopped_def stop_end_def bind_reset_def split: option.split)

lemma stopping_step:
  assumes "sftp_ok s" "sf_stopping s" "sftp_step host sys lib table0 s s'"
  shows "fully_stopped s' \<or> sf_stopping s' \<and>
    (stop_work s' < stop_work s \<or> sf_threads s' = sf_threads s \<and> sf_acceptor s' = sf_acceptor s)"
proof -
  have idle: "\<not> sf_running s" and distinct: "distinct (map fst (sf_threads s))"
    using assms(1,2) by (auto simp: sftp_ok_def)
  from assms(3) show ?thesis
  proof cases
    case ss_stop_end
    with idle stop_end_stops show ?thesis by blast
  next
    case (ss_session i p new s1)
    with session_stop_step [OF distinct idle ss_session(2), of host sys lib table0] assms(2) show ?thesis
      by (metis option.inject prod.inject)
  next
    case ss_accept_begin
    with idle assms(2) show ?thesis by (simp add: accept_stop_step stop_work_def)
  next
    case ss_accept_return
    with idle assms(2) show ?thesis by (simp add: accept_stop_step stop_work_def)
  qed (use idle assms(2) in \<open>simp_all add: sftp_add_user_def sftp_clear_users_def sftp_clear_activity_def\<close>)
qed

lemma stopping_progress:
  assumes "sftp_ok s" "sf_stopping s"
  obtains (stopped) s' where "sftp_step host sys lib table0 s s'" "fully_stopped s'"
  | (work) s' where "sftp_step host sys lib table0 s s'" "sf_stopping s'" "stop_work s' < stop_work s"
proof -
  have idle: "\<not> sf_running s" and distinct: "distinct (map fst (sf_threads s))"
    using assms by (auto simp: sftp_ok_def)
  show thesis
  proof (cases "sf_threads s")
    case (Cons t ts)
    then obtain i p where ip: "(i, p) \<in> set (sf_threads s)" by (cases t) auto
    show thesis
      by (rule session_stop_step [OF distinct idle ip, of host sys lib table0])
        (use work [OF ss_session [OF ip]] assms(2) in blast)
  next
    case Nil
    show thesis
    proof (cases "sf_acceptor s")
      case Absent
      show thesis
        by (rule stopped [OF ss_stop_end stop_end_stops]) (use Nil Absent assms(2) idle in simp_all)
    next
      case Looping
      show thesis
        by (rule work [OF ss_accept_begin])
          (use Looping idle assms(2) in \<open>simp_all add: accept_stop_step stop_work_def new_session_ok_def\<close>)
    next
      case (Waiting i)
      show thesis
        by (rule work [OF ss_accept_return [OF Waiting]])
          (use Waiting idle assms(2) in \<open>simp_all add: accept_stop_step stop_work_def\<close>)
    qed
  qed
qed

lemma stop_reached:
  assumes "gated_host host" "sftp_ok s" "sf_stopping s"
  shows "\<exists>n s'. n \<le> Suc (stop_work s) \<and> (sftp_step host sys lib table0 ^^ n) s s' \<and> fully_stopped s'"
  using assms(2,3)
proof (induction "stop_work s" arbitrary: s rule: less_induct)
  case less
  show ?case
    using less.prems
  proof (cases rule: stopping_progress [where host = host and sys = sys and lib = lib and ?table0.0 = table0])
    case (stopped s')
    have "(sftp_step host sys lib table0 ^^ 1) s s'"
      using stopped(1) by auto
    with stopped(2) show ?thesis by (metis One_nat_def Suc_le_mono le0)
  next
    case (work s')
    from less.hyps [OF work(3) sftp_step_ok [OF assms(1) work(1) less.prems(1)] work(2)]
    obtain n s'' where "n \<le> Suc (stop_work s')" "(sftp_step host sys lib table0 ^^ n) s' s''" "fully_stopped s''"
      by blast
    moreover from this(2) have "(sftp_step host sys lib table0 ^^ Suc n) s s''"
      by (rule relpowp_Suc_I2 [of "sftp_step host sys lib table0", OF work(1)])
    ultimately show ?thesis
      using work(3) by (meson Suc_le_mono less_eq_Suc_le order_trans)
  qed
qed


lemma demo_stopping: "sftp_reachable demo_host mem_sys slot_lib [None, None] (stop_begin demo_host (demo_serving 3 []))"
proof -
  have "demo_step (demo_serving 3 []) (stop_begin demo_host (demo_serving 3 []))"
    by (rule ss_stop_begin) (simp add: demo_states)
  then show ?thesis
    using demo_reachable [of 3 "[]"] unfolding sftp_reachable_def by (meson rtranclp.rtrancl_into_rtrancl)
qed


subsection \<open>One session alone\<close>

text \<open>\<open>session_from\<close> is a run of the step relation: the functions of a session thread do not look at
  the list of threads.\<close>

abbreviation with_threads :: "(nat \<times> 't session_phase) list \<Rightarrow> ('w, 't) sftp_server \<Rightarrow> ('w, 't) sftp_server" where
  "with_threads ts s \<equiv> s\<lparr>sf_threads := ts\<rparr>"

lemma threads_small [simp]:
  "lookup_user i (with_threads ts s) = lookup_user i s"
  "run_world f (with_threads ts s) = with_threads ts (run_world f s)"
  "session_view table heap fresh replies (with_threads ts s) = session_view table heap fresh replies s"
  "session_put st (with_threads ts s) = with_threads ts (session_put st s)"
  by (simp_all add: lookup_user_def run_world_def session_view_def session_put_def split: option.split)

lemma threads_world: "(with_threads ts s)\<lparr>sf_world := w\<rparr> = with_threads ts (s\<lparr>sf_world := w\<rparr>)"
  by simp

lemma threads_callback:
  "run_callback i cb (with_threads ts s) =
     (case run_callback i cb s of Done (a, s1) \<Rightarrow> Done (a, with_threads ts s1)
      | Undefined \<Rightarrow> Undefined | Hangs \<Rightarrow> Hangs)"
  by (cases cb) (simp_all add: check_auth_def on_channel_open_session_def on_channel_subsystem_def update_hs_def
      split: option.split)

lemma threads_script:
  "run_script i scr (with_threads ts s) =
     (case run_script i scr s of Done (ok, s1) \<Rightarrow> Done (ok, with_threads ts s1)
      | Undefined \<Rightarrow> Undefined | Hangs \<Rightarrow> Hangs)"
  by (induction scr arbitrary: s) (auto simp: threads_callback split: outcome.split)

lemma threads_close_session:
  "close_session host i c (with_threads ts s) = with_threads ts (close_session host i c s)"
  by (simp add: close_session_def sftp_remove_session_def remove_hs_def run_world_def Let_def split: option.split)

lemma threads_enter:
  "enter_sftp host table i c (with_threads ts s) =
     (fst (enter_sftp host table i c s), with_threads ts (snd (enter_sftp host table i c s)))"
  unfolding enter_sftp_def
  by (simp add: Let_def split_beta threads_world threads_close_session split: option.split
      del: sftp_server.update_convs)

lemma threads_step:
  "session_step host sys lib table0 i p (with_threads ts s) =
     map_option (\<lambda>r. (fst r, with_threads ts (snd r))) (session_step host sys lib table0 i p s)"
proof (cases p)
  case Begun
  then show ?thesis by (simp add: make_hs_def)
next
  case (Handshaking out)
  have "handshake_round host i out (with_threads ts s) =
      (case handshake_round host i out s of Hs_again out1 s1 \<Rightarrow> Hs_again out1 (with_threads ts s1)
       | Hs_done c s1 \<Rightarrow> Hs_done c (with_threads ts s1) | Hs_failed out1 s1 \<Rightarrow> Hs_failed out1 (with_threads ts s1)
       | Hs_fault \<Rightarrow> Hs_fault)"
    by (simp add: handshake_round_def threads_script Let_def split: outcome.split option.split prod.split)
  then show ?thesis
    using Handshaking
    by (simp add: threads_enter threads_close_session split: hs_round.split)
next
  case (Serving chan srv cx table heap fresh replies)
  then show ?thesis by (simp add: threads_close_session split: round.split)
qed

definition simulates ::
  "'w ssh_host \<Rightarrow> 'w sys \<Rightarrow> 't handle_lib \<Rightarrow> 't \<Rightarrow> nat \<Rightarrow> 't session_phase \<Rightarrow> ('w, 't) sftp_server
   \<Rightarrow> ('w, 't) sftp_server \<Rightarrow> bool" where
  "simulates host sys lib table0 i p s s1 \<longleftrightarrow>
     (\<forall>ts. (i, p) \<in> set ts \<longrightarrow>
        (sftp_step host sys lib table0)\<^sup>*\<^sup>* (with_threads ts s) (set_session_phase i None (with_threads ts s1)))"

lemma ended_phase:
  "set_session_phase i None (set_session_phase i (Some p) s) = set_session_phase i None s"
proof -
  have "filter (\<lambda>t. fst t \<noteq> i) (map (\<lambda>t. if fst t = i then (i, p) else t) ts) = filter (\<lambda>t. fst t \<noteq> i) ts" for ts
    by (induction ts) auto
  then show ?thesis by (simp add: set_session_phase_def)
qed

lemma session_from_simulated:
  assumes "session_from host sys lib table0 i p s = Some s1"
  shows "simulates host sys lib table0 i p s s1"
proof (rule session_from.raw_induct [where P = simulates, OF _ assms])
  fix f and host :: "'w ssh_host" and sys and lib :: "'t handle_lib" and table0 i p s and s1 :: "('w, 't) sftp_server"
  assume IH: "\<And>host sys lib table0 i p s (s1 :: ('w, 't) sftp_server).
      f host sys lib table0 i p s = Some s1 \<Longrightarrow> simulates host sys lib table0 i p s s1"
    and eq: "(case session_step host sys lib table0 i p s of None \<Rightarrow> None | Some (None, s1) \<Rightarrow> Some s1
      | Some (Some phase1, s1) \<Rightarrow> f host sys lib table0 i phase1 s1) = Some s1"
  then obtain new s2 where step: "session_step host sys lib table0 i p s = Some (new, s2)"
    by (auto split: option.splits)
  show "simulates host sys lib table0 i p s s1"
    unfolding simulates_def
  proof (intro allI impI)
    fix ts assume mem: "(i, p) \<in> set ts"
    have first: "sftp_step host sys lib table0 (with_threads ts s) (set_session_phase i new (with_threads ts s2))"
      by (rule ss_session [of i p]) (simp_all add: mem threads_step step)
    show "(sftp_step host sys lib table0)\<^sup>*\<^sup>* (with_threads ts s) (set_session_phase i None (with_threads ts s1))"
    proof (cases new)
      case None
      with eq step first show ?thesis by auto
    next
      case (Some q)
      define ts1 where "ts1 = map (\<lambda>t. if fst t = i then (i, q) else t) ts"
      have "(i, q) \<in> set ts1"
        using mem by (force simp: ts1_def)
      moreover have "simulates host sys lib table0 i q s2 s1"
        using IH eq step Some by simp
      ultimately have rest: "(sftp_step host sys lib table0)\<^sup>*\<^sup>* (with_threads ts1 s2)
          (set_session_phase i None (with_threads ts1 s1))"
        by (simp add: simulates_def)
      have "set_session_phase i new (with_threads ts s2) = with_threads ts1 s2"
        "set_session_phase i None (with_threads ts1 s1) = set_session_phase i None (with_threads ts s1)"
        using Some ended_phase [of i q "with_threads ts s1"]
        by (simp_all add: set_session_phase_def ts1_def)
      with first rest show ?thesis
        by (simp add: converse_rtranclp_into_rtranclp)
    qed
  qed
qed


lemma session_from_step:
  "session_step host sys lib table0 i p s = Some (Some q, s1) \<Longrightarrow>
     session_from host sys lib table0 i p s = session_from host sys lib table0 i q s1"
  by (simp add: session_from.simps [of host sys lib table0 i p])

abbreviation demo_from ::
  "nat option list session_phase \<Rightarrow> (mem_ftp, nat option list) sftp_server
   \<Rightarrow> (mem_ftp, nat option list) sftp_server option" where
  "demo_from \<equiv> session_from demo_host mem_sys slot_lib [None, None] 3"

lemma demo_session: "\<exists>s1. demo_from Begun (demo_accepted 3 []) = Some s1"
proof -
  let ?ts = "[(3, Begun)]"
  have "demo_from Begun (demo_accepted 3 []) = demo_from (Handshaking None) (with_threads ?ts (demo_hs 3 []))"
    by (rule session_from_step) (simp add: make_hs_def demo_states)
  moreover have "\<dots> = demo_from (Handshaking None) (with_threads ?ts (demo_auth 3 []))"
    by (rule session_from_step) (simp add: threads_step handshake_round_def demo_states demo_host_def demo_script_def check_auth_def)
  moreover have "\<dots> = demo_from (Serving 70 90 (bob_cx 3) [None, None] Map.empty 0 []) (with_threads ?ts (demo_serving 3 []))"
    by (rule session_from_step)
      (simp add: threads_step handshake_round_def demo_states demo_host_def demo_script_def on_channel_open_session_def
        on_channel_subsystem_def update_hs_def enter_sftp_def lookup_user_def Let_def)
  moreover have "\<exists>s1. \<dots> = Some s1"
    by (simp add: session_from.simps [of _ _ _ _ _ "Serving _ _ _ _ _ _ _"] sftp_round_def session_view_def demo_states mem_ftp0_def)
  ultimately show ?thesis by simp
qed


end
