(* ===== verification/SftpAuthority.thy ===== *)
theory SftpAuthority
  imports SftpAccess SftpLifetime
begin

text \<open>
  From the accounts of the whole SFTP server to its system calls. Whatever the clients send, in
  however many sessions, the server makes only calls that the handlers permit for the root and the
  permissions of an account that a test has configured; the proof goes through the callbacks, the
  handshake, the entry into the loop and the handlers.
\<close>

subsection \<open>Runs in which only certain accounts are configured\<close>

type_synonym grant = "string \<Rightarrow> sftp_permission \<Rightarrow> bool"

definition only_grants :: "grant \<Rightarrow> ('w, 't) sftp_server \<Rightarrow> bool" where
  "only_grants G s \<longleftrightarrow> (\<forall>u\<in>set (sf_users s). G (su_root u) (su_perm u))"

definition granted_step ::
  "'w ssh_host \<Rightarrow> 'w sys \<Rightarrow> 't handle_lib \<Rightarrow> 't \<Rightarrow> grant \<Rightarrow> ('w, 't) sftp_server \<Rightarrow> ('w, 't) sftp_server \<Rightarrow> bool" where
  "granted_step host sys lib table0 G s s' \<longleftrightarrow> sftp_step host sys lib table0 s s' \<and> only_grants G s'"

text \<open>The context of a session whose user is gone when it enters the loop has an empty root and no
  permissions.\<close>

definition granted :: "grant \<Rightarrow> sftp_context \<Rightarrow> bool" where
  "granted G cx \<longleftrightarrow> G (cx_root cx) (cx_perm cx) \<or> cx_root cx = [] \<and> cx_perm cx = sftp_perm_none"

fun phase_granted :: "grant \<Rightarrow> 't session_phase \<Rightarrow> bool" where
  "phase_granted G Begun = True"
| "phase_granted G (Handshaking out) = True"
| "phase_granted G (Serving chan srv cx table heap fresh replies) = granted G cx"

definition threads_granted :: "grant \<Rightarrow> ('w, 't) sftp_server \<Rightarrow> bool" where
  "threads_granted G s \<longleftrightarrow> (\<forall>t\<in>set (sf_threads s). phase_granted G (snd t))"

subsection \<open>Aspects of the world that libssh does not change\<close>

primrec script_keeps :: "('w \<Rightarrow> 'c) \<Rightarrow> 'c \<Rightarrow> 'w script \<Rightarrow> bool" where
  "script_keeps content c (Finish ok w) = (content w = c)"
| "script_keeps content c (Call cb next) = (\<forall>a. script_keeps content c (next a))"

definition host_keeps :: "'w ssh_host \<Rightarrow> ('w \<Rightarrow> 'c) \<Rightarrow> bool" where
  "host_keeps host content \<longleftrightarrow> (\<forall>w p n b key txt sock port auth.
     content (snd (pki_ctx_new host w)) = content w \<and> content (pki_set_key_size host n p w) = content w
   \<and> content (snd (snd (pki_generate host n w))) = content w \<and> content (pki_ctx_free host n w) = content w
   \<and> content (snd (bind_new host w)) = content w \<and> content (bind_free host n w) = content w
   \<and> content (snd (bind_set_addr host b txt w)) = content w \<and> content (snd (bind_set_port host b n w)) = content w
   \<and> content (snd (bind_import_key host b key w)) = content w \<and> content (snd (bind_listen host b w)) = content w
   \<and> content (snd (bind_accept host b n w)) = content w \<and> content (snd (snd (sock_name host sock w))) = content w
   \<and> content (snd (sock_new host w)) = content w \<and> content (sock_connect host sock port w) = content w
   \<and> content (sock_drop host sock w) = content w
   \<and> content (snd (ssh_new host w)) = content w \<and> content (ssh_free host n w) = content w
   \<and> content (ssh_disconnect host n w) = content w \<and> content (ssh_set_callbacks host n w) = content w
   \<and> content (snd (ssh_key_exchange host n w)) = content w
   \<and> script_keeps content (content w) (ssh_handle_packets host n auth w)
   \<and> content (channel_send_eof host n w) = content w \<and> content (channel_close host n w) = content w
   \<and> content (channel_free host n w) = content w \<and> content (snd (sftp_new host n p w)) = content w
   \<and> content (snd (sftp_init host n w)) = content w \<and> content (sftp_free host n w) = content w)"

subsection \<open>What a session thread leaves alone\<close>

definition stays :: "('w \<Rightarrow> 'c) \<Rightarrow> ('w, 't) sftp_server \<Rightarrow> ('w, 't) sftp_server \<Rightarrow> bool" where
  "stays content s s' \<longleftrightarrow> sf_users s' = sf_users s \<and> sf_threads s' = sf_threads s
     \<and> content (sf_world s') = content (sf_world s)"

lemma stays_trans: "stays content a b \<Longrightarrow> stays content b c \<Longrightarrow> stays content a c"
  by (simp add: stays_def)

lemma run_callback_stays: "run_callback i cb s = Done (a, s1) \<Longrightarrow> stays content s s1"
  by (cases cb)
    (auto simp: stays_def check_auth_def on_channel_open_session_def on_channel_subsystem_def update_hs_def
      split: if_splits option.splits)

lemma run_script_stays:
  "run_script i scr s = Done (ok, s1) \<Longrightarrow> script_keeps content (content (sf_world s)) scr \<Longrightarrow> stays content s s1"
proof (induction scr arbitrary: s)
  case (Finish ok1 w)
  then show ?case by (auto simp: stays_def)
next
  case (Call cb nxt)
  obtain a s2 where step: "run_callback i cb s = Done (a, s2)" "run_script i (nxt a) s2 = Done (ok, s1)"
    using Call.prems(1) by (auto split: outcome.splits)
  have first: "stays content s s2"
    using step(1) by (rule run_callback_stays)
  then have "script_keeps content (content (sf_world s2)) (nxt a)"
    using Call.prems(2) by (simp add: stays_def)
  from stays_trans [OF first Call.IH [OF _ step(2) this]] show ?case by simp
qed

lemma close_session_stays:
  assumes "host_keeps host content"
  shows "stays content s (close_session host i chan s)"
  using assms
  by (cases chan)
    (simp_all add: stays_def close_session_def sftp_remove_session_def remove_hs_def run_world_def host_keeps_def
      Let_def split: option.split)

primrec round_state :: "'s hs_round \<Rightarrow> 's option" where
  "round_state (Hs_again out s) = Some s"
| "round_state (Hs_done c s) = Some s"
| "round_state (Hs_failed out s) = Some s"
| "round_state Hs_fault = None"

lemma handshake_state:
  assumes "round_state (handshake_round host i out s) = Some s1"
  shows "s1 = s \<or> (\<exists>ok. run_script i (ssh_handle_packets host i (i \<in> set (sf_authenticated s)) (sf_world s)) s = Done (ok, s1))"
proof (cases "run_script i (ssh_handle_packets host i (i \<in> set (sf_authenticated s)) (sf_world s)) s")
  case (Done r)
  with assms show ?thesis
    by (cases r) (simp add: handshake_round_def Let_def split: if_splits option.splits)
qed (use assms in \<open>simp_all add: handshake_round_def split: if_splits\<close>)

lemma handshake_stays:
  assumes "host_keeps host content" "round_state (handshake_round host i out s) = Some s1"
  shows "stays content s s1"
proof -
  have "script_keeps content (content (sf_world s)) (ssh_handle_packets host i (i \<in> set (sf_authenticated s)) (sf_world s))"
    using assms(1) by (simp add: host_keeps_def)
  with handshake_state [OF assms(2)] show ?thesis
    by (auto simp: stays_def dest: run_script_stays)
qed

lemma lookup_user_granted:
  assumes "only_grants G s" "lookup_user i s = (found, username, root, perm)"
  shows "granted G \<lparr>cx_username = username, cx_root = root, cx_perm = perm\<rparr>"
  using assms
  by (auto simp: lookup_user_def granted_def only_grants_def find_Some_iff split: option.splits)

lemma only_grants_stays: "stays content s s1 \<Longrightarrow> only_grants G s1 = only_grants G s"
  by (simp add: stays_def only_grants_def)

lemma stays_world [simp]:
  "stays content s (s\<lparr>sf_world := w\<rparr>) \<longleftrightarrow> content w = content (sf_world s)"
  "stays content s (run_world f s) \<longleftrightarrow> content (f (sf_world s)) = content (sf_world s)"
  "stays content s (session_put st s) \<longleftrightarrow> content (st_world st) = content (sf_world s)"
  by (simp_all add: stays_def run_world_def session_put_def)

lemma enter_sftp_granted:
  assumes "host_keeps host content" "only_grants G s"
  shows "stays content s (snd (enter_sftp host table i chan s))
    \<and> (\<forall>p. fst (enter_sftp host table i chan s) = Some p \<longrightarrow> phase_granted G p)"
proof -
  define s1 where "s1 = s\<lparr>sf_world := snd (sftp_new host i chan (sf_world s))\<rparr>"
  have s1: "stays content s s1"
    using assms(1) by (simp add: s1_def host_keeps_def)
  show ?thesis
  proof (cases "fst (sftp_new host i chan (sf_world s))")
    case None
    then have "enter_sftp host table i chan s = (None, close_session host i (Some chan) s1)"
      by (simp add: enter_sftp_def Let_def split_beta s1_def)
    then show ?thesis
      using stays_trans [OF s1 close_session_stays [OF assms(1)]] by simp
  next
    case (Some srv)
    define s2 where "s2 = s1\<lparr>sf_world := snd (sftp_init host srv (sf_world s1))\<rparr>"
    have s2: "stays content s s2"
      by (rule stays_trans [OF s1]) (use assms(1) in \<open>simp add: s2_def host_keeps_def\<close>)
    have free: "stays content s (run_world (sftp_free host srv) s2)"
      by (rule stays_trans [OF s2]) (use assms(1) in \<open>simp add: host_keeps_def\<close>)
    obtain found username root perm where lookup: "lookup_user i s2 = (found, username, root, perm)"
      by (cases "lookup_user i s2")
    have "granted G \<lparr>cx_username = username, cx_root = root, cx_perm = perm\<rparr>"
      using lookup_user_granted lookup only_grants_stays [OF s2] assms(2) by blast
    moreover have "enter_sftp host table i chan s =
        (if fst (sftp_init host srv (sf_world s1))
         then (Some (Serving chan srv \<lparr>cx_username = username, cx_root = root, cx_perm = perm\<rparr> table Map.empty 0 []), s2)
         else (None, close_session host i (Some chan) (run_world (sftp_free host srv) s2)))"
      using Some lookup by (simp add: enter_sftp_def Let_def split_beta s1_def s2_def)
    ultimately show ?thesis
      using s2 stays_trans [OF free close_session_stays [OF assms(1)]] by simp
  qed
qed

text \<open>The calls that the accounts of \<open>G\<close> permit do not change \<open>content\<close>.\<close>

definition calls_keep :: "'w sys \<Rightarrow> grant \<Rightarrow> ('w \<Rightarrow> 'c) \<Rightarrow> bool" where
  "calls_keep sys G content \<longleftrightarrow>
     (\<forall>cx u v. granted G cx \<longrightarrow> sys_call sys (permitted sys cx) u v \<longrightarrow> content v = content u)"

lemma round_keeps:
  assumes "calls_keep sys G content" "granted G cx"
    and "sftp_round sys lib running cx st = Again st' \<or> sftp_round sys lib running cx st = Leave st'"
  shows "content (st_world st') = content (st_world st)"
proof -
  have "sys_calls sys (permitted sys cx) (st_world st) (st_world st')"
    using call_session.round [OF assms(3)] by (simp add: calls_permitted_def)
  then show ?thesis
    by (rule sys_calls_invariant [where P = "\<lambda>w. content w = content (st_world st)"])
      (use assms(1,2) in \<open>auto simp: calls_keep_def\<close>)
qed

lemma session_step_granted:
  assumes "host_keeps host content" "calls_keep sys G content" "only_grants G s" "phase_granted G p"
    and "session_step host sys lib table0 i p s = Some (new, s1)"
  shows "stays content s s1 \<and> (\<forall>q. new = Some q \<longrightarrow> phase_granted G q)"
proof (cases p)
  case Begun
  then show ?thesis
    using assms(5) by (auto simp: make_hs_def stays_def)
next
  case (Handshaking out)
  show ?thesis
  proof (cases "handshake_round host i out s")
    case (Hs_again out1 s2)
    then show ?thesis
      using assms(5) Handshaking handshake_stays [OF assms(1), of i out s s2] by auto
  next
    case (Hs_done c s2)
    have s2: "stays content s s2"
      using handshake_stays [OF assms(1), of i out s s2] Hs_done by simp
    have "only_grants G s2"
      using only_grants_stays [OF s2] assms(3) by simp
    then show ?thesis
      using enter_sftp_granted [OF assms(1), of G s2 table0 i c] stays_trans [OF s2] assms(5) Handshaking Hs_done
      by auto
  next
    case (Hs_failed out1 s2)
    then have "stays content s s2"
      using handshake_stays [OF assms(1), of i out s s2] by simp
    from stays_trans [OF this close_session_stays [OF assms(1)]] show ?thesis
      using assms(5) Handshaking Hs_failed by auto
  qed (use assms(5) Handshaking in simp)
next
  case (Serving chan srv cx table heap fresh replies)
  let ?st = "session_view table heap fresh replies s"
  have cx: "granted G cx"
    using assms(4) Serving by simp
  have put: "stays content s (session_put st s)"
    if "sftp_round sys lib (\<lambda>_. sf_running s) cx ?st = Again st \<or> sftp_round sys lib (\<lambda>_. sf_running s) cx ?st = Leave st" for st
    using round_keeps [OF assms(2) cx that] by (simp add: session_view_def)
  have free: "stays content (session_put st s) (run_world (sftp_free host srv) (session_put st s))" for st
    using assms(1) by (simp add: host_keeps_def)
  show ?thesis
  proof (cases "sftp_round sys lib (\<lambda>_. sf_running s) cx ?st")
    case (Again st)
    then show ?thesis
      using put [of st] assms(5) Serving cx by (auto simp: serving_of_def)
  next
    case (Leave st)
    then have "stays content s (session_put st s)"
      by (intro put) simp
    from stays_trans [OF this stays_trans [OF free close_session_stays [OF assms(1)]]] show ?thesis
      using assms(5) Serving Leave by auto
  qed (use assms(5) Serving in simp_all)
qed

subsection \<open>The other steps\<close>

lemma start_stays:
  assumes "host_keeps host content"
  shows "stays content s (snd (sftp_start host s))"
proof (rule sftp_start_chain [where R = "stays content"])
  show reset: "stays content a (snd (option_error host what a))" for a what
    using assms by (simp add: option_error_def stays_def bind_reset_def host_keeps_def Let_def split: option.split)
  have keygen: "content (snd (generate_rsa_key host w)) = content w" "content (snd (new_bind host w)) = content w" for w
    using assms by (simp_all add: generate_rsa_key_def new_bind_def host_keeps_def Let_def split_beta split: option.split)
  show "stays content a (snd (ensure_bind host a))" "stays content a (snd (ensure_hostkey host a))" for a
    using keygen [of "sf_world a"]
    by (auto simp: ensure_bind_def ensure_hostkey_def stays_def split: prod.split sum.split)
  have imported: "stays content a (a\<lparr>sf_world := snd (bind_import_key host b key (sf_world a))\<rparr>)" for a b key
    using assms by (simp add: host_keeps_def)
  show "stays content a (snd (import_hostkey host a))" for a
    using stays_trans [OF imported reset] imported
    by (auto simp: import_hostkey_def Let_def split_beta stays_def split: option.split)
  show "stays content a (snd (listen_bind host a))" for a
    using assms
    by (simp add: listen_bind_def stays_def bind_reset_def host_keeps_def Let_def split_beta split: option.split)
qed (use assms in \<open>simp_all add: stays_def host_keeps_def\<close>)

lemma threads_granted_same: "sf_threads s' = sf_threads s \<Longrightarrow> threads_granted G s' = threads_granted G s"
  by (simp add: threads_granted_def)

lemma accept_keeps:
  assumes "host_keeps host content"
  shows "content (sf_world (accept_begin host s)) = content (sf_world s)"
    "content (sf_world (accept_return host i s)) = content (sf_world s)"
    "threads_granted G (accept_begin host s) = threads_granted G s"
    "threads_granted G (accept_return host i s) = threads_granted G s"
proof -
  have begin_threads: "sf_threads (accept_begin host s) = sf_threads s"
    by (simp add: accept_begin_def Let_def split_beta split: option.split)
  have return_threads: "sf_threads (accept_return host i s) = sf_threads s
      \<or> sf_threads (accept_return host i s) = sf_threads s @ [(i, Begun)]"
    by (simp add: accept_return_def sftp_remove_session_def run_world_def Let_def split_beta split: option.split)
  show "threads_granted G (accept_begin host s) = threads_granted G s"
    by (rule threads_granted_same [OF begin_threads])
  show "threads_granted G (accept_return host i s) = threads_granted G s"
    using return_threads by (auto simp: threads_granted_def)
  show "content (sf_world (accept_begin host s)) = content (sf_world s)"
    using assms by (simp add: accept_begin_def host_keeps_def Let_def split_beta split: option.split)
  show "content (sf_world (accept_return host i s)) = content (sf_world s)"
    using assms
    by (simp add: accept_return_def sftp_remove_session_def run_world_def host_keeps_def Let_def split_beta
        split: option.split)
qed

lemma stop_keeps:
  assumes "host_keeps host content"
  shows "sf_threads (stop_begin host s) = sf_threads s \<and> content (sf_world (stop_begin host s)) = content (sf_world s)"
    "sf_threads (stop_end host s) = sf_threads s \<and> content (sf_world (stop_end host s)) = content (sf_world s)"
  using assms
  by (simp_all add: stop_begin_def unblock_accept_def stop_end_def bind_reset_def host_keeps_def Let_def split_beta
      split: option.split)

lemma granted_step_keeps:
  assumes "host_keeps host content" "calls_keep sys G content" "only_grants G s" "threads_granted G s"
    and "sftp_step host sys lib table0 s s'"
  shows "threads_granted G s' \<and> content (sf_world s') = content (sf_world s)"
  using assms(5)
proof cases
  case ss_start
  with start_stays [OF assms(1), of s] show ?thesis
    using assms(4) by (simp add: stays_def threads_granted_def)
next
  case (ss_session i p new s1)
  have "phase_granted G p"
    using assms(4) ss_session(2) by (force simp: threads_granted_def)
  from session_step_granted [OF assms(1-3) this ss_session(3)]
  have "stays content s s1" "\<And>q. new = Some q \<Longrightarrow> phase_granted G q" by blast+
  then show ?thesis
    using assms(4) unfolding ss_session(1)
    by (auto simp: stays_def threads_granted_def set_session_phase_def split: option.split)
next
  case ss_stop_begin
  with stop_keeps(1) [OF assms(1), of s] assms(4) show ?thesis by (simp add: threads_granted_def)
next
  case ss_stop_end
  with stop_keeps(2) [OF assms(1), of s] assms(4) show ?thesis by (simp add: threads_granted_def)
next
  case ss_accept_begin
  with accept_keeps [OF assms(1), where s = s] assms(4) show ?thesis by simp
next
  case ss_accept_return
  with accept_keeps [OF assms(1), where s = s] assms(4) show ?thesis by simp
qed (use assms(4) in \<open>simp_all add: sftp_add_user_def sftp_clear_users_def sftp_clear_activity_def threads_granted_def\<close>)

lemma granted_run_keeps:
  assumes "host_keeps host content" "calls_keep sys G content" "only_grants G s0" "threads_granted G s0"
    and "(granted_step host sys lib table0 G)\<^sup>*\<^sup>* s0 s"
  shows "only_grants G s \<and> threads_granted G s \<and> content (sf_world s) = content (sf_world s0)"
  using assms(5)
proof (induction rule: rtranclp_induct)
  case (step s s')
  then have "only_grants G s" "threads_granted G s" "sftp_step host sys lib table0 s s'" "only_grants G s'"
    by (simp_all add: granted_step_def)
  with granted_step_keeps [OF assms(1,2) this(1-3)] step.IH show ?case by simp
qed (use assms(3,4) in simp)

lemma new_sftp_granted:
  assumes "host_keeps host content" "new_sftp host tmp w = Inr s0"
  shows "only_grants G s0" "threads_granted G s0" "content (sf_world s0) = content w"
proof -
  have fresh: "sf_users s0 = []" "sf_threads s0 = []"
    using assms(2) by (auto simp: new_sftp_def split: sum.splits prod.splits)
  then show "only_grants G s0" "threads_granted G s0"
    by (simp_all add: only_grants_def threads_granted_def)
  have bind: "content (snd (new_bind host w)) = content w" for w
    using assms(1) by (simp add: new_bind_def host_keeps_def Let_def split_beta split: option.split)
  have key: "content (snd (generate_rsa_key host w)) = content w" for w
    using assms(1) by (simp add: generate_rsa_key_def host_keeps_def Let_def split_beta split: option.split)
  show "content (sf_world s0) = content w"
    using assms(2) bind [of w] key [of "snd (new_bind host w)"]
    by (auto simp: new_sftp_def split: sum.splits prod.splits)
qed

text \<open>C6. Only configured users change files. Take any run of the server, with any number of clients
  that send anything at all, in which no configured user ever has the write permission: the
  files are at the end what they were when the server was made. (\<open>content\<close> is any aspect of the
  world that neither the SSH library's own calls nor reading change.)\<close>

theorem sftp_read_only_server:
  assumes "untouched_by_reading sys content" and "host_keeps host content"
    and "new_sftp host tmp w = Inr s0"
    and "(granted_step host sys lib table0 (\<lambda>root perm. \<not> can_write perm))\<^sup>*\<^sup>* s0 s"
  shows "content (sf_world s) = content w"
proof -
  have "calls_keep sys (\<lambda>root perm. \<not> can_write perm) content"
    unfolding calls_keep_def
  proof (intro allI impI)
    fix cx u v
    assume "granted (\<lambda>root perm. \<not> can_write perm) cx" and call: "sys_call sys (permitted sys cx) u v"
    then have "\<not> can_write (cx_perm cx)"
      by (auto simp: granted_def sftp_perm_none_def)
    from read_only_call [OF assms(1) this call] show "content v = content u" .
  qed
  from granted_run_keeps [OF assms(2) this new_sftp_granted(1,2) [OF assms(2,3)] assms(4)]
    new_sftp_granted(3) [OF assms(2,3)] show ?thesis by simp
qed

lemma demo_host_keeps: "host_keeps demo_host mf_files"
  by (simp add: host_keeps_def demo_host_def demo_script_def)

text \<open>A user who may only read logs in and asks for a new file.\<close>

definition create_f :: sftp_message where
  "create_f = (plain_message FXP_OPEN)\<lparr>mg_filename := Some ''f'', mg_flags := FXF_WRITE OR FXF_CREAT\<rparr>"

abbreviation demo_granted ::
  "(mem_ftp, nat option list) sftp_server \<Rightarrow> (mem_ftp, nat option list) sftp_server \<Rightarrow> bool" where
  "demo_granted \<equiv> granted_step demo_host mem_sys slot_lib [None, None] (\<lambda>root perm. \<not> can_write perm)"

lemma demo_granted_run: "demo_granted\<^sup>*\<^sup>* (demo_sftp rs) (demo_serving 1 rs)"
proof -
  have accept: "sf_users (accept_begin demo_host s) = sf_users s" for s :: "(mem_ftp, nat option list) sftp_server"
    by (simp add: accept_begin_def Let_def split_beta split: option.split)
  have "demo_granted (demo_sftp rs) (sftp_add_user ''bob'' ''b'' ''/t'' 1 (demo_sftp rs))"
    "demo_granted (sftp_add_user ''bob'' ''b'' ''/t'' 1 (demo_sftp rs)) (demo_up 1 rs)"
    "demo_granted (demo_up 1 rs) (accept_begin demo_host (demo_up 1 rs))"
    "demo_granted (accept_begin demo_host (demo_up 1 rs)) (demo_accepted 1 rs)"
    "demo_granted (demo_accepted 1 rs) (demo_hs 1 rs)" "demo_granted (demo_hs 1 rs) (demo_auth 1 rs)"
    "demo_granted (demo_auth 1 rs) (demo_serving 1 rs)"
    unfolding granted_step_def
    using demo_steps [where p = 1 and rs = rs] accept [of "demo_up 1 rs"]
    by (simp_all add: only_grants_def sftp_add_user_def demo_states)
  then show ?thesis
    by (meson rtranclp.rtrancl_into_rtrancl rtranclp.rtrancl_refl)
qed

lemma create_request:
  "do_request mem_sys slot_lib (bob_cx 1) create_f st =
     Done (status mem_sys create_f FX_PERMISSION_DENIED (log_activity (bob_cx 1) ''OPEN'' ''f'' ''DENIED'' st))"
proof -
  have "(FXF_WRITE OR FXF_CREAT) AND (FXF_WRITE OR FXF_CREAT OR FXF_TRUNC) \<noteq> 0"
    by (simp add: flag_defs)
  then show ?thesis
    by (simp add: do_request.simps sftp_do_open_def create_f_def plain_message_def bob_cx_def)
qed

lemma create_denied:
  "\<exists>st. sftp_round mem_sys slot_lib (\<lambda>_. True) (bob_cx 1) (session_view [None, None] Map.empty 0 [] (demo_serving 1 [create_f])) = Again st
    \<and> map sa_result (st_activity st) = [''DENIED'']"
proof -
  let ?w = "sf_world (demo_serving 1 [create_f])"
  have "ssh_poll mem_sys ?w = (1, ?w)" "fst (ssh_message mem_sys ?w) = Some create_f"
    by (simp_all add: demo_states mem_ftp0_def mem_sys_defs)
  moreover have "sf_activity (demo_serving 1 [create_f]) = []"
    by (simp add: demo_states)
  ultimately show ?thesis
    by (simp add: sftp_round_def create_request session_view_def status_def send_reply_def log_activity_def split_beta)
qed

theorem sftp_read_only_server_witness:
  "\<exists>s. demo_granted\<^sup>*\<^sup>* (demo_sftp [create_f]) s
     \<and> map sa_result (sf_activity s) = [''DENIED''] \<and> mf_files (sf_world s) = []"
proof -
  let ?s = "demo_serving 1 [create_f]"
  let ?p = "Serving 70 90 (bob_cx 1) [None, None] Map.empty 0 []"
  obtain st where st: "sftp_round mem_sys slot_lib (\<lambda>_. True) (bob_cx 1)
      (session_view [None, None] Map.empty 0 [] ?s) = Again st" "map sa_result (st_activity st) = [''DENIED'']"
    using create_denied by (elim exE conjE)
  let ?s1 = "set_session_phase 3 (Some (serving_of 70 90 (bob_cx 1) st)) (session_put st ?s)"
  have "(3, ?p) \<in> set (sf_threads ?s)" "sf_running ?s"
    by (simp_all add: demo_states)
  with st(1) have "demo_granted ?s ?s1"
    unfolding granted_step_def
    by (intro conjI ss_session [of 3 ?p]) (simp_all add: only_grants_def set_session_phase_def session_put_def demo_states)
  with demo_granted_run have run: "demo_granted\<^sup>*\<^sup>* (demo_sftp [create_f]) ?s1"
    by (rule rtranclp.rtrancl_into_rtrancl)
  from sftp_read_only_server [OF mem_untouched demo_host_keeps demo_new run]
  have "mf_files (sf_world ?s1) = []"
    by (simp add: mem_ftp0_def)
  with run st(2) show ?thesis
    by (intro exI [of _ ?s1]) (simp add: set_session_phase_def session_put_def)
qed

end
