(* ===== verification/Owners.thy ===== *)
theory Owners
  imports SftpServer MemorySftp
begin

text \<open>
  The owning pointers of the SFTP server: \<open>ssh_bind_ptr\<close> and \<open>ssh_key_ptr\<close> of \<open>sftp_server.cpp\<close>,
  \<open>sftp_attr_ptr\<close>, \<open>file_ptr\<close> and \<open>dir_ptr\<close> of \<open>sftp_handlers.cpp\<close>. An owner is a variable with an
  identity (\<open>this\<close>, here a number) that holds a raw pointer or null. A store maps the variables
  that are alive to what they hold; it also records which pointers the classes have freed and
  which \<open>release\<close> has given back to its caller. The operations are those the classes define.
\<close>

record ('p, 'w) owner_store =
  ow_vars :: "nat \<Rightarrow> 'p option option"
  ow_freed :: "'p list"
  ow_given :: "'p list"
  ow_world :: 'w

definition owner_get :: "nat \<Rightarrow> ('p, 'w) owner_store \<Rightarrow> 'p option" where
  "owner_get v s = (case ow_vars s v of Some x \<Rightarrow> x | None \<Rightarrow> None)"

definition owner_valid :: "nat \<Rightarrow> ('p, 'w) owner_store \<Rightarrow> bool" where
  "owner_valid v s \<longleftrightarrow> owner_get v s \<noteq> None"

definition hold :: "nat \<Rightarrow> 'p option \<Rightarrow> ('p, 'w) owner_store \<Rightarrow> ('p, 'w) owner_store" where
  "hold v x s = s\<lparr>ow_vars := (ow_vars s)(v \<mapsto> x)\<rparr>"

text \<open>What a variable holds is freed if it is not null, and the variable is null then.\<close>

definition owner_free :: "('p \<Rightarrow> 'w \<Rightarrow> 'w) \<Rightarrow> nat \<Rightarrow> ('p, 'w) owner_store \<Rightarrow> ('p, 'w) owner_store" where
  "owner_free free v s =
     (case owner_get v s of
        None \<Rightarrow> s
      | Some p \<Rightarrow> hold v None (s\<lparr>ow_freed := ow_freed s @ [p], ow_world := free p (ow_world s)\<rparr>))"

datatype 'p owner_op =
    Construct nat
  | Adopt nat "'p option"
  | Move_construct nat nat
  | Move_assign nat nat
  | Release nat
  | Destroy nat

text \<open>What the classes have in common; \<open>free\<close> is what frees a raw pointer. A move assignment copies
  the pointer of the other variable after freeing its own.\<close>

fun owner_step ::
  "('p \<Rightarrow> 'w \<Rightarrow> 'w) \<Rightarrow> 'p owner_op \<Rightarrow> ('p, 'w) owner_store \<Rightarrow> ('p, 'w) owner_store" where
  "owner_step free (Construct v) s = hold v None s"
| "owner_step free (Adopt v x) s = hold v x s"
| "owner_step free (Move_construct v u) s = hold u None (hold v (owner_get u s) s)"
| "owner_step free (Move_assign v u) s =
     (if v \<noteq> u then hold u None (hold v (owner_get u s) (owner_free free v s)) else s)"
| "owner_step free (Release v) s =
     (case owner_get v s of
        None \<Rightarrow> hold v None s
      | Some p \<Rightarrow> hold v None (s\<lparr>ow_given := ow_given s @ [p]\<rparr>))"
| "owner_step free (Destroy v) s = (owner_free free v s)\<lparr>ow_vars := (ow_vars (owner_free free v s))(v := None)\<rparr>"

subsection \<open>The classes\<close>

definition sftp_attr_ptr :: "('p \<Rightarrow> 'w \<Rightarrow> 'w) \<Rightarrow> 'p owner_op \<Rightarrow> ('p, 'w) owner_store \<Rightarrow> ('p, 'w) owner_store" where
  "sftp_attr_ptr sftp_attributes_free = owner_step sftp_attributes_free"

definition file_ptr :: "'w sys \<Rightarrow> nat owner_op \<Rightarrow> (nat, 'w) owner_store \<Rightarrow> (nat, 'w) owner_store" where
  "file_ptr sys = owner_step (c_fclose sys)"

definition dir_ptr :: "'w sys \<Rightarrow> nat owner_op \<Rightarrow> (nat, 'w) owner_store \<Rightarrow> (nat, 'w) owner_store" where
  "dir_ptr sys = owner_step (c_closedir sys)"

definition ssh_key_ptr :: "('p \<Rightarrow> 'w \<Rightarrow> 'w) \<Rightarrow> 'p owner_op \<Rightarrow> ('p, 'w) owner_store \<Rightarrow> ('p, 'w) owner_store" where
  "ssh_key_ptr ssh_key_free = owner_step ssh_key_free"

text \<open>\<open>ssh_bind_ptr\<close>: its constructor makes the object it owns, and throws when there is none, and
  it has \<open>reset\<close> instead of a constructor from a pointer and \<open>release\<close>.\<close>

datatype bind_op = Bind_construct nat | Bind_move_construct nat nat | Bind_move_assign nat nat
  | Bind_reset nat | Bind_destroy nat

fun ssh_bind_ptr ::
  "'w ssh_host \<Rightarrow> bind_op \<Rightarrow> (nat, 'w) owner_store \<Rightarrow> unit throwing \<times> (nat, 'w) owner_store" where
  "ssh_bind_ptr host (Bind_construct v) s =
     (let (b, w) = bind_new host (ow_world s); s = s\<lparr>ow_world := w\<rparr>
      in case b of None \<Rightarrow> (Inl ''ssh_bind_new failed'', s) | Some b \<Rightarrow> (Inr (), hold v (Some b) s))"
| "ssh_bind_ptr host (Bind_move_construct v u) s = (Inr (), owner_step (bind_free host) (Move_construct v u) s)"
| "ssh_bind_ptr host (Bind_move_assign v u) s = (Inr (), owner_step (bind_free host) (Move_assign v u) s)"
| "ssh_bind_ptr host (Bind_reset v) s = (Inr (), owner_free (bind_free host) v s)"
| "ssh_bind_ptr host (Bind_destroy v) s = (Inr (), owner_step (bind_free host) (Destroy v) s)"

subsection \<open>Ownership\<close>

text \<open>The language constructs a variable once, before any other operation on it, and destroys it
  last.\<close>

fun op_allowed :: "'p owner_op \<Rightarrow> ('p, 'w) owner_store \<Rightarrow> bool" where
  "op_allowed (Construct v) s = (ow_vars s v = None)"
| "op_allowed (Adopt v x) s = (ow_vars s v = None)"
| "op_allowed (Move_construct v u) s = (ow_vars s v = None \<and> ow_vars s u \<noteq> None)"
| "op_allowed (Move_assign v u) s = (ow_vars s v \<noteq> None \<and> ow_vars s u \<noteq> None)"
| "op_allowed (Release v) s = (ow_vars s v \<noteq> None)"
| "op_allowed (Destroy v) s = (ow_vars s v \<noteq> None)"

fun adopted :: "'p owner_op \<Rightarrow> 'p list" where
  "adopted (Adopt v (Some p)) = [p]"
| "adopted op = []"

fun all_allowed :: "('p \<Rightarrow> 'w \<Rightarrow> 'w) \<Rightarrow> 'p owner_op list \<Rightarrow> ('p, 'w) owner_store \<Rightarrow> bool" where
  "all_allowed free [] s = True"
| "all_allowed free (op # ops) s = (op_allowed op s \<and> all_allowed free ops (owner_step free op s))"

definition holders :: "'p \<Rightarrow> ('p, 'w) owner_store \<Rightarrow> nat set" where
  "holders p s = {v. ow_vars s v = Some (Some p)}"

definition accounted :: "'p \<Rightarrow> ('p, 'w) owner_store \<Rightarrow> nat" where
  "accounted p s = card (holders p s) + count_list (ow_freed s) p + count_list (ow_given s) p"

definition new_store :: "'w \<Rightarrow> ('p, 'w) owner_store" where
  "new_store w = \<lparr>ow_vars = Map.empty, ow_freed = [], ow_given = [], ow_world = w\<rparr>"

lemma holders_hold: "holders p (hold v x s) = (if x = Some p then insert v (holders p s) else holders p s - {v})"
  by (auto simp: holders_def hold_def)

lemma holders_other [simp]: "holders p (s\<lparr>ow_freed := fs, ow_world := w\<rparr>) = holders p s"
  "holders p (s\<lparr>ow_given := gs\<rparr>) = holders p s"
  by (simp_all add: holders_def)

lemma finite_holders: "finite (dom (ow_vars s)) \<Longrightarrow> finite (holders p s)"
  by (rule finite_subset) (auto simp: holders_def)

lemma hold_parts [simp]:
  "ow_vars (hold v x s) = (ow_vars s)(v \<mapsto> x)" "ow_freed (hold v x s) = ow_freed s"
  "ow_given (hold v x s) = ow_given s" "ow_world (hold v x s) = ow_world s"
  by (simp_all add: hold_def)

lemma owner_get_holders: "owner_get v s = Some p \<longleftrightarrow> v \<in> holders p s"
  by (auto simp: owner_get_def holders_def split: option.split)

text \<open>A variable that is alive stops to hold what it holds: one holder less of that pointer.\<close>

lemma card_let_go:
  assumes "finite (dom (ow_vars s))"
  shows "card (holders p (hold v None s)) + (if owner_get v s = Some p then 1 else 0) = card (holders p s)"
  using finite_holders [OF assms, of p] card.remove [of "holders p s" v]
  by (auto simp: holders_hold owner_get_holders)

lemma card_take_on:
  assumes "finite (dom (ow_vars s))" "owner_get v s = None"
  shows "card (holders p (hold v x s)) = card (holders p s) + (if x = Some p then 1 else 0)"
proof -
  have "v \<notin> holders p s"
    using assms(2) by (auto simp flip: owner_get_holders)
  with finite_holders [OF assms(1), of p] show ?thesis
    by (simp add: holders_hold)
qed

lemma owner_get_hold: "owner_get u (hold v x s) = (if u = v then x else owner_get u s)"
  by (simp add: owner_get_def)

lemma accounted_free:
  assumes "finite (dom (ow_vars s))"
  shows "accounted p (owner_free free v s) = accounted p s" "owner_get v (owner_free free v s) = None"
    "finite (dom (ow_vars (owner_free free v s)))"
    "u \<noteq> v \<Longrightarrow> owner_get u (owner_free free v s) = owner_get u s"
proof -
  have get: "owner_get v (s\<lparr>ow_freed := fs, ow_world := w\<rparr>) = owner_get v s" for v fs w
    by (simp add: owner_get_def)
  show "owner_get v (owner_free free v s) = None" "u \<noteq> v \<Longrightarrow> owner_get u (owner_free free v s) = owner_get u s"
    by (auto simp: owner_free_def owner_get_hold get split: option.split)
  show "finite (dom (ow_vars (owner_free free v s)))"
    using assms by (simp add: owner_free_def split: option.split)
  show "accounted p (owner_free free v s) = accounted p s"
  proof (cases "owner_get v s")
    case (Some q)
    then show ?thesis
      using card_let_go [of "s\<lparr>ow_freed := ow_freed s @ [q], ow_world := free q (ow_world s)\<rparr>" p v] assms
      by (auto simp: accounted_def owner_free_def get)
  qed (simp add: owner_free_def)
qed

lemma accounted_move:
  assumes "finite (dom (ow_vars s))" "owner_get v s = None" "u \<noteq> v"
  shows "accounted p (hold u None (hold v (owner_get u s) s)) = accounted p s"
proof -
  have "finite (dom (ow_vars (hold v (owner_get u s) s)))"
    using assms(1) by simp
  from card_let_go [OF this, of p u] card_take_on [OF assms(1,2), of p "owner_get u s"] assms(3)
  show ?thesis by (simp add: accounted_def owner_get_hold)
qed

lemma owner_step_accounted:
  assumes "finite (dom (ow_vars s))" "op_allowed op s"
  shows "accounted p (owner_step free op s) = accounted p s + count_list (adopted op) p"
    "finite (dom (ow_vars (owner_step free op s)))"
proof -
  show "finite (dom (ow_vars (owner_step free op s)))"
    using assms(1) accounted_free(3) [OF assms(1)]
    by (cases op) (simp_all split: option.split)
  show "accounted p (owner_step free op s) = accounted p s + count_list (adopted op) p"
  proof (cases op)
    case (Construct v)
    with assms show ?thesis
      using card_take_on [OF assms(1), of v p None] by (simp add: accounted_def owner_get_def)
  next
    case (Adopt v x)
    with assms show ?thesis
      using card_take_on [OF assms(1), of v p x] by (cases x) (simp_all add: accounted_def owner_get_def)
  next
    case (Move_construct v u)
    with assms show ?thesis
      using accounted_move [OF assms(1), of v u p] by (cases "u = v") (auto simp: owner_get_def)
  next
    case (Move_assign v u)
    show ?thesis
    proof (cases "u = v")
      case False
      have "accounted p (hold u None (hold v (owner_get u (owner_free free v s)) (owner_free free v s)))
          = accounted p (owner_free free v s)"
        by (rule accounted_move) (simp_all add: accounted_free [OF assms(1)] False)
      with False Move_assign show ?thesis
        by (simp add: accounted_free(1,4) [OF assms(1)])
    qed (simp add: Move_assign)
  next
    case (Release v)
    then show ?thesis
      using card_let_go [OF assms(1), of p v]
      by (auto simp: accounted_def holders_hold split: option.split)
  next
    case (Destroy v)
    have "holders p ((owner_free free v s)\<lparr>ow_vars := (ow_vars (owner_free free v s))(v := None)\<rparr>)
        = holders p (owner_free free v s)"
      using accounted_free(2) [OF assms(1), of v free]
      by (auto simp: holders_def owner_get_def split: option.splits)
    with Destroy show ?thesis
      using accounted_free(1) [OF assms(1), of p free v] by (simp add: accounted_def)
  qed
qed

lemma owner_run_accounted:
  "all_allowed free ops s \<Longrightarrow> finite (dom (ow_vars s)) \<Longrightarrow>
     accounted p (fold (owner_step free) ops s) = accounted p s + count_list (concat (map adopted ops)) p"
  by (induction ops arbitrary: s) (auto simp: owner_step_accounted)

lemma distinct_iff_count: "distinct xs \<longleftrightarrow> (\<forall>p. count_list xs p \<le> 1)"
proof (induction xs)
  case (Cons x xs)
  have "x \<notin> set xs \<longleftrightarrow> count_list xs x = 0"
    by (simp add: count_list_0_iff)
  with Cons show ?case
    by (auto simp: le_Suc_eq)
qed simp

lemma owned_once:
  assumes "all_allowed free ops (new_store w)" "distinct (concat (map adopted ops))"
    and "s = fold (owner_step free) ops (new_store w)"
  shows "distinct (ow_freed s @ ow_given s)"
    "owner_get v s = Some p \<Longrightarrow> p \<notin> set (ow_freed s @ ow_given s)"
    "owner_get v s = Some p \<Longrightarrow> owner_get u s = Some p \<Longrightarrow> u = v"
    "ow_vars s = Map.empty \<Longrightarrow> set (ow_freed s @ ow_given s) = set (concat (map adopted ops))"
proof -
  have "accounted q (new_store w) = 0" for q :: 'a
    by (simp add: accounted_def holders_def new_store_def)
  then have count: "card (holders q s) + count_list (ow_freed s @ ow_given s) q = count_list (concat (map adopted ops)) q" for q
    using owner_run_accounted [OF assms(1), of q] assms(3) by (simp add: accounted_def new_store_def)
  have once: "card (holders q s) + count_list (ow_freed s @ ow_given s) q \<le> 1" for q
    using count [of q] assms(2) by (simp add: distinct_iff_count)
  have finite: "finite (dom (ow_vars s))"
  proof -
    have "finite (dom (ow_vars (fold (owner_step free) ops r)))"
      if "all_allowed free ops r" "finite (dom (ow_vars r))" for r ops
      using that by (induction ops arbitrary: r) (auto simp: owner_step_accounted)
    from this [OF assms(1)] assms(3) show ?thesis by (simp add: new_store_def)
  qed
  show "distinct (ow_freed s @ ow_given s)"
    unfolding distinct_iff_count using once by (meson add_leE)
  have held: "v \<in> holders q s \<Longrightarrow> 0 < card (holders q s)" for q v
    using finite_holders [OF finite, of q] by (auto simp: card_gt_0_iff)
  show "owner_get v s = Some p \<Longrightarrow> p \<notin> set (ow_freed s @ ow_given s)"
    using once [of p] held [of v p] by (auto simp: owner_get_holders simp flip: count_list_0_iff)
  show "owner_get v s = Some p \<Longrightarrow> owner_get u s = Some p \<Longrightarrow> u = v"
    using once [of p] finite_holders [OF finite, of p] card_le_Suc0_iff_eq [of "holders p s"]
    by (auto simp: owner_get_holders)
  assume "ow_vars s = Map.empty"
  then have "holders q s = {}" for q
    by (simp add: holders_def)
  then have "count_list (ow_freed s @ ow_given s) q = 0 \<longleftrightarrow> count_list (concat (map adopted ops)) q = 0" for q
    using count [of q] by simp
  then show "set (ow_freed s @ ow_given s) = set (concat (map adopted ops))"
    by (auto simp: count_list_0_iff)
qed

text \<open>C34. Each stream is closed once. However files are moved between \<open>file_ptr\<close> variables, none is
  closed twice, none that a variable holds has been closed or released, no two variables hold the
  same one, and when all variables are gone each file they were given has been closed or released.\<close>

theorem file_ptr_closes_once:
  assumes "all_allowed (c_fclose sys) ops (new_store w)" and "distinct (concat (map adopted ops))"
    and "s = fold (file_ptr sys) ops (new_store w)"
  shows "distinct (ow_freed s @ ow_given s)
    \<and> (\<forall>v f. owner_get v s = Some f \<longrightarrow> f \<notin> set (ow_freed s @ ow_given s) \<and> (\<forall>u. owner_get u s = Some f \<longrightarrow> u = v))
    \<and> (ow_vars s = Map.empty \<longrightarrow> set (ow_freed s @ ow_given s) = set (concat (map adopted ops)))"
  using owned_once [OF assms(1,2)] assms(3) by (simp add: file_ptr_def)

theorem file_ptr_closes_once_witness:
  "\<exists>s. s = fold (file_ptr mem_sys) [Adopt 0 (Some 8), Adopt 1 (Some 9), Move_assign 0 1, Destroy 1, Destroy 0] (new_store mem_ftp0)
     \<and> distinct (ow_freed s @ ow_given s) \<and> ow_freed s = [8, 9]"
proof -
  let ?ops = "[Adopt 0 (Some 8), Adopt 1 (Some 9), Move_assign 0 1, Destroy 1, Destroy 0]"
  let ?s = "fold (file_ptr mem_sys) ?ops (new_store mem_ftp0)"
  have "all_allowed (c_fclose mem_sys) ?ops (new_store mem_ftp0)" "ow_freed ?s = [8, 9]"
    by (simp_all add: file_ptr_def owner_free_def owner_get_def new_store_def)
  then show ?thesis
    using file_ptr_closes_once [of mem_sys ?ops mem_ftp0 ?s] by simp
qed

end
