(* ===== verification/Windows.thy ===== *)
theory Windows
  imports FtpStream SftpData Owners
begin

text \<open>
  The Windows branches that compute something of their own: file times, sizes and listings. What the
  Windows API does is a record of functions; \<open>win_find_all\<close> stands for the loop of
  \<open>FindFirstFileA\<close> and \<open>FindNextFileA\<close> up to \<open>FindClose\<close> and gives the entries found.
\<close>

subsection \<open>Data\<close>

record filetime =
  ft_low :: "32 word"
  ft_high :: "32 word"

record find_data =
  fd_name :: string
  fd_attributes :: "32 word"
  fd_size_high :: "32 word"
  fd_size_low :: "32 word"
  fd_last_write :: filetime
  fd_last_access :: filetime

record system_time =
  st_month :: nat
  st_day :: nat
  st_hour :: nat
  st_minute :: nat

record 'w win =
  to_local_file_time :: "filetime \<Rightarrow> filetime option"
  to_system_time :: "filetime \<Rightarrow> system_time"
  win_find_all :: "string \<Rightarrow> 'w \<Rightarrow> find_data list option \<times> 'w"

definition FILE_ATTRIBUTE_DIRECTORY :: "32 word" where "FILE_ATTRIBUTE_DIRECTORY = 0x10"

text \<open>The two halves as one number, as \<open>ULARGE_INTEGER\<close> reads them.\<close>

definition quad_part :: "32 word \<Rightarrow> 32 word \<Rightarrow> 64 word" where
  "quad_part high low = push_bit 32 (ucast high) OR ucast low"

subsection \<open>Times\<close>

definition filetime_to_time_t :: "'w win \<Rightarrow> filetime \<Rightarrow> int" where
  "filetime_to_time_t win ft =
     (case to_local_file_time win ft of
        None \<Rightarrow> 0
      | Some ft_local \<Rightarrow>
          sint ((quad_part (ft_high ft_local) (ft_low ft_local) - 116444736000000000) div 10000000 :: 64 word))"

definition fmt_filetime :: "'w win \<Rightarrow> filetime \<Rightarrow> string" where
  "fmt_filetime win ft =
     (let st = to_system_time win ft
      in fmt_month (st_month st) @ '' '' @ dec_string_2 (st_day st) @ '' '' @ dec_string_2 (st_hour st)
         @ '':'' @ dec_string_2 (st_minute st))"

lemma unat_quad_part: "unat (quad_part high low) = unat high * 2 ^ 32 + unat low"
proof -
  have high: "unat high < 2 ^ 32" and low: "unat low < 2 ^ 32"
    using unsigned_less [of high] unsigned_less [of low] by simp_all
  have "quad_part high low = push_bit 32 (ucast high) + ucast low"
    unfolding quad_part_def by (rule disjunctive_add [symmetric]) (auto simp: bit_simps dest: bit_imp_le_length)
  also have "\<dots> = word_of_nat (unat high * 2 ^ 32 + unat low)"
    by (simp add: push_bit_eq_mult mult.commute)
  finally have "unat (quad_part high low) = (unat high * 2 ^ 32 + unat low) mod 2 ^ 64"
    by (simp only: unat_of_nat) simp
  with high low show ?thesis by simp
qed

text \<open>A file time counts steps of 100 nanoseconds from 1601.\<close>

definition ticks :: "filetime \<Rightarrow> int" where
  "ticks ft = uint (quad_part (ft_high ft) (ft_low ft))"

lemma filetime_value:
  assumes "to_local_file_time win ft = Some ft_local"
  shows "filetime_to_time_t win ft = (ticks ft_local - 116444736000000000) mod 2 ^ 64 div 10000000"
proof -
  let ?q = "quad_part (ft_high ft_local) (ft_low ft_local)"
  let ?x = "(?q - 116444736000000000) div 10000000 :: 64 word"
  have seconds: "uint ?x = (ticks ft_local - 116444736000000000) mod 2 ^ 64 div 10000000"
    by (simp add: ticks_def uint_div uint_word_ariths)
  moreover have "(ticks ft_local - 116444736000000000) mod 2 ^ 64 < 2 ^ 64"
    by simp
  ultimately have "uint ?x < 2 ^ 63"
    by simp
  then have "sint ?x = uint ?x"
    by (simp add: sint_uint signed_take_bit_int_eq_self_iff order_trans [OF _ uint_ge_0])
  with assms seconds show ?thesis
    by (simp add: filetime_to_time_t_def)
qed

text \<open>From 1970 on the seconds since then, but of the local time: where the local clock is \<open>bias\<close>
  seconds ahead, the result is \<open>bias\<close> seconds too large. Before 1970 the subtraction wraps around.\<close>

theorem filetime_local_seconds:
  assumes "to_local_file_time win ft = Some ft_local" and "ticks ft_local = ticks ft + bias * 10000000"
    and "ticks ft = 116444736000000000 + seconds * 10000000 + rest" and "0 \<le> rest" "rest < 10000000"
    and "0 \<le> seconds + bias"
  shows "filetime_to_time_t win ft = seconds + bias"
proof -
  have "ticks ft_local - 116444736000000000 = (seconds + bias) * 10000000 + rest"
    using assms(2,3) by simp
  moreover have "ticks ft_local < 2 ^ 64"
    unfolding ticks_def using uint_lt2p [of "quad_part (ft_high ft_local) (ft_low ft_local)"] by simp
  ultimately have "(ticks ft_local - 116444736000000000) mod 2 ^ 64 = (seconds + bias) * 10000000 + rest"
    using assms(4-6) by (simp add: mod_pos_pos_trivial)
  with assms(1,4,5) show ?thesis
    by (simp add: filetime_value)
qed

theorem filetime_before_1970:
  assumes "to_local_file_time win ft = Some ft_local" and "ticks ft_local < 116444736000000000"
  shows "1833029933770 \<le> filetime_to_time_t win ft"
proof -
  have "0 \<le> ticks ft_local"
    by (simp add: ticks_def)
  then have "(ticks ft_local - 116444736000000000) mod 2 ^ 64 = ticks ft_local - 116444736000000000 + 2 ^ 64"
    using assms(2) by (simp add: mod_add_self2 [symmetric, of "ticks ft_local - 116444736000000000"] del: mod_add_self2)
  with \<open>0 \<le> ticks ft_local\<close> show ?thesis
    by (simp add: filetime_value [OF assms(1)])
qed

subsection \<open>Listings and attributes\<close>

definition win_listing_line :: "'w win \<Rightarrow> find_data \<Rightarrow> string" where
  "win_listing_line win fd =
     (let is_dir = fd_attributes fd AND FILE_ATTRIBUTE_DIRECTORY \<noteq> 0
      in (if is_dir then ''drwx------'' else ''-rwx------'') @ '' 1 owner group ''
         @ dec_string (unat (fd_size_low fd)) @ '' '' @ fmt_filetime win (fd_last_write fd) @ '' '' @ fd_name fd @ crlf)"

definition win_dir_listing :: "'w win \<Rightarrow> string \<Rightarrow> 'w \<Rightarrow> string \<times> 'w" where
  "win_dir_listing win dir_path w =
     (case win_find_all win (dir_path @ [CHR 0x5C] @ ''*'') w of
        (None, w1) \<Rightarrow> ([], w1)
      | (Some fds, w1) \<Rightarrow>
          (concat (map (win_listing_line win) (filter (\<lambda>fd. fd_name fd \<noteq> ''.'' \<and> fd_name fd \<noteq> ''..'') fds)), w1))"

definition file_size :: "find_data \<Rightarrow> nat" where
  "file_size fd = unat (quad_part (fd_size_high fd) (fd_size_low fd))"

definition win32_find_to_attr :: "'w win \<Rightarrow> 'w sys \<Rightarrow> find_data \<Rightarrow> string \<Rightarrow> 'w \<Rightarrow> sftp_attr option" where
  "win32_find_to_attr win sys ffd name w =
     (let size = quad_part (fd_size_high ffd) (fd_size_low ffd);
          perm = (if fd_attributes ffd AND FILE_ATTRIBUTE_DIRECTORY \<noteq> 0 then S_IFDIR OR 0x1ED else S_IFREG OR 0x1A4);
          mtime = filetime_to_time_t win (fd_last_write ffd);
          atime = filetime_to_time_t win (fd_last_access ffd)
      in make_attr sys name size perm mtime atime w)"

text \<open>The FTP listing shows the size modulo 4 GiB, the SFTP attributes show all of it.\<close>

theorem windows_sizes:
  "\<exists>before after. win_listing_line win fd = before @ dec_string (file_size fd mod 2 ^ 32) @ after"
  "win32_find_to_attr win sys fd name w = Some attr \<Longrightarrow> unat (at_size attr) = file_size fd
     \<and> at_type attr = (if fd_attributes fd AND FILE_ATTRIBUTE_DIRECTORY \<noteq> 0 then TYPE_DIRECTORY else TYPE_REGULAR)"
proof -
  have "unat (fd_size_low fd) < 2 ^ 32"
    using unsigned_less [of "fd_size_low fd"] by simp
  then have "unat (fd_size_low fd) = file_size fd mod 2 ^ 32"
    by (simp add: file_size_def unat_quad_part)
  then show "\<exists>before after. win_listing_line win fd = before @ dec_string (file_size fd mod 2 ^ 32) @ after"
    unfolding win_listing_line_def Let_def
    by (intro exI [of _ "(if fd_attributes fd AND FILE_ATTRIBUTE_DIRECTORY \<noteq> 0 then ''drwx------'' else ''-rwx------'')
        @ '' 1 owner group ''"] exI) simp
  show "win32_find_to_attr win sys fd name w = Some attr \<Longrightarrow> unat (at_size attr) = file_size fd
     \<and> at_type attr = (if fd_attributes fd AND FILE_ATTRIBUTE_DIRECTORY \<noteq> 0 then TYPE_DIRECTORY else TYPE_REGULAR)"
    by (auto simp: win32_find_to_attr_def make_attr_def file_size_def S_IFDIR_def S_IFREG_def Let_def
        split: if_splits)
qed

subsection \<open>Search handles\<close>

text \<open>\<open>find_handle\<close> owns a handle of \<open>FindFirstFileA\<close>; \<open>INVALID_HANDLE_VALUE\<close> is the absence of one.\<close>

definition find_handle :: "('p \<Rightarrow> 'w \<Rightarrow> 'w) \<Rightarrow> 'p owner_op \<Rightarrow> ('p, 'w) owner_store \<Rightarrow> ('p, 'w) owner_store" where
  "find_handle find_close = owner_step find_close"

lemma find_handle_closes_once:
  assumes "all_allowed find_close ops (new_store w)" "distinct (concat (map adopted ops))"
    and "s = fold (find_handle find_close) ops (new_store w)"
  shows "distinct (ow_freed s @ ow_given s)"
  using owned_once(1) [OF assms(1,2)] assms(3) by (simp add: find_handle_def)

end
