(* ===== verification/Vocabulary.thy ===== *)
theory Vocabulary
  imports FtpLifetime SftpAccess MqttRouting
begin

text \<open>
  The constants that tests are given for the protocols: \<open>ftp_common.h\<close>, \<open>ftp_common.cpp\<close>,
  \<open>sftp_common.h\<close>, \<open>sftp_common.cpp\<close> and \<open>mqtt_common.h\<close>. The servers do not use them, they
  spell their replies, log entries and packet types out; the theorems here compare the two.
\<close>

subsection \<open>FTP\<close>

definition ftp_status :: "(string \<times> nat) list" where
  "ftp_status =
     [(''file_ok'', 150), (''command_ok'', 200), (''ready'', 220), (''closing'', 221), (''transfer_complete'', 226),
      (''passive_mode'', 227), (''logged_in'', 230), (''file_deleted'', 250), (''path_created'', 257),
      (''user_ok'', 331), (''cant_open_data'', 425), (''syntax_error'', 501), (''not_implemented'', 502),
      (''login_incorrect'', 530), (''file_unavailable'', 550), (''permission_denied'', 550),
      (''file_unavailable_name'', 553)]"

definition ftp_cmd :: "(string \<times> string) list" where
  "ftp_cmd =
     [(''user'', ''USER''), (''pass'', ''PASS''), (''stor'', ''STOR''), (''retr'', ''RETR''), (''list'', ''LIST''),
      (''dele'', ''DELE''), (''mkd'', ''MKD''), (''rmd'', ''RMD''), (''pwd'', ''PWD''), (''cwd'', ''CWD''),
      (''quit'', ''QUIT''), (''pasv'', ''PASV''), (''type'', ''TYPE''), (''syst'', ''SYST''), (''noop'', ''NOOP''),
      (''cdup'', ''CDUP'')]"

text \<open>The codes the server replies with: those of the constants except 553, and four more.\<close>

definition reply_codes :: "nat list" where
  "reply_codes = filter (\<lambda>c. c \<noteq> 553) (map snd ftp_status) @ [211, 215, 503]"

definition coded :: "string \<Rightarrow> bool" where
  "coded msg \<longleftrightarrow> hd msg = CHR '' '' \<or> take 3 msg \<in> set (map dec_string reply_codes)"

lemma reply_codes_text:
  "map dec_string reply_codes = [''150'', ''200'', ''220'', ''221'', ''226'', ''227'', ''230'', ''250'', ''257'',
     ''331'', ''425'', ''501'', ''502'', ''530'', ''550'', ''550'', ''211'', ''215'', ''503'']"
  by code_simp

lemma coded_line [simp]:
  "coded (ftp_line (a # b # c # d # r)) \<longleftrightarrow> a = CHR '' '' \<or> [a, b, c] \<in> set (map dec_string reply_codes)"
  by (simp add: coded_def ftp_line_def)

text \<open>What is sent between two states is coded.\<close>

definition says :: "'w ftp_thread \<Rightarrow> 'w ftp_thread \<Rightarrow> bool" where
  "says st st' \<longleftrightarrow> (\<exists>msgs. ft_replies st' = ft_replies st @ msgs \<and> list_all coded msgs)"

lemma says_same: "ft_replies st' = ft_replies st \<Longrightarrow> says st st'"
  by (simp add: says_def)

lemma says_send: "coded msg \<Longrightarrow> says st st' \<Longrightarrow> says st (ftp_send os msg st')"
  by (auto simp: says_def ftp_send_def)

lemma says_client: "says st st' \<Longrightarrow> says st (upd_client f st')"
  "says st st' \<Longrightarrow> says st (upd_world g st')" "says st st' \<Longrightarrow> says st (st'\<lparr>ft_world := w\<rparr>)"
  "says st st' \<Longrightarrow> says st (st'\<lparr>ft_shared := sh\<rparr>)"
  "says st st' \<Longrightarrow> says st (close_pasv os st')" "says st st' \<Longrightarrow> says st (snd (accept_data os st'))"
  by (simp_all add: says_def upd_client_def upd_world_def)

lemma says_close_client: "says st st' \<Longrightarrow> says st (close_client os st')"
  by (simp add: close_client_def Let_def says_client)

lemma coded_no_data: "coded msg_no_data"
  by (simp add: msg_no_data_def reply_codes_text)

lemmas says_intros = says_send says_client says_close_client says_same [OF refl] coded_no_data

lemma says_checked: "says st (snd (checked os need st))" "says st (snd (require_auth os st))"
  by (simp_all add: checked_cases require_auth_def reply_codes_text says_intros)

lemma says_file_commands:
  "says st (list_cmd os arg st)" "says st (retr_cmd os arg st)" "says st (dele_cmd os arg st)"
  "says st (mkd_cmd os arg st)" "says st (rmd_cmd os arg st)" "says st (cwd_cmd os arg st)"
  by (auto simp: list_cmd_def retr_cmd_def dele_cmd_def mkd_cmd_def rmd_cmd_def cwd_cmd_def checked_cases Let_def
      split_beta reply_codes_text split: option.split intro!: says_intros)

lemma says_stor: "stor_cmd os arg st = Some st' \<Longrightarrow> says st st'"
  by (auto simp: stor_cmd_def checked_cases Let_def split_beta reply_codes_text split: if_splits
      intro!: says_intros)

lemma says_other_commands:
  "says st (user_cmd os arg st)" "says st (pass_cmd os arg st)" "says st (pasv_cmd os st)"
  "says st (feat_cmd os st)" "coded msg \<Longrightarrow> says st (ok_if os msg st)"
  by (auto simp: user_cmd_def pass_cmd_def pasv_cmd_def feat_cmd_def ok_if_def require_auth_def Let_def
      split_beta reply_codes_text split: option.split intro!: says_intros)

text \<open>Every reply to a command has one of these codes, or is the indented line in the middle of
  the reply to \<open>FEAT\<close>. The code 553 is never sent, 211, 215 and 503 have no constant.\<close>

theorem ftp_reply_codes:
  assumes "dispatch os line st = Some st'"
  shows "\<exists>msgs. ft_replies st' = ft_replies st @ msgs \<and> list_all coded msgs"
proof -
  have "says st st'"
    using assms says_stor
    by (auto simp: dispatch_def split_beta reply_codes_text says_file_commands split: if_splits
        intro!: says_intros says_other_commands)
  then show ?thesis by (simp add: says_def)
qed

text \<open>A command that is none of the constants, nor \<open>FEAT\<close>, is answered by 502 and changes nothing.\<close>

theorem unknown_command_refused:
  assumes "fst (split_command line) \<notin> insert ''FEAT'' (snd ` set ftp_cmd)"
  shows "dispatch os line st = Some (ftp_send os (ftp_line ''502 Command not implemented'') st)"
  using assms by (simp add: dispatch_def split_beta ftp_cmd_def)

theorem unknown_command_refused_witness:
  "dispatch mem_os ''RNFR a'' demo_thread = Some (ftp_send mem_os (ftp_line ''502 Command not implemented'') demo_thread)"
  by (rule unknown_command_refused) (simp add: ftp_cmd_def line_defs)

subsection \<open>SFTP\<close>

definition sftp_operation :: "(string \<times> string) list" where
  "sftp_operation =
     [(''open'', ''OPEN''), (''opendir'', ''OPENDIR''), (''read'', ''READ''), (''write'', ''WRITE''),
      (''close'', ''CLOSE''), (''remove'', ''REMOVE''), (''mkdir'', ''MKDIR''), (''rmdir'', ''RMDIR''),
      (''rename'', ''RENAME'')]"

definition sftp_result :: "(string \<times> string) list" where
  "sftp_result =
     [(''ok'', ''OK''), (''denied'', ''DENIED''), (''no_such_file'', ''NO_SUCH_FILE''), (''failure'', ''FAILURE''),
      (''no_such_path'', ''NO_SUCH_PATH'')]"

text \<open>The words the server logs: the constants except \<open>READ\<close>, and three more operations.\<close>

definition operation_word :: "string \<Rightarrow> bool" where
  "operation_word w \<longleftrightarrow> w \<in> snd ` set sftp_operation - {''READ''} \<union> {''STAT'', ''SETSTAT'', ''REALPATH''}"

definition result_word :: "string \<Rightarrow> bool" where
  "result_word w \<longleftrightarrow> w \<in> snd ` set sftp_result"

lemma logged_words [simp]:
  "operation_word ''OPEN''" "operation_word ''OPENDIR''" "operation_word ''WRITE''" "operation_word ''REMOVE''"
  "operation_word ''MKDIR''" "operation_word ''RMDIR''" "operation_word ''RENAME''" "operation_word ''STAT''"
  "operation_word ''SETSTAT''" "operation_word ''CLOSE''" "operation_word ''REALPATH''"
  "result_word ''OK''" "result_word ''DENIED''" "result_word ''NO_SUCH_FILE''" "result_word ''FAILURE''"
  "result_word ''NO_SUCH_PATH''"
  by (simp_all add: operation_word_def result_word_def sftp_operation_def sftp_result_def)

definition logs_words :: "('w, 't) sftp_thread \<Rightarrow> ('w, 't) sftp_thread \<Rightarrow> bool" where
  "logs_words st st' \<longleftrightarrow> (\<exists>new. st_activity st' = st_activity st @ new
     \<and> list_all (\<lambda>a. operation_word (sa_operation a) \<and> result_word (sa_result a)) new)"

lemma request_words:
  "do_request sys lib cx msg st = Done st' \<Longrightarrow>
     \<exists>new. st_activity st' = st_activity st @ new
       \<and> list_all (\<lambda>a. operation_word (sa_operation a) \<and> result_word (sa_result a)) new"
  by (cases "mg_type msg")
    (auto simp: do_request.simps handler_defs Let_def split_beta
      split: if_splits option.splits handle_data.splits)

interpretation word_session: session_relation logs_words sys lib cx for sys lib cx
proof unfold_locales
  fix a b c :: "('a, 'b) sftp_thread"
  assume "logs_words a b" "logs_words b c"
  then show "logs_words a c" by (force simp: logs_words_def)
qed (auto simp: logs_words_def request_words)

text \<open>Everything a session logs is in these words. A test that looks for a \<open>READ\<close> in
  the activity, as the constant suggests, finds none.\<close>

theorem sftp_log_words:
  assumes "process_sftp sys lib running cx st = Some (Done st')"
  shows "\<exists>new. st_activity st' = st_activity st @ new
    \<and> list_all (\<lambda>a. operation_word (sa_operation a) \<and> result_word (sa_result a)) new"
  using word_session.session [OF assms] by (simp add: logs_words_def)

theorem sftp_log_words_witness:
  "list_all (\<lambda>a. operation_word (sa_operation a) \<and> result_word (sa_result a)) (st_activity after_denial)"
  using sftp_log_words [OF remove_a_denied] by (simp add: new_thread_def)

subsection \<open>MQTT\<close>

definition mqtt_packet :: "(string \<times> byte) list" where
  "mqtt_packet =
     [(''connect'', 0x10), (''connack'', 0x20), (''publish'', 0x30), (''subscribe'', 0x82), (''suback'', 0x90),
      (''pingreq'', 0xC0), (''pingresp'', 0xD0), (''disconnect'', 0xE0)]"

definition mqtt_qos :: "(string \<times> nat) list" where
  "mqtt_qos = [(''at_most_once'', 0), (''at_least_once'', 1), (''exactly_once'', 2)]"

definition mqtt_connect_return :: "(string \<times> nat) list" where
  "mqtt_connect_return =
     [(''accepted'', 0), (''unacceptable_protocol'', 1), (''identifier_rejected'', 2), (''server_unavailable'', 3),
      (''bad_user_or_password'', 4), (''not_authorized'', 5)]"

abbreviation mqtt_code :: "string \<Rightarrow> byte" where
  "mqtt_code name \<equiv> the (map_of mqtt_packet name)"

text \<open>The constants begin the packets the server sends, and have the packet types it receives; the
  return code it sends to every client is \<open>accepted\<close>.\<close>

theorem mqtt_packet_codes:
  "encode_connack = [mqtt_code ''connack'', 2, 0, word_of_nat (the (map_of mqtt_connect_return ''accepted''))]
   \<and> hd (encode_publish topic payload) = mqtt_code ''publish''
   \<and> hd (encode_suback packet_id codes) = mqtt_code ''suback''
   \<and> encode_pingresp = [mqtt_code ''pingresp'', 0]
   \<and> drop_bit 4 (mqtt_code ''connect'') = MQTT_CONNECT \<and> drop_bit 4 (mqtt_code ''subscribe'') = MQTT_SUBSCRIBE
   \<and> drop_bit 4 (mqtt_code ''pingreq'') = MQTT_PINGREQ \<and> drop_bit 4 (mqtt_code ''disconnect'') = MQTT_DISCONNECT"
  by (simp add: mqtt_packet_def mqtt_connect_return_def encode_connack_def encode_publish_def encode_suback_def
      encode_pingresp_def frame_packet_def packet_type_defs encode_remaining_length.simps)

end
